(* ===== verification/Go_Prelude.thy ===== *)
theory Go_Prelude
  imports Main "HOL-Library.AList"
begin

section \<open>The parts of Go and of its standard library that the controller uses\<close>

text \<open>
  Shared vocabulary of the development: Go's error values, the functions of the packages
  \<^verbatim>\<open>strings\<close>, \<^verbatim>\<open>strconv\<close>, \<^verbatim>\<open>slices\<close> and \<^verbatim>\<open>fmt\<close> that the sources call, Go's maps as finite
  association lists, and the in-place element removal idiom
  \<^verbatim>\<open>append(xs[:i], xs[i+1:]...)\<close> with its effect on the backing array.

  A Go string is a sequence of bytes, and so is \<^typ>\<open>string\<close>.  Case conversion and
  trimming are modelled on ASCII, the alphabet of the PCI and USB identifier data, of
  sysfs and of Kubernetes names.  A Go panic (an index out of range, a nil dereference) is
  \<^const>\<open>None\<close> of an option type; an error return is \<open>Inl\<close> of a sum type.
\<close>

named_theorems go_str \<open>equations of the string functions\<close>
named_theorems go_map \<open>lookup laws of Go maps\<close>
named_theorems go_err \<open>classification of errors\<close>

subsection \<open>Errors\<close>

text \<open>
  \<open>Wrapf m e\<close> is \<^verbatim>\<open>fmt.Errorf("m: %w", e)\<close>, which keeps the classification of \<open>e\<close>;
  \<^verbatim>\<open>fmt.Errorf\<close> with \<^verbatim>\<open>%v\<close> or \<^verbatim>\<open>%s\<close> loses it and is \<open>Errorf m\<close>.
\<close>

datatype go_error =
    NotFound
  | AlreadyExists
  | Conflict
  | Errorf string
  | Wrapf string go_error

type_synonym 'a res = "go_error + 'a"

primrec IsNotFound :: "go_error \<Rightarrow> bool" where
  "IsNotFound NotFound = True"
| "IsNotFound AlreadyExists = False"
| "IsNotFound Conflict = False"
| "IsNotFound (Errorf m) = False"
| "IsNotFound (Wrapf m e) = IsNotFound e"

primrec IsAlreadyExists :: "go_error \<Rightarrow> bool" where
  "IsAlreadyExists NotFound = False"
| "IsAlreadyExists AlreadyExists = True"
| "IsAlreadyExists Conflict = False"
| "IsAlreadyExists (Errorf m) = False"
| "IsAlreadyExists (Wrapf m e) = IsAlreadyExists e"

primrec IsConflict :: "go_error \<Rightarrow> bool" where
  "IsConflict NotFound = False"
| "IsConflict AlreadyExists = False"
| "IsConflict Conflict = True"
| "IsConflict (Errorf m) = False"
| "IsConflict (Wrapf m e) = IsConflict e"

definition is_ok :: "'a res \<Rightarrow> bool" where
  "is_ok r = (case r of Inl _ \<Rightarrow> False | Inr _ \<Rightarrow> True)"

lemma is_ok_simps [simp]: "is_ok (Inr x)" "\<not> is_ok (Inl e)"
  by (simp_all add: is_ok_def)

subsection \<open>Slices\<close>

text \<open>Ranging over a nil slice is ranging over the empty one; the difference shows only where the
  code compares slices with \<^verbatim>\<open>reflect.DeepEqual\<close> or with nil.\<close>

definition slice_of :: "'a list option \<Rightarrow> 'a list" where
  "slice_of xs = (case xs of None \<Rightarrow> [] | Some ys \<Rightarrow> ys)"

lemma slice_of_simps [simp]: "slice_of None = []" "slice_of (Some ys) = ys"
  by (simp_all add: slice_of_def)

subsection \<open>Go maps\<close>

text \<open>
  A Go map is a finite association list with distinct keys.  The order of the list stands
  for one iteration order of \<^verbatim>\<open>for k, v := range m\<close>, which Go leaves unspecified.  A nil
  map reads like the empty one.
\<close>

type_synonym ('k, 'v) gomap = "('k \<times> 'v) list"

definition mget :: "('k, 'v) gomap \<Rightarrow> 'k \<Rightarrow> 'v option" where
  "mget m k = map_of m k"

definition mput :: "'k \<Rightarrow> 'v \<Rightarrow> ('k, 'v) gomap \<Rightarrow> ('k, 'v) gomap" where
  "mput k v m = AList.update k v m"

definition mdel :: "'k \<Rightarrow> ('k, 'v) gomap \<Rightarrow> ('k, 'v) gomap" where
  "mdel k m = AList.delete k m"

definition mkeys :: "('k, 'v) gomap \<Rightarrow> 'k list" where
  "mkeys m = map fst m"

definition mhas :: "('k, 'v) gomap \<Rightarrow> 'k \<Rightarrow> bool" where
  "mhas m k = (mget m k \<noteq> None)"

definition wf_map :: "('k, 'v) gomap \<Rightarrow> bool" where
  "wf_map m = distinct (mkeys m)"

definition map_equal :: "('k, 'v) gomap \<Rightarrow> ('k, 'v) gomap \<Rightarrow> bool" where
  "map_equal a b = ((\<forall>k \<in> set (mkeys a). mget a k = mget b k)
                  \<and> (\<forall>k \<in> set (mkeys b). mget a k = mget b k))"

lemma mget_Nil [simp, go_map]: "mget [] k = None"
  by (simp add: mget_def)

lemma mget_Cons [go_map]: "mget ((k', v) # m) k = (if k = k' then Some v else mget m k)"
  by (simp add: mget_def)

lemma mget_mput [simp, go_map]: "mget (mput k v m) k' = (if k' = k then Some v else mget m k')"
  by (simp add: mget_def mput_def update_conv')

lemma mget_mdel [simp, go_map]: "mget (mdel k m) k' = (if k' = k then None else mget m k')"
  by (simp add: mget_def mdel_def delete_conv')

lemma mhas_simps [simp, go_map]:
  "\<not> mhas [] k"
  "mhas (mput k v m) k' \<longleftrightarrow> k' = k \<or> mhas m k'"
  "mhas (mdel k m) k' \<longleftrightarrow> k' \<noteq> k \<and> mhas m k'"
  by (auto simp: mhas_def)

lemma mhas_mkeys: "mhas m k \<longleftrightarrow> k \<in> set (mkeys m)"
  by (simp add: mhas_def mget_def mkeys_def map_of_eq_None_iff)

lemma mkeys_mput: "set (mkeys (mput k v m)) = insert k (set (mkeys m))"
  by (auto simp: mhas_mkeys [symmetric])

lemma wf_map_Nil [simp]: "wf_map []"
  by (simp add: wf_map_def mkeys_def)

lemma mput_mput: "mput k v (mput k v' m) = mput k v m"
  by (simp add: mput_def update_last)

lemma wf_map_mput [simp]: "wf_map m \<Longrightarrow> wf_map (mput k v m)"
  by (simp add: wf_map_def mkeys_def mput_def distinct_update)

lemma wf_map_mdel [simp]: "wf_map m \<Longrightarrow> wf_map (mdel k m)"
  by (simp add: wf_map_def mkeys_def mdel_def distinct_delete)

lemma map_equal_iff: "map_equal a b \<longleftrightarrow> (\<forall>k. mget a k = mget b k)"
proof -
  have "mget m k = None" if "k \<notin> set (mkeys m)" for m :: "('a, 'b) gomap" and k
    using that by (simp add: mhas_mkeys [symmetric] mhas_def)
  then show ?thesis
    unfolding map_equal_def by metis
qed

lemma map_equal_refl [simp]: "map_equal m m"
  by (simp add: map_equal_iff)

lemma in_set_mget: "wf_map m \<Longrightarrow> (k, v) \<in> set m \<longleftrightarrow> mget m k = Some v"
  by (simp add: wf_map_def mkeys_def mget_def)

lemma mget_in_set: "mget m k = Some v \<Longrightarrow> (k, v) \<in> set m"
  by (simp add: mget_def map_of_SomeD)

lemma mget_snd: "mget m k = Some v \<Longrightarrow> v \<in> snd ` set m"
  using mget_in_set by force

lemma mput_snd: "v \<in> snd ` set (mput k v m)"
  by (rule mget_snd [of _ k]) simp

end
