(* ===== verification/Go_Strings.thy ===== *)
theory Go_Strings
  imports Go_Prelude
begin

section \<open>Go's string functions\<close>

text \<open>
  The functions of \<^verbatim>\<open>strings\<close>, \<^verbatim>\<open>strconv\<close>, \<^verbatim>\<open>slices\<close> and \<^verbatim>\<open>path/filepath\<close> that the sources
  use, the regular expressions they compile (each is one character class, so a function on
  the list of bytes), and the laws the components rest on: splitting and joining are
  inverse, decimal printing and parsing are inverse, removing a character class leaves only
  the others.
\<close>

subsection \<open>Prefixes, substrings, splitting and joining\<close>

definition HasPrefix :: "string \<Rightarrow> string \<Rightarrow> bool" where
  "HasPrefix s p = (take (length p) s = p)"

fun Contains :: "string \<Rightarrow> string \<Rightarrow> bool" where
  "Contains [] sub = (sub = [])"
| "Contains (c # cs) sub = (HasPrefix (c # cs) sub \<or> Contains cs sub)"

text \<open>\<^verbatim>\<open>strings.Split\<close> with a separator of one byte.\<close>

fun split_char :: "char \<Rightarrow> string \<Rightarrow> string list" where
  "split_char d [] = [[]]"
| "split_char d (c # cs) =
     (if c = d then [] # split_char d cs
      else (case split_char d cs of [] \<Rightarrow> [[c]] | w # ws \<Rightarrow> (c # w) # ws))"

text \<open>\<^verbatim>\<open>strings.Split\<close> with a separator of any positive length: leftmost, non-overlapping
  occurrences.  The accumulator holds the current piece in reverse.\<close>

function split_acc :: "string \<Rightarrow> string \<Rightarrow> string \<Rightarrow> string list" where
  "split_acc sep acc [] = [rev acc]"
| "split_acc sep acc (c # cs) =
     (if sep \<noteq> [] \<and> HasPrefix (c # cs) sep
      then rev acc # split_acc sep [] (drop (length sep) (c # cs))
      else split_acc sep (c # acc) cs)"
  by pat_completeness auto
termination
  by (relation "measure (\<lambda>(sep, acc, s). length s)") auto

definition split_str :: "string \<Rightarrow> string \<Rightarrow> string list" where
  "split_str sep s = split_acc sep [] s"

text \<open>\<^verbatim>\<open>strings.SplitN(s, sep, 2)\<close>: at most one cut, at the first occurrence.\<close>

fun split_first :: "string \<Rightarrow> string \<Rightarrow> string \<Rightarrow> string list" where
  "split_first sep acc [] = [rev acc]"
| "split_first sep acc (c # cs) =
     (if HasPrefix (c # cs) sep then [rev acc, drop (length sep) (c # cs)]
      else split_first sep (c # acc) cs)"

definition SplitN2 :: "string \<Rightarrow> string \<Rightarrow> string list" where
  "SplitN2 s sep = split_first sep [] s"

fun Join :: "string list \<Rightarrow> string \<Rightarrow> string" where
  "Join [] sep = []"
| "Join [w] sep = w"
| "Join (w # v # ws) sep = w @ sep @ Join (v # ws) sep"

definition ReplaceAll :: "string \<Rightarrow> string \<Rightarrow> string \<Rightarrow> string" where
  "ReplaceAll s old new = Join (split_str old s) new"

lemma split_char_nonempty [simp]: "split_char d s \<noteq> []"
  by (induction s) (auto split: list.splits)

lemma split_char_not_in: "w \<in> set (split_char d s) \<Longrightarrow> d \<notin> set w"
  by (induction s arbitrary: w) (auto split: list.splits if_splits)

lemma Join_Cons: "ws \<noteq> [] \<Longrightarrow> Join (w # ws) sep = w @ sep @ Join ws sep"
  by (cases ws) auto

lemma Join_split_char: "Join (split_char d s) [d] = s"
proof (induction s)
  case (Cons c s)
  obtain w ws where "split_char d s = w # ws" by (cases "split_char d s") auto
  with Cons show ?case by (cases ws) (auto simp: Join_Cons)
qed simp

lemma split_char_append_sep:
  "d \<notin> set w \<Longrightarrow> split_char d (w @ d # s) = w # split_char d s"
  by (induction w) auto

lemma split_char_no_sep: "d \<notin> set w \<Longrightarrow> split_char d w = [w]"
  by (induction w) auto

lemma split_char_Join:
  "\<forall>w \<in> set ws. d \<notin> set w \<Longrightarrow> ws \<noteq> [] \<Longrightarrow> split_char d (Join ws [d]) = ws"
proof (induction ws)
  case (Cons w ws)
  then show ?case
    by (cases "ws = []") (auto simp: Join_Cons split_char_append_sep split_char_no_sep)
qed simp

lemma set_split_char: "w \<in> set (split_char d s) \<Longrightarrow> set w \<subseteq> set s"
  by (induction s arbitrary: w) (fastforce split: list.splits if_splits)+

subsection \<open>Character classes\<close>

abbreviation ord :: "char \<Rightarrow> nat" where
  "ord c \<equiv> of_char c"

definition is_digit :: "char \<Rightarrow> bool" where
  "is_digit c = (48 \<le> ord c \<and> ord c \<le> 57)"

definition is_lower :: "char \<Rightarrow> bool" where
  "is_lower c = (97 \<le> ord c \<and> ord c \<le> 122)"

definition is_upper :: "char \<Rightarrow> bool" where
  "is_upper c = (65 \<le> ord c \<and> ord c \<le> 90)"

definition is_alnum :: "char \<Rightarrow> bool" where
  "is_alnum c = (is_digit c \<or> is_lower c \<or> is_upper c)"

text \<open>\<^verbatim>\<open>unicode.IsSpace\<close> on ASCII: tab, newline, vertical tab, form feed, return, space.\<close>

definition is_space :: "char \<Rightarrow> bool" where
  "is_space c = (ord c \<in> {9, 10, 11, 12, 13, 32})"

text \<open>\<^verbatim>\<open>\s\<close> of Go's regexp syntax, which has no vertical tab.\<close>

definition re_space :: "char \<Rightarrow> bool" where
  "re_space c = (ord c \<in> {9, 10, 12, 13, 32})"

definition to_upper_char :: "char \<Rightarrow> char" where
  "to_upper_char c = (if is_lower c then char_of (ord c - 32) else c)"

definition to_lower_char :: "char \<Rightarrow> char" where
  "to_lower_char c = (if is_upper c then char_of (ord c + 32) else c)"

definition ToUpper :: "string \<Rightarrow> string" where
  "ToUpper s = map to_upper_char s"

definition ToLower :: "string \<Rightarrow> string" where
  "ToLower s = map to_lower_char s"

definition TrimRight :: "string \<Rightarrow> string \<Rightarrow> string" where
  "TrimRight s cutset = rev (dropWhile (\<lambda>c. c \<in> set cutset) (rev s))"

definition Trim :: "string \<Rightarrow> string \<Rightarrow> string" where
  "Trim s cutset = TrimRight (dropWhile (\<lambda>c. c \<in> set cutset) s) cutset"

definition TrimSpace :: "string \<Rightarrow> string" where
  "TrimSpace s = rev (dropWhile is_space (rev (dropWhile is_space s)))"

definition TrimSuffix :: "string \<Rightarrow> string \<Rightarrow> string" where
  "TrimSuffix s suf =
     (if length suf \<le> length s \<and> drop (length s - length suf) s = suf
      then take (length s - length suf) s else s)"

text \<open>\<^verbatim>\<open>regexp.MustCompile(`\s+`).ReplaceAllString(s, rep)\<close>: each maximal run becomes one \<open>rep\<close>.\<close>

fun collapse_spaces :: "string \<Rightarrow> bool \<Rightarrow> string \<Rightarrow> string" where
  "collapse_spaces rep inrun [] = []"
| "collapse_spaces rep inrun (c # cs) =
     (if re_space c then (if inrun then [] else rep) @ collapse_spaces rep True cs
      else c # collapse_spaces rep False cs)"

definition replace_spaces :: "string \<Rightarrow> string \<Rightarrow> string" where
  "replace_spaces rep s = collapse_spaces rep False s"

lemma ord_to_upper_char: "ord (to_upper_char c) = (if is_lower c then ord c - 32 else ord c)"
  by (auto simp: to_upper_char_def is_lower_def)

lemma ord_to_lower_char: "ord (to_lower_char c) = (if is_upper c then ord c + 32 else ord c)"
  by (auto simp: to_lower_char_def is_upper_def)

lemma not_lower_to_upper: "\<not> is_lower (to_upper_char c)"
  by (auto simp: is_lower_def ord_to_upper_char)

lemma not_upper_to_lower: "\<not> is_upper (to_lower_char c)"
  by (auto simp: is_upper_def ord_to_lower_char)

lemma is_alnum_to_lower [simp]: "is_alnum (to_lower_char c) \<longleftrightarrow> is_alnum c"
  by (auto simp: is_alnum_def is_upper_def is_lower_def is_digit_def ord_to_lower_char)

lemma set_TrimRight: "set (TrimRight s cs) \<subseteq> set s"
  unfolding TrimRight_def using set_dropWhileD by fastforce

lemma TrimRight_last: "TrimRight s cs \<noteq> [] \<Longrightarrow> last (TrimRight s cs) \<notin> set cs"
  unfolding TrimRight_def
  by (metis (no_types, lifting) hd_dropWhile last_rev rev_is_Nil_conv)

lemma set_TrimSpace: "set (TrimSpace s) \<subseteq> set s"
  unfolding TrimSpace_def by (fastforce dest: set_dropWhileD)

lemma set_collapse_spaces:
  "c \<in> set (collapse_spaces rep b s) \<Longrightarrow> c \<in> set rep \<or> c \<in> set s \<and> \<not> re_space c"
  by (induction s arbitrary: b) (auto split: if_splits)

subsection \<open>Decimal and hexadecimal numbers\<close>

definition digit_char :: "nat \<Rightarrow> char" where
  "digit_char n = char_of (if n < 10 then 48 + n else 87 + n)"

definition digit_val :: "char \<Rightarrow> nat option" where
  "digit_val c =
     (if is_digit c then Some (ord c - 48)
      else if is_lower c then Some (ord c - 87)
      else if is_upper c then Some (ord c - 55)
      else None)"

text \<open>\<^verbatim>\<open>strconv.FormatUint(n, base)\<close> for a base between 2 and 36.\<close>

function format_nat :: "nat \<Rightarrow> nat \<Rightarrow> string" where
  "format_nat base n =
     (if base < 2 \<or> n < base then [digit_char n]
      else format_nat base (n div base) @ [digit_char (n mod base)])"
  by pat_completeness auto
termination
  by (relation "measure snd") auto

declare format_nat.simps [simp del]

definition Itoa :: "int \<Rightarrow> string" where
  "Itoa i = (if i < 0 then CHR ''-'' # format_nat 10 (nat (- i)) else format_nat 10 (nat i))"

text \<open>\<^verbatim>\<open>%0wx\<close> of \<^verbatim>\<open>fmt\<close>: hexadecimal, zero-padded to width \<open>w\<close>; the sign takes one place.\<close>

definition pad_left :: "nat \<Rightarrow> string \<Rightarrow> string" where
  "pad_left w s = replicate (w - length s) (CHR ''0'') @ s"

definition fmt_hex :: "nat \<Rightarrow> int \<Rightarrow> string" where
  "fmt_hex w i =
     (if i < 0 then CHR ''-'' # pad_left (w - 1) (format_nat 16 (nat (- i)))
      else pad_left w (format_nat 16 (nat i)))"

fun parse_digits :: "nat \<Rightarrow> nat \<Rightarrow> string \<Rightarrow> nat option" where
  "parse_digits base acc [] = Some acc"
| "parse_digits base acc (c # cs) =
     (case digit_val c of
        None \<Rightarrow> None
      | Some d \<Rightarrow> if d < base then parse_digits base (base * acc + d) cs else None)"

text \<open>\<^verbatim>\<open>strconv.ParseUint(s, base, bits)\<close>; \<^const>\<open>None\<close> is the syntax or the range error.\<close>

definition ParseUint :: "string \<Rightarrow> nat \<Rightarrow> nat \<Rightarrow> nat option" where
  "ParseUint s base bits =
     (if s = [] then None
      else case parse_digits base 0 s of
             None \<Rightarrow> None
           | Some n \<Rightarrow> if int n < 2 ^ bits then Some n else None)"

text \<open>\<^verbatim>\<open>strconv.ParseInt(s, base, bits)\<close>: an optional sign, digits, a range check.\<close>

definition ParseInt :: "string \<Rightarrow> nat \<Rightarrow> nat \<Rightarrow> int option" where
  "ParseInt s base bits =
     (let neg = (s \<noteq> [] \<and> hd s = CHR ''-'');
          body = (if s \<noteq> [] \<and> (hd s = CHR ''-'' \<or> hd s = CHR ''+'') then tl s else s)
      in if body = [] then None
         else case parse_digits base 0 body of
                None \<Rightarrow> None
              | Some n \<Rightarrow>
                  if neg then (if int n \<le> 2 ^ (bits - 1) then Some (- int n) else None)
                  else (if int n < 2 ^ (bits - 1) then Some (int n) else None))"

definition Atoi :: "string \<Rightarrow> int option" where
  "Atoi s = ParseInt s 10 64"

lemma digit_val_char [simp]: "n < 16 \<Longrightarrow> digit_val (digit_char n) = Some n"
  by (auto simp: digit_val_def digit_char_def is_digit_def is_lower_def is_upper_def)

lemma format_nat_nonempty [simp]: "format_nat base n \<noteq> []"
  by (subst format_nat.simps) simp

lemma parse_digits_append:
  "parse_digits base acc (xs @ ys) =
     (case parse_digits base acc xs of None \<Rightarrow> None | Some a \<Rightarrow> parse_digits base a ys)"
  by (induction xs arbitrary: acc) (auto split: option.splits)

lemma parse_format_nat:
  "2 \<le> base \<Longrightarrow> base \<le> 16 \<Longrightarrow> parse_digits base 0 (format_nat base n) = Some n"
proof (induction base n rule: format_nat.induct)
  case (1 base n)
  show ?case
  proof (cases "n < base")
    case True
    with "1.prems" show ?thesis by (subst format_nat.simps) simp
  next
    case False
    with "1" have "parse_digits base 0 (format_nat base (n div base)) = Some (n div base)"
      by simp
    moreover have m: "n mod base < base"
      using "1.prems" by simp
    moreover from m "1.prems" have "digit_val (digit_char (n mod base)) = Some (n mod base)"
      by (intro digit_val_char) linarith
    ultimately show ?thesis
      using False "1.prems" by (subst format_nat.simps) (simp add: parse_digits_append)
  qed
qed

lemma set_format_nat: "2 \<le> base \<Longrightarrow> base \<le> 16 \<Longrightarrow> c \<in> set (format_nat base n) \<Longrightarrow> is_digit c \<or> is_lower c"
proof (induction base n rule: format_nat.induct)
  case (1 base n)
  have d: "is_digit (digit_char k) \<or> is_lower (digit_char k)" if "k < 16" for k
    using that by (auto simp: digit_char_def is_digit_def is_lower_def)
  show ?case
  proof (cases "n < base")
    case True
    with "1.prems" d show ?thesis by (subst (asm) format_nat.simps) auto
  next
    case False
    have "n mod base < 16"
      using "1.prems" by (auto intro: less_le_trans [OF mod_less_divisor])
    with False "1" d [of "n mod base"] show ?thesis
      by (subst (asm) format_nat.simps) auto
  qed
qed

lemma hd_format_nat_not_sign: "hd (format_nat 10 n) \<noteq> CHR ''-''" "hd (format_nat 10 n) \<noteq> CHR ''+''"
proof -
  have "hd (format_nat 10 n) \<in> set (format_nat 10 n)" by simp
  then have "is_digit (hd (format_nat 10 n)) \<or> is_lower (hd (format_nat 10 n))"
    by (rule set_format_nat [rotated 2]) simp_all
  then show "hd (format_nat 10 n) \<noteq> CHR ''-''" "hd (format_nat 10 n) \<noteq> CHR ''+''"
    by (auto simp: is_digit_def is_lower_def)
qed

lemma ParseInt_Itoa:
  "- (2 ^ (bits - 1)) \<le> i \<Longrightarrow> i < 2 ^ (bits - 1) \<Longrightarrow> ParseInt (Itoa i) 10 bits = Some i"
  by (auto simp: ParseInt_def Itoa_def Let_def hd_format_nat_not_sign parse_format_nat
      nat_less_iff nat_le_iff)

lemma Atoi_Itoa: "- (2 ^ 63) \<le> i \<Longrightarrow> i < 2 ^ 63 \<Longrightarrow> Atoi (Itoa i) = Some i"
  unfolding Atoi_def by (rule ParseInt_Itoa) simp_all

lemma ParseInt_bounds:
  "ParseInt s base bits = Some i \<Longrightarrow> - (2 ^ (bits - 1)) \<le> i \<and> i < 2 ^ (bits - 1)"
proof -
  have pos: "0 < (2 ^ (bits - 1) :: int)" by simp
  assume "ParseInt s base bits = Some i"
  then obtain n where "i = - int n \<and> int n \<le> 2 ^ (bits - 1) \<or> i = int n \<and> int n < 2 ^ (bits - 1)"
    by (auto simp: ParseInt_def Let_def split: if_splits option.splits)
  then show ?thesis
    using pos by (elim disjE conjE) linarith+
qed

lemma length_format_nat: "2 \<le> base \<Longrightarrow> n < base ^ Suc k \<Longrightarrow> length (format_nat base n) \<le> Suc k"
proof (induction k arbitrary: n)
  case 0
  then show ?case by (subst format_nat.simps) simp
next
  case (Suc k)
  then have "n div base < base ^ Suc k"
    by (simp add: less_mult_imp_div_less mult.commute)
  with Suc show ?case by (subst format_nat.simps) auto
qed

lemma parse_digits_pad_left: "0 < base \<Longrightarrow> parse_digits base 0 (pad_left w s) = parse_digits base 0 s"
proof -
  assume "0 < base"
  then have "parse_digits base 0 (replicate k (CHR ''0'') @ s) = parse_digits base 0 s" for k
    by (induction k) (simp_all add: digit_val_def is_digit_def)
  then show ?thesis by (simp add: pad_left_def)
qed

lemma pad_left_nonempty [simp]: "s \<noteq> [] \<Longrightarrow> pad_left w s \<noteq> []"
  by (simp add: pad_left_def)

lemma set_pad_left_digits:
  "2 \<le> base \<Longrightarrow> base \<le> 16 \<Longrightarrow> c \<in> set (pad_left w (format_nat base n)) \<Longrightarrow> is_digit c \<or> is_lower c"
  using set_format_nat [of base c n] by (auto simp: pad_left_def is_digit_def split: if_splits)

text \<open>Zero-padded digits parse back in any base up to 16.\<close>

lemma ParseInt_padded:
  assumes "2 \<le> base" "base \<le> 16" "int n < 2 ^ (bits - 1)"
  shows "ParseInt (pad_left w (format_nat base n)) base bits = Some (int n)"
proof -
  let ?s = "pad_left w (format_nat base n)"
  have ne: "?s \<noteq> []" by simp
  then have "is_digit (hd ?s) \<or> is_lower (hd ?s)"
    by (intro set_pad_left_digits [OF assms(1,2), of _ w n]) simp
  then have "hd ?s \<noteq> CHR ''-''" "hd ?s \<noteq> CHR ''+''" by (auto simp: is_digit_def is_lower_def)
  moreover have "parse_digits base 0 ?s = Some n"
    using assms by (simp add: parse_digits_pad_left parse_format_nat)
  ultimately show ?thesis using ne assms(3) by (simp add: ParseInt_def)
qed

subsection \<open>Paths\<close>

text \<open>\<^verbatim>\<open>filepath.Clean\<close> and \<^verbatim>\<open>filepath.Join\<close> on rooted paths, the only ones the sources build.\<close>

fun clean_segments :: "string list \<Rightarrow> string list \<Rightarrow> string list" where
  "clean_segments acc [] = rev acc"
| "clean_segments acc (w # ws) =
     (if w = [] \<or> w = ''.'' then clean_segments acc ws
      else if w = ''..'' then clean_segments (tl acc) ws
      else clean_segments (w # acc) ws)"

definition filepath_Clean :: "string \<Rightarrow> string" where
  "filepath_Clean p = CHR ''/'' # Join (clean_segments [] (split_char (CHR ''/'') p)) ''/''"

definition filepath_Join :: "string list \<Rightarrow> string" where
  "filepath_Join ps = filepath_Clean (Join (filter (\<lambda>p. p \<noteq> []) ps) ''/'')"

lemma split_char_append: "split_char d (a @ d # b) = split_char d a @ split_char d b"
  by (induction a) (auto split: list.splits)

lemma clean_segments_append: "clean_segments acc (xs @ ys) = clean_segments (rev (clean_segments acc xs)) ys"
  by (induction acc xs rule: clean_segments.induct) simp_all

lemma clean_segments_normal:
  "\<forall>w \<in> set ws. w \<noteq> [] \<and> w \<noteq> ''.'' \<and> w \<noteq> ''..'' \<Longrightarrow> clean_segments acc ws = rev acc @ ws"
  by (induction ws arbitrary: acc) simp_all

lemma clean_segments_set:
  "w \<in> set (clean_segments acc ws) \<Longrightarrow> w \<in> set acc \<or> w \<in> set ws \<and> w \<noteq> [] \<and> w \<noteq> ''.'' \<and> w \<noteq> ''..''"
proof (induction acc ws rule: clean_segments.induct)
  case (2 acc w ws)
  have "x \<in> set (tl acc) \<Longrightarrow> x \<in> set acc" for x by (cases acc) simp_all
  with 2 show ?case by (auto split: if_splits)
qed simp

lemma clean_segments_Clean:
  "clean_segments [] (split_char (CHR ''/'') (filepath_Clean p)) = clean_segments [] (split_char (CHR ''/'') p)"
proof -
  let ?ws = "clean_segments [] (split_char (CHR ''/'') p)"
  have normal: "\<forall>w \<in> set ?ws. w \<noteq> [] \<and> w \<noteq> ''.'' \<and> w \<noteq> ''..''"
    and "\<forall>w \<in> set ?ws. CHR ''/'' \<notin> set w"
    using clean_segments_set [of _ "[]"] split_char_not_in by fastforce+
  then have "?ws \<noteq> [] \<Longrightarrow> split_char (CHR ''/'') (Join ?ws ''/'') = ?ws"
    by (intro split_char_Join) blast+
  then show ?thesis
    using clean_segments_normal [OF normal, of "[]"] by (cases "?ws = []") (simp_all add: filepath_Clean_def)
qed

lemma filepath_Clean_append:
  "filepath_Clean (filepath_Clean p @ CHR ''/'' # q) = filepath_Clean (p @ CHR ''/'' # q)"
  unfolding filepath_Clean_def [of "_ @ _"]
  by (simp only: split_char_append clean_segments_append clean_segments_Clean)

lemma filepath_Join_nested:
  assumes "a \<noteq> []" "c \<noteq> []"
  shows "filepath_Join [filepath_Join [a, b], c] = filepath_Join [a, b, c]"
proof -
  have "filepath_Join [a, b] \<noteq> []" by (simp add: filepath_Join_def filepath_Clean_def)
  then show ?thesis
    using assms filepath_Clean_append [of a c] filepath_Clean_append [of "a @ CHR ''/'' # b" c]
    by (simp add: filepath_Join_def)
qed

text \<open>\<^verbatim>\<open>_, file := filepath.Split(p)\<close>, and \<^verbatim>\<open>path.Base\<close> of a path without trailing slash.\<close>

definition path_last :: "string \<Rightarrow> string" where
  "path_last p = last (split_char (CHR ''/'') p)"

subsection \<open>Slices\<close>

text \<open>\<^verbatim>\<open>slices.Compact\<close>: consecutive runs of equal elements become one.\<close>

fun Compact :: "'a list \<Rightarrow> 'a list" where
  "Compact [] = []"
| "Compact [x] = [x]"
| "Compact (x # y # xs) = (if x = y then Compact (y # xs) else x # Compact (y # xs))"

text \<open>
  \<^verbatim>\<open>ys := append(xs[:i], xs[i+1:]...)\<close> shifts the tail of the backing array of \<open>xs\<close> one place
  down.  The first component is \<open>ys\<close>; the second is what the old slice header \<open>xs\<close>, whose
  length is unchanged, reads afterwards.
\<close>

definition append_remove :: "nat \<Rightarrow> 'a list \<Rightarrow> 'a list \<times> 'a list" where
  "append_remove i xs =
     (let ys = take i xs @ drop (Suc i) xs in (ys, ys @ drop (length ys) xs))"

text \<open>The first index whose element satisfies \<open>p\<close>: the shape of the \<^verbatim>\<open>for i, v := range xs\<close>
  loops that stop at a hit.\<close>

fun find_index :: "('a \<Rightarrow> bool) \<Rightarrow> 'a list \<Rightarrow> nat option" where
  "find_index p [] = None"
| "find_index p (x # xs) = (if p x then Some 0 else map_option Suc (find_index p xs))"

lemma set_Compact [simp]: "set (Compact xs) = set xs"
  by (induction xs rule: Compact.induct) auto

lemma Compact_eq_Nil [simp]: "Compact xs = [] \<longleftrightarrow> xs = []"
  by (induction xs rule: Compact.induct) auto

lemma Compact_distinct: "distinct xs \<Longrightarrow> Compact xs = xs"
  by (induction xs rule: Compact.induct) auto

lemma length_Compact: "length (Compact xs) \<le> length xs"
  by (induction xs rule: Compact.induct) auto

lemma find_index_Some:
  "find_index p xs = Some i \<Longrightarrow> i < length xs \<and> p (xs ! i) \<and> (\<forall>j < i. \<not> p (xs ! j))"
proof (induction xs arbitrary: i)
  case (Cons x xs)
  show ?case
  proof (cases "p x")
    case True
    with Cons.prems show ?thesis by simp
  next
    case False
    with Cons.prems obtain j where "find_index p xs = Some j" "i = Suc j" by auto
    with Cons.IH False show ?thesis by (auto simp: less_Suc_eq_0_disj)
  qed
qed simp

lemma find_index_None: "find_index p xs = None \<longleftrightarrow> (\<forall>x \<in> set xs. \<not> p x)"
  by (induction xs) auto

lemma find_index_split:
  "find_index p xs = Some i \<Longrightarrow>
     xs = take i xs @ xs ! i # drop (Suc i) xs \<and> (\<forall>x \<in> set (take i xs). \<not> p x)"
  using find_index_Some [of p xs i]
  by (auto simp: id_take_nth_drop in_set_conv_nth)

lemma fst_append_remove [simp]: "fst (append_remove i xs) = take i xs @ drop (Suc i) xs"
  by (simp add: append_remove_def Let_def)

lemma snd_append_remove:
  "i < length xs \<Longrightarrow> snd (append_remove i xs) = take i xs @ drop (Suc i) xs @ [last xs]"
proof -
  assume i: "i < length xs"
  then have "xs \<noteq> []" by auto
  then have "drop (length xs - 1) xs = [last xs]"
    by (metis append_butlast_last_id append_eq_conv_conj length_butlast)
  moreover have "length (take i xs @ drop (Suc i) xs) = length xs - 1"
    using i by simp
  ultimately show ?thesis
    by (simp add: append_remove_def Let_def)
qed

lemma distinct_map_nth:
  "distinct (map f xs) \<Longrightarrow> i < length xs \<Longrightarrow> j < length xs \<Longrightarrow> f (xs ! i) = f (xs ! j) \<Longrightarrow> i = j"
  by (metis length_map nth_eq_iff_index_eq nth_map)

text \<open>Removing the first hit of a key from a list with distinct keys removes exactly that key.\<close>

lemma remove_hit_filter:
  assumes "distinct (map f xs)" "find_index (\<lambda>x. f x = k) xs = Some i"
  shows "take i xs @ drop (Suc i) xs = filter (\<lambda>x. f x \<noteq> k) xs"
proof -
  have hit: "f (xs ! i) = k" "i < length xs" using find_index_Some [OF assms(2)] by auto
  have split: "xs = take i xs @ xs ! i # drop (Suc i) xs"
    and before: "\<forall>x \<in> set (take i xs). f x \<noteq> k" using find_index_split [OF assms(2)] by auto
  have "distinct (map f (take i xs @ xs ! i # drop (Suc i) xs))" using assms(1) split by simp
  then have "f (xs ! i) \<notin> set (map f (drop (Suc i) xs))" by simp
  then have after: "\<forall>x \<in> set (drop (Suc i) xs). f x \<noteq> k"
    using hit(1) by (metis image_eqI list.set_map)
  have "filter (\<lambda>x. f x \<noteq> k) (take i xs @ xs ! i # drop (Suc i) xs) = take i xs @ drop (Suc i) xs"
    using before after hit by (simp add: filter_id_conv)
  then show ?thesis using split by simp
qed

lemma last_not_hit:
  assumes "distinct (map f xs)" "find_index (\<lambda>x. f x = k) xs = Some i" "Suc i < length xs"
  shows "f (last xs) \<noteq> k"
proof
  assume "f (last xs) = k"
  moreover have "last xs = xs ! (length xs - 1)" using assms(3) by (intro last_conv_nth) auto
  moreover have "f (xs ! i) = k" using find_index_Some [OF assms(2)] by auto
  ultimately have "i = length xs - 1" using assms(3) by (intro distinct_map_nth [OF assms(1)]) auto
  with assms(3) show False by simp
qed

end
