(* ===== verification/Api_Types.thy ===== *)
theory Api_Types
  imports Go_Strings
begin

section \<open>The custom resources and the API clients\<close>

text \<open>
  The objects of \<^verbatim>\<open>pkg/apis/devices.harvesterhci.io/v1beta1\<close> as records with the fields the
  code reads or writes, and the client and cache interfaces of
  \<^verbatim>\<open>pkg/generated/controllers\<close> as a record of functions.

  The API server and its caches are outside the repository.  They are a parameter of
  every handler: a value of type \<open>('o, 's) client\<close>, whose functions read and change an
  arbitrary state \<open>'s\<close> of the outside world (API objects, sysfs, the kubelet).  Nothing is
  assumed of them here; a property that needs a law names it as a hypothesis.
\<close>

subsection \<open>Metadata\<close>

record owner_reference =
  orAPIVersion :: string
  orKind :: string
  orName :: string
  orUID :: string

text \<open>
  \<open>mOwnerReferences\<close> is an option because the code compares the slice with nil before it
  reads element 0; \<open>mDeletionTimestamp\<close> tells whether the timestamp is set.
\<close>

record object_meta =
  mKind :: string
  mAPIVersion :: string
  mName :: string
  mNamespace :: string
  mUID :: string
  mLabels :: "(string, string) gomap"
  mAnnotations :: "(string, string) gomap"
  mOwnerReferences :: "owner_reference list option"
  mFinalizers :: "string list"
  mDeletionTimestamp :: bool
  mResourceVersion :: string

definition empty_meta :: object_meta where
  "empty_meta = \<lparr>mKind = [], mAPIVersion = [], mName = [], mNamespace = [], mUID = [],
     mLabels = [], mAnnotations = [], mOwnerReferences = None, mFinalizers = [],
     mDeletionTimestamp = False, mResourceVersion = []\<rparr>"

subsection \<open>PCIDevice and PCIDeviceClaim\<close>

record PCIDeviceStatus =
  pdAddress :: string
  pdVendorID :: string
  pdDeviceID :: string
  pdClassID :: string
  pdIOMMUGroup :: string
  pdNodeName :: string
  pdResourceName :: string
  pdDescription :: string
  pdKernelDriverInUse :: string

record PCIDevice =
  pdMeta :: object_meta
  pdStatus :: PCIDeviceStatus

record PCIDeviceClaimSpec =
  pcAddress :: string
  pcNodeName :: string
  pcUserName :: string
  pcDisableResourcePooling :: bool

record PCIDeviceClaimStatus =
  pcKernelDriverToUnbind :: string
  pcPassthroughEnabled :: bool

record PCIDeviceClaim =
  pcMeta :: object_meta
  pcSpec :: PCIDeviceClaimSpec
  pcStatus :: PCIDeviceClaimStatus

abbreviation pdName :: "PCIDevice \<Rightarrow> string" where
  "pdName pd \<equiv> mName (pdMeta pd)"

abbreviation pcName :: "PCIDeviceClaim \<Rightarrow> string" where
  "pcName pdc \<equiv> mName (pcMeta pdc)"

definition empty_pd_status :: PCIDeviceStatus where
  "empty_pd_status = \<lparr>pdAddress = [], pdVendorID = [], pdDeviceID = [], pdClassID = [],
     pdIOMMUGroup = [], pdNodeName = [], pdResourceName = [], pdDescription = [],
     pdKernelDriverInUse = []\<rparr>"

definition PciDeviceDriver :: string where
  "PciDeviceDriver = ''harvesterhci.io/pcideviceDriver''"

definition SkipVFIOBindingAnnotationKey :: string where
  "SkipVFIOBindingAnnotationKey = ''pcidevices.harvesterhci.io/skip-vfio-binding''"

definition PCIDeviceOverrideResourceName :: string where
  "PCIDeviceOverrideResourceName = ''pcidevice.harvesterhci.io/override-resource-name''"

definition NodeKeyName :: string where
  "NodeKeyName = ''nodename''"

definition ParentSRIOVGPUDeviceLabel :: string where
  "ParentSRIOVGPUDeviceLabel = ''harvesterhci.io/parentSRIOVGPUDevice''"

definition ParentSRIOVNetworkDevice :: string where
  "ParentSRIOVNetworkDevice = ''harvesterhci.io/parent-sriov-network-device''"

definition DeviceAllocationKey :: string where
  "DeviceAllocationKey = ''harvesterhci.io/deviceAllocationDetails''"

text \<open>Two annotation keys of one object never collide.\<close>

lemma annotation_keys_distinct [simp]:
  "PCIDeviceOverrideResourceName \<noteq> PciDeviceDriver" "PciDeviceDriver \<noteq> PCIDeviceOverrideResourceName"
  "SkipVFIOBindingAnnotationKey \<noteq> PCIDeviceOverrideResourceName"
  "PCIDeviceOverrideResourceName \<noteq> SkipVFIOBindingAnnotationKey"
  "NodeKeyName \<noteq> ParentSRIOVNetworkDevice" "ParentSRIOVNetworkDevice \<noteq> NodeKeyName"
  "NodeKeyName \<noteq> ParentSRIOVGPUDeviceLabel" "ParentSRIOVGPUDeviceLabel \<noteq> NodeKeyName"
  by (simp_all add: PCIDeviceOverrideResourceName_def PciDeviceDriver_def NodeKeyName_def
      SkipVFIOBindingAnnotationKey_def ParentSRIOVNetworkDevice_def ParentSRIOVGPUDeviceLabel_def)

definition NodeAddr :: "PCIDeviceClaimSpec \<Rightarrow> string" where
  "NodeAddr s = pcNodeName s @ ''-'' @ pcAddress s"

subsection \<open>USB devices\<close>

record USBDeviceStatus =
  udVendorID :: string
  udProductID :: string
  udNodeName :: string
  udResourceName :: string
  udDevicePath :: string
  udDescription :: string
  udPCIAddress :: string
  udClassType :: string
  udEnabled :: bool
  udStatusText :: string
  udMessage :: string

record USBDevice =
  udMeta :: object_meta
  udStatus :: USBDeviceStatus

record USBDeviceClaim =
  ucMeta :: object_meta
  ucUserName :: string
  ucNodeName :: string
  ucPCIAddress :: string

abbreviation udName :: "USBDevice \<Rightarrow> string" where
  "udName ud \<equiv> mName (udMeta ud)"

abbreviation ucName :: "USBDeviceClaim \<Rightarrow> string" where
  "ucName uc \<equiv> mName (ucMeta uc)"

definition USBDeviceStatusOrphaned :: string where
  "USBDeviceStatusOrphaned = ''orphaned''"

subsection \<open>SR-IOV network devices\<close>

text \<open>The slices of the status are compared with \<^verbatim>\<open>reflect.DeepEqual\<close>, which tells nil from
  empty, hence the options.\<close>

record SRIOVNetworkDeviceSpec =
  snAddress :: string
  snNodeName :: string
  snNumVFs :: int

record SRIOVNetworkDeviceStatus =
  snVFAddresses :: "string list option"
  snVFPCIDevices :: "string list option"
  snStatusText :: string

record SRIOVNetworkDevice =
  snMeta :: object_meta
  snSpec :: SRIOVNetworkDeviceSpec
  snStatus :: SRIOVNetworkDeviceStatus

abbreviation snName :: "SRIOVNetworkDevice \<Rightarrow> string" where
  "snName sd \<equiv> mName (snMeta sd)"

definition DeviceDisabled :: string where
  "DeviceDisabled = ''sriovNetworkDeviceDisabled''"

definition DeviceEnabled :: string where
  "DeviceEnabled = ''sriovNetworkDeviceEnabled''"

subsection \<open>SR-IOV GPUs, vGPUs and MIG configurations\<close>

record SRIOVGPUDeviceSpec =
  sgAddress :: string
  sgNodeName :: string
  sgEnabled :: bool

record SRIOVGPUDeviceStatus =
  sgVFAddresses :: "string list option"
  sgVGPUDevices :: "string list option"

record SRIOVGPUDevice =
  sgMeta :: object_meta
  sgSpec :: SRIOVGPUDeviceSpec
  sgStatus :: SRIOVGPUDeviceStatus

record VGPUDeviceSpec =
  vgVGPUTypeName :: string
  vgAddress :: string
  vgEnabled :: bool
  vgNodeName :: string
  vgParentGPUDeviceAddress :: string

record VGPUDeviceStatus =
  vgVGPUStatus :: string
  vgUUID :: string
  vgConfiguredVGPUTypeName :: string
  vgAvailableTypes :: "(string, string) gomap"

record VGPUDevice =
  vgMeta :: object_meta
  vgSpec :: VGPUDeviceSpec
  vgStatus :: VGPUDeviceStatus

abbreviation sgName :: "SRIOVGPUDevice \<Rightarrow> string" where
  "sgName sg \<equiv> mName (sgMeta sg)"

abbreviation vgName :: "VGPUDevice \<Rightarrow> string" where
  "vgName vg \<equiv> mName (vgMeta vg)"

definition VGPUEnabled :: string where
  "VGPUEnabled = ''vGPUConfigured''"

definition VGPUDisabled :: string where
  "VGPUDisabled = []"

definition SysDevRoot :: string where
  "SysDevRoot = ''/sys/bus/pci/devices/''"

definition MdevRoot :: string where
  "MdevRoot = ''/sys/bus/mdev/devices/''"

definition MdevBusClassRoot :: string where
  "MdevBusClassRoot = ''/sys/class/mdev_bus/''"

definition MdevSupportTypesDir :: string where
  "MdevSupportTypesDir = ''mdev_supported_types''"

definition HarvesterVGPUType :: string where
  "HarvesterVGPUType = ''vgpu.harvesterhci.io/type''"

definition NvidiaDriverNeededKey :: string where
  "NvidiaDriverNeededKey = ''sriovgpu.harvesterhci.io/driver-needed''"

definition CreatableVGPUTypes :: string where
  "CreatableVGPUTypes = ''creatable_vgpu_types''"

definition CurrentVGPUType :: string where
  "CurrentVGPUType = ''current_vgpu_type''"

record MigProfileStatus =
  mpsName :: string
  mpsID :: int
  mpsAvailable :: int
  mpsTotal :: int
  mpsVGPUID :: "string list option"

record MigProfileRequest =
  mprName :: string
  mprID :: int
  mprRequested :: int

record MigConfigurationSpec =
  mcEnabled :: bool
  mcGPUAddress :: string
  mcNodeName :: string
  mcProfileSpec :: "MigProfileRequest list option"

record MigConfigurationStatus =
  mcProfileStatus :: "MigProfileStatus list option"
  mcStatusText :: string
  mcMessage :: string

record MigConfiguration =
  mcMeta :: object_meta
  mcSpec :: MigConfigurationSpec
  mcStatus :: MigConfigurationStatus

abbreviation mcName :: "MigConfiguration \<Rightarrow> string" where
  "mcName mc \<equiv> mName (mcMeta mc)"

definition MIGConfigurationSynced :: string where
  "MIGConfigurationSynced = ''synced''"

definition MIGConfigurationOutOfSync :: string where
  "MIGConfigurationOutOfSync = ''out-of-sync''"

definition MIGConfigurationDisabled :: string where
  "MIGConfigurationDisabled = ''disabled''"

record AllocationDetails =
  adGPUs :: "(string, string list) gomap"
  adHostDevices :: "(string, string list) gomap"

record DevicesNode =
  dnMeta :: object_meta

subsection \<open>Clients and caches\<close>

text \<open>
  One client of a resource kind: reads from the API server or from the informer cache, and
  writes that return the stored object or an error together with the next world.  The key
  of a namespaced object is \<^verbatim>\<open>namespace/name\<close>.  \<open>cList\<close> takes the equality-based label
  selector, the empty one for no selector; \<open>cByIndex\<close> takes the indexer's name and the key.
\<close>

record ('o, 's) client =
  cGet :: "string \<Rightarrow> 's \<Rightarrow> 'o res"
  cList :: "(string, string) gomap \<Rightarrow> 's \<Rightarrow> 'o list res"
  cByIndex :: "string \<Rightarrow> string \<Rightarrow> 's \<Rightarrow> 'o list res"
  cCreate :: "'o \<Rightarrow> 's \<Rightarrow> 'o res \<times> 's"
  cUpdate :: "'o \<Rightarrow> 's \<Rightarrow> 'o res \<times> 's"
  cUpdateStatus :: "'o \<Rightarrow> 's \<Rightarrow> 'o res \<times> 's"
  cDelete :: "string \<Rightarrow> 's \<Rightarrow> unit res \<times> 's"
  cEnqueue :: "string \<Rightarrow> 's \<Rightarrow> 's"
  cAlias :: "string \<Rightarrow> 'o \<Rightarrow> 's \<Rightarrow> 's"

text \<open>\<open>cAlias\<close> is not a call: a cache hands out the pointer it holds, and an assignment through that pointer
  changes what the cache returns from then on.  It stands where the code assigns to an object it got from a cache.\<close>

text \<open>A client whose writes add nothing to an observation of the world: API calls for one kind of
  object leave the names of another kind, or the hardware, as they are.\<close>

definition adds_none :: "('s \<Rightarrow> 'k set) \<Rightarrow> ('o, 's) client \<Rightarrow> bool" where
  "adds_none obs c \<longleftrightarrow>
     (\<forall>x s. obs (snd (cCreate c x s)) \<subseteq> obs s) \<and> (\<forall>x s. obs (snd (cUpdate c x s)) \<subseteq> obs s)
     \<and> (\<forall>x s. obs (snd (cUpdateStatus c x s)) \<subseteq> obs s) \<and> (\<forall>n s. obs (snd (cDelete c n s)) \<subseteq> obs s)
     \<and> (\<forall>n s. obs (cEnqueue c n s) \<subseteq> obs s) \<and> (\<forall>n x s. obs (cAlias c n x s) \<subseteq> obs s)"

lemma adds_noneD:
  assumes "adds_none obs c"
  shows "obs (snd (cCreate c x s)) \<subseteq> obs s" "obs (snd (cUpdate c x s)) \<subseteq> obs s"
    "obs (snd (cUpdateStatus c x s)) \<subseteq> obs s" "obs (snd (cDelete c n s)) \<subseteq> obs s" "obs (cEnqueue c n s) \<subseteq> obs s"
    "obs (cAlias c n x s) \<subseteq> obs s"
  using assms by (simp_all add: adds_none_def)

text \<open>The result of a wrangler handler: the object it returns (\<^const>\<open>None\<close> is nil), its
  error, and the world it leaves behind.\<close>

type_synonym ('o, 's) handler_result = "'o option \<times> go_error option \<times> 's"

definition client_result :: "'o res \<times> 's \<Rightarrow> ('o, 's) handler_result" where
  "client_result r = (case r of (Inl err, s) \<Rightarrow> (None, Some err, s) | (Inr x, s) \<Rightarrow> (Some x, None, s))"

definition err_result :: "'o res \<times> 's \<Rightarrow> go_error option \<times> 's" where
  "err_result r = (case r of (Inl err, s) \<Rightarrow> (Some err, s) | (Inr x, s) \<Rightarrow> (None, s))"

definition world_of :: "('o, 's) handler_result \<Rightarrow> 's" where
  "world_of r = snd (snd r)"

definition err_of :: "('o, 's) handler_result \<Rightarrow> go_error option" where
  "err_of r = fst (snd r)"

lemma handler_result_simps [simp]:
  "world_of (x, e, s) = s" "err_of (x, e, s) = e"
  by (simp_all add: world_of_def err_of_def)

text \<open>
  A client over a finite table of objects, with the documented behaviour of the API
  server (a read of an absent name and a second creation are errors, a write to the status
  subresource keeps everything but the status).  It instantiates the client parameters in
  the witnesses; no definition of the model depends on it.  The lens \<open>get\<close>/\<open>put\<close> locates
  the table in the world; \<open>keep\<close> merges a status write into the stored object.  Reads give copies.
\<close>

definition selects :: "(string, string) gomap \<Rightarrow> (string, string) gomap \<Rightarrow> bool" where
  "selects sel lbls = list_all (\<lambda>(k, v). mget lbls k = Some v) sel"

definition table_client ::
  "('o \<Rightarrow> object_meta) \<Rightarrow> ('o \<Rightarrow> 'o \<Rightarrow> 'o) \<Rightarrow> (string \<Rightarrow> 'o \<Rightarrow> string list)
   \<Rightarrow> ('s \<Rightarrow> (string, 'o) gomap) \<Rightarrow> ((string, 'o) gomap \<Rightarrow> 's \<Rightarrow> 's) \<Rightarrow> ('o, 's) client" where
  "table_client meta keep idx get put =
     \<lparr>cGet = (\<lambda>n s. case mget (get s) n of None \<Rightarrow> Inl NotFound | Some o' \<Rightarrow> Inr o'),
      cList = (\<lambda>sel s. Inr (filter (\<lambda>o'. selects sel (mLabels (meta o'))) (map snd (get s)))),
      cByIndex = (\<lambda>i k s. Inr (filter (\<lambda>o'. k \<in> set (idx i o')) (map snd (get s)))),
      cCreate = (\<lambda>o' s. if mhas (get s) (mName (meta o')) then (Inl AlreadyExists, s)
                        else (Inr o', put (mput (mName (meta o')) o' (get s)) s)),
      cUpdate = (\<lambda>o' s. if mhas (get s) (mName (meta o'))
                        then (Inr o', put (mput (mName (meta o')) o' (get s)) s)
                        else (Inl NotFound, s)),
      cUpdateStatus = (\<lambda>o' s. case mget (get s) (mName (meta o')) of
                          None \<Rightarrow> (Inl NotFound, s)
                        | Some old \<Rightarrow> (Inr (keep old o'),
                                       put (mput (mName (meta o')) (keep old o') (get s)) s)),
      cDelete = (\<lambda>n s. if mhas (get s) n then (Inr (), put (mdel n (get s)) s)
                       else (Inl NotFound, s)),
      cEnqueue = (\<lambda>n s. s), cAlias = (\<lambda>n o' s. s)\<rparr>"

end
