(* ===== verification/Object_Cache.thy ===== *)
theory Object_Cache
  imports Api_Types
begin

section \<open>Caches that hand out their own objects\<close>

text \<open>
  The controllers read objects from the caches of the informers, which return the pointer they hold, and some
  handlers assign to that object before they send it to the API server.  This theory states what such a
  handler relies on: an assignment is seen by the next read and does not reach the server, and a refused update
  changes neither (\<open>send\<close> is an update of the object or of its status).  A watch event that replaces the cached object ends this; the facts are about the time before it.
\<close>

locale object_cache =
  fixes cache :: "('o, 's) client" and send :: "'o \<Rightarrow> 's \<Rightarrow> 'o res \<times> 's" and stored :: "'s \<Rightarrow> 'b"
  assumes get_alias: "cGet cache k s = Inr y \<Longrightarrow> cGet cache k (cAlias cache k x s) = Inr x"
    and stored_alias: "stored (cAlias cache k x s) = stored s"
    and get_refused: "send x s = (Inl e, s') \<Longrightarrow> cGet cache k s' = cGet cache k s"
    and stored_refused: "send x s = (Inl e, s') \<Longrightarrow> stored s' = stored s"
begin

text \<open>An object assigned to and then refused by the server: the cache keeps what the server does not have.\<close>

lemma refused_in_place:
  assumes "cGet cache k s = Inr y" and "err_result (send x (cAlias cache k x s)) = (Some e, s')"
  shows "cGet cache k s' = Inr x" "stored s' = stored s"
proof -
  from assms(2) have "send x (cAlias cache k x s) = (Inl e, s')"
    by (auto simp: err_result_def split: prod.splits sum.splits)
  then show "cGet cache k s' = Inr x" "stored s' = stored s"
    using get_alias [OF assms(1)] stored_alias get_refused stored_refused by metis+
qed

end

text \<open>
  An API server with a cache: the server's table and the cached table.  Reads go to the cache, a
  write the server accepts reaches both, one it refuses (\<open>accepts\<close>: admission, a conflict, a timeout) neither.
\<close>

type_synonym 'o cached_world = "(string, 'o) gomap \<times> (string, 'o) gomap"

definition cached_client :: "('o \<Rightarrow> string) \<Rightarrow> ('o \<Rightarrow> bool) \<Rightarrow> ('o, 'o cached_world) client" where
  "cached_client key accepts =
     \<lparr>cGet = (\<lambda>n (t, c). case mget c n of None \<Rightarrow> Inl NotFound | Some x \<Rightarrow> Inr x),
      cList = (\<lambda>sel (t, c). Inr (map snd c)), cByIndex = (\<lambda>i k (t, c). Inr []),
      cCreate = (\<lambda>x (t, c). if mhas t (key x) then (Inl AlreadyExists, (t, c)) else (Inr x, (mput (key x) x t, mput (key x) x c))),
      cUpdate = (\<lambda>x (t, c). if mhas t (key x) \<and> accepts x then (Inr x, (mput (key x) x t, mput (key x) x c)) else (Inl (Errorf ''refused''), (t, c))),
      cUpdateStatus = (\<lambda>x (t, c). if mhas t (key x) \<and> accepts x then (Inr x, (mput (key x) x t, mput (key x) x c)) else (Inl (Errorf ''refused''), (t, c))),
      cDelete = (\<lambda>n (t, c). if mhas t n then (Inr (), (mdel n t, mdel n c)) else (Inl NotFound, (t, c))),
      cEnqueue = (\<lambda>n s. s), cAlias = (\<lambda>n x (t, c). (t, if mhas c n then mput n x c else c))\<rparr>"

interpretation cached: object_cache "cached_client key accepts" "cUpdate (cached_client key accepts)" fst
  by unfold_locales (auto simp: cached_client_def mhas_def mget_mput split: option.splits if_splits prod.splits)

interpretation cached_status: object_cache "cached_client key accepts" "cUpdateStatus (cached_client key accepts)" fst
  by unfold_locales (auto simp: cached_client_def mhas_def mget_mput split: option.splits if_splits prod.splits)

end
