(* ===== verification/Pci_Device.thy ===== *)
theory Pci_Device
  imports Api_Types
begin

section \<open>The PCIDevice resource: names and status\<close>

text \<open>
  Models \<^verbatim>\<open>pkg/apis/devices.harvesterhci.io/v1beta1/pcidevice.go\<close>: how a device that the
  \<^verbatim>\<open>ghw\<close> library reports becomes a PCIDevice object, in particular its object name and the
  resource name under which the kubelet advertises it.  The constant \<^verbatim>\<open>util.UNKNOWN\<close> of
  \<^verbatim>\<open>ghw\<close> is the parameter \<open>unknown\<close>.
\<close>

text \<open>The fields of \<^verbatim>\<open>ghw\<close>'s \<^verbatim>\<open>pci.Device\<close> that the code reads.\<close>

record pci_device =
  dvAddress :: string
  dvVendorID :: string
  dvVendorName :: string
  dvProductID :: string
  dvProductName :: string
  dvClassID :: string
  dvClassName :: string
  dvSubclassID :: string
  dvSubclassName :: string
  dvDriver :: string

definition PluginNamePrefix :: string where
  "PluginNamePrefix = ''/var/lib/kubelet/device-plugins/kubevirt-''"

definition SocketFileNameLimit :: nat where
  "SocketFileNameLimit = 108"

definition VFSuffix :: string where
  "VFSuffix = ''VIRTUAL_FUNCTION''"

definition ShortenedVFSuffix :: string where
  "ShortenedVFSuffix = ''VF''"

definition description :: "string \<Rightarrow> pci_device \<Rightarrow> string" where
  "description unknown dev =
     (let vendorName = (if dvVendorName dev \<noteq> unknown then dvVendorName dev
                        else ''Vendor '' @ dvVendorID dev);
          deviceName = (if dvProductName dev \<noteq> unknown then dvProductName dev
                        else ''Device '' @ dvProductID dev);
          className = (if dvSubclassName dev \<noteq> unknown then dvSubclassName dev
                       else if dvClassName dev \<noteq> unknown then dvClassName dev
                       else ''Class '' @ dvClassID dev @ dvSubclassID dev)
      in className @ '': '' @ vendorName @ '' '' @ deviceName)"

text \<open>\<^verbatim>\<open>[^a-zA-Z0-9]+\<close> replaced by the empty string.\<close>

definition strip :: "string \<Rightarrow> string" where
  "strip s = filter is_alnum s"

text \<open>The first submatch of \<^verbatim>\<open>\[([^\]]+)\]\<close>: the leftmost opening bracket that is followed by
  at least one other byte and then a closing bracket.\<close>

fun bracket_match :: "string \<Rightarrow> string option" where
  "bracket_match [] = None"
| "bracket_match (c # cs) =
     (let w = takeWhile (\<lambda>x. x \<noteq> CHR '']'') cs
      in if c = CHR ''['' \<and> w \<noteq> [] \<and> length w < length cs then Some w
         else bracket_match cs)"

text \<open>\<^const>\<open>None\<close>: \<^verbatim>\<open>matches[1]\<close> of a nil slice panics.\<close>

definition extractVendorNameFromBrackets :: "string \<Rightarrow> string option" where
  "extractVendorNameFromBrackets vendorName =
     (case bracket_match vendorName of
        None \<Rightarrow> None
      | Some m \<Rightarrow> Some (strip (hd (split_char (CHR ''/'') m))))"

definition fullSocketName :: "string \<Rightarrow> string \<Rightarrow> string" where
  "fullSocketName vendorCleaned productCleaned =
     PluginNamePrefix @ ''/'' @ vendorCleaned @ ''-'' @ productCleaned @ ''.sock''"

subsection \<open>Replacing a substring shortens\<close>

lemma length_Join:
  "length (Join ws sep) = sum_list (map length ws) + (length ws - 1) * length sep"
  by (induction ws sep rule: Join.induct) auto

lemma split_acc_nonempty [simp]: "split_acc sep acc s \<noteq> []"
  by (induction sep acc s rule: split_acc.induct) auto

lemma split_acc_lengths:
  "sep \<noteq> [] \<Longrightarrow>
     sum_list (map length (split_acc sep acc s)) + (length (split_acc sep acc s) - 1) * length sep
       = length acc + length s"
proof (induction sep acc s rule: split_acc.induct)
  case (2 sep acc c cs)
  show ?case
  proof (cases "HasPrefix (c # cs) sep")
    case True
    let ?t = "split_acc sep [] (drop (length sep) (c # cs))"
    have len: "length sep \<le> length (c # cs)"
      using True by (metis HasPrefix_def length_take min.cobounded2 min.commute)
    have pos: "0 < length ?t" by simp
    have IH: "sum_list (map length ?t) + (length ?t - 1) * length sep
        = length (drop (length sep) (c # cs))"
      using 2 True by simp
    have step: "split_acc sep acc (c # cs) = rev acc # ?t"
      using 2 True by simp
    have "length ?t * length sep = (length ?t - 1) * length sep + length sep"
      using pos by (cases "length ?t") auto
    then show ?thesis
      using IH len by (simp only: step) simp
  next
    case False
    with 2 show ?thesis by simp
  qed
qed simp

lemma split_acc_two: "sep \<noteq> [] \<Longrightarrow> Contains s sep \<Longrightarrow> 2 \<le> length (split_acc sep acc s)"
proof (induction sep acc s rule: split_acc.induct)
  case (2 sep acc c cs)
  have "1 \<le> length (split_acc sep [] (drop (length sep) (c # cs)))"
    by (simp add: Suc_leI)
  with 2 show ?case by auto
qed simp

lemma length_ReplaceAll_less:
  assumes "Contains s old" "length new < length old"
  shows "length (ReplaceAll s old new) < length s"
proof -
  let ?ws = "split_acc old [] s"
  have old: "old \<noteq> []" using assms(2) by auto
  have "2 \<le> length ?ws" using old assms(1) by (rule split_acc_two)
  then have "(length ?ws - 1) * length new < (length ?ws - 1) * length old"
    using assms(2) by simp
  with split_acc_lengths [OF old, of "[]" s] show ?thesis
    unfolding ReplaceAll_def split_str_def length_Join list.size(3) by linarith
qed

subsection \<open>Resource names\<close>

function trimResourceNameIfNeeded :: "string \<Rightarrow> string \<Rightarrow> string \<Rightarrow> string" where
  "trimResourceNameIfNeeded vendorCleaned productCleaned ID =
     (if SocketFileNameLimit < length (fullSocketName vendorCleaned productCleaned)
      then (if Contains productCleaned VFSuffix
            then trimResourceNameIfNeeded vendorCleaned
                   (ReplaceAll productCleaned VFSuffix ShortenedVFSuffix) ID
            else vendorCleaned @ ''/'' @ ID)
      else vendorCleaned @ ''/'' @ productCleaned)"
  by pat_completeness auto
termination
  by (relation "measure (\<lambda>(v, p, i). length p)")
    (auto intro!: length_ReplaceAll_less simp: VFSuffix_def ShortenedVFSuffix_def)

declare trimResourceNameIfNeeded.simps [simp del]

definition vendor_base :: "string \<Rightarrow> string option" where
  "vendor_base vendorName =
     (if Contains vendorName ''['' then extractVendorNameFromBrackets vendorName
      else Some (strip (hd (split_char (CHR '' '') vendorName))))"

definition clean_product :: "string \<Rightarrow> string" where
  "clean_product productName =
     (let p1 = ToUpper (TrimSpace productName);
          p2 = ReplaceAll p1 ''/'' ''_'';
          p3 = ReplaceAll p2 ''.'' ''_'';
          p4 = replace_spaces ''_'' p3;
          p5 = filter (\<lambda>c. is_alnum c \<or> c = CHR ''_'' \<or> c = CHR ''.'') p4
      in TrimRight p5 ''_.-'')"

definition resourceName :: "string \<Rightarrow> pci_device \<Rightarrow> string option" where
  "resourceName unknown dev =
     (case vendor_base (dvVendorName dev) of
        None \<Rightarrow> None
      | Some vendorBase \<Rightarrow>
          (let vendorCleaned = ToLower (ReplaceAll vendorBase '' '' []) @ ''.com''
           in if dvProductName dev \<noteq> unknown
              then (let productCleaned = clean_product (dvProductName dev);
                        product = (if productCleaned = [] then dvProductID dev else productCleaned)
                    in Some (trimResourceNameIfNeeded vendorCleaned product (dvProductID dev)))
              else Some (vendorCleaned @ ''/'' @ dvProductID dev)))"

subsection \<open>Objects\<close>

definition PCIDeviceNameForHostname :: "string \<Rightarrow> string \<Rightarrow> string" where
  "PCIDeviceNameForHostname address hostname =
     hostname @ ''-'' @ ReplaceAll (ReplaceAll address '':'' []) ''.'' []"

definition StatusUpdate ::
  "string \<Rightarrow> PCIDeviceStatus \<Rightarrow> pci_device \<Rightarrow> string \<Rightarrow> (string, int) gomap \<Rightarrow> string
   \<Rightarrow> PCIDeviceStatus option" where
  "StatusUpdate unknown status dev hostname iommuGroups overrideResourceName =
     (case resourceName unknown dev of
        None \<Rightarrow> None
      | Some rn \<Rightarrow> Some (status\<lparr>
          pdAddress := dvAddress dev,
          pdVendorID := dvVendorID dev,
          pdDeviceID := dvProductID dev,
          pdClassID := dvClassID dev @ dvSubclassID dev,
          pdResourceName := (if overrideResourceName \<noteq> [] then overrideResourceName else rn),
          pdDescription := description unknown dev,
          pdIOMMUGroup := (case mget iommuGroups (dvAddress dev) of
                             Some grp \<Rightarrow> Itoa grp
                           | None \<Rightarrow> pdIOMMUGroup status),
          pdKernelDriverInUse := dvDriver dev,
          pdNodeName := hostname\<rparr>))"

definition NewPCIDeviceForHostname :: "string \<Rightarrow> pci_device \<Rightarrow> string \<Rightarrow> PCIDevice option" where
  "NewPCIDeviceForHostname unknown dev hostname =
     (case resourceName unknown dev of
        None \<Rightarrow> None
      | Some rn \<Rightarrow> Some \<lparr>
          pdMeta = empty_meta\<lparr>
            mName := PCIDeviceNameForHostname (dvAddress dev) hostname,
            mAnnotations := [(PciDeviceDriver, dvDriver dev)]\<rparr>,
          pdStatus = empty_pd_status\<lparr>
            pdAddress := dvAddress dev,
            pdVendorID := dvVendorID dev,
            pdDeviceID := dvProductID dev,
            pdClassID := dvClassID dev @ dvSubclassID dev,
            pdNodeName := hostname,
            pdResourceName := rn,
            pdDescription := description unknown dev,
            pdKernelDriverInUse := dvDriver dev\<rparr>\<rparr>)"

subsection \<open>Replacing one byte\<close>

lemma split_acc_single:
  "split_acc [d] acc s = (case split_char d s of [] \<Rightarrow> [] | w # ws \<Rightarrow> (rev acc @ w) # ws)"
proof (induction s arbitrary: acc)
  case (Cons c s)
  obtain w ws where w: "split_char d s = w # ws" by (cases "split_char d s") auto
  with Cons.IH [of "[]"] have "split_acc [d] [] s = w # ws" by simp
  with Cons.IH [of "c # acc"] w show ?case by (auto simp: HasPrefix_def)
qed simp

lemma split_str_single: "split_str [d] s = split_char d s"
  by (simp add: split_str_def split_acc_single split: list.splits)

lemma Join_empty: "Join ws [] = concat ws"
  by (induction ws "[] :: string" rule: Join.induct) auto

lemma concat_split_char: "concat (split_char d s) = filter (\<lambda>c. c \<noteq> d) s"
  by (induction s) (auto split: list.splits)

lemma ReplaceAll_delete: "ReplaceAll s [d] [] = filter (\<lambda>c. c \<noteq> d) s"
  by (simp add: ReplaceAll_def split_str_single Join_empty concat_split_char)

lemma set_Join: "set (Join ws sep) \<subseteq> \<Union> (set ` set ws) \<union> set sep"
  by (induction ws sep rule: Join.induct) auto

lemma set_split_acc: "w \<in> set (split_acc sep acc s) \<Longrightarrow> set w \<subseteq> set acc \<union> set s"
proof (induction sep acc s arbitrary: w rule: split_acc.induct)
  case (2 sep acc c cs)
  have d: "set (drop (length sep) (c # cs)) \<subseteq> set (c # cs)"
    by (rule set_drop_subset)
  show ?case
  proof (cases "sep \<noteq> [] \<and> HasPrefix (c # cs) sep")
    case True
    with 2 have "w = rev acc \<or> set w \<subseteq> set (drop (length sep) (c # cs))" by fastforce
    with d show ?thesis by auto
  next
    case False
    with 2 have "set w \<subseteq> set (c # acc) \<union> set cs" by auto
    then show ?thesis by auto
  qed
qed auto

lemma set_ReplaceAll: "set (ReplaceAll s old new) \<subseteq> set s \<union> set new"
  using set_Join [of "split_acc old [] s" new] set_split_acc [of _ old "[]" s]
  by (fastforce simp: ReplaceAll_def split_str_def)

lemma set_ReplaceAll_single: "d \<notin> set new \<Longrightarrow> d \<notin> set (ReplaceAll s [d] new)"
  using set_Join [of "split_char d s" new] split_char_not_in [of _ d s]
  by (fastforce simp: ReplaceAll_def split_str_single)

subsection \<open>The resource name fits the socket path and its alphabet\<close>

lemma trimResourceName_cases:
  "trimResourceNameIfNeeded v p i = v @ ''/'' @ i
   \<or> (\<exists>p'. trimResourceNameIfNeeded v p i = v @ ''/'' @ p'
         \<and> set p' \<subseteq> set p \<union> set ShortenedVFSuffix
         \<and> length (fullSocketName v p') \<le> SocketFileNameLimit)"
proof (induction v p i rule: trimResourceNameIfNeeded.induct)
  case (1 v p i)
  show ?case
  proof (cases "SocketFileNameLimit < length (fullSocketName v p) \<and> Contains p VFSuffix")
    case True
    have "set (ReplaceAll p VFSuffix ShortenedVFSuffix) \<subseteq> set p \<union> set ShortenedVFSuffix"
      by (rule set_ReplaceAll)
    with 1 True show ?thesis
      by (subst (1 2) trimResourceNameIfNeeded.simps) (auto; blast)
  next
    case False
    then show ?thesis
      by (subst (1 2) trimResourceNameIfNeeded.simps) (auto simp: not_less)
  qed
qed

lemma trimResourceName_short:
  "length (fullSocketName v p) \<le> SocketFileNameLimit \<Longrightarrow>
     trimResourceNameIfNeeded v p i = v @ ''/'' @ p"
  by (subst trimResourceNameIfNeeded.simps) simp

definition product_char :: "char \<Rightarrow> bool" where
  "product_char c = (is_upper c \<or> is_digit c \<or> c = CHR ''_'')"

lemma clean_product_chars: "c \<in> set (clean_product s) \<Longrightarrow> product_char c"
proof -
  let ?u = "ToUpper (TrimSpace s)"
  let ?p2 = "ReplaceAll ?u ''/'' ''_''"
  let ?p3 = "ReplaceAll ?p2 ''.'' ''_''"
  have low: "\<not> is_lower x" if "x \<in> set ?u" for x
    using that not_lower_to_upper by (auto simp: ToUpper_def)
  have p3: "x \<noteq> CHR ''.'' \<and> (x = CHR ''_'' \<or> \<not> is_lower x)" if "x \<in> set ?p3" for x
    using that low set_ReplaceAll [of ?p2 "''.''" "''_''"] set_ReplaceAll [of ?u "''/''" "''_''"]
      set_ReplaceAll_single [of "CHR ''.''" "''_''" ?p2] by fastforce
  assume "c \<in> set (clean_product s)"
  then have "c \<in> set (replace_spaces ''_'' ?p3)" "is_alnum c \<or> c = CHR ''_'' \<or> c = CHR ''.''"
    using set_TrimRight [of "filter (\<lambda>c. is_alnum c \<or> c = CHR ''_'' \<or> c = CHR ''.'') (replace_spaces ''_'' ?p3)" "''_.-''"]
    by (auto simp: clean_product_def Let_def)
  with p3 [of c] set_collapse_spaces [of c "''_''" False ?p3] show ?thesis
    by (auto simp: product_char_def is_alnum_def replace_spaces_def)
qed

lemma suffix_chars: "c \<in> set ShortenedVFSuffix \<Longrightarrow> product_char c"
  by (auto simp: product_char_def ShortenedVFSuffix_def is_upper_def)

lemma ToLower_strip: "c \<in> set (ToLower (ReplaceAll (strip s) '' '' [])) \<Longrightarrow> is_lower c \<or> is_digit c"
  using not_upper_to_lower
  by (auto simp: ToLower_def strip_def ReplaceAll_delete)
    (metis is_alnum_def is_alnum_to_lower)

lemma vendor_base_strip: "vendor_base s = Some b \<Longrightarrow> \<exists>t. b = strip t"
  by (auto simp: vendor_base_def extractVendorNameFromBrackets_def split: if_splits option.splits)

lemma resourceName_cases:
  assumes "resourceName unknown dev = Some r"
  obtains v p where "\<forall>c \<in> set v. is_lower c \<or> is_digit c"
    "r = v @ ''.com/'' @ dvProductID dev
     \<or> r = trimResourceNameIfNeeded (v @ ''.com'') p (dvProductID dev)"
    "p = (if clean_product (dvProductName dev) = [] then dvProductID dev
          else clean_product (dvProductName dev))"
proof -
  from assms obtain b where b: "vendor_base (dvVendorName dev) = Some b"
    by (auto simp: resourceName_def split: option.splits)
  define v where "v = ToLower (ReplaceAll b '' '' [])"
  have "\<forall>c \<in> set v. is_lower c \<or> is_digit c"
    using vendor_base_strip [OF b] ToLower_strip by (auto simp: v_def)
  with assms b that show ?thesis
    by (auto simp: resourceName_def v_def Let_def split: if_splits)
qed

text \<open>
  Property C21.  Whenever the generation of a resource name does not panic, the name is
  \<open>v.com/p\<close> where \<open>v\<close> has lower case letters and digits only, and \<open>p\<close> is either the raw
  device ID or a name for which the plugin socket path the code checks is within the limit
  of 108 bytes, made of upper case letters, digits and underscores when the cleaned product
  name is not empty.
\<close>

theorem resourceName_shape:
  assumes "resourceName unknown dev = Some r"
  shows "\<exists>v p. r = v @ ''.com/'' @ p \<and> (\<forall>c \<in> set v. is_lower c \<or> is_digit c)
     \<and> (p = dvProductID dev
        \<or> (clean_product (dvProductName dev) \<noteq> [] \<longrightarrow> (\<forall>c \<in> set p. product_char c))
          \<and> length (fullSocketName (v @ ''.com'') p) \<le> SocketFileNameLimit)"
proof -
  let ?q = "clean_product (dvProductName dev)"
  from assms obtain v p where v: "\<forall>c \<in> set v. is_lower c \<or> is_digit c"
    and r: "r = v @ ''.com/'' @ dvProductID dev
            \<or> r = trimResourceNameIfNeeded (v @ ''.com'') p (dvProductID dev)"
    and p: "p = (if ?q = [] then dvProductID dev else ?q)"
    by (rule resourceName_cases)
  have ok: "?q \<noteq> [] \<longrightarrow> (\<forall>c \<in> set p'. product_char c)"
    if "set p' \<subseteq> set p \<union> set ShortenedVFSuffix" for p'
    using that clean_product_chars [of _ "dvProductName dev"] suffix_chars
    by (auto simp: p)
  have com: "(v @ ''.com'') @ ''/'' @ x = v @ ''.com/'' @ x" for x by simp
  have "\<exists>p'. r = v @ ''.com/'' @ p' \<and> (p' = dvProductID dev
       \<or> set p' \<subseteq> set p \<union> set ShortenedVFSuffix
         \<and> length (fullSocketName (v @ ''.com'') p') \<le> SocketFileNameLimit)"
    using r
  proof
    assume "r = v @ ''.com/'' @ dvProductID dev"
    then show ?thesis by blast
  next
    assume r': "r = trimResourceNameIfNeeded (v @ ''.com'') p (dvProductID dev)"
    show ?thesis
      using trimResourceName_cases [of "v @ ''.com''" p "dvProductID dev", folded r', unfolded com]
      by blast
  qed
  then obtain p' where r': "r = v @ ''.com/'' @ p'"
    and p': "p' = dvProductID dev \<or> set p' \<subseteq> set p \<union> set ShortenedVFSuffix
       \<and> length (fullSocketName (v @ ''.com'') p') \<le> SocketFileNameLimit"
    by (elim exE conjE)
  from p' ok [of p'] have "p' = dvProductID dev
      \<or> (?q \<noteq> [] \<longrightarrow> (\<forall>c \<in> set p'. product_char c))
        \<and> length (fullSocketName (v @ ''.com'') p') \<le> SocketFileNameLimit"
    by blast
  with r' v show ?thesis by (intro exI conjI)
qed

definition sample_device :: pci_device where
  "sample_device = \<lparr>dvAddress = ''0000:04:10.1'', dvVendorID = ''8086'',
     dvVendorName = ''Intel Corporation'', dvProductID = ''1520'',
     dvProductName = ''I350 Ethernet Virtual Function'', dvClassID = ''02'',
     dvClassName = ''Network controller'', dvSubclassID = ''00'',
     dvSubclassName = ''Ethernet controller'', dvDriver = ''igbvf''\<rparr>"

lemma sample_resourceName:
  "resourceName ''unknown'' sample_device = Some ''intel.com/I350_ETHERNET_VIRTUAL_FUNCTION''"
  by code_simp

theorem resourceName_shape_witness:
  "\<exists>v p. ''intel.com/I350_ETHERNET_VIRTUAL_FUNCTION'' = v @ ''.com/'' @ p
     \<and> (\<forall>c \<in> set v. is_lower c \<or> is_digit c)
     \<and> (p = dvProductID sample_device
        \<or> (clean_product (dvProductName sample_device) \<noteq> [] \<longrightarrow> (\<forall>c \<in> set p. product_char c))
          \<and> length (fullSocketName (v @ ''.com'') p) \<le> SocketFileNameLimit)"
  by (rule resourceName_shape [OF sample_resourceName])

subsection \<open>Object names identify devices\<close>

text \<open>A PCI address in canonical form: \<^verbatim>\<open>domain:bus:device.function\<close>, two digits of bus, two of
  device, one of function.\<close>

definition plain_char :: "char \<Rightarrow> bool" where
  "plain_char c = (c \<noteq> CHR '':'' \<and> c \<noteq> CHR ''.'')"

definition pci_address :: "string \<Rightarrow> bool" where
  "pci_address a =
     (8 \<le> length a \<and>
      (let d = take (length a - 8) a; t = drop (length a - 8) a
       in list_all plain_char d
          \<and> t ! 0 = CHR '':'' \<and> plain_char (t ! 1) \<and> plain_char (t ! 2)
          \<and> t ! 3 = CHR '':'' \<and> plain_char (t ! 4) \<and> plain_char (t ! 5)
          \<and> t ! 6 = CHR ''.'' \<and> plain_char (t ! 7)))"

lemma length_8: "length t = 8 \<Longrightarrow> \<exists>t0 t1 t2 t3 t4 t5 t6 t7. t = [t0, t1, t2, t3, t4, t5, t6, t7]"
  by (auto simp: length_Suc_conv eval_nat_numeral)

lemma pci_address_form:
  assumes "pci_address a"
  obtains d b1 b2 v1 v2 f where
    "a = d @ [CHR '':'', b1, b2, CHR '':'', v1, v2, CHR ''.'', f]"
    "list_all plain_char (d @ [b1, b2, v1, v2, f])"
proof -
  let ?d = "take (length a - 8) a" and ?t = "drop (length a - 8) a"
  have "length ?t = 8" using assms by (simp add: pci_address_def)
  then obtain t0 t1 t2 t3 t4 t5 t6 t7 where t: "?t = [t0, t1, t2, t3, t4, t5, t6, t7]"
    using length_8 by blast
  have "a = ?d @ ?t" by simp
  moreover have "list_all plain_char (?d @ [t1, t2, t4, t5, t7])"
    "t0 = CHR '':''" "t3 = CHR '':''" "t6 = CHR ''.''"
    using assms t by (auto simp: pci_address_def Let_def)
  ultimately show ?thesis using that [of ?d t1 t2 t4 t5 t7] t by simp
qed

definition addr_digits :: "string \<Rightarrow> string" where
  "addr_digits a = filter plain_char a"

lemma PCIDeviceNameForHostname_alt:
  "PCIDeviceNameForHostname a h = h @ ''-'' @ addr_digits a"
  by (auto simp: PCIDeviceNameForHostname_def ReplaceAll_delete addr_digits_def plain_char_def
      intro: filter_cong)

lemma addr_digits_inj:
  assumes "pci_address a" "pci_address b" "addr_digits a = addr_digits b"
  shows "a = b"
proof -
  obtain d b1 b2 v1 v2 f where a: "a = d @ [CHR '':'', b1, b2, CHR '':'', v1, v2, CHR ''.'', f]"
    and ca: "list_all plain_char (d @ [b1, b2, v1, v2, f])"
    using assms(1) by (rule pci_address_form)
  obtain e c1 c2 w1 w2 g where b: "b = e @ [CHR '':'', c1, c2, CHR '':'', w1, w2, CHR ''.'', g]"
    and cb: "list_all plain_char (e @ [c1, c2, w1, w2, g])"
    using assms(2) by (rule pci_address_form)
  have "addr_digits a = d @ [b1, b2, v1, v2, f]" "addr_digits b = e @ [c1, c2, w1, w2, g]"
    using ca cb by (auto simp: addr_digits_def a b plain_char_def list_all_iff)
  with assms(3) have "d @ [b1, b2, v1, v2, f] = e @ [c1, c2, w1, w2, g]" by simp
  then show ?thesis by (simp add: a b)
qed

text \<open>
  Property C22.  On one node, two devices with canonical PCI addresses get the same object
  name only when they have the same address, so no two devices share a PCIDevice object.
\<close>

theorem PCIDeviceNameForHostname_inj:
  assumes "pci_address a" and "pci_address b"
  shows "PCIDeviceNameForHostname a host = PCIDeviceNameForHostname b host \<longleftrightarrow> a = b"
  using addr_digits_inj [OF assms] by (auto simp: PCIDeviceNameForHostname_alt)

theorem PCIDeviceNameForHostname_inj_witness:
  "pci_address ''0000:08:01.7'' \<and> pci_address ''10000:08:01.6''
   \<and> PCIDeviceNameForHostname ''0000:08:01.7'' ''node1'' = ''node1-000008017''
   \<and> PCIDeviceNameForHostname ''0000:08:01.7'' ''node1''
       \<noteq> PCIDeviceNameForHostname ''10000:08:01.6'' ''node1''"
proof -
  have a: "pci_address ''0000:08:01.7''" and b: "pci_address ''10000:08:01.6''"
    by code_simp+
  have "PCIDeviceNameForHostname ''0000:08:01.7'' ''node1'' = ''node1-000008017''"
    by code_simp
  with a b PCIDeviceNameForHostname_inj [OF a b, of "''node1''"] show ?thesis by simp
qed

end
