(* ===== verification/Loops.thy ===== *)
theory Loops
  imports Go_Prelude
begin

section \<open>Loops that stop at the first error\<close>

text \<open>
  The controllers range over a slice, change the world for each element and return the first
  error.  The locale \<open>early_exit_loop\<close> states what such a loop is, given what it does for one
  element; its lemmas carry a fact about one element to the whole loop and are used through one
  interpretation per loop of the sources.
\<close>

text \<open>A step that adds nothing to an observation of the world, such as the names of the objects
  of a kind.\<close>

definition shrinks :: "('s \<Rightarrow> 'k set) \<Rightarrow> ('s \<Rightarrow> 'e \<times> 's) \<Rightarrow> bool" where
  "shrinks obs f \<longleftrightarrow> (\<forall>s. obs (snd (f s)) \<subseteq> obs s)"

lemma shrinksI [intro?]: "(\<And>s. obs (snd (f s)) \<subseteq> obs s) \<Longrightarrow> shrinks obs f"
  by (simp add: shrinks_def)

lemma shrinksD: "shrinks obs f \<Longrightarrow> obs (snd (f s)) \<subseteq> obs s"
  by (simp add: shrinks_def)

lemma snd_case_res [simp]: "snd (case r of (Inl e, s) \<Rightarrow> (f e, s) | (Inr x, s) \<Rightarrow> (g x, s)) = snd r"
  by (cases r; cases "fst r") auto

lemma shrinks_case:
  assumes "obs (snd r) \<subseteq> N" "\<And>x s. obs s \<subseteq> N \<Longrightarrow> obs (snd (g x s)) \<subseteq> N"
  shows "obs (snd (case r of (Inl e, s) \<Rightarrow> (f e, s) | (Inr x, s) \<Rightarrow> g x s)) \<subseteq> N"
  using assms by (cases r; cases "fst r") auto

lemma shrinks_case_err:
  assumes "obs (snd r) \<subseteq> N" "\<And>s. obs s \<subseteq> N \<Longrightarrow> obs (snd (g s)) \<subseteq> N"
  shows "obs (snd (case r of (Some e, s) \<Rightarrow> (f e, s) | (None, s) \<Rightarrow> g s)) \<subseteq> N"
  using assms by (cases r; cases "fst r") auto

lemma shrinks_seq:
  assumes "shrinks obs f" "shrinks obs g"
  shows "shrinks obs (\<lambda>s. case f s of (Some err, s') \<Rightarrow> (Some err, s') | (None, s') \<Rightarrow> g s')"
proof (rule shrinksI)
  fix s
  obtain e s1 where f: "f s = (e, s1)" by (cases "f s")
  then have "obs s1 \<subseteq> obs s" using shrinksD [OF assms(1), of s] by simp
  then show "obs (snd (case f s of (Some err, s') \<Rightarrow> (Some err, s') | (None, s') \<Rightarrow> g s')) \<subseteq> obs s"
    using f shrinksD [OF assms(2), of s1] by (cases e) auto
qed

locale early_exit_loop =
  fixes body :: "'a \<Rightarrow> 's \<Rightarrow> go_error option \<times> 's"
    and loop :: "'a list \<Rightarrow> 's \<Rightarrow> go_error option \<times> 's"
  assumes loop_Nil: "loop [] s = (None, s)"
    and loop_Cons: "loop (x # xs) s = (case body x s of (Some err, s') \<Rightarrow> (Some err, s') | (None, s') \<Rightarrow> loop xs s')"
begin

lemma loop_append: "loop (xs @ ys) s = (case loop xs s of (Some err, s') \<Rightarrow> (Some err, s') | (None, s') \<Rightarrow> loop ys s')"
  by (induction xs arbitrary: s) (auto simp: loop_Nil loop_Cons split: prod.splits option.splits)

lemma loop_shrinks: "(\<And>x. x \<in> set xs \<Longrightarrow> shrinks obs (body x)) \<Longrightarrow> shrinks obs (loop xs)"
proof (induction xs)
  case Nil
  then show ?case by (simp add: shrinks_def loop_Nil)
next
  case (Cons x xs)
  then have "shrinks obs (\<lambda>s. case body x s of (Some err, s') \<Rightarrow> (Some err, s') | (None, s') \<Rightarrow> loop xs s')"
    by (intro shrinks_seq) simp_all
  then show ?case by (simp add: shrinks_def loop_Cons)
qed

text \<open>An invariant of every successful step holds after a loop without error, and what each
  step establishes for its element and the others keep holds for all elements.\<close>

lemma loop_success:
  assumes "loop xs s = (None, s')"
    and "\<And>x s1 s2. x \<in> set xs \<Longrightarrow> body x s1 = (None, s2) \<Longrightarrow> Q x s2"
    and "\<And>x y s1 s2. x \<in> set xs \<Longrightarrow> y \<in> set xs \<Longrightarrow> Q y s1 \<Longrightarrow> body x s1 = (None, s2) \<Longrightarrow> Q y s2"
  shows "\<forall>x \<in> set xs. Q x s'"
proof -
  have "\<forall>x \<in> set ys. Q x s2" if "loop ys s = (None, s2)" "set ys \<subseteq> set xs" for ys s2
    using that
  proof (induction ys arbitrary: s2 rule: rev_induct)
    case (snoc y ys)
    from snoc.prems(1) obtain s1 where s1: "loop ys s = (None, s1)" "body y s1 = (None, s2)"
      by (auto simp: loop_append loop_Cons loop_Nil split: prod.splits option.splits)
    then have before: "Q x s1" if "x \<in> set ys" for x using snoc that by simp
    have "Q x s2" if "x \<in> set ys" for x
      using assms(3) [OF _ _ before [OF that] s1(2)] snoc.prems(2) that by auto
    moreover have "Q y s2" using assms(2) [OF _ s1(2)] snoc.prems(2) by simp
    ultimately show ?case by simp
  qed simp
  with assms(1) show ?thesis by blast
qed

lemma loop_invariant:
  "loop xs s = (e, s') \<Longrightarrow> P s \<Longrightarrow> (\<And>x s1 e1 s2. x \<in> set xs \<Longrightarrow> P s1 \<Longrightarrow> body x s1 = (e1, s2) \<Longrightarrow> P s2) \<Longrightarrow> P s'"
proof (induction xs arbitrary: s)
  case (Cons x xs)
  obtain e1 s1 where b: "body x s = (e1, s1)" by (cases "body x s")
  then have "P s1" using Cons.prems(2,3) by (meson list.set_intros(1))
  show ?case
  proof (cases e1)
    case None
    with Cons.prems(1) b have "loop xs s1 = (e, s')" by (simp add: loop_Cons)
    then show ?thesis using \<open>P s1\<close> Cons.prems(3) by (rule Cons.IH) simp_all
  next
    case (Some err)
    with Cons.prems(1) b \<open>P s1\<close> show ?thesis by (simp add: loop_Cons)
  qed
qed (simp add: loop_Nil)

end

end
