(* ===== verification/World.thy ===== *)
theory World
  imports Go_Strings Loops
begin

section \<open>The operating system\<close>

text \<open>
  The kernel's file system (sysfs, procfs, device nodes, the plugin socket directory) is
  outside the repository.  Its calls are a parameter of the definitions that use them: a
  record of functions over the same world \<open>'s\<close> as the API clients.  \<open>NotFound\<close> is
  \<^verbatim>\<open>os.ErrNotExist\<close> and \<open>AlreadyExists\<close> is \<^verbatim>\<open>os.ErrExist\<close>.
\<close>

record dirent =
  deName :: string
  deIsDir :: bool

record 's os =
  osStat :: "string \<Rightarrow> 's \<Rightarrow> unit res"
  osLstat :: "string \<Rightarrow> 's \<Rightarrow> bool res" \<comment> \<open>whether the entry is a symbolic link\<close>
  osReadFile :: "string \<Rightarrow> 's \<Rightarrow> string res"
  osReadDir :: "string \<Rightarrow> 's \<Rightarrow> dirent list res"
  osReadlink :: "string \<Rightarrow> 's \<Rightarrow> string res"
  osEvalSymlinks :: "string \<Rightarrow> 's \<Rightarrow> string res"
  osGlobPrefix :: "string \<Rightarrow> 's \<Rightarrow> string list res" \<comment> \<open>\<^verbatim>\<open>filepath.Glob(p + "*")\<close>\<close>
  osOpenWrite :: "string \<Rightarrow> 's \<Rightarrow> unit res"
  osWriteString :: "string \<Rightarrow> string \<Rightarrow> 's \<Rightarrow> unit res \<times> 's"
  osRemove :: "string \<Rightarrow> 's \<Rightarrow> unit res \<times> 's"

text \<open>A tree of files that nobody changes and nobody may write to.\<close>

definition static_os :: "unit os \<Rightarrow> 's os" where
  "static_os sys = \<lparr>osStat = \<lambda>p s. osStat sys p (), osLstat = \<lambda>p s. osLstat sys p (), osReadFile = \<lambda>p s. osReadFile sys p (),
     osReadDir = \<lambda>p s. osReadDir sys p (), osReadlink = \<lambda>p s. osReadlink sys p (), osEvalSymlinks = \<lambda>p s. osEvalSymlinks sys p (),
     osGlobPrefix = \<lambda>p s. osGlobPrefix sys p (), osOpenWrite = \<lambda>p s. Inl NotFound, osWriteString = \<lambda>p d s. (Inl NotFound, s),
     osRemove = \<lambda>p s. (Inl NotFound, s)\<rparr>"

text \<open>
  \<^verbatim>\<open>bufio.Scanner\<close> over a whole text: its lines without the newline, a trailing carriage
  return dropped, no empty line after a final newline.  A line that does not fit the scanner's
  buffer of 64 KiB ends the scan; \<open>scan_err\<close> is what \<^verbatim>\<open>Scanner.Err\<close> returns after it.
\<close>

definition drop_cr :: "string \<Rightarrow> string" where
  "drop_cr s = (if s \<noteq> [] \<and> last s = CHR 0x0D then butlast s else s)"

definition text_lines :: "string \<Rightarrow> string list" where
  "text_lines text =
     (let ls = split_char (CHR 0x0A) text
      in if last ls = [] then butlast ls else ls)"

definition scan_fits :: "string \<Rightarrow> bool" where
  "scan_fits l = (int (length l) < 65536)"

definition scan_lines :: "string \<Rightarrow> string list" where
  "scan_lines text = map drop_cr (takeWhile scan_fits (text_lines text))"

definition scan_err :: "string \<Rightarrow> go_error option" where
  "scan_err text = (if list_all scan_fits (text_lines text) then None
     else Some (Errorf ''bufio.Scanner: token too long''))"

lemma Join_snoc_Nil: "ls \<noteq> [] \<Longrightarrow> Join (ls @ [[]]) sep = Join ls sep @ sep"
proof (induction ls)
  case (Cons l ls)
  then show ?case by (cases ls) (simp_all add: Join_Cons)
qed simp

text \<open>The lines of a text file whose lines have no line break of their own and fit the buffer.\<close>

lemma text_lines_Join:
  assumes "ls \<noteq> []" "\<forall>l \<in> set ls. CHR 0x0A \<notin> set l"
  shows "text_lines (Join ls [CHR 0x0A] @ [CHR 0x0A]) = ls"
proof -
  have "split_char (CHR 0x0A) (Join (ls @ [[]]) [CHR 0x0A]) = ls @ [[]]"
    using assms(2) by (intro split_char_Join) auto
  then show ?thesis by (simp add: text_lines_def Join_snoc_Nil [OF assms(1)])
qed

lemma scan_lines_Join:
  assumes "ls \<noteq> []" "\<forall>l \<in> set ls. CHR 0x0A \<notin> set l \<and> CHR 0x0D \<notin> set l" "\<forall>l \<in> set ls. scan_fits l"
  shows "scan_lines (Join ls [CHR 0x0A] @ [CHR 0x0A]) = ls" "scan_err (Join ls [CHR 0x0A] @ [CHR 0x0A]) = None"
proof -
  have raw: "text_lines (Join ls [CHR 0x0A] @ [CHR 0x0A]) = ls"
    using assms(1,2) by (intro text_lines_Join) auto
  have "map drop_cr ls = ls"
    using assms(2) by (intro map_idI) (auto simp: drop_cr_def dest: last_in_set)
  moreover have "takeWhile scan_fits ls = ls"
    using assms(3) by (simp add: takeWhile_eq_all_conv)
  ultimately show "scan_lines (Join ls [CHR 0x0A] @ [CHR 0x0A]) = ls"
    by (simp only: scan_lines_def raw)
  show "scan_err (Join ls [CHR 0x0A] @ [CHR 0x0A]) = None"
    using assms(3) by (simp add: scan_err_def raw list_all_iff)
qed

end
