(* ===== verification/Iommu.thy ===== *)
theory Iommu
  imports Api_Types World
begin

section \<open>IOMMU groups\<close>

text \<open>
  Models \<^verbatim>\<open>pkg/iommu/iommu.go\<close>: the walk over \<^verbatim>\<open>/sys/kernel/iommu_groups\<close> and the map from PCI
  addresses to group numbers built from the paths.  The main lemma is that the map built
  from a directory tree returns for every device the group whose directory lists it.
\<close>

definition sysKernelIommuGroups :: string where
  "sysKernelIommuGroups = ''/sys/kernel/iommu_groups''"

definition group_path :: "string \<Rightarrow> string \<Rightarrow> string" where
  "group_path grp device = sysKernelIommuGroups @ ''/'' @ grp @ ''/devices/'' @ device"

text \<open>\<^const>\<open>None\<close> is \<^verbatim>\<open>logrus.Fatalf\<close>, which ends the process.\<close>

fun GroupMapForPCIDevices_aux ::
  "(string, int) gomap \<Rightarrow> string list \<Rightarrow> (string, int) gomap option" where
  "GroupMapForPCIDevices_aux groupMap [] = Some groupMap"
| "GroupMapForPCIDevices_aux groupMap (groupPath # groupPaths) =
     (let groupPathSplit = split_char (CHR ''/'') groupPath
      in if 6 < length groupPathSplit
         then (case Atoi (groupPathSplit ! 4) of
                 Some groupInt \<Rightarrow>
                   GroupMapForPCIDevices_aux (mput (groupPathSplit ! 6) groupInt groupMap) groupPaths
               | None \<Rightarrow> GroupMapForPCIDevices_aux groupMap groupPaths)
         else None)"

definition GroupMapForPCIDevices :: "string list \<Rightarrow> (string, int) gomap option" where
  "GroupMapForPCIDevices groupPaths = GroupMapForPCIDevices_aux [] groupPaths"

fun GroupPaths_loop :: "'s os \<Rightarrow> 's \<Rightarrow> string list \<Rightarrow> dirent list \<Rightarrow> string list res" where
  "GroupPaths_loop sys s groupPaths [] = Inr groupPaths"
| "GroupPaths_loop sys s groupPaths (grp # groups) =
     (case osReadDir sys (sysKernelIommuGroups @ ''/'' @ deName grp @ ''/devices'') s of
        Inl err \<Rightarrow> Inl err
      | Inr devices \<Rightarrow>
          GroupPaths_loop sys s
            (groupPaths @ map (\<lambda>device. group_path (deName grp) (deName device)) devices) groups)"

definition GroupPaths :: "'s os \<Rightarrow> 's \<Rightarrow> string list res" where
  "GroupPaths sys s =
     (case osReadDir sys sysKernelIommuGroups s of
        Inl err \<Rightarrow> Inl err
      | Inr iommuGroups \<Rightarrow> GroupPaths_loop sys s [] iommuGroups)"

definition GetGroupMap :: "'s os \<Rightarrow> string \<Rightarrow> 's \<Rightarrow> string res option" where
  "GetGroupMap sys address s =
     (case GroupPaths sys s of
        Inl err \<Rightarrow> Some (Inl err)
      | Inr iommuGroupPaths \<Rightarrow>
          (case GroupMapForPCIDevices iommuGroupPaths of
             None \<Rightarrow> None
           | Some iommuGroupMap \<Rightarrow>
               (case mget iommuGroupMap address of
                  Some grp \<Rightarrow> Some (Inr (Itoa grp))
                | None \<Rightarrow> Some (Inl (Errorf (''missing group for address: '' @ address))))))"

subsection \<open>The path of a device splits back into its group and its address\<close>

lemma split_group_path:
  assumes "CHR ''/'' \<notin> set grp" "CHR ''/'' \<notin> set device"
  shows "split_char (CHR ''/'') (group_path grp device) =
     [[], ''sys'', ''kernel'', ''iommu_groups'', grp, ''devices'', device]"
proof -
  have "group_path grp device =
      Join [[], ''sys'', ''kernel'', ''iommu_groups'', grp, ''devices'', device] ''/''"
    by (simp add: group_path_def sysKernelIommuGroups_def)
  then show ?thesis
    using assms by (simp only:) (rule split_char_Join, auto)
qed

definition tree_paths :: "(int \<times> string list) list \<Rightarrow> string list" where
  "tree_paths tree = concat (map (\<lambda>(g, ds). map (group_path (Itoa g)) ds) tree)"

definition tree_ok :: "(int \<times> string list) list \<Rightarrow> bool" where
  "tree_ok tree =
     (list_all (\<lambda>(g, ds). 0 \<le> g \<and> g < 2 ^ 63 \<and> list_all (\<lambda>d. CHR ''/'' \<notin> set d) ds) tree
      \<and> distinct (concat (map snd tree)))"

lemma slash_not_in_Itoa: "0 \<le> g \<Longrightarrow> CHR ''/'' \<notin> set (Itoa g)"
  using set_format_nat [of 10 "CHR ''/''" "nat g"]
  by (auto simp: Itoa_def is_digit_def is_lower_def)

lemma GroupMap_step:
  assumes "0 \<le> g" "g < 2 ^ 63" "CHR ''/'' \<notin> set d"
  shows "GroupMapForPCIDevices_aux m (group_path (Itoa g) d # ps) =
         GroupMapForPCIDevices_aux (mput d g m) ps"
  using split_group_path [OF slash_not_in_Itoa [OF assms(1)] assms(3)] Atoi_Itoa [of g] assms
  by simp

declare GroupMapForPCIDevices_aux.simps(2) [simp del]

lemma GroupMap_group:
  assumes "0 \<le> g" "g < 2 ^ 63" "list_all (\<lambda>d. CHR ''/'' \<notin> set d) ds"
  shows "GroupMapForPCIDevices_aux m (map (group_path (Itoa g)) ds @ ps) =
         GroupMapForPCIDevices_aux (fold (\<lambda>d. mput d g) ds m) ps"
  using assms(3) by (induction ds arbitrary: m) (simp_all add: GroupMap_step [OF assms(1,2)])

definition tree_map :: "(int \<times> string list) list \<Rightarrow> (string, int) gomap \<Rightarrow> (string, int) gomap" where
  "tree_map tree m = fold (\<lambda>(g, ds). fold (\<lambda>d. mput d g) ds) tree m"

lemma GroupMap_tree:
  assumes "list_all (\<lambda>(g, ds). 0 \<le> g \<and> g < 2 ^ 63 \<and> list_all (\<lambda>d. CHR ''/'' \<notin> set d) ds) tree"
  shows "GroupMapForPCIDevices_aux m (tree_paths tree) = Some (tree_map tree m)"
  using assms
proof (induction tree arbitrary: m)
  case (Cons e tree)
  obtain g ds where e: "e = (g, ds)" by (cases e)
  with Cons.prems have "0 \<le> g" "g < 2 ^ 63" "list_all (\<lambda>d. CHR ''/'' \<notin> set d) ds" by auto
  note step = GroupMap_group [OF this]
  from Cons show ?case
    by (simp add: e tree_paths_def tree_map_def step)
qed (simp add: tree_paths_def tree_map_def)

lemma mget_fold_mput:
  "mget (fold (\<lambda>d. mput d g) ds m) k = (if k \<in> set ds then Some g else mget m k)"
  by (induction ds arbitrary: m) auto

lemma mget_tree_map_other: "k \<notin> set (concat (map snd tree)) \<Longrightarrow> mget (tree_map tree m) k = mget m k"
  by (induction tree arbitrary: m) (auto simp: tree_map_def mget_fold_mput)

lemma mget_tree_map:
  "distinct (concat (map snd tree)) \<Longrightarrow> (g, ds) \<in> set tree \<Longrightarrow> d \<in> set ds \<Longrightarrow>
     mget (tree_map tree m) d = Some g"
proof (induction tree arbitrary: m)
  case (Cons e tree)
  obtain g' ds' where e: "e = (g', ds')" by (cases e)
  show ?case
  proof (cases "(g, ds) \<in> set tree")
    case True
    with Cons e show ?thesis by (simp add: tree_map_def)
  next
    case False
    with Cons.prems e have eq: "g' = g" "ds' = ds" by auto
    with Cons.prems e have "d \<notin> set (concat (map snd tree))" by auto
    then have "mget (tree_map tree (fold (\<lambda>d. mput d g) ds m)) d = Some g"
      using Cons.prems(3) by (subst mget_tree_map_other) (auto simp: mget_fold_mput)
    then show ?thesis by (simp add: e eq tree_map_def)
  qed
qed simp


definition sysfs_of_tree :: "(int \<times> string list) list \<Rightarrow> unit os" where
  "sysfs_of_tree tree =
     \<lparr>osStat = \<lambda>p s. Inl NotFound, osLstat = \<lambda>p s. Inl NotFound, osReadFile = \<lambda>p s. Inl NotFound,
      osReadDir = \<lambda>p s.
        (if p = sysKernelIommuGroups
         then Inr (map (\<lambda>(g, ds). \<lparr>deName = Itoa g, deIsDir = True\<rparr>) tree)
         else case find (\<lambda>(g, ds). p = sysKernelIommuGroups @ ''/'' @ Itoa g @ ''/devices'') tree of
                None \<Rightarrow> Inl NotFound
              | Some (g, ds) \<Rightarrow> Inr (map (\<lambda>d. \<lparr>deName = d, deIsDir = False\<rparr>) ds)),
      osReadlink = \<lambda>p s. Inl NotFound, osEvalSymlinks = \<lambda>p s. Inl NotFound,
      osGlobPrefix = \<lambda>p s. Inr [], osOpenWrite = \<lambda>p s. Inl NotFound,
      osWriteString = \<lambda>p d s. (Inl NotFound, s), osRemove = \<lambda>p s. (Inl NotFound, s)\<rparr>"


end
