(* ===== verification/Kubevirt_Types.thy ===== *)
theory Kubevirt_Types
  imports Api_Types
begin

section \<open>The KubeVirt resources the controllers edit\<close>

text \<open>
  The parts of \<^verbatim>\<open>kubevirt.io/api/core/v1\<close> that the code reads or writes: the permitted host
  devices of the KubeVirt configuration, and the devices of virtual machines.
\<close>

record PciHostDevice =
  phPCIVendorSelector :: string
  phResourceName :: string
  phExternalResourceProvider :: bool

record USBSelector =
  usVendor :: string
  usProduct :: string

record USBHostDevice =
  uhResourceName :: string
  uhSelectors :: "USBSelector list"
  uhExternalResourceProvider :: bool

record MediatedHostDevice =
  mhMDEVNameSelector :: string
  mhResourceName :: string
  mhExternalResourceProvider :: bool

record PermittedHostDevices =
  pmPciHostDevices :: "PciHostDevice list"
  pmMediatedDevices :: "MediatedHostDevice list"
  pmUSB :: "USBHostDevice list"

text \<open>\<open>kvPermittedHostDevices\<close> is a pointer in the code; \<^const>\<open>None\<close> is nil.\<close>

record KubeVirt =
  kvMeta :: object_meta
  kvPermittedHostDevices :: "PermittedHostDevices option"

definition empty_permitted :: PermittedHostDevices where
  "empty_permitted = \<lparr>pmPciHostDevices = [], pmMediatedDevices = [], pmUSB = []\<rparr>"

definition permitted_of :: "KubeVirt \<Rightarrow> PermittedHostDevices" where
  "permitted_of kv = (case kvPermittedHostDevices kv of None \<Rightarrow> empty_permitted | Some p \<Rightarrow> p)"

record HostDevice =
  hdName :: string
  hdDeviceName :: string

record GPU =
  gpName :: string
  gpDeviceName :: string

record VirtualMachine =
  vmMeta :: object_meta
  vmHostDevices :: "HostDevice list"
  vmGPUs :: "GPU list"

abbreviation vmName :: "VirtualMachine \<Rightarrow> string" where
  "vmName vm \<equiv> mName (vmMeta vm)"

end
