(* ===== verification/Common.thy ===== *)
theory Common
  imports Kubevirt_Types World
begin

section \<open>Shared helpers\<close>

text \<open>
  Models \<^verbatim>\<open>pkg/util/common/common.go\<close>: the SR-IOV files of sysfs, the indexers over virtual
  machines and devices, the name of a vGPU resource and the escaping of JSON pointers.  The JSON
  codec of the allocation annotation is a parameter (\<open>json_codec\<close>); a property that needs the
  two directions to be inverse names that as a hypothesis.

  The repository writes the same membership loop for several element types.  The locale
  \<open>membership\<close> states what such a loop decides, and its lemmas are used through one
  interpretation per loop.
\<close>

subsection \<open>SR-IOV files\<close>

definition defaultConfiguredVFFile :: string where
  "defaultConfiguredVFFile = ''sriov_numvfs''"

definition defaultVFCheckFile :: string where
  "defaultVFCheckFile = ''sriov_vf_device''"

definition IsDeviceSRIOVCapable :: "'s os \<Rightarrow> string \<Rightarrow> 's \<Rightarrow> bool res" where
  "IsDeviceSRIOVCapable sys devicePath s =
     (let vfCheckFilePath = filepath_Join [devicePath, defaultVFCheckFile]
      in case osStat sys vfCheckFilePath s of
           Inl err \<Rightarrow> if IsNotFound err then Inr False else Inl err
         | Inr _ \<Rightarrow>
             (case osReadFile sys vfCheckFilePath s of
                Inl err \<Rightarrow> Inl err
              | Inr contents \<Rightarrow> Inr (TrimSuffix contents [CHR 0x0A] \<noteq> ''0'')))"

text \<open>The error of \<^verbatim>\<open>strconv.Atoi\<close> is returned as it is.\<close>

definition CurrentVFConfigured :: "'s os \<Rightarrow> string \<Rightarrow> 's \<Rightarrow> int res" where
  "CurrentVFConfigured sys devicePath s =
     (case osReadFile sys (filepath_Join [devicePath, defaultConfiguredVFFile]) s of
        Inl err \<Rightarrow> Inl (Errorf (''error reading sriov_numvfs for device '' @ devicePath))
      | Inr contents \<Rightarrow>
          (case Atoi (Trim contents [CHR 0x0A]) of
             None \<Rightarrow> Inl (Errorf ''strconv.Atoi: parsing sriov_numvfs'')
           | Some n \<Rightarrow> Inr n))"

definition vf_of_link :: "'s os \<Rightarrow> string \<Rightarrow> 's \<Rightarrow> string list" where
  "vf_of_link sys dir s =
     (case osLstat sys dir s of
        Inr True \<Rightarrow> (case osEvalSymlinks sys dir s of Inr linkName \<Rightarrow> [path_last linkName] | Inl _ \<Rightarrow> [])
      | _ \<Rightarrow> [])"

definition GetVFList :: "'s os \<Rightarrow> string \<Rightarrow> 's \<Rightarrow> string list res" where
  "GetVFList sys pfDir s =
     (case osLstat sys pfDir s of
        Inl err \<Rightarrow> Inl (Errorf (''error: could not get PF directory information for device: '' @ pfDir))
      | Inr _ \<Rightarrow>
          (case osGlobPrefix sys (filepath_Join [pfDir, ''virtfn'']) s of
             Inl err \<Rightarrow> Inl (Errorf ''error reading VF directories'')
           | Inr vfDirs \<Rightarrow> Inr (concat (map (\<lambda>dir. vf_of_link sys dir s) vfDirs))))"

subsection \<open>Indexers\<close>

record json_codec =
  jMarshal :: "AllocationDetails \<Rightarrow> string"
  jUnmarshal :: "string \<Rightarrow> AllocationDetails res"

definition VMBySpecHostDeviceName :: "VirtualMachine \<Rightarrow> string list" where
  "VMBySpecHostDeviceName vm = map hdName (vmHostDevices vm)"

definition generateDeviceInfo :: "(string, string list) gomap \<Rightarrow> string list" where
  "generateDeviceInfo devices = concat (map snd devices)"

definition generateHostDeviceAllocation :: "json_codec \<Rightarrow> VirtualMachine \<Rightarrow> string \<Rightarrow> string list res" where
  "generateHostDeviceAllocation J vm allocationDetails =
     (case jUnmarshal J allocationDetails of
        Inl err \<Rightarrow> Inl (Errorf (''error generating device allocation details '' @ vmName vm))
      | Inr allocation \<Rightarrow> Inr (generateDeviceInfo (adHostDevices allocation)))"

definition VMByHostDeviceName :: "json_codec \<Rightarrow> VirtualMachine \<Rightarrow> string list res" where
  "VMByHostDeviceName J vm =
     (case mget (mAnnotations (vmMeta vm)) DeviceAllocationKey of
        None \<Rightarrow> Inr []
      | Some allocationDetails \<Rightarrow> generateHostDeviceAllocation J vm allocationDetails)"

definition USBDeviceByResourceName :: "USBDevice \<Rightarrow> string list" where
  "USBDeviceByResourceName ud = [udResourceName (udStatus ud)]"

subsection \<open>vGPU resource names\<close>

text \<open>
  The last expression of the function, \<^verbatim>\<open>^a-zA-Z0-9_-.]+\<close>, lacks its opening bracket: it matches
  the literal text up to the hyphen, one more character and a run of closing brackets, all at
  the start of the name.
\<close>

definition bracket_regex_prefix :: string where
  "bracket_regex_prefix = ''a-zA-Z0-9_-''"

definition strip_bracket_regex :: "string \<Rightarrow> string" where
  "strip_bracket_regex s =
     (if HasPrefix s bracket_regex_prefix
      then case drop (length bracket_regex_prefix) s of
             c # d # rest \<Rightarrow> (if c \<noteq> CHR 0x0A \<and> d = CHR '']''
                              then dropWhile (\<lambda>x. x = CHR '']'') rest else s)
           | _ \<Rightarrow> s
      else s)"

definition GeneratevGPUDeviceName :: "string \<Rightarrow> string" where
  "GeneratevGPUDeviceName deviceName =
     (let d1 = TrimSpace deviceName;
          d2 = ReplaceAll d1 ''/'' ''_'';
          d3 = ReplaceAll d2 ''.'' ''_'';
          d4 = replace_spaces ''_'' d3;
          d5 = strip_bracket_regex d4
      in ''nvidia.com/'' @ d5)"

definition VGPUDeviceByResourceName :: "VGPUDevice \<Rightarrow> string list" where
  "VGPUDeviceByResourceName vg = [GeneratevGPUDeviceName (vgConfiguredVGPUTypeName (vgStatus vg))]"

subsection \<open>JSON pointers\<close>

text \<open>\<^verbatim>\<open>strings.NewReplacer\<close> replaces in one pass.\<close>

definition EscapeJSONPointer :: "string \<Rightarrow> string" where
  "EscapeJSONPointer s =
     concat (map (\<lambda>c. if c = CHR ''~'' then ''~0'' else if c = CHR ''/'' then ''~1'' else [c]) s)"

text \<open>The reading of a reference token by RFC 6901: \<^verbatim>\<open>~1\<close> is a slash, \<^verbatim>\<open>~0\<close> a tilde.\<close>

fun unescape_pointer :: "string \<Rightarrow> string" where
  "unescape_pointer [] = []"
| "unescape_pointer [c] = [c]"
| "unescape_pointer (c # d # s) =
     (if c = CHR ''~'' \<and> d = CHR ''1'' then CHR ''/'' # unescape_pointer s
      else if c = CHR ''~'' \<and> d = CHR ''0'' then CHR ''~'' # unescape_pointer s
      else c # unescape_pointer (d # s))"

lemma unescape_cons: "c \<noteq> CHR ''~'' \<Longrightarrow> unescape_pointer (c # s) = c # unescape_pointer s"
  by (cases s) simp_all

lemma unescape_EscapeJSONPointer: "unescape_pointer (EscapeJSONPointer s) = s"
  by (induction s) (simp_all add: EscapeJSONPointer_def unescape_cons)

lemma EscapeJSONPointer_no_slash: "CHR ''/'' \<notin> set (EscapeJSONPointer s)"
  by (induction s) (auto simp: EscapeJSONPointer_def)

subsection \<open>Membership loops\<close>

locale membership =
  fixes contains :: "'a list \<Rightarrow> 'k \<Rightarrow> bool"
    and key :: "'a \<Rightarrow> 'k"
  assumes contains_iff: "contains xs k \<longleftrightarrow> k \<in> key ` set xs"
begin

lemma contains_Nil [simp]: "\<not> contains [] k"
  by (simp add: contains_iff)

lemma contains_append [simp]: "contains (xs @ ys) k \<longleftrightarrow> contains xs k \<or> contains ys k"
  by (auto simp: contains_iff)

lemma contains_mono: "set xs \<subseteq> set ys \<Longrightarrow> contains xs k \<Longrightarrow> contains ys k"
  by (auto simp: contains_iff)

text \<open>What is created and what is deleted by a reconciliation of two lists do not overlap, and
  together with what is kept they cover both.\<close>

lemma diff_disjoint:
  "key ` set (filter (\<lambda>x. \<not> contains ys (key x)) xs) \<inter> key ` set ys = {}"
  by (auto simp: contains_iff)

lemma diff_cover:
  "key ` set (filter (\<lambda>x. \<not> contains ys (key x)) xs) \<union> key ` set ys = key ` set xs \<union> key ` set ys"
  by (auto simp: contains_iff)

end

subsection \<open>An instance of the codec\<close>

text \<open>
  A self-delimiting text for allocation details, in place of JSON, to instantiate the codec where both directions
  have to be inverse.
\<close>

definition enc_str :: "string \<Rightarrow> string" where
  "enc_str s = concat (map (\<lambda>c. [CHR ''x'', c]) s) @ ''.''"

fun dec_str :: "string \<Rightarrow> string \<times> string" where
  "dec_str (x # c # r) = (if x = CHR ''x'' then (let (s, r') = dec_str r in (c # s, r')) else ([], c # r))"
| "dec_str r = ([], drop 1 r)"

lemma dec_enc_str: "dec_str (enc_str s @ r) = (s, r)"
  by (induction s) (cases r; simp add: enc_str_def)+

definition enc_list :: "('a \<Rightarrow> string) \<Rightarrow> 'a list \<Rightarrow> string" where
  "enc_list e xs = concat (map (\<lambda>x. CHR ''+'' # e x) xs) @ ''.''"

fun dec_list :: "nat \<Rightarrow> (string \<Rightarrow> 'a \<times> string) \<Rightarrow> string \<Rightarrow> 'a list \<times> string" where
  "dec_list (Suc n) d (c # r) =
     (if c = CHR ''+'' then (let (x, r) = d r; (xs, r) = dec_list n d r in (x # xs, r)) else ([], r))"
| "dec_list n d r = ([], r)"

lemma dec_enc_list:
  assumes "\<And>x r. x \<in> set xs \<Longrightarrow> d (e x @ r) = (x, r)" and "length xs < n"
  shows "dec_list n d (enc_list e xs @ r) = (xs, r)"
  using assms
proof (induction xs arbitrary: n)
  case Nil
  then show ?case by (cases n) (simp_all add: enc_list_def)
next
  case (Cons x xs)
  then obtain m where m: "n = Suc m" "length xs < m" by (cases n) auto
  then have "dec_list m d (enc_list e xs @ r) = (xs, r)" using Cons by simp
  with m(1) Cons.prems(1) show ?case by (simp add: enc_list_def)
qed

lemma length_enc_list: "length xs < length (enc_list e xs)"
  by (induction xs) (simp_all add: enc_list_def)

definition enc_details :: "(string, string list) gomap \<Rightarrow> string" where
  "enc_details = enc_list (\<lambda>(k, vs). enc_str k @ enc_list enc_str vs)"

definition dec_details :: "string \<Rightarrow> (string, string list) gomap \<times> string" where
  "dec_details t = dec_list (length t) (\<lambda>t. let (k, t) = dec_str t; (vs, t) = dec_list (length t) dec_str t in ((k, vs), t)) t"

lemma dec_enc_details: "dec_details (enc_details m @ r) = (m, r)"
proof -
  have "dec_list (length (enc_list enc_str vs @ r)) dec_str (enc_list enc_str vs @ r) = (vs, r)" for vs r
    using length_enc_list [of vs enc_str] by (intro dec_enc_list dec_enc_str) simp
  then show ?thesis
    unfolding dec_details_def enc_details_def
    by (intro dec_enc_list) (auto simp: dec_enc_str intro: trans_less_add1 length_enc_list)
qed

definition text_codec :: json_codec where
  "text_codec = \<lparr>jMarshal = \<lambda>d. enc_details (adGPUs d) @ enc_details (adHostDevices d),
     jUnmarshal = \<lambda>t. let (g, t) = dec_details t; (h, t) = dec_details t in Inr \<lparr>adGPUs = g, adHostDevices = h\<rparr>\<rparr>"

lemma text_codec_inverse: "jUnmarshal text_codec (jMarshal text_codec d) = Inr d" "jMarshal text_codec d \<noteq> []"
proof -
  have "dec_details (enc_details (adHostDevices d)) = (adHostDevices d, [])" using dec_enc_details [of _ "[]"] by simp
  then show "jUnmarshal text_codec (jMarshal text_codec d) = Inr d" by (simp add: text_codec_def dec_enc_details)
  show "jMarshal text_codec d \<noteq> []" by (simp add: text_codec_def enc_details_def enc_list_def)
qed

end
