(* ===== verification/Pci_Device_Controller.thy ===== *)
theory Pci_Device_Controller
  imports Pci_Device Iommu Common
begin

section \<open>The PCIDevice controller\<close>

text \<open>
  Models \<^verbatim>\<open>pkg/controller/pcidevice/pcidevice_controller.go\<close>: one PCIDevice object per device
  that ghw reports, status updates, removal of objects without a device.  The map of common
  labels is created once per call and updated in place by
  \<^verbatim>\<open>QuerySRIOVNetworkDeviceOwnership\<close>; the model threads it through the loop, as the code does,
  into the labels of later devices and into the selector of the final list.
\<close>

definition pciBridgeClassID :: string where
  "pciBridgeClassID = ''0604''"

definition SRIOVFromVF :: string where
  "SRIOVFromVF = ''sriov-dev-from-vf''"

record 's pd_env =
  peClient :: "(PCIDevice, 's) client"
  peSriovCache :: "(SRIOVNetworkDevice, 's) client"
  peOs :: "'s os"
  peUnknown :: string
  pePci :: "pci_device list"
  peSkipAddresses :: "string list"

fun containsString :: "string list \<Rightarrow> string \<Rightarrow> bool" where
  "containsString [] element = False"
| "containsString (v # elements) element = (if v = element then True else containsString elements element)"

interpretation strs: membership containsString "\<lambda>x. x"
proof
  show "containsString xs k \<longleftrightarrow> k \<in> (\<lambda>x. x) ` set xs" for xs k
    by (induction xs) auto
qed

definition IdentifyPCIBridgeDevices :: "pci_device list \<Rightarrow> string list" where
  "IdentifyPCIBridgeDevices pci =
     map dvAddress (filter (\<lambda>v. dvClassID v @ dvSubclassID v = pciBridgeClassID) pci)"

definition QuerySRIOVNetworkDeviceOwnership ::
  "'s pd_env \<Rightarrow> PCIDevice \<Rightarrow> (string, string) gomap \<Rightarrow> 's \<Rightarrow> (string, string) gomap res" where
  "QuerySRIOVNetworkDeviceOwnership E device lbls s =
     (case cByIndex (peSriovCache E) SRIOVFromVF (pdName device) s of
        Inl err \<Rightarrow> Inl (Errorf ''error querying sriov network device'')
      | Inr sriovDev \<Rightarrow>
          (if length sriovDev \<noteq> 1 then Inr lbls
           else Inr (mput ParentSRIOVNetworkDevice (snName (hd sriovDev)) lbls)))"

text \<open>Get or create the object of one device; the outer \<^const>\<open>None\<close> is a panic.\<close>

definition get_or_create ::
  "'s pd_env \<Rightarrow> string \<Rightarrow> (string, string) gomap \<Rightarrow> pci_device \<Rightarrow> 's
   \<Rightarrow> ((PCIDevice \<times> (string, string) gomap) res \<times> 's) option" where
  "get_or_create E nodename commonLabels dev s =
     (let name = PCIDeviceNameForHostname (dvAddress dev) nodename
      in case cGet (peClient E) name s of
           Inr devCR \<Rightarrow> Some (Inr (devCR, commonLabels), s)
         | Inl err \<Rightarrow>
             (if \<not> IsNotFound err then Some (Inl err, s)
              else case NewPCIDeviceForHostname (peUnknown E) dev nodename of
                     None \<Rightarrow> None
                   | Some pdToCreate \<Rightarrow>
                       (case QuerySRIOVNetworkDeviceOwnership E pdToCreate commonLabels s of
                          Inl err \<Rightarrow> Some (Inl err, s)
                        | Inr commonLabels \<Rightarrow>
                            (case cCreate (peClient E)
                                    (pdToCreate\<lparr>pdMeta := (pdMeta pdToCreate)\<lparr>mLabels := commonLabels\<rparr>\<rparr>) s of
                               (Inl err, s) \<Rightarrow> Some (Inl err, s)
                             | (Inr devCR, s) \<Rightarrow> Some (Inr (devCR, commonLabels), s)))))"

fun reconcile_devices ::
  "'s pd_env \<Rightarrow> string \<Rightarrow> (string, int) gomap \<Rightarrow> pci_device list
   \<Rightarrow> (string, string) gomap \<Rightarrow> string list \<Rightarrow> 's
   \<Rightarrow> (((string, string) gomap \<times> string list) res \<times> 's) option" where
  "reconcile_devices E nodename iommuGroupMap [] commonLabels addrs s = Some (Inr (commonLabels, addrs), s)"
| "reconcile_devices E nodename iommuGroupMap (dev # devs) commonLabels addrs s =
     (if containsString (peSkipAddresses E) (dvAddress dev)
      then reconcile_devices E nodename iommuGroupMap devs commonLabels addrs s
      else case get_or_create E nodename commonLabels dev s of
             None \<Rightarrow> None
           | Some (Inl err, s) \<Rightarrow> Some (Inl err, s)
           | Some (Inr (devCR, commonLabels), s) \<Rightarrow>
               (let overrideResourceName = (case mget (mAnnotations (pdMeta devCR)) PCIDeviceOverrideResourceName of
                                              None \<Rightarrow> [] | Some v \<Rightarrow> v)
                in case StatusUpdate (peUnknown E) (pdStatus devCR) dev nodename iommuGroupMap overrideResourceName of
                     None \<Rightarrow> None
                   | Some st \<Rightarrow>
                       (case cUpdateStatus (peClient E) (devCR\<lparr>pdStatus := st\<rparr>) s of
                          (Inl err, s) \<Rightarrow> Some (Inl err, s)
                        | (Inr _, s) \<Rightarrow>
                            reconcile_devices E nodename iommuGroupMap devs commonLabels
                              (dvAddress dev # addrs) s)))"

fun delete_devices :: "'s pd_env \<Rightarrow> PCIDevice list \<Rightarrow> 's \<Rightarrow> go_error option \<times> 's" where
  "delete_devices E [] s = (None, s)"
| "delete_devices E (v # deleteList) s =
     (case cDelete (peClient E) (pdName v) s of
        (Inl err, s) \<Rightarrow> (Some err, s)
      | (Inr _, s) \<Rightarrow> delete_devices E deleteList s)"

interpretation pd_deletes: early_exit_loop "\<lambda>x. delete_devices E [x]" "delete_devices E" for E
  by unfold_locales (auto split: prod.splits sum.splits option.splits)

definition ReconcilePCIDevices :: "'s pd_env \<Rightarrow> string \<Rightarrow> 's \<Rightarrow> (go_error option \<times> 's) option" where
  "ReconcilePCIDevices E nodename s =
     (case GroupPaths (peOs E) s of
        Inl err \<Rightarrow> Some (Some err, s)
      | Inr iommuGroupPaths \<Rightarrow>
          (case GroupMapForPCIDevices iommuGroupPaths of
             None \<Rightarrow> None
           | Some iommuGroupMap \<Rightarrow>
               (case reconcile_devices E nodename iommuGroupMap (pePci E) [(NodeKeyName, nodename)] [] s of
                  None \<Rightarrow> None
                | Some (Inl err, s) \<Rightarrow> Some (Some err, s)
                | Some (Inr (commonLabels, setOfRealPCIAddrs), s) \<Rightarrow>
                    (case cList (peClient E) commonLabels s of
                       Inl err \<Rightarrow> Some (Some err, s)
                     | Inr pdList \<Rightarrow>
                         Some (delete_devices E
                           (filter (\<lambda>v. pdAddress (pdStatus v) \<notin> set setOfRealPCIAddrs) pdList) s)))))"

subsection \<open>Against a store of objects\<close>

text \<open>
  The properties of the whole reconciliation are stated for a client over a table of objects
  with the documented behaviour of the API server: \<open>table_client\<close> of the theory \<open>Api_Types\<close>,
  the world being the table itself.
\<close>

type_synonym pd_store = "(string, PCIDevice) gomap"

definition pd_table :: "(PCIDevice, pd_store) client" where
  "pd_table = table_client pdMeta (\<lambda>old new. old\<lparr>pdStatus := pdStatus new\<rparr>) (\<lambda>i x. []) (\<lambda>s. s) (\<lambda>m s. m)"

definition store_ok :: "pd_store \<Rightarrow> bool" where
  "store_ok s \<longleftrightarrow> wf_map s \<and> (\<forall>k v. mget s k = Some v \<longrightarrow> pdName v = k)"

abbreviation dev_name :: "string \<Rightarrow> pci_device \<Rightarrow> string" where
  "dev_name nodename dev \<equiv> PCIDeviceNameForHostname (dvAddress dev) nodename"

definition matches :: "string \<Rightarrow> pci_device \<Rightarrow> PCIDevice \<Rightarrow> bool" where
  "matches nodename dev v \<longleftrightarrow> pdAddress (pdStatus v) = dvAddress dev \<and> pdNodeName (pdStatus v) = nodename
     \<and> pdKernelDriverInUse (pdStatus v) = dvDriver dev \<and> pdVendorID (pdStatus v) = dvVendorID dev
     \<and> pdDeviceID (pdStatus v) = dvProductID dev"

lemma StatusUpdate_matches:
  "StatusUpdate u st dev n m ov = Some st' \<Longrightarrow> matches n dev (v\<lparr>pdStatus := st'\<rparr>)"
  by (auto simp: StatusUpdate_def matches_def split: option.splits)

lemma New_name: "NewPCIDeviceForHostname u dev n = Some pd \<Longrightarrow> pdName pd = dev_name n dev"
  by (auto simp: NewPCIDeviceForHostname_def split: option.splits)

lemma get_or_create_store:
  assumes "peClient E = pd_table" "store_ok s"
    and "get_or_create E n l dev s = Some (Inr (cr, l'), s')"
  shows "store_ok s' \<and> mget s' (dev_name n dev) = Some cr \<and> (\<forall>k. k \<noteq> dev_name n dev \<longrightarrow> mget s' k = mget s k)"
proof (cases "mget s (dev_name n dev)")
  case (Some v)
  with assms show ?thesis by (auto simp: get_or_create_def pd_table_def table_client_def)
next
  case None
  with assms(1,3) obtain pd lb where pd: "NewPCIDeviceForHostname (peUnknown E) dev n = Some pd"
    and cr: "cr = pd\<lparr>pdMeta := (pdMeta pd)\<lparr>mLabels := lb\<rparr>\<rparr>" and s': "s' = mput (dev_name n dev) cr s"
    by (auto simp: get_or_create_def pd_table_def table_client_def New_name mhas_def
        split: option.splits sum.splits)
  have "pdName cr = dev_name n dev" using New_name [OF pd] cr by simp
  with assms(2) s' show ?thesis by (auto simp: store_ok_def)
qed

lemma reconcile_devices_skip:
  "containsString (peSkipAddresses E) (dvAddress dev) \<Longrightarrow>
     reconcile_devices E n m (dev # devs) l addrs s = reconcile_devices E n m devs l addrs s"
  by simp

lemma reconcile_devices_step:
  assumes "peClient E = pd_table" "store_ok s" "\<not> containsString (peSkipAddresses E) (dvAddress dev)"
    and "reconcile_devices E n m (dev # devs) l addrs s = Some (Inr r, s')"
  obtains l1 s1 v where "reconcile_devices E n m devs l1 (dvAddress dev # addrs) s1 = Some (Inr r, s')"
    and "store_ok s1" and "mget s1 (dev_name n dev) = Some v" and "matches n dev v"
    and "\<forall>k. k \<noteq> dev_name n dev \<longrightarrow> mget s1 k = mget s k"
proof -
  from assms(3,4) obtain cr l1 s0 st where g: "get_or_create E n l dev s = Some (Inr (cr, l1), s0)"
    and st: "StatusUpdate (peUnknown E) (pdStatus cr) dev n m
       (case mget (mAnnotations (pdMeta cr)) PCIDeviceOverrideResourceName of None \<Rightarrow> [] | Some v \<Rightarrow> v) = Some st"
    by (auto simp: Let_def split: option.splits sum.splits prod.splits)
  let ?v = "cr\<lparr>pdStatus := st\<rparr>"
  note gs = get_or_create_store [OF assms(1,2) g]
  then have name: "pdName ?v = dev_name n dev" by (simp add: store_ok_def)
  then have up: "cUpdateStatus (peClient E) ?v s0 = (Inr ?v, mput (dev_name n dev) ?v s0)"
    using gs by (simp add: assms(1) pd_table_def table_client_def)
  from assms(3,4) g st up
  have rest: "reconcile_devices E n m devs l1 (dvAddress dev # addrs) (mput (dev_name n dev) ?v s0) = Some (Inr r, s')"
    by (simp add: Let_def)
  have "store_ok (mput (dev_name n dev) ?v s0)" using gs name by (auto simp: store_ok_def)
  with rest gs StatusUpdate_matches [OF st] show ?thesis by (intro that) auto
qed

definition wanted :: "'s pd_env \<Rightarrow> pci_device list \<Rightarrow> pci_device list" where
  "wanted E devs = filter (\<lambda>d. \<not> containsString (peSkipAddresses E) (dvAddress d)) devs"

lemma reconcile_devices_store:
  assumes "peClient E = pd_table"
  shows "reconcile_devices E n m devs l addrs s = Some (Inr (l', addrs'), s') \<Longrightarrow> store_ok s \<Longrightarrow>
     distinct (map (dev_name n) (wanted E devs)) \<Longrightarrow>
     store_ok s' \<and> set addrs' = dvAddress ` set (wanted E devs) \<union> set addrs
     \<and> (\<forall>d \<in> set (wanted E devs). \<exists>v. mget s' (dev_name n d) = Some v \<and> matches n d v)
     \<and> (\<forall>k. k \<notin> dev_name n ` set (wanted E devs) \<longrightarrow> mget s' k = mget s k)"
proof (induction devs arbitrary: l addrs s)
  case (Cons dev devs)
  show ?case
  proof (cases "containsString (peSkipAddresses E) (dvAddress dev)")
    case True
    with Cons show ?thesis by (simp add: wanted_def)
  next
    case False
    obtain l1 s1 v where r: "reconcile_devices E n m devs l1 (dvAddress dev # addrs) s1 = Some (Inr (l', addrs'), s')"
      and ok: "store_ok s1" and v: "mget s1 (dev_name n dev) = Some v" "matches n dev v"
      and frame: "\<forall>k. k \<noteq> dev_name n dev \<longrightarrow> mget s1 k = mget s k"
      by (rule reconcile_devices_step [OF assms Cons.prems(2) False Cons.prems(1)])
    have d: "distinct (map (dev_name n) (wanted E devs))" "dev_name n dev \<notin> dev_name n ` set (wanted E devs)"
      using Cons.prems(3) False by (auto simp: wanted_def)
    have w: "wanted E (dev # devs) = dev # wanted E devs" using False by (simp add: wanted_def)
    from Cons.IH [OF r ok d(1)] v d(2) frame show ?thesis unfolding w by auto
  qed
qed (simp add: wanted_def)

lemma delete_devices_store:
  "peClient E = pd_table \<Longrightarrow> delete_devices E vs s = (None, s') \<Longrightarrow>
     mget s' k = (if k \<in> pdName ` set vs then None else mget s k) \<and> (wf_map s \<longrightarrow> wf_map s')"
proof (induction vs arbitrary: s)
  case (Cons v vs)
  then show ?case
    by (auto simp: pd_table_def table_client_def split: if_splits)
qed simp

lemma delete_stale:
  assumes "peClient E = pd_table" "store_ok s" "cList (peClient E) sel s = Inr pdl"
    and "delete_devices E (filter (\<lambda>v. pdAddress (pdStatus v) \<notin> A) pdl) s = (None, s')"
  shows "mget s k = Some v \<Longrightarrow> pdAddress (pdStatus v) \<in> A \<Longrightarrow> mget s' k = Some v"
    and "mget s' k = Some v \<Longrightarrow> selects sel (mLabels (pdMeta v)) \<Longrightarrow> pdAddress (pdStatus v) \<in> A"
proof -
  have pdl: "pdl = filter (\<lambda>o'. selects sel (mLabels (pdMeta o'))) (map snd s)"
    using assms(3) by (simp add: assms(1) pd_table_def table_client_def)
  have wf: "wf_map s" using assms(2) by (simp add: store_ok_def)
  have "w \<in> snd ` set s \<longleftrightarrow> mget s (pdName w) = Some w" for w
  proof
    assume "w \<in> snd ` set s"
    then obtain k where "mget s k = Some w" using in_set_mget [OF wf] by force
    with assms(2) show "mget s (pdName w) = Some w" by (auto simp: store_ok_def)
  qed (force dest: mget_in_set)
  then have listed: "w \<in> set pdl \<longleftrightarrow> mget s (pdName w) = Some w \<and> selects sel (mLabels (pdMeta w))" for w
    by (auto simp: pdl)
  have del: "mget s' k = (if k \<in> pdName ` set (filter (\<lambda>v. pdAddress (pdStatus v) \<notin> A) pdl) then None else mget s k)" for k
    using delete_devices_store [OF assms(1,4)] by blast
  show "mget s' k = Some v" if v: "mget s k = Some v" "pdAddress (pdStatus v) \<in> A"
  proof -
    have "k \<notin> pdName ` set (filter (\<lambda>v. pdAddress (pdStatus v) \<notin> A) pdl)"
      using v listed by auto
    with v show ?thesis by (simp add: del)
  qed
  show "pdAddress (pdStatus v) \<in> A" if v: "mget s' k = Some v" "selects sel (mLabels (pdMeta v))"
  proof (rule ccontr)
    assume "pdAddress (pdStatus v) \<notin> A"
    moreover have "mget s k = Some v" using v(1) by (simp add: del split: if_splits)
    moreover from this have "pdName v = k" using assms(2) by (simp add: store_ok_def)
    ultimately have "k \<in> pdName ` set (filter (\<lambda>v. pdAddress (pdStatus v) \<notin> A) pdl)"
      using v(2) listed by auto
    with v(1) show False by (simp add: del)
  qed
qed

lemma get_or_create_labels:
  "get_or_create E n l dev s = Some (Inr (cr, l'), s') \<Longrightarrow> mget l' NodeKeyName = mget l NodeKeyName"
  by (auto simp: get_or_create_def QuerySRIOVNetworkDeviceOwnership_def Let_def
      split: sum.splits option.splits if_splits prod.splits)

lemma reconcile_devices_labels:
  "reconcile_devices E n m devs l addrs s = Some (Inr (l', addrs'), s') \<Longrightarrow> mget l' NodeKeyName = mget l NodeKeyName"
proof (induction devs arbitrary: l addrs s)
  case (Cons dev devs)
  then show ?case
    by (auto simp: Let_def dest!: get_or_create_labels split: if_splits option.splits sum.splits prod.splits)
qed simp


text \<open>
  A node with one SR-IOV virtual function, one ordinary device and one object whose device is
  gone.
\<close>

definition demo_hw :: "string \<Rightarrow> pci_device" where
  "demo_hw addr = \<lparr>dvAddress = addr, dvVendorID = ''8086'', dvVendorName = ''Intel Corporation'',
     dvProductID = ''1572'', dvProductName = ''X710'', dvClassID = ''02'', dvClassName = ''Network'',
     dvSubclassID = ''00'', dvSubclassName = ''Ethernet'', dvDriver = ''i40e''\<rparr>"

definition demo_stale :: "(string, string) gomap \<Rightarrow> PCIDevice" where
  "demo_stale lbls = \<lparr>pdMeta = empty_meta\<lparr>mName := ''n1-stale'', mLabels := lbls\<rparr>,
     pdStatus = empty_pd_status\<lparr>pdAddress := ''0000:09:00.0''\<rparr>\<rparr>"

definition demo_pd_env :: "bool \<Rightarrow> pd_store pd_env" where
  "demo_pd_env vf =
     \<lparr>peClient = pd_table,
      peSriovCache = \<lparr>cGet = \<lambda>n s. Inl NotFound, cList = \<lambda>sel s. Inr [],
        cByIndex = \<lambda>i k s. Inr (if vf \<and> k = ''n1-00000410''
          then [\<lparr>snMeta = empty_meta\<lparr>mName := ''n1-eno1''\<rparr>, snSpec = \<lparr>snAddress = [], snNodeName = [], snNumVFs = 1\<rparr>,
                 snStatus = \<lparr>snVFAddresses = None, snVFPCIDevices = None, snStatusText = []\<rparr>\<rparr>] else []),
        cCreate = \<lambda>o' s. (Inr o', s), cUpdate = \<lambda>o' s. (Inr o', s), cUpdateStatus = \<lambda>o' s. (Inr o', s),
        cDelete = \<lambda>n s. (Inr (), s), cEnqueue = \<lambda>n s. s, cAlias = \<lambda>n o' s. s\<rparr>,
      peOs = (\<lparr>osStat = \<lambda>p s. Inl NotFound, osLstat = \<lambda>p s. Inl NotFound, osReadFile = \<lambda>p s. Inl NotFound,
        osReadDir = \<lambda>p s. Inr [], osReadlink = \<lambda>p s. Inl NotFound, osEvalSymlinks = \<lambda>p s. Inl NotFound,
        osGlobPrefix = \<lambda>p s. Inr [], osOpenWrite = \<lambda>p s. Inl NotFound,
        osWriteString = \<lambda>p d s. (Inl NotFound, s), osRemove = \<lambda>p s. (Inl NotFound, s)\<rparr>),
      peUnknown = ''unknown'', pePci = [demo_hw ''0000:04:10'', demo_hw ''0000:05:00''], peSkipAddresses = []\<rparr>"


text \<open>
  The parent label of a newly found virtual function stays in the shared label map:
  the ordinary device created after it is labelled as a child of the same SR-IOV device, and
  the final selector asks for that label, so that the object of a device that is gone and
  carries only the node's label is not deleted.  Without the virtual function it is deleted.
\<close>

theorem ReconcilePCIDevices_label_leak:
  "(\<exists>s'. ReconcilePCIDevices (demo_pd_env True) ''n1'' [(''n1-stale'', demo_stale [(NodeKeyName, ''n1'')])] = Some (None, s')
      \<and> mhas s' ''n1-stale''
      \<and> (\<exists>v. mget s' ''n1-00000500'' = Some v \<and> mget (mLabels (pdMeta v)) ParentSRIOVNetworkDevice = Some ''n1-eno1''))
   \<and> (\<exists>s'. ReconcilePCIDevices (demo_pd_env False) ''n1'' [(''n1-stale'', demo_stale [(NodeKeyName, ''n1'')])] = Some (None, s')
      \<and> \<not> mhas s' ''n1-stale'')"
proof -
  let ?s = "[(''n1-stale'', demo_stale [(NodeKeyName, ''n1'')])]"
  let ?r = "\<lambda>vf. ReconcilePCIDevices (demo_pd_env vf) ''n1'' ?s"
  have "map_option (\<lambda>(e, s'). (e, mhas s' ''n1-stale'',
      map_option (\<lambda>v. mget (mLabels (pdMeta v)) ParentSRIOVNetworkDevice) (mget s' ''n1-00000500''))) (?r True)
      = Some (None, True, Some (Some ''n1-eno1''))" by code_simp
  moreover have "map_option (\<lambda>(e, s'). (e, mhas s' ''n1-stale'')) (?r False) = Some (None, False)" by code_simp
  ultimately show ?thesis by auto
qed

end
