(* ===== verification/Usb_Ids.thy ===== *)
theory Usb_Ids
  imports World "HOL-Library.Word"
begin

section \<open>The USB identifier database\<close>

text \<open>
  Models \<^verbatim>\<open>pkg/util/gousb/types.go\<close> and \<^verbatim>\<open>pkg/util/gousb/usbid\<close>: the parser of the \<^verbatim>\<open>usb.ids\<close>
  format and the descriptions looked up in its result.  Identifiers are words of their width.
  The parser keeps pointers to the vendor, product, class and subclass read last and changes
  them through those pointers after they are stored in the maps; the model has one store per
  kind of object, and a pointer is an index into it.  The embedded data of \<^verbatim>\<open>load_data.go\<close> is the
  argument of the initialisation.
\<close>

type_synonym ID = "16 word"
type_synonym class_id = "8 word"
type_synonym protocol_id = "8 word"

record DeviceDesc =
  ddClass :: class_id
  ddSubClass :: class_id
  ddProtocol :: protocol_id
  ddMaxControlPacketSize :: int
  ddVendor :: ID
  ddProduct :: ID

record InterfaceSetting =
  isNumber :: int
  isAlternate :: int
  isClass :: class_id
  isSubClass :: class_id
  isProtocol :: protocol_id

record Vendor =
  vnName :: string
  vnProduct :: "(ID, nat) gomap"

record Product =
  prName :: string
  prInterface :: "(ID, string) gomap"

record Class =
  clName :: string
  clSubClass :: "(class_id, nat) gomap"

record SubClass =
  scName :: string
  scProtocol :: "(protocol_id, string) gomap"

record Parser =
  paVendor :: "nat option"
  paDevice :: "nat option"
  paClass :: "nat option"
  paSubclass :: "nat option"
  paVendors :: "(ID, nat) gomap"
  paClasses :: "(class_id, nat) gomap"
  stVendor :: "Vendor list"
  stProduct :: "Product list"
  stClass :: "Class list"
  stSubClass :: "SubClass list"

definition NewParser :: Parser where
  "NewParser = \<lparr>paVendor = None, paDevice = None, paClass = None, paSubclass = None, paVendors = [], paClasses = [],
     stVendor = [], stProduct = [], stClass = [], stSubClass = []\<rparr>"

fun strip_tabs :: "nat \<Rightarrow> string \<Rightarrow> nat \<times> string" where
  "strip_tabs level [] = (level, [])"
| "strip_tabs level (c # cs) = (if c = CHR 0x09 then strip_tabs (Suc level) cs else (level, c # cs))"

text \<open>The kind, the nesting level, the identifier and the name of a line.\<close>

definition parser_split :: "string \<Rightarrow> (string \<times> nat \<times> nat \<times> string) res" where
  "parser_split s =
     (let pieces = SplitN2 s ''  ''
      in if length pieces \<noteq> 2 then Inl (Errorf (''malformatted line '' @ s))
         else let name = pieces ! 1;
                  (level, piece) = strip_tabs 0 (pieces ! 0);
                  first = SplitN2 piece '' '';
                  (kind, piece) = (if length first = 2 then (first ! 0, first ! 1) else ([], piece))
              in case ParseUint piece 16 16 of
                   None \<Rightarrow> Inl (Errorf (''malformatted id '' @ piece))
                 | Some i \<Rightarrow> Inr (kind, level, i, name))"

definition parseVendor :: "nat \<Rightarrow> nat \<Rightarrow> string \<Rightarrow> Parser \<Rightarrow> Parser res" where
  "parseVendor level raw name p =
     (let key = word_of_nat raw
      in if level = 0 then
           let v = length (stVendor p)
           in Inr (p\<lparr>paVendor := Some v, stVendor := stVendor p @ [\<lparr>vnName = name, vnProduct = []\<rparr>],
                     paVendors := mput key v (paVendors p)\<rparr>)
         else if level = 1 then
           (case paVendor p of
              None \<Rightarrow> Inl (Errorf ''product line without vendor line'')
            | Some v \<Rightarrow>
                let d = length (stProduct p); vn = stVendor p ! v
                in Inr (p\<lparr>paDevice := Some d, stProduct := stProduct p @ [\<lparr>prName = name, prInterface = []\<rparr>],
                          stVendor := (stVendor p)[v := vn\<lparr>vnProduct := mput key d (vnProduct vn)\<rparr>]\<rparr>))
         else if level = 2 then
           (case paDevice p of
              None \<Rightarrow> Inl (Errorf ''interface line without device line'')
            | Some d \<Rightarrow>
                let pr = stProduct p ! d
                in Inr (p\<lparr>stProduct := (stProduct p)[d := pr\<lparr>prInterface := mput key name (prInterface pr)\<rparr>]\<rparr>))
         else Inl (Errorf ''too many levels of nesting for vendor block''))"

definition parseClass :: "nat \<Rightarrow> nat \<Rightarrow> string \<Rightarrow> Parser \<Rightarrow> Parser res" where
  "parseClass level raw name p =
     (let key = word_of_nat raw
      in if level = 0 then
           let c = length (stClass p)
           in Inr (p\<lparr>paClass := Some c, stClass := stClass p @ [\<lparr>clName = name, clSubClass = []\<rparr>],
                     paClasses := mput key c (paClasses p)\<rparr>)
         else if level = 1 then
           (case paClass p of
              None \<Rightarrow> Inl (Errorf ''subclass line without class line'')
            | Some c \<Rightarrow>
                let sc = length (stSubClass p); cl = stClass p ! c
                in Inr (p\<lparr>paSubclass := Some sc, stSubClass := stSubClass p @ [\<lparr>scName = name, scProtocol = []\<rparr>],
                          stClass := (stClass p)[c := cl\<lparr>clSubClass := mput key sc (clSubClass cl)\<rparr>]\<rparr>))
         else if level = 2 then
           (case paSubclass p of
              None \<Rightarrow> Inl (Errorf ''protocol line without subclass line'')
            | Some sc \<Rightarrow>
                let s = stSubClass p ! sc
                in Inr (p\<lparr>stSubClass := (stSubClass p)[sc := s\<lparr>scProtocol := mput key name (scProtocol s)\<rparr>]\<rparr>))
         else Inl (Errorf ''too many levels of nesting for class''))"

text \<open>
  \<^verbatim>\<open>ReadLine\<close> of a reader with a buffer of 512 bytes: the raw lines, each with the information
  whether it ended in a newline.  A carriage return before the newline is dropped; a line that
  fills the buffer is a prefix.
\<close>

definition raw_lines :: "string \<Rightarrow> (string \<times> bool) list" where
  "raw_lines data =
     (let ls = split_char (CHR 0x0A) data
      in map (\<lambda>l. (l, True)) (butlast ls) @ (if last ls = [] then [] else [(last ls, False)]))"

fun parse_lines :: "(string \<times> bool) list \<Rightarrow> nat \<Rightarrow> string \<Rightarrow> Parser \<Rightarrow> Parser res" where
  "parse_lines [] lineno kind p = Inr p"
| "parse_lines ((raw, ended) # rest) lineno kind p =
     (if length raw \<ge> 512 then Inl (Errorf (''line '' @ Itoa (int lineno) @ '': line too long''))
      else let line = (if ended then drop_cr raw else raw)
           in if line = [] \<or> hd line = CHR ''#'' then parse_lines rest (Suc lineno) kind p
              else case parser_split line of
                     Inl err \<Rightarrow> Inl (Errorf (''line '' @ Itoa (int lineno)))
                   | Inr (k, level, i, name) \<Rightarrow>
                       (let kind = (if k \<noteq> [] then k else kind)
                        in case (if kind = [] then parseVendor level i name p
                                 else if kind = ''C'' then parseClass level i name p
                                 else Inr p) of
                             Inl err \<Rightarrow> Inl (Errorf (''line '' @ Itoa (int lineno)))
                           | Inr p \<Rightarrow> parse_lines rest (Suc lineno) kind p))"

definition ParseIDs :: "string \<Rightarrow> Parser \<Rightarrow> Parser res" where
  "ParseIDs data p = parse_lines (raw_lines data) 0 [] p"

text \<open>The global tables: empty when the data does not parse.\<close>

definition usbid_init :: "string \<Rightarrow> Parser" where
  "usbid_init data = (case ParseIDs data NewParser of Inl err \<Rightarrow> NewParser | Inr p \<Rightarrow> p)"

subsection \<open>Descriptions\<close>

text \<open>The values the describing functions accept; any other value is its type's name.\<close>

datatype usb_val = DevDesc DeviceDesc | IfSetting InterfaceSetting | OtherVal string

definition hex4 :: "ID \<Rightarrow> string" where
  "hex4 w = pad_left 4 (format_nat 16 (unat w))"

fun Describe :: "Parser \<Rightarrow> usb_val \<Rightarrow> string" where
  "Describe t (DevDesc val) =
     (case mget (paVendors t) (ddVendor val) of
        Some v \<Rightarrow>
          (case mget (vnProduct (stVendor t ! v)) (ddProduct val) of
             Some d \<Rightarrow> prName (stProduct t ! d) @ '' ('' @ vnName (stVendor t ! v) @ '')''
           | None \<Rightarrow> ''Unknown ('' @ vnName (stVendor t ! v) @ '')'')
      | None \<Rightarrow> ''Unknown '' @ hex4 (ddVendor val) @ '':'' @ hex4 (ddProduct val))"
| "Describe t (IfSetting val) = ''Unknown (gousb.InterfaceSetting)''"
| "Describe t (OtherVal ty) = ''Unknown ('' @ ty @ '')''"

definition DescribeWithVendorAndProduct :: "Parser \<Rightarrow> ID \<Rightarrow> ID \<Rightarrow> string" where
  "DescribeWithVendorAndProduct t vendor product =
     Describe t (DevDesc \<lparr>ddClass = 0, ddSubClass = 0, ddProtocol = 0, ddMaxControlPacketSize = 0,
                          ddVendor = vendor, ddProduct = product\<rparr>)"

definition classify_codes :: "Parser \<Rightarrow> class_id \<Rightarrow> class_id \<Rightarrow> protocol_id \<Rightarrow> string" where
  "classify_codes t class sub proto =
     (case mget (paClasses t) class of
        Some c \<Rightarrow>
          (case mget (clSubClass (stClass t ! c)) sub of
             Some s \<Rightarrow>
               (case mget (scProtocol (stSubClass t ! s)) proto of
                  Some p \<Rightarrow> clName (stClass t ! c) @ '' ('' @ scName (stSubClass t ! s) @ '') '' @ p
                | None \<Rightarrow> clName (stClass t ! c) @ '' ('' @ scName (stSubClass t ! s) @ '')'')
           | None \<Rightarrow> clName (stClass t ! c))
      | None \<Rightarrow> ''Unknown '' @ Itoa (uint class) @ ''.'' @ Itoa (uint sub) @ ''.'' @ Itoa (uint proto))"

fun Classify :: "Parser \<Rightarrow> usb_val \<Rightarrow> string" where
  "Classify t (DevDesc val) = classify_codes t (ddClass val) (ddSubClass val) (ddProtocol val)"
| "Classify t (IfSetting val) = classify_codes t (isClass val) (isSubClass val) (isProtocol val)"
| "Classify t (OtherVal ty) = ''Unknown ('' @ ty @ '')''"


subsection \<open>Printing a database\<close>

text \<open>A database of vendors with their products and the interfaces of these, and the text format
  of one: an identifier in four hexadecimal digits, two spaces and the name, nested by tabs.\<close>

type_synonym usb_interface = "ID \<times> string"
type_synonym usb_product = "ID \<times> string \<times> usb_interface list"
type_synonym usb_vendor = "ID \<times> string \<times> usb_product list"
type_synonym id_line = "nat \<times> ID \<times> string"

definition print_line :: "id_line \<Rightarrow> string" where
  "print_line l = (case l of (level, i, name) \<Rightarrow> replicate level (CHR 0x09) @ hex4 i @ ''  '' @ name)"

definition product_lines :: "usb_product \<Rightarrow> id_line list" where
  "product_lines pr = (case pr of (i, name, ifs) \<Rightarrow> (1, i, name) # map (Pair 2) ifs)"

definition vendor_lines :: "usb_vendor \<Rightarrow> id_line list" where
  "vendor_lines v = (case v of (i, name, ps) \<Rightarrow> (0, i, name) # concat (map product_lines ps))"

definition db_lines :: "usb_vendor list \<Rightarrow> id_line list" where
  "db_lines db = concat (map vendor_lines db)"

definition print_db :: "usb_vendor list \<Rightarrow> string" where
  "print_db db = concat (map (\<lambda>l. print_line l @ [CHR 0x0A]) (db_lines db))"

definition name_ok :: "string \<Rightarrow> bool" where
  "name_ok n = (CHR 0x0A \<notin> set n \<and> (n = [] \<or> last n \<noteq> CHR 0x0D) \<and> length n \<le> 500)"

definition db_ok :: "usb_vendor list \<Rightarrow> bool" where
  "db_ok db = list_all (\<lambda>(level, i, n). name_ok n) (db_lines db)"

subsection \<open>Reading one line\<close>

lemma hex4_digits: "c \<in> set (hex4 w) \<Longrightarrow> is_digit c \<or> is_lower c"
  unfolding hex4_def by (rule set_pad_left_digits [of 16]) simp_all

lemma hex4_not_in [simp]: "CHR '' '' \<notin> set (hex4 w)" "CHR 0x09 \<notin> set (hex4 w)" "CHR 0x0A \<notin> set (hex4 w)" "CHR ''#'' \<notin> set (hex4 w)"
  using hex4_digits by (fastforce simp: is_digit_def is_lower_def)+

lemma hex4_nonempty [simp]: "hex4 w \<noteq> []"
  by (simp add: hex4_def)

lemma length_format_nat_16: "n < 16 ^ k \<Longrightarrow> 0 < k \<Longrightarrow> length (format_nat 16 n) \<le> k"
proof (induction k arbitrary: n)
  case (Suc k)
  show ?case
  proof (cases "n < 16")
    case True
    then show ?thesis by (subst format_nat.simps) simp
  next
    case False
    with Suc.prems have "0 < k" by (cases k) simp_all
    moreover have "n div 16 < 16 ^ k" using Suc.prems by (simp add: less_mult_imp_div_less mult.commute)
    ultimately show ?thesis using False Suc.IH [of "n div 16"] by (subst format_nat.simps) simp
  qed
qed simp

lemma length_hex4: "length (hex4 w) = 4"
proof -
  have "unat w < 16 ^ 4" using unsigned_less [of w, where ?'a = nat] by simp
  then have "length (format_nat 16 (unat w)) \<le> 4" by (rule length_format_nat_16) simp
  then show ?thesis by (simp add: hex4_def pad_left_def)
qed

lemma ParseUint_hex4: "ParseUint (hex4 w) 16 16 = Some (unat w)"
proof -
  have "parse_digits 16 0 (hex4 w) = Some (unat w)"
    by (simp add: hex4_def parse_digits_pad_left parse_format_nat)
  moreover have "int (unat w) < 2 ^ 16" using uint_lt2p [of w] by simp
  ultimately show ?thesis by (simp add: ParseUint_def)
qed

lemma split_first_hit:
  "CHR '' '' \<notin> set w \<Longrightarrow> split_first ''  '' acc (w @ ''  '' @ n) = [rev acc @ w, n]"
  by (induction w arbitrary: acc) (auto simp: HasPrefix_def)

lemma split_first_miss:
  "CHR '' '' \<notin> set w \<Longrightarrow> split_first '' '' acc w = [rev acc @ w]"
  by (induction w arbitrary: acc) (auto simp: HasPrefix_def)

lemma strip_tabs_hex4: "strip_tabs k (hex4 i) = (k, hex4 i)"
  by (cases "hex4 i") (use hex4_not_in(2) [of i] in auto)

lemma strip_tabs_replicate: "strip_tabs k (replicate m (CHR 0x09) @ hex4 i) = (k + m, hex4 i)"
  by (induction m arbitrary: k) (simp_all add: strip_tabs_hex4)

lemma parser_split_print: "parser_split (print_line (level, i, name)) = Inr ([], level, unat i, name)"
proof -
  have "SplitN2 (print_line (level, i, name)) ''  '' = [replicate level (CHR 0x09) @ hex4 i, name]"
    using split_first_hit [of "replicate level (CHR 0x09) @ hex4 i" "[]" name] by (simp add: SplitN2_def print_line_def)
  moreover have "SplitN2 (hex4 i) '' '' = [hex4 i]"
    by (simp add: SplitN2_def split_first_miss)
  ultimately show ?thesis
    by (simp add: parser_split_def strip_tabs_replicate ParseUint_hex4)
qed

lemma print_line_shape:
  assumes "name_ok name" "level \<le> 2"
  shows "print_line (level, i, name) \<noteq> []" "hd (print_line (level, i, name)) \<noteq> CHR ''#''"
    "drop_cr (print_line (level, i, name)) = print_line (level, i, name)"
    "length (print_line (level, i, name)) < 512" "CHR 0x0A \<notin> set (print_line (level, i, name))"
proof -
  have "hd (hex4 i) \<in> set (hex4 i)" by simp
  then have "hd (hex4 i) \<noteq> CHR ''#''" using hex4_not_in(4) by metis
  then show "hd (print_line (level, i, name)) \<noteq> CHR ''#''"
    by (cases level) (simp_all add: print_line_def hd_append)
qed (use assms in \<open>auto simp: print_line_def drop_cr_def name_ok_def length_hex4\<close>)

subsection \<open>The parser as a fold\<close>

text \<open>The effect of a printed database on the parser's stores, one product and one vendor at a
  time, without lines and errors.\<close>

definition add_interfaces :: "usb_interface list \<Rightarrow> (ID, string) gomap \<Rightarrow> (ID, string) gomap" where
  "add_interfaces ifs m = fold (\<lambda>(i, n). mput i n) ifs m"

definition add_product :: "nat \<Rightarrow> usb_product \<Rightarrow> Parser \<Rightarrow> Parser" where
  "add_product v pr p = (case pr of (i, n, ifs) \<Rightarrow>
     p\<lparr>paDevice := Some (length (stProduct p)),
       stProduct := stProduct p @ [\<lparr>prName = n, prInterface = add_interfaces ifs []\<rparr>],
       stVendor := (stVendor p)[v := (stVendor p ! v)\<lparr>vnProduct := mput i (length (stProduct p)) (vnProduct (stVendor p ! v))\<rparr>]\<rparr>)"

definition add_vendor :: "usb_vendor \<Rightarrow> Parser \<Rightarrow> Parser" where
  "add_vendor vn p = (case vn of (i, n, ps) \<Rightarrow>
     fold (add_product (length (stVendor p))) ps
       (p\<lparr>paVendor := Some (length (stVendor p)), stVendor := stVendor p @ [\<lparr>vnName = n, vnProduct = []\<rparr>],
          paVendors := mput i (length (stVendor p)) (paVendors p)\<rparr>))"

fun run_lines :: "id_line list \<Rightarrow> Parser \<Rightarrow> Parser res" where
  "run_lines [] p = Inr p"
| "run_lines ((level, i, n) # ls) p =
     (case parseVendor level (unat i) n p of Inl e \<Rightarrow> Inl e | Inr p \<Rightarrow> run_lines ls p)"

lemma run_lines_append:
  "run_lines (xs @ ys) p = (case run_lines xs p of Inl e \<Rightarrow> Inl e | Inr p \<Rightarrow> run_lines ys p)"
  by (induction xs arbitrary: p) (auto split: sum.splits)

lemma parse_lines_run:
  "list_all (\<lambda>(level, i, n). name_ok n \<and> level \<le> 2) ls \<Longrightarrow> run_lines ls p = Inr p' \<Longrightarrow>
     parse_lines (map (\<lambda>l. (print_line l, True)) ls) lineno [] p = Inr p'"
proof (induction ls arbitrary: p lineno)
  case (Cons l ls)
  obtain level i n where l: "l = (level, i, n)" by (cases l)
  with Cons.prems have ok: "name_ok n" "level \<le> 2" by simp_all
  from Cons.prems l obtain q where "parseVendor level (unat i) n p = Inr q" "run_lines ls q = Inr p'"
    by (auto split: sum.splits)
  with Cons l show ?case
    using print_line_shape [OF ok, of i] parser_split_print [of level i n] by (simp add: not_le [symmetric])
qed simp

lemma run_interfaces:
  "paDevice p = Some d \<Longrightarrow> d < length (stProduct p) \<Longrightarrow>
     run_lines (map (Pair 2) ifs) p =
     Inr (p\<lparr>stProduct := (stProduct p)[d := (stProduct p ! d)\<lparr>prInterface := add_interfaces ifs (prInterface (stProduct p ! d))\<rparr>]\<rparr>)"
proof (induction ifs arbitrary: p)
  case Nil
  then show ?case by (simp add: add_interfaces_def)
next
  case (Cons x ifs)
  then show ?case by (cases x) (simp add: parseVendor_def add_interfaces_def Let_def)
qed

lemma run_product:
  "paVendor p = Some v \<Longrightarrow> v < length (stVendor p) \<Longrightarrow> run_lines (product_lines pr) p = Inr (add_product v pr p)"
  by (cases pr) (simp add: product_lines_def parseVendor_def Let_def run_interfaces add_product_def nth_append list_update_append)

lemma add_product_frame [simp]:
  "paVendor (add_product v pr p) = paVendor p" "length (stVendor (add_product v pr p)) = length (stVendor p)"
  "paVendors (add_product v pr p) = paVendors p" "length (stProduct (add_product v pr p)) = Suc (length (stProduct p))"
  by (simp_all add: add_product_def split: prod.splits)

lemma run_products:
  "paVendor p = Some v \<Longrightarrow> v < length (stVendor p) \<Longrightarrow>
     run_lines (concat (map product_lines ps)) p = Inr (fold (add_product v) ps p)"
  by (induction ps arbitrary: p) (simp_all add: run_lines_append run_product)

lemma run_vendor: "run_lines (vendor_lines v) p = Inr (add_vendor v p)"
  by (cases v) (simp add: vendor_lines_def parseVendor_def Let_def run_products add_vendor_def)

lemma run_db: "run_lines (db_lines db) p = Inr (fold add_vendor db p)"
  by (induction db arbitrary: p) (simp_all add: db_lines_def run_lines_append run_vendor)

subsection \<open>What the tables hold\<close>

definition product_view :: "Parser \<Rightarrow> nat \<Rightarrow> ID \<Rightarrow> (string \<times> (ID \<Rightarrow> string option)) option" where
  "product_view p v k =
     map_option (\<lambda>d. (prName (stProduct p ! d), mget (prInterface (stProduct p ! d)))) (mget (vnProduct (stVendor p ! v)) k)"

definition vendor_view :: "Parser \<Rightarrow> ID \<Rightarrow> (string \<times> (ID \<Rightarrow> (string \<times> (ID \<Rightarrow> string option)) option)) option" where
  "vendor_view p k = map_option (\<lambda>v. (vnName (stVendor p ! v), product_view p v)) (mget (paVendors p) k)"

definition pointers_ok :: "Parser \<Rightarrow> bool" where
  "pointers_ok p \<longleftrightarrow> (\<forall>k v. mget (paVendors p) k = Some v \<longrightarrow> v < length (stVendor p))
     \<and> (\<forall>v k d. v < length (stVendor p) \<longrightarrow> mget (vnProduct (stVendor p ! v)) k = Some d \<longrightarrow> d < length (stProduct p))"

lemma add_product_view:
  assumes "pointers_ok p" "v < length (stVendor p)" "v' < length (stVendor p)"
  shows "pointers_ok (add_product v (i, n, ifs) p)
    \<and> vnName (stVendor (add_product v (i, n, ifs) p) ! v') = vnName (stVendor p ! v')
    \<and> product_view (add_product v (i, n, ifs) p) v' =
        (if v' = v then (product_view p v)(i := Some (n, mget (add_interfaces ifs []))) else product_view p v')"
proof (intro conjI)
  have d: "d < length (stProduct p)" if "mget (vnProduct (stVendor p ! u)) k = Some d" "u < length (stVendor p)" for u k d
    using assms(1) that by (simp add: pointers_ok_def)
  show "pointers_ok (add_product v (i, n, ifs) p)"
    using assms(1,2) d by (fastforce simp: pointers_ok_def add_product_def nth_list_update intro: less_SucI split: if_splits)
  show "vnName (stVendor (add_product v (i, n, ifs) p) ! v') = vnName (stVendor p ! v')"
    using assms(2) by (simp add: add_product_def nth_list_update)
  show "product_view (add_product v (i, n, ifs) p) v' =
      (if v' = v then (product_view p v)(i := Some (n, mget (add_interfaces ifs []))) else product_view p v')"
    using assms(2,3) d by (auto simp: product_view_def add_product_def nth_list_update nth_append fun_eq_iff split: option.splits)
      (auto intro!: arg_cong2 [where f = map_option] simp: map_option_case split: option.splits)
qed

lemma fold_add_product_view:
  assumes "pointers_ok p" "v < length (stVendor p)" "v' < length (stVendor p)"
  shows "pointers_ok (fold (add_product v) ps p) \<and> length (stVendor (fold (add_product v) ps p)) = length (stVendor p)
    \<and> paVendors (fold (add_product v) ps p) = paVendors p
    \<and> vnName (stVendor (fold (add_product v) ps p) ! v') = vnName (stVendor p ! v')
    \<and> product_view (fold (add_product v) ps p) v' =
        (if v' = v then product_view p v ++ (\<lambda>k. map_option (\<lambda>(n, ifs). (n, mget (add_interfaces ifs []))) (map_of (rev ps) k))
         else product_view p v')"
proof (induction ps rule: rev_induct)
  case Nil
  then show ?case using assms by (simp add: map_add_def)
next
  case (snoc pr ps)
  obtain i n ifs where pr: "pr = (i, n, ifs)" by (cases pr)
  let ?q = "fold (add_product v) ps p"
  have "pointers_ok ?q" "v < length (stVendor ?q)" "v' < length (stVendor ?q)" using snoc assms by simp_all
  from add_product_view [OF this, of i n ifs] snoc show ?case
    by (auto simp: pr map_add_def fun_eq_iff split: option.splits)
qed

lemma add_vendor_view:
  assumes "pointers_ok p"
  shows "pointers_ok (add_vendor (i, n, ps) p) \<and> vendor_view (add_vendor (i, n, ps) p) = (vendor_view p)
    (i := Some (n, \<lambda>k. map_option (\<lambda>(n, ifs). (n, mget (add_interfaces ifs []))) (map_of (rev ps) k)))"
proof (intro conjI ext)
  let ?v = "length (stVendor p)"
  let ?q = "p\<lparr>paVendor := Some ?v, stVendor := stVendor p @ [\<lparr>vnName = n, vnProduct = []\<rparr>], paVendors := mput i ?v (paVendors p)\<rparr>"
  have q: "pointers_ok ?q" using assms by (fastforce simp: pointers_ok_def nth_append less_Suc_eq split: if_splits)
  note F = fold_add_product_view [OF q, of ?v _ ps]
  show "pointers_ok (add_vendor (i, n, ps) p)" using F [of ?v] by (simp add: add_vendor_def)
  fix k
  have old: "product_view ?q v = product_view p v" "vnName (stVendor ?q ! v) = vnName (stVendor p ! v)" if "v < ?v" for v
    using that by (simp_all add: product_view_def nth_append fun_eq_iff)
  have new: "product_view ?q ?v = Map.empty" by (simp add: product_view_def fun_eq_iff)
  have lt: "v < ?v" if "mget (paVendors p) k = Some v" for v
    using assms that by (simp add: pointers_ok_def)
  show "vendor_view (add_vendor (i, n, ps) p) k = ((vendor_view p)
      (i := Some (n, \<lambda>k. map_option (\<lambda>(n, ifs). (n, mget (add_interfaces ifs []))) (map_of (rev ps) k)))) k"
  proof (cases "k = i")
    case True
    with F [of ?v] new show ?thesis by (simp add: vendor_view_def add_vendor_def nth_append)
  next
    case False
    show ?thesis
    proof (cases "mget (paVendors p) k")
      case None
      with False F [of ?v] show ?thesis by (simp add: vendor_view_def add_vendor_def)
    next
      case (Some v)
      with lt have v: "v < ?v" by simp
      with False Some F [of v] old [OF v] show ?thesis by (simp add: vendor_view_def add_vendor_def)
    qed
  qed
qed

lemma fold_add_vendor_view:
  "pointers_ok (fold add_vendor db NewParser) \<and> vendor_view (fold add_vendor db NewParser) =
     (\<lambda>k. map_option (\<lambda>(n, ps). (n, \<lambda>k. map_option (\<lambda>(n, ifs). (n, mget (add_interfaces ifs []))) (map_of (rev ps) k))) (map_of (rev db) k))"
proof (induction db rule: rev_induct)
  case Nil
  then show ?case by (simp add: NewParser_def pointers_ok_def vendor_view_def fun_eq_iff)
next
  case (snoc v db)
  obtain i n ps where v: "v = (i, n, ps)" by (cases v)
  from snoc add_vendor_view [of "fold add_vendor db NewParser" i n ps] show ?case
    by (auto simp: v fun_eq_iff)
qed

lemma Describe_view:
  "DescribeWithVendorAndProduct t v d =
     (case vendor_view t v of
        None \<Rightarrow> ''Unknown '' @ hex4 v @ '':'' @ hex4 d
      | Some (vn, prods) \<Rightarrow> (case prods d of None \<Rightarrow> ''Unknown ('' @ vn @ '')'' | Some (pn, ifs) \<Rightarrow> pn @ '' ('' @ vn @ '')''))"
  by (simp add: DescribeWithVendorAndProduct_def vendor_view_def product_view_def split: option.splits)

lemma raw_lines_terminated:
  "\<forall>l \<in> set ls. CHR 0x0A \<notin> set l \<Longrightarrow> raw_lines (concat (map (\<lambda>l. l @ [CHR 0x0A]) ls)) = map (\<lambda>l. (l, True)) ls"
proof -
  assume "\<forall>l \<in> set ls. CHR 0x0A \<notin> set l"
  then have "split_char (CHR 0x0A) (concat (map (\<lambda>l. l @ [CHR 0x0A]) ls)) = ls @ [[]]"
    by (induction ls) (simp_all add: split_char_append_sep)
  then show ?thesis by (simp add: raw_lines_def)
qed

lemma db_lines_level: "(level, i, n) \<in> set (db_lines db) \<Longrightarrow> level \<le> 2"
  by (auto simp: db_lines_def vendor_lines_def product_lines_def)

text \<open>
  Property C18.  Reading back a database printed in the format of \<^verbatim>\<open>usb.ids\<close> succeeds, and the
  description of any pair of identifiers is that of the database: product and vendor name when
  both are listed, the vendor's name when only the vendor is, the two numbers otherwise; of
  entries with equal identifiers the last one counts.  The names may contain any characters but
  line breaks and are at most 500 bytes long, which the line buffer of the parser requires.
\<close>

theorem ParseIDs_print_db:
  assumes "db_ok db"
  shows "\<exists>t. ParseIDs (print_db db) NewParser = Inr t \<and> usbid_init (print_db db) = t
    \<and> (\<forall>v d. DescribeWithVendorAndProduct t v d =
         (case map_of (rev db) v of
            None \<Rightarrow> ''Unknown '' @ hex4 v @ '':'' @ hex4 d
          | Some (vn, ps) \<Rightarrow> (case map_of (rev ps) d of
                                None \<Rightarrow> ''Unknown ('' @ vn @ '')'' | Some (pn, ifs) \<Rightarrow> pn @ '' ('' @ vn @ '')'')))"
proof -
  let ?t = "fold add_vendor db NewParser"
  have ok: "list_all (\<lambda>(level, i, n). name_ok n \<and> level \<le> 2) (db_lines db)"
    using assms db_lines_level by (fastforce simp: db_ok_def list_all_iff)
  then have "\<forall>l \<in> set (map print_line (db_lines db)). CHR 0x0A \<notin> set l"
    using print_line_shape(5) by (fastforce simp: list_all_iff)
  then have "raw_lines (print_db db) = map (\<lambda>l. (print_line l, True)) (db_lines db)"
    using raw_lines_terminated [of "map print_line (db_lines db)"] by (simp add: print_db_def comp_def)
  with parse_lines_run [OF ok run_db] have p: "ParseIDs (print_db db) NewParser = Inr ?t"
    by (simp add: ParseIDs_def)
  moreover have "DescribeWithVendorAndProduct ?t v d =
         (case map_of (rev db) v of
            None \<Rightarrow> ''Unknown '' @ hex4 v @ '':'' @ hex4 d
          | Some (vn, ps) \<Rightarrow> (case map_of (rev ps) d of
                                None \<Rightarrow> ''Unknown ('' @ vn @ '')'' | Some (pn, ifs) \<Rightarrow> pn @ '' ('' @ vn @ '')''))" for v d
    unfolding Describe_view using fold_add_vendor_view [of db] by (auto split: option.splits)
  ultimately show ?thesis by (simp add: usbid_init_def)
qed

definition demo_db :: "usb_vendor list" where
  "demo_db = [(0x0951, ''Kingston Technology'', [(0x1666, ''DataTraveler'', [(1, ''storage'')])]), (0x1d6b, ''Linux Foundation'', [])]"

theorem ParseIDs_print_db_witness:
  "db_ok demo_db \<and> DescribeWithVendorAndProduct (usbid_init (print_db demo_db)) 0x0951 0x1666 = ''DataTraveler (Kingston Technology)''
   \<and> DescribeWithVendorAndProduct (usbid_init (print_db demo_db)) 0x1d6b 2 = ''Unknown (Linux Foundation)''"
proof -
  have ok: "db_ok demo_db" by code_simp
  have "map_of (rev demo_db) 0x0951 = Some (''Kingston Technology'', [(0x1666, ''DataTraveler'', [(1, ''storage'')])])"
    "map_of (rev demo_db) 0x1d6b = Some (''Linux Foundation'', [])" by (simp_all add: demo_db_def)
  with ok ParseIDs_print_db [OF ok] show ?thesis by auto
qed

text \<open>The pointer to the last product survives a new vendor line: an interface line right below
  it changes the product of the vendor before.\<close>

lemma interface_line_wrong_vendor:
  "run_lines [(0, 1, ''A''), (1, 1, ''P''), (0, 2, ''B''), (2, 7, ''I'')] NewParser = Inr t
   \<Longrightarrow> map_option (\<lambda>(n, prods). map_option (\<lambda>(pn, ifs). ifs 7) (prods 1)) (vendor_view t 1) = Some (Some (Some ''I''))"
  by (auto simp: parseVendor_def Let_def NewParser_def vendor_view_def product_view_def nth_append)

end
