(* ===== verification/Device_Plugin.thy ===== *)
theory Device_Plugin
  imports World Api_Types "HOL-Library.Multiset"
begin

section \<open>What the device plugins share\<close>

text \<open>
  The kubelet's device-plugin API as the three plugins use it (\<^verbatim>\<open>pluginapi.Device\<close>,
  \<^verbatim>\<open>DeviceSpec\<close>, \<^verbatim>\<open>ContainerAllocateResponse\<close>), Go channels as far as the plugins close and
  test them, and the helpers of \<^verbatim>\<open>pkg/deviceplugins/common.go\<close>.

  The kubelet, the gRPC library and fsnotify are outside the repository: records of
  functions over the world.  Constants of the KubeVirt packages are the fields of
  \<open>plugin_consts\<close>.

  The locale \<open>device_plugin\<close> is the contract of a plugin towards the controllers and the
  kubelet: how adding a device and receiving a health message change the announced list.
  Its lemmas (identifiers stay distinct, adding is idempotent, a device whose pending
  messages all say Healthy ends healthy whatever the order of delivery) are proved once
  and used for the PCI and the vGPU plugin.
\<close>

subsection \<open>Channels\<close>

text \<open>A channel that is only closed and tested.  Closing a nil or a closed channel panics.\<close>

datatype chan_state = ChanNil | ChanOpen | ChanClosed

definition IsChanClosed :: "chan_state \<Rightarrow> bool" where
  "IsChanClosed ch = (ch = ChanClosed)"

definition close_chan :: "chan_state \<Rightarrow> chan_state option" where
  "close_chan ch = (if ch = ChanOpen then Some ChanClosed else None)"

subsection \<open>The device-plugin API\<close>

datatype health = Healthy | Unhealthy

record Device =
  dvID :: string
  dvHealth :: health
  dvTopology :: "int list option" \<comment> \<open>the NUMA nodes\<close>

record DeviceSpec =
  dsContainerPath :: string
  dsHostPath :: string
  dsPermissions :: string

record ContainerAllocateResponse =
  carEnvs :: "(string, string) gomap"
  carDevices :: "DeviceSpec list"

record deviceHealth =
  dhDevID :: string
  dhHealth :: health

record DeviceStarter =
  stStarted :: bool
  stStopChan :: nat \<comment> \<open>the identity of the channel\<close>
  stBackoff :: "nat list"

definition defaultBackoffTime :: "nat list" where
  "defaultBackoffTime = [1, 2, 5, 10]"

record plugin_consts =
  pkDevicePluginPath :: string
  pkHostRootMount :: string
  pkResourceNameToEnvVar :: "string \<Rightarrow> string \<Rightarrow> string"
  pkUSBResourcePrefix :: string

text \<open>The kubelet and the gRPC server: \<^verbatim>\<open>net.Listen\<close>, \<^verbatim>\<open>waitForGRPCServer\<close>, the connection to the
  kubelet's socket, the registration call and the result with which \<^verbatim>\<open>Serve\<close> ends.\<close>

record 's kubelet =
  kListen :: "string \<Rightarrow> 's \<Rightarrow> unit res \<times> 's"
  kWaitForServer :: "string \<Rightarrow> 's \<Rightarrow> unit res \<times> 's"
  kConnect :: "'s \<Rightarrow> unit res"
  kRegister :: "string \<Rightarrow> string \<Rightarrow> 's \<Rightarrow> unit res \<times> 's" \<comment> \<open>endpoint, resource name\<close>
  kServe :: "'s \<Rightarrow> go_error option"

datatype fs_op = FsCreate | FsRemove | FsRename | FsOther

record fs_event =
  feName :: string
  feOp :: fs_op

record 's watcher =
  wNew :: "'s \<Rightarrow> unit res"
  wAdd :: "string \<Rightarrow> 's \<Rightarrow> unit res"

datatype hc_event = HcStop | HcError | HcEvent fs_event

subsection \<open>common.go\<close>

definition vfioDevicePath :: string where
  "vfioDevicePath = ''/dev/vfio/''"

definition vfioMount :: string where
  "vfioMount = ''/dev/vfio/vfio''"

definition pciBasePath :: string where
  "pciBasePath = ''/sys/bus/pci/devices''"

definition filepath_Dir :: "string \<Rightarrow> string" where
  "filepath_Dir p = filepath_Clean (Join (butlast (split_char (CHR ''/'') p)) ''/'')"

definition GetDeviceIOMMUGroup :: "'s os \<Rightarrow> string \<Rightarrow> string \<Rightarrow> 's \<Rightarrow> string res" where
  "GetDeviceIOMMUGroup sys basepath pciAddress s =
     (let iommuLink = filepath_Join [basepath, pciAddress, ''iommu_group'']
      in case osReadlink sys iommuLink s of
           Inl err \<Rightarrow> Inl err
         | Inr iommuPath \<Rightarrow> Inr (path_last iommuPath))"

definition GetDeviceDriver :: "'s os \<Rightarrow> string \<Rightarrow> string \<Rightarrow> 's \<Rightarrow> string res" where
  "GetDeviceDriver sys basepath pciAddress s =
     (let driverLink = filepath_Join [basepath, pciAddress, ''driver'']
      in case osReadlink sys driverLink s of
           Inl err \<Rightarrow> Inl err
         | Inr driverPath \<Rightarrow> Inr (path_last driverPath))"

text \<open>On a number that does not parse, \<^verbatim>\<open>strconv.Atoi\<close> has already overwritten the named
  result with 0 (syntax errors; range errors leave the clamped value).\<close>

definition GetDeviceNumaNode :: "'s os \<Rightarrow> string \<Rightarrow> string \<Rightarrow> 's \<Rightarrow> int" where
  "GetDeviceNumaNode sys basepath pciAddress s =
     (let numaNodePath = filepath_Join [basepath, pciAddress, ''numa_node'']
      in case osReadFile sys numaNodePath s of
           Inl err \<Rightarrow> -1
         | Inr numaNodeStr \<Rightarrow>
             (case Atoi (TrimSpace numaNodeStr) of Some numaNode \<Rightarrow> numaNode | None \<Rightarrow> 0))"

text \<open>\<^verbatim>\<open>line[strings.Index(line, "=")+1:]\<close>; without the separator the index is -1 and the
  whole line is taken.\<close>

definition after_equal :: "string \<Rightarrow> string" where
  "after_equal line = (case dropWhile (\<lambda>c. c \<noteq> CHR ''='') line of [] \<Rightarrow> line | _ # rest \<Rightarrow> rest)"

fun pci_id_line :: "string list \<Rightarrow> string res" where
  "pci_id_line [] = Inl (Errorf ''no pci_id is found'')"
| "pci_id_line (line # rest) =
     (if HasPrefix line ''PCI_ID'' then Inr (ToLower (TrimSpace (after_equal line)))
      else pci_id_line rest)"

definition GetDevicePCIID :: "'s os \<Rightarrow> string \<Rightarrow> string \<Rightarrow> 's \<Rightarrow> string res" where
  "GetDevicePCIID sys basepath pciAddress s =
     (case osReadFile sys (filepath_Join [basepath, pciAddress, ''uevent'']) s of
        Inl err \<Rightarrow> Inl err
      | Inr file \<Rightarrow> pci_id_line (scan_lines file))"

definition SocketPath :: "plugin_consts \<Rightarrow> string \<Rightarrow> string" where
  "SocketPath k deviceName =
     filepath_Join [pkDevicePluginPath k, ''kubevirt-'' @ deviceName @ ''.sock'']"

definition formatVFIODeviceSpecs :: "string \<Rightarrow> DeviceSpec list" where
  "formatVFIODeviceSpecs devID =
     (let vfioDevice = filepath_Join [vfioDevicePath, devID]
      in [\<lparr>dsContainerPath = vfioMount, dsHostPath = vfioMount, dsPermissions = ''mrw''\<rparr>,
          \<lparr>dsContainerPath = vfioDevice, dsHostPath = vfioDevice, dsPermissions = ''mrw''\<rparr>])"

subsection \<open>Health messages\<close>

text \<open>The loop of \<^verbatim>\<open>ListAndWatch\<close> over the devices when a health message arrives.\<close>

definition deliver :: "deviceHealth \<Rightarrow> Device list \<Rightarrow> Device list" where
  "deliver devHealth devs =
     map (\<lambda>dev. if dhDevID devHealth = dvID dev then dev\<lparr>dvHealth := dhHealth devHealth\<rparr> else dev) devs"

definition ids :: "Device list \<Rightarrow> string list" where
  "ids devs = map dvID devs"

definition healths :: "string \<Rightarrow> Device list \<Rightarrow> health list" where
  "healths i devs = map dvHealth (filter (\<lambda>d. dvID d = i) devs)"

definition count_healthy :: "Device list \<Rightarrow> nat" where
  "count_healthy devs = length (filter (\<lambda>d. dvHealth d = Healthy) devs)"

lemma ids_simps [simp]:
  "ids [] = []" "ids (d # ds) = dvID d # ids ds" "ids (xs @ ys) = ids xs @ ids ys"
  by (simp_all add: ids_def)

lemma ids_deliver [simp]: "ids (deliver m devs) = ids devs"
  by (induction devs) (auto simp: deliver_def)

lemma healths_deliver:
  "healths i (deliver m devs) =
     (if dhDevID m = i then map (\<lambda>_. dhHealth m) (healths i devs) else healths i devs)"
  by (induction devs) (auto simp: deliver_def healths_def)

lemma ids_fold_deliver [simp]: "ids (fold deliver ms devs) = ids devs"
  by (induction ms arbitrary: devs) auto

lemma length_healths: "length (healths i devs) = length (filter (\<lambda>j. j = i) (ids devs))"
  by (induction devs) (auto simp: healths_def)

definition all_health :: "string \<Rightarrow> health \<Rightarrow> Device list \<Rightarrow> bool" where
  "all_health i h devs = list_all (\<lambda>x. x = h) (healths i devs)"

lemma all_health_deliver:
  "all_health i h (deliver m devs) =
     (if dhDevID m = i then healths i devs = [] \<or> dhHealth m = h else all_health i h devs)"
  by (cases "healths i devs") (auto simp: all_health_def healths_deliver list_all_iff)

lemma all_health_fold_const:
  "\<forall>m \<in> set ms. dhDevID m = i \<longrightarrow> dhHealth m = h \<Longrightarrow> all_health i h devs \<Longrightarrow>
   all_health i h (fold deliver ms devs)"
  by (induction ms arbitrary: devs) (simp_all add: all_health_deliver)

lemma all_health_fold:
  assumes "\<forall>m \<in> set ms. dhDevID m = i \<longrightarrow> dhHealth m = h" "i \<in> dhDevID ` set ms"
  shows "all_health i h (fold deliver ms devs)"
  using assms
proof (induction ms arbitrary: devs)
  case (Cons m ms)
  show ?case
  proof (cases "i \<in> dhDevID ` set ms")
    case True
    with Cons show ?thesis by simp
  next
    case False
    with Cons.prems have "all_health i h (deliver m devs)" by (auto simp: all_health_deliver)
    with Cons.prems show ?thesis by (simp add: all_health_fold_const)
  qed
qed simp

lemma healths_single:
  assumes "distinct (ids devs)" "i \<in> set (ids devs)" "all_health i h devs"
  shows "healths i devs = [h]"
proof -
  have "length (healths i devs) = 1"
    using assms(1,2) by (simp add: length_healths distinct_length_filter Collect_conv_if)
  with assms(3) show ?thesis by (cases "healths i devs") (auto simp: all_health_def)
qed

subsection \<open>The contract of a device plugin\<close>

text \<open>
  \<open>devs\<close> is the announced list, \<open>pending\<close> the health messages whose senders are blocked on
  the unbuffered channel, \<open>recv m\<close> the receipt of \<open>m\<close> by \<^verbatim>\<open>ListAndWatch\<close>, and \<open>add d\<close> the call
  of \<^verbatim>\<open>AddDevice\<close>, which announces a new device as unhealthy and sends one Healthy message;
  \<open>ok d\<close> says that the arguments of the call agree on the device.
\<close>

locale device_plugin =
  fixes devs :: "'p \<Rightarrow> Device list"
    and pending :: "'p \<Rightarrow> deviceHealth list"
    and recv :: "deviceHealth \<Rightarrow> 'p \<Rightarrow> 'p"
    and add :: "'d \<Rightarrow> 'p \<Rightarrow> 'p"
    and dev_id :: "'d \<Rightarrow> string"
    and ok :: "'d \<Rightarrow> bool"
    and inv :: "'p \<Rightarrow> bool"
  assumes recv_devs: "devs (recv m p) = deliver m (devs p)"
    and recv_pending: "pending (recv m p) = remove1 m (pending p)"
    and recv_inv: "inv p \<Longrightarrow> inv (recv m p)"
    and add_inv: "inv p \<Longrightarrow> inv (add d p)"
    and inv_distinct: "inv p \<Longrightarrow> distinct (ids (devs p))"
    and add_known: "inv p \<Longrightarrow> dev_id d \<in> set (ids (devs p)) \<Longrightarrow> add d p = p"
    and add_new: "inv p \<Longrightarrow> ok d \<Longrightarrow> dev_id d \<notin> set (ids (devs p)) \<Longrightarrow>
      (\<exists>topo. devs (add d p) = devs p @ [\<lparr>dvID = dev_id d, dvHealth = Unhealthy, dvTopology = topo\<rparr>])
      \<and> pending (add d p) = pending p @ [\<lparr>dhDevID = dev_id d, dhHealth = Healthy\<rparr>]"
begin

lemma add_ids: "inv p \<Longrightarrow> ok d \<Longrightarrow> set (ids (devs (add d p))) = insert (dev_id d) (set (ids (devs p)))"
  using add_known [of p d] add_new [of p d] by (cases "dev_id d \<in> set (ids (devs p))") auto

lemma add_idem: "inv p \<Longrightarrow> ok d \<Longrightarrow> add d (add d p) = add d p"
  by (rule add_known) (auto simp: add_ids add_inv)

lemma recv_fold_devs: "devs (fold recv ms p) = fold deliver ms (devs p)"
  by (induction ms arbitrary: p) (simp_all add: recv_devs)

lemma recv_fold_inv: "inv p \<Longrightarrow> inv (fold recv ms p)"
  by (induction ms arbitrary: p) (simp_all add: recv_inv)

lemma drained:
  assumes "mset ms = mset (pending p)"
  shows "pending (fold recv ms p) = []"
  using assms
proof (induction ms arbitrary: p)
  case (Cons m ms)
  have "mset ms = mset (pending (recv m p))"
    using Cons.prems [symmetric] by (simp add: recv_pending mset_remove1)
  then show ?case using Cons.IH by simp
qed simp

lemma drained_health:
  assumes "mset ms = mset (pending p)"
    and "\<forall>m \<in> set (pending p). dhDevID m = i \<longrightarrow> dhHealth m = h"
    and "i \<in> dhDevID ` set (pending p)"
  shows "all_health i h (devs (fold recv ms p))"
proof -
  have "set ms = set (pending p)" using assms(1) by (metis set_mset_mset)
  with assms(2,3) show ?thesis by (simp only: recv_fold_devs all_health_fold)
qed

lemma added_becomes_healthy:
  assumes "inv p" "ok d" "dev_id d \<notin> set (ids (devs p))"
    and "\<forall>m \<in> set (pending p). dhDevID m \<noteq> dev_id d"
    and "mset ms = mset (pending (add d p))"
  shows "healths (dev_id d) (devs (fold recv ms (add d p))) = [Healthy]"
proof -
  let ?q = "fold recv ms (add d p)"
  have all: "all_health (dev_id d) Healthy (devs ?q)"
    using assms(4) add_new [OF assms(1-3)] by (intro drained_health [OF assms(5)]) auto
  have "distinct (ids (devs (add d p)))" "dev_id d \<in> set (ids (devs (add d p)))"
    using assms(1,2) by (simp_all add: inv_distinct add_inv add_ids)
  with all show ?thesis by (intro healths_single) (simp_all add: recv_fold_devs)
qed

end

end
