(* ===== verification/Usb_Device_Plugin.thy ===== *)
theory Usb_Device_Plugin
  imports Device_Plugin
begin

section \<open>The USB device plugin\<close>

text \<open>
  Models \<^verbatim>\<open>pkg/deviceplugins/usb_device_plugin.go\<close> (prefix \<open>usb_\<close>) and the sysfs parser of
  \<^verbatim>\<open>usb_device_plugin_helper.go\<close>.  A USB plugin announces one device.  Its \<^verbatim>\<open>update\<close> channel is
  declared and never made: a send on it blocks forever, which is the second component of
  \<open>usb_setDeviceHealth\<close>.  The map from vendor to devices keeps the order of the walk.
\<close>

subsection \<open>The parser of uevent files\<close>

definition usbClassNames :: "(string, string) gomap" where
  "usbClassNames =
     [(''01'', ''Audio''), (''02'', ''Communications''), (''03'', ''HID''), (''05'', ''Physical''),
      (''06'', ''Image''), (''07'', ''Printer''), (''08'', ''Mass Storage''), (''09'', ''Hub''),
      (''0a'', ''CDC-Data''), (''0b'', ''Smart Card''), (''0d'', ''Content Security''), (''0e'', ''Video''),
      (''0f'', ''Personal Healthcare''), (''10'', ''Audio/Video''), (''11'', ''Billboard''),
      (''12'', ''USB Type-C Bridge''), (''13'', ''USB Bulk Display Protocol''), (''14'', ''MCTP over USB''),
      (''3c'', ''I3C Device''), (''dc'', ''Diagnostic''), (''e0'', ''Wireless Controller''),
      (''ef'', ''Miscellaneous''), (''fe'', ''Application Specific''), (''ff'', ''Vendor Specific'')]"

record PluginUSBDevice =
  puName :: string
  puManufacturer :: string
  puVendor :: int
  puProduct :: int
  puBCD :: int
  puBus :: int
  puDeviceNumber :: int
  puSerial :: string
  puDevicePath :: string
  puPCIAddress :: string
  puClassType :: string
  puProductName :: string

definition empty_usb :: PluginUSBDevice where
  "empty_usb = \<lparr>puName = [], puManufacturer = [], puVendor = 0, puProduct = 0, puBCD = 0, puBus = 0,
     puDeviceNumber = 0, puSerial = [], puDevicePath = [], puPCIAddress = [], puClassType = [],
     puProductName = []\<rparr>"

text \<open>\<^verbatim>\<open>%02d\<close>: the width counts the sign, zeros go after it.\<close>

definition fmt_02d :: "int \<Rightarrow> string" where
  "fmt_02d i = (if 0 \<le> i then pad_left 2 (Itoa i) else CHR ''-'' # pad_left 1 (Itoa (- i)))"

definition usb_GetID :: "PluginUSBDevice \<Rightarrow> string" where
  "usb_GetID dev = fmt_hex 4 (puVendor dev) @ '':'' @ fmt_hex 4 (puProduct dev) @ ''-'' @
     fmt_02d (puBus dev) @ '':'' @ fmt_02d (puDeviceNumber dev)"

definition readSysfsString :: "'s os \<Rightarrow> string \<Rightarrow> string \<Rightarrow> 's \<Rightarrow> string" where
  "readSysfsString sys dir filename s =
     (case osReadFile sys (filepath_Join [dir, filename]) s of
        Inl err \<Rightarrow> [] | Inr data \<Rightarrow> TrimSpace data)"

definition parseClassCode :: "'s os \<Rightarrow> string \<Rightarrow> string \<Rightarrow> 's \<Rightarrow> string option" where
  "parseClassCode sys dir filename s =
     (let data = readSysfsString sys dir filename s
      in if data = [] then None else Some (ToLower data))"

definition classTypeName :: "string \<Rightarrow> string" where
  "classTypeName code =
     (case mget usbClassNames code of Some name \<Rightarrow> name | None \<Rightarrow> ''Unknown (0x'' @ code @ '')'')"

fun first_interface_class :: "'s os \<Rightarrow> string \<Rightarrow> dirent list \<Rightarrow> 's \<Rightarrow> string" where
  "first_interface_class sys path [] s = []"
| "first_interface_class sys path (entry # entries) s =
     (if \<not> deIsDir entry \<or> \<not> Contains (deName entry) '':'' then first_interface_class sys path entries s
      else case parseClassCode sys (filepath_Join [path, deName entry]) ''bInterfaceClass'' s of
             Some iCode \<Rightarrow> classTypeName iCode
           | None \<Rightarrow> first_interface_class sys path entries s)"

definition parseUSBClassType :: "'s os \<Rightarrow> string \<Rightarrow> 's \<Rightarrow> string" where
  "parseUSBClassType sys path s =
     (case parseClassCode sys path ''bDeviceClass'' s of
        None \<Rightarrow> []
      | Some code \<Rightarrow>
          (if code \<noteq> ''00'' then classTypeName code
           else case osReadDir sys path s of
                  Inl err \<Rightarrow> []
                | Inr entries \<Rightarrow> first_interface_class sys path entries s))"

text \<open>The record is updated in place; \<^const>\<open>None\<close> is the result \<^verbatim>\<open>false\<close>, after which the caller
  drops the record.\<close>

definition parseSysUeventKeyValue ::
  "string \<Rightarrow> string \<Rightarrow> PluginUSBDevice \<Rightarrow> PluginUSBDevice option" where
  "parseSysUeventKeyValue key value u =
     (if key = ''BUSNUM'' then
        (case ParseInt value 10 32 of None \<Rightarrow> None | Some val \<Rightarrow> Some (u\<lparr>puBus := val\<rparr>))
      else if key = ''DEVNUM'' then
        (case ParseInt value 10 32 of None \<Rightarrow> None | Some val \<Rightarrow> Some (u\<lparr>puDeviceNumber := val\<rparr>))
      else if key = ''PRODUCT'' then
        (let products = split_char (CHR ''/'') value
         in if length products \<noteq> 3 then None
            else case ParseInt (products ! 0) 16 32 of
                   None \<Rightarrow> None
                 | Some vendor \<Rightarrow>
                     (case ParseInt (products ! 1) 16 32 of
                        None \<Rightarrow> None
                      | Some product \<Rightarrow>
                          (case ParseInt (products ! 2) 16 32 of
                             None \<Rightarrow> None
                           | Some bcd \<Rightarrow> Some (u\<lparr>puVendor := vendor, puProduct := product, puBCD := bcd\<rparr>))))
      else if key = ''DEVNAME'' then Some (u\<lparr>puDevicePath := filepath_Join [''/dev'', value]\<rparr>)
      else Some u)"

fun parse_uevent_lines :: "string list \<Rightarrow> PluginUSBDevice \<Rightarrow> PluginUSBDevice option" where
  "parse_uevent_lines [] u = Some u"
| "parse_uevent_lines (line # rest) u =
     (let values = split_char (CHR ''='') line
      in if length values \<noteq> 2 then parse_uevent_lines rest u
         else case parseSysUeventKeyValue (values ! 0) (values ! 1) u of
                None \<Rightarrow> None
              | Some u \<Rightarrow> parse_uevent_lines rest u)"

definition parseUSBSymLinkToPCIAddress :: "string \<Rightarrow> string" where
  "parseUSBSymLinkToPCIAddress link =
     (let paths = split_str ''/usb'' link
      in if length paths < 2 then []
         else last (split_char (CHR ''/'') (paths ! 0)))"

definition parseSysUeventFile :: "'s os \<Rightarrow> string \<Rightarrow> 's \<Rightarrow> PluginUSBDevice option" where
  "parseSysUeventFile sys path s =
     (case osReadlink sys path s of
        Inl err \<Rightarrow> None
      | Inr link \<Rightarrow>
          (case osReadFile sys (filepath_Join [path, ''uevent'']) s of
             Inl err \<Rightarrow> None
           | Inr file \<Rightarrow>
               (case parse_uevent_lines (scan_lines file)
                       (empty_usb\<lparr>puPCIAddress := parseUSBSymLinkToPCIAddress link\<rparr>) of
                  None \<Rightarrow> None
                | Some u \<Rightarrow> Some (u\<lparr>puProductName := readSysfsString sys path ''product'' s,
                                     puClassType := parseUSBClassType sys path s\<rparr>))))"

text \<open>\<^verbatim>\<open>filepath.Walk\<close> visits the paths below the root in lexical order; the visited paths with
  their base names, or the error of a visit, are the first argument.\<close>

fun walk_usb ::
  "'s os \<Rightarrow> (string \<times> string) res list \<Rightarrow> (int, PluginUSBDevice list) gomap \<Rightarrow> 's
   \<Rightarrow> (int, PluginUSBDevice list) gomap res" where
  "walk_usb sys [] usbDevices s = Inr usbDevices"
| "walk_usb sys (Inl err # rest) usbDevices s = Inl err"
| "walk_usb sys (Inr (path, name) # rest) usbDevices s =
     (if HasPrefix name ''usb'' then walk_usb sys rest usbDevices s
      else case osStat sys (filepath_Join [path, ''idVendor'']) s of
             Inl err \<Rightarrow> walk_usb sys rest usbDevices s
           | Inr _ \<Rightarrow>
               (case parseSysUeventFile sys path s of
                  None \<Rightarrow> walk_usb sys rest usbDevices s
                | Some device \<Rightarrow>
                    walk_usb sys rest
                      (mput (puVendor device)
                        ((case mget usbDevices (puVendor device) of None \<Rightarrow> [] | Some ds \<Rightarrow> ds) @ [device])
                        usbDevices) s))"

definition WalkUSBDevices ::
  "'s os \<Rightarrow> ('s \<Rightarrow> (string \<times> string) res list) \<Rightarrow> 's \<Rightarrow> (int, PluginUSBDevice list) gomap res" where
  "WalkUSBDevices sys walk s = walk_usb sys (walk s) [] s"

subsection \<open>The plugin\<close>

record PluginDevice =
  pvID :: string
  pvIsHealthy :: bool
  pvDevicePath :: string
  pvBus :: int
  pvDeviceNumber :: int

record USBDevicePlugin =
  upSocketPath :: string
  upStop :: chan_state
  upDeregistered :: chan_state
  upServer :: bool
  upServerDone :: chan_state
  upResourceName :: string
  upDevice :: "PluginDevice option"
  upStarted :: bool

definition toKubeVirtDevicePlugin :: "PluginDevice \<Rightarrow> Device" where
  "toKubeVirtDevicePlugin pd =
     \<lparr>dvID = pvID pd, dvHealth = (if pvIsHealthy pd then Healthy else Unhealthy), dvTopology = None\<rparr>"

text \<open>Whether the call returns: a changed value is followed by a send on the nil channel.\<close>

definition usb_setDeviceHealth :: "bool \<Rightarrow> PluginDevice \<Rightarrow> PluginDevice \<times> bool" where
  "usb_setDeviceHealth isHealthy pd =
     (let isDifferent = (pvIsHealthy pd \<noteq> isHealthy)
      in (pd\<lparr>pvIsHealthy := isHealthy\<rparr>, \<not> isDifferent))"

definition devicesToKubeVirtDevicePlugin :: "PluginDevice \<Rightarrow> Device list" where
  "devicesToKubeVirtDevicePlugin device = [toKubeVirtDevicePlugin device]"

definition usb_cleanup :: "'s os \<Rightarrow> USBDevicePlugin \<Rightarrow> 's \<Rightarrow> go_error option \<times> 's" where
  "usb_cleanup sys plugin s =
     (case osRemove sys (upSocketPath plugin) s of
        (Inl err, s') \<Rightarrow> (if \<not> IsNotFound err then Some err else None, s')
      | (Inr _, s') \<Rightarrow> (None, s'))"

definition usb_register :: "'s kubelet \<Rightarrow> USBDevicePlugin \<Rightarrow> 's \<Rightarrow> go_error option \<times> 's" where
  "usb_register kl plugin s =
     (case kConnect kl s of
        Inl err \<Rightarrow> (Some err, s)
      | Inr _ \<Rightarrow>
          (case kRegister kl (path_last (upSocketPath plugin)) (upResourceName plugin) s of
             (Inl err, s') \<Rightarrow> (Some err, s')
           | (Inr _, s') \<Rightarrow> (None, s')))"

definition usb_stopDevicePlugin ::
  "'s os \<Rightarrow> USBDevicePlugin \<Rightarrow> 's \<Rightarrow> (USBDevicePlugin \<times> go_error option \<times> 's) option" where
  "usb_stopDevicePlugin sys plugin s =
     (if \<not> upServer plugin then None
      else let (err, s) = usb_cleanup sys plugin s
           in case close_chan (upServerDone plugin) of
                None \<Rightarrow> None
              | Some ch \<Rightarrow> Some (plugin\<lparr>upServerDone := ch\<rparr>, err, s))"

text \<open>
  \<^verbatim>\<open>startDevicePlugin\<close>: \<open>hc\<close> is the result of the health check, \<^const>\<open>None\<close> while it runs on.
  The call waits for the server or the health check to end, then the deferred stop runs; the
  outer \<^const>\<open>None\<close> is a panic.  Until the deferred stop is registered the early returns
  leave the plugin as it is.
\<close>

definition usb_startDevicePlugin ::
  "'s os \<Rightarrow> 's kubelet \<Rightarrow> ('s \<Rightarrow> go_error option) option \<Rightarrow> USBDevicePlugin \<Rightarrow> 's
   \<Rightarrow> (USBDevicePlugin \<times> go_error option \<times> 's) option" where
  "usb_startDevicePlugin sys kl hc plugin s =
     (let plugin = plugin\<lparr>upDeregistered := ChanOpen, upServerDone := ChanOpen\<rparr>
      in case usb_cleanup sys plugin s of
        (Some err, s) \<Rightarrow> Some (plugin, Some (Errorf ''error on cleanup''), s)
      | (None, s) \<Rightarrow>
        (case kListen kl (upSocketPath plugin) s of
           (Inl err, s) \<Rightarrow> Some (plugin, Some (Errorf ''error creating GRPC server socket''), s)
         | (Inr _, s) \<Rightarrow>
           (let plugin = plugin\<lparr>upServer := True\<rparr>;
                (ret, s) =
                  (case kWaitForServer kl (upSocketPath plugin) s of
                     (Inl err, s) \<Rightarrow> (Some (Errorf ''error starting the GRPC server''), s)
                   | (Inr _, s) \<Rightarrow>
                     (case usb_register kl plugin s of
                        (Some err, s) \<Rightarrow> (Some (Errorf ''error registering with device plugin manager''), s)
                      | (None, s) \<Rightarrow> (case hc of None \<Rightarrow> (kServe kl s, s) | Some f \<Rightarrow> (f s, s))))
            in case usb_stopDevicePlugin sys plugin s of
                 None \<Rightarrow> None
               | Some (plugin, _, s) \<Rightarrow> Some (plugin, ret, s))))"

definition usb_addSocketPath :: "'s os \<Rightarrow> 's watcher \<Rightarrow> USBDevicePlugin \<Rightarrow> 's \<Rightarrow> go_error option" where
  "usb_addSocketPath sys w plugin s =
     (case wAdd w (filepath_Dir (upSocketPath plugin)) s of
        Inl err \<Rightarrow> Some (Errorf ''failed to add the device-plugin kubelet path to the watcher'')
      | Inr _ \<Rightarrow>
          (case osStat sys (upSocketPath plugin) s of
             Inl err \<Rightarrow> Some (Errorf ''failed to stat the device-plugin socket'')
           | Inr _ \<Rightarrow> None))"

definition usb_getMonitoredDevices ::
  "plugin_consts \<Rightarrow> 's os \<Rightarrow> 's watcher \<Rightarrow> PluginDevice \<Rightarrow> 's \<Rightarrow> (string, string) gomap res" where
  "usb_getMonitoredDevices k sys w device s =
     (let usbDevicePath = filepath_Join [pkHostRootMount k, pvDevicePath device];
          usbDeviceDirPath = filepath_Dir usbDevicePath
      in case wAdd w usbDeviceDirPath s of
           Inl err \<Rightarrow> Inl (Errorf (''failed to watch device '' @ usbDevicePath @ '' parent directory''))
         | Inr _ \<Rightarrow>
             (case wAdd w usbDevicePath s of
                Inl err \<Rightarrow> Inl (Errorf (''failed to add the device '' @ usbDevicePath @ '' to the watcher''))
              | Inr _ \<Rightarrow>
                  (case osStat sys usbDevicePath s of
                     Inl err \<Rightarrow> Inl (Errorf (''failed to validate device '' @ usbDevicePath))
                   | Inr _ \<Rightarrow> Inr [(usbDevicePath, pvID device)])))"

text \<open>One turn of the health check's loop: the device, and what the goroutine does next.\<close>

datatype hc_next = HcContinue | HcReturn | HcBlocked

definition usb_healthCheck_event ::
  "(string, string) gomap \<Rightarrow> string \<Rightarrow> hc_event \<Rightarrow> PluginDevice \<Rightarrow> PluginDevice \<times> hc_next" where
  "usb_healthCheck_event monitoredDevices socketPath ev device =
     (let set_health = (\<lambda>h. let (d, returns) = usb_setDeviceHealth h device
                            in (d, if returns then HcContinue else HcBlocked))
      in case ev of
        HcStop \<Rightarrow> (device, HcReturn)
      | HcError \<Rightarrow> (device, HcContinue)
      | HcEvent event \<Rightarrow>
          (if mhas monitoredDevices (feName event)
           then if feOp event = FsCreate then set_health True
                else if feOp event = FsRemove \<or> feOp event = FsRename then set_health False
                else (device, HcContinue)
           else if feName event = socketPath \<and> feOp event = FsRemove then (device, HcReturn)
           else (device, HcContinue)))"

text \<open>
  \<^verbatim>\<open>ListAndWatch\<close>: the responses sent and the plugin afterwards.  Receiving from the nil
  \<^verbatim>\<open>update\<close> channel is never ready, so after the first response only the stop or the
  server-done channel wakes it; a second close of \<^verbatim>\<open>deregistered\<close> panics.
\<close>

definition usb_ListAndWatch ::
  "(Device list \<Rightarrow> bool) \<Rightarrow> PluginDevice \<Rightarrow> USBDevicePlugin \<Rightarrow> Device list list \<times> USBDevicePlugin option" where
  "usb_ListAndWatch send device plugin =
     (let first = devicesToKubeVirtDevicePlugin device
      in if \<not> send first then ([], Some plugin)
         else (first # (if send [] then [[]] else []),
               map_option (\<lambda>ch. plugin\<lparr>upDeregistered := ch\<rparr>) (close_chan (upDeregistered plugin))))"

subsection \<open>Allocate\<close>

record 's safepath =
  spResolve :: "string \<Rightarrow> 's \<Rightarrow> string res"
  spChown :: "string \<Rightarrow> 's \<Rightarrow> unit res \<times> 's"

text \<open>
  One environment map is shared by all the responses of a call that got a device; \<open>used\<close>
  tells whether the response of the current container points to it.
\<close>

fun usb_alloc_ids ::
  "plugin_consts \<Rightarrow> 's safepath \<Rightarrow> USBDevicePlugin \<Rightarrow> string list
   \<Rightarrow> (string, string) gomap \<times> DeviceSpec list \<times> bool \<Rightarrow> 's
   \<Rightarrow> ((string, string) gomap \<times> DeviceSpec list \<times> bool) res \<times> 's" where
  "usb_alloc_ids k sp plugin [] st s = (Inr st, s)"
| "usb_alloc_ids k sp plugin (i # rest) (env, specs, used) s =
     (case upDevice plugin of
        None \<Rightarrow> usb_alloc_ids k sp plugin rest (env, specs, used) s
      | Some pluginDevice \<Rightarrow>
          (case spResolve sp (pvDevicePath pluginDevice) s of
             Inl err \<Rightarrow> (Inl (Errorf (''error opening the socket '' @ pvDevicePath pluginDevice)), s)
           | Inr spath \<Rightarrow>
               (case spChown sp spath s of
                  (Inl err, s) \<Rightarrow>
                    (Inl (Errorf (''error setting the permission the socket '' @ pvDevicePath pluginDevice)), s)
                | (Inr _, s) \<Rightarrow>
                    (let key = pkResourceNameToEnvVar k (pkUSBResourcePrefix k) (upResourceName plugin);
                         value = Itoa (pvBus pluginDevice) @ '':'' @ Itoa (pvDeviceNumber pluginDevice);
                         env = (case mget env key of
                                  Some previous \<Rightarrow> mput key (previous @ '','' @ value) env
                                | None \<Rightarrow> mput key value env)
                     in usb_alloc_ids k sp plugin rest
                          (env, specs @ [\<lparr>dsContainerPath = pvDevicePath pluginDevice,
                                          dsHostPath = pvDevicePath pluginDevice,
                                          dsPermissions = ''mrw''\<rparr>], True) s))))"

fun usb_alloc_containers ::
  "plugin_consts \<Rightarrow> 's safepath \<Rightarrow> USBDevicePlugin \<Rightarrow> string list list \<Rightarrow> (string, string) gomap \<Rightarrow> 's
   \<Rightarrow> ((string, string) gomap \<times> (DeviceSpec list \<times> bool) list) res \<times> 's" where
  "usb_alloc_containers k sp plugin [] env s = (Inr (env, []), s)"
| "usb_alloc_containers k sp plugin (request # requests) env s =
     (case usb_alloc_ids k sp plugin request (env, [], False) s of
        (Inl err, s) \<Rightarrow> (Inl err, s)
      | (Inr (env, specs, used), s) \<Rightarrow>
          (case usb_alloc_containers k sp plugin requests env s of
             (Inl err, s) \<Rightarrow> (Inl err, s)
           | (Inr (env, rest), s) \<Rightarrow> (Inr (env, (specs, used) # rest), s)))"

definition usb_Allocate ::
  "plugin_consts \<Rightarrow> 's safepath \<Rightarrow> USBDevicePlugin \<Rightarrow> string list list \<Rightarrow> 's
   \<Rightarrow> ContainerAllocateResponse list res \<times> 's" where
  "usb_Allocate k sp plugin ContainerRequests s =
     (case usb_alloc_containers k sp plugin ContainerRequests [] s of
        (Inl err, s) \<Rightarrow> (Inl err, s)
      | (Inr (env, rs), s) \<Rightarrow>
          (Inr (map (\<lambda>(specs, used). \<lparr>carEnvs = (if used then env else []), carDevices = specs\<rparr>) rs), s))"

subsection \<open>Construction, start and stop\<close>

text \<open>A device path without a slash makes the index \<^verbatim>\<open>len(result)-2\<close> negative: a panic.\<close>

definition generateBusAndDevice :: "string \<Rightarrow> (int \<times> int) res option" where
  "generateBusAndDevice devicePath =
     (let result = split_char (CHR ''/'') devicePath
      in if length result < 2 then None
         else Some (case Atoi (result ! (length result - 2)) of
                      None \<Rightarrow> Inl (Errorf ''strconv.Atoi: parsing the bus'')
                    | Some bus \<Rightarrow>
                        (case Atoi (result ! (length result - 1)) of
                           None \<Rightarrow> Inl (Errorf ''strconv.Atoi: parsing the device number'')
                         | Some deviceNumber \<Rightarrow> Inr (bus, deviceNumber))))"

definition NewUSBDevicePlugin :: "plugin_consts \<Rightarrow> USBDevice \<Rightarrow> USBDevicePlugin res option" where
  "NewUSBDevicePlugin k usb =
     (let st = split_char (CHR ''/'') (udResourceName (udStatus usb));
          resourceID = (if length st > 1 then st ! 1 else st ! 0)
      in case generateBusAndDevice (udDevicePath (udStatus usb)) of
           None \<Rightarrow> None
         | Some (Inl err) \<Rightarrow> Some (Inl err)
         | Some (Inr (bus, deviceNumber)) \<Rightarrow>
             Some (Inr
               \<lparr>upSocketPath = SocketPath k (''usb-'' @ resourceID), upStop = ChanNil,
                upDeregistered = ChanNil, upServer = False, upServerDone = ChanNil,
                upResourceName = udResourceName (udStatus usb),
                upDevice = Some \<lparr>pvID = udName usb, pvIsHealthy = True,
                                 pvDevicePath = udDevicePath (udStatus usb),
                                 pvBus = bus, pvDeviceNumber = deviceNumber\<rparr>,
                upStarted = False\<rparr>))"

text \<open>\<^verbatim>\<open>StartDevicePlugin\<close> without the goroutine, which then repeats \<open>usb_startDevicePlugin\<close> every
  five seconds until the stop channel is closed.\<close>

definition StartDevicePlugin :: "USBDevicePlugin \<Rightarrow> USBDevicePlugin" where
  "StartDevicePlugin plugin =
     (if upStarted plugin then plugin else plugin\<lparr>upStop := ChanOpen, upStarted := True\<rparr>)"

definition StopDevicePlugin :: "USBDevicePlugin \<Rightarrow> USBDevicePlugin option" where
  "StopDevicePlugin plugin =
     (if \<not> upStarted plugin then Some plugin
      else case close_chan (upStop plugin) of
             None \<Rightarrow> None
           | Some ch \<Rightarrow> Some (plugin\<lparr>upStop := ch, upStarted := False\<rparr>))"

subsection \<open>Round trip through sysfs\<close>

text \<open>The lines the kernel writes to the uevent file of a USB device.\<close>

definition uevent_kvs :: "nat \<Rightarrow> nat \<Rightarrow> nat \<Rightarrow> nat \<Rightarrow> nat \<Rightarrow> (string \<times> string) list" where
  "uevent_kvs vendor product bcd bus dev =
     [(''DEVNAME'', ''bus/usb/'' @ pad_left 3 (format_nat 10 bus) @ ''/'' @ pad_left 3 (format_nat 10 dev)),
      (''DEVTYPE'', ''usb_device''),
      (''PRODUCT'', pad_left 0 (format_nat 16 vendor) @ ''/'' @ pad_left 0 (format_nat 16 product) @ ''/''
         @ pad_left 0 (format_nat 16 bcd)),
      (''BUSNUM'', pad_left 3 (format_nat 10 bus)),
      (''DEVNUM'', pad_left 3 (format_nat 10 dev))]"

definition kv_line :: "string \<times> string \<Rightarrow> string" where
  "kv_line kv = fst kv @ ''='' @ snd kv"

definition uevent_lines :: "nat \<Rightarrow> nat \<Rightarrow> nat \<Rightarrow> nat \<Rightarrow> nat \<Rightarrow> string list" where
  "uevent_lines vendor product bcd bus dev = map kv_line (uevent_kvs vendor product bcd bus dev)"

fun parse_kvs :: "(string \<times> string) list \<Rightarrow> PluginUSBDevice \<Rightarrow> PluginUSBDevice option" where
  "parse_kvs [] u = Some u"
| "parse_kvs ((k, v) # kvs) u =
     (case parseSysUeventKeyValue k v u of None \<Rightarrow> None | Some u \<Rightarrow> parse_kvs kvs u)"

definition digits :: "string \<Rightarrow> bool" where
  "digits w = (w \<noteq> [] \<and> list_all (\<lambda>c. is_digit c \<or> is_lower c) w)"

lemma digits_pad_left: "2 \<le> base \<Longrightarrow> base \<le> 16 \<Longrightarrow> digits (pad_left w (format_nat base n))"
  by (auto simp: digits_def list_all_iff dest: set_pad_left_digits)

lemma digits_not_in: "digits w \<Longrightarrow> \<not> is_digit c \<Longrightarrow> \<not> is_lower c \<Longrightarrow> c \<notin> set w"
  by (auto simp: digits_def list_all_iff)

lemma digits_no_sep:
  assumes "digits w"
  shows "CHR ''/'' \<notin> set w" "CHR ''='' \<notin> set w" "CHR ''.'' \<notin> set w" "w \<noteq> []"
    "CHR 0x0A \<notin> set w" "CHR 0x0D \<notin> set w"
  using assms digits_not_in [OF assms]
  by (auto simp: is_digit_def is_lower_def digits_def)

lemma parse_kv_lines:
  "list_all (\<lambda>(k, v). CHR ''='' \<notin> set k \<and> CHR ''='' \<notin> set v) kvs \<Longrightarrow>
     parse_uevent_lines (map kv_line kvs) u = parse_kvs kvs u"
proof (induction kvs arbitrary: u)
  case (Cons kv kvs)
  obtain k v where kv: "kv = (k, v)" by (cases kv)
  have "split_char (CHR ''='') (Join [k, v] ''='') = [k, v]"
    using Cons.prems kv by (intro split_char_Join) auto
  with Cons kv show ?case
    by (auto simp: kv_line_def split: option.split)
qed simp

lemma parse_DEVNAME: "parseSysUeventKeyValue ''DEVNAME'' v u = Some (u\<lparr>puDevicePath := filepath_Join [''/dev'', v]\<rparr>)"
  and parse_DEVTYPE: "parseSysUeventKeyValue ''DEVTYPE'' v u = Some u"
  by (simp_all add: parseSysUeventKeyValue_def)

lemma parse_BUSNUM:
  "n < 2 ^ 31 \<Longrightarrow> parseSysUeventKeyValue ''BUSNUM'' (pad_left w (format_nat 10 n)) u = Some (u\<lparr>puBus := int n\<rparr>)"
  by (simp add: parseSysUeventKeyValue_def ParseInt_padded)

lemma parse_DEVNUM:
  "n < 2 ^ 31 \<Longrightarrow> parseSysUeventKeyValue ''DEVNUM'' (pad_left w (format_nat 10 n)) u = Some (u\<lparr>puDeviceNumber := int n\<rparr>)"
  by (simp add: parseSysUeventKeyValue_def ParseInt_padded)

lemma parse_PRODUCT:
  assumes "v < 2 ^ 31" "p < 2 ^ 31" "b < 2 ^ 31"
  shows "parseSysUeventKeyValue ''PRODUCT'' (pad_left 0 (format_nat 16 v) @ ''/'' @ pad_left 0 (format_nat 16 p)
            @ ''/'' @ pad_left 0 (format_nat 16 b)) u =
         Some (u\<lparr>puVendor := int v, puProduct := int p, puBCD := int b\<rparr>)"
proof -
  let ?ws = "[pad_left 0 (format_nat 16 v), pad_left 0 (format_nat 16 p), pad_left 0 (format_nat 16 b)]"
  have "split_char (CHR ''/'') (Join ?ws ''/'') = ?ws"
    by (intro split_char_Join) (auto simp: digits_no_sep digits_pad_left)
  then show ?thesis
    using assms by (simp add: parseSysUeventKeyValue_def ParseInt_padded)
qed

definition dev_path :: "nat \<Rightarrow> nat \<Rightarrow> string" where
  "dev_path bus dev = ''/dev/bus/usb/'' @ pad_left 3 (format_nat 10 bus) @ ''/'' @ pad_left 3 (format_nat 10 dev)"

lemma split_dev_path:
  "split_char (CHR ''/'') (dev_path bus dev) =
     [[], ''dev'', ''bus'', ''usb'', pad_left 3 (format_nat 10 bus), pad_left 3 (format_nat 10 dev)]"
proof -
  have "dev_path bus dev =
      Join [[], ''dev'', ''bus'', ''usb'', pad_left 3 (format_nat 10 bus), pad_left 3 (format_nat 10 dev)] ''/''"
    by (simp add: dev_path_def)
  then show ?thesis
    by (simp only:) (rule split_char_Join, auto simp: digits_no_sep digits_pad_left)
qed

lemma filepath_Join_dev:
  "filepath_Join [''/dev'', ''bus/usb/'' @ pad_left 3 (format_nat 10 bus) @ ''/'' @ pad_left 3 (format_nat 10 dev)]
     = dev_path bus dev"
proof -
  have nodot: "w \<noteq> []" "w \<noteq> ''.''" "w \<noteq> ''..''" if "digits w" for w
    using digits_no_sep [OF that] by auto
  note nodots = nodot [OF digits_pad_left [of 10 3 bus]] nodot [OF digits_pad_left [of 10 3 dev]]
  have "filepath_Clean (dev_path bus dev) = dev_path bus dev"
    unfolding filepath_Clean_def split_dev_path using nodots by (simp add: dev_path_def)
  then show ?thesis by (simp add: filepath_Join_def dev_path_def)
qed

lemma generateBusAndDevice_dev_path:
  "bus < 2 ^ 31 \<Longrightarrow> dev < 2 ^ 31 \<Longrightarrow> generateBusAndDevice (dev_path bus dev) = Some (Inr (int bus, int dev))"
  by (simp add: generateBusAndDevice_def split_dev_path Atoi_def ParseInt_padded)

lemma parse_uevent:
  assumes "v < 2 ^ 31" "p < 2 ^ 31" "b < 2 ^ 31" "bus < 2 ^ 31" "dev < 2 ^ 31"
  shows "parse_uevent_lines (uevent_lines v p b bus dev) u =
    Some (u\<lparr>puDevicePath := dev_path bus dev, puVendor := int v, puProduct := int p, puBCD := int b,
            puBus := int bus, puDeviceNumber := int dev\<rparr>)"
proof -
  note no = digits_no_sep [OF digits_pad_left [of 10 3 bus]] digits_no_sep [OF digits_pad_left [of 10 3 dev]]
    digits_no_sep [OF digits_pad_left [of 16 0 v]] digits_no_sep [OF digits_pad_left [of 16 0 p]]
    digits_no_sep [OF digits_pad_left [of 16 0 b]]
  note vals = parse_DEVNAME parse_DEVTYPE parse_PRODUCT [OF assms(1-3), simplified]
    parse_BUSNUM [OF assms(4)] parse_DEVNUM [OF assms(5)] filepath_Join_dev [simplified]
  have "parse_uevent_lines (uevent_lines v p b bus dev) u = parse_kvs (uevent_kvs v p b bus dev) u"
    unfolding uevent_lines_def using no by (intro parse_kv_lines) (simp add: uevent_kvs_def)
  then show ?thesis by (simp add: uevent_kvs_def vals)
qed

lemma uevent_lines_clean: "\<forall>l \<in> set (uevent_lines v p b bus dev). CHR 0x0A \<notin> set l \<and> CHR 0x0D \<notin> set l"
  using digits_no_sep [OF digits_pad_left [of 10 3 bus]] digits_no_sep [OF digits_pad_left [of 10 3 dev]]
    digits_no_sep [OF digits_pad_left [of 16 0 v]] digits_no_sep [OF digits_pad_left [of 16 0 p]]
    digits_no_sep [OF digits_pad_left [of 16 0 b]]
  by (simp add: uevent_lines_def uevent_kvs_def kv_line_def)

lemma uevent_lines_fit:
  assumes "v < 2 ^ 31" "p < 2 ^ 31" "b < 2 ^ 31" "bus < 2 ^ 31" "dev < 2 ^ 31"
  shows "\<forall>l \<in> set (uevent_lines v p b bus dev). scan_fits l"
proof -
  have len: "length (pad_left w (format_nat base n)) \<le> w + 31" if "n < 2 ^ 31" "2 \<le> base" for w base n :: nat
  proof -
    have "n < base ^ Suc 30" using that power_mono [of 2 base "Suc 30"] by simp
    with that(2) have "length (format_nat base n) \<le> Suc 30" by (rule length_format_nat)
    then show ?thesis by (simp add: pad_left_def)
  qed
  show ?thesis
    using len [OF assms(1), of 16 0] len [OF assms(2), of 16 0] len [OF assms(3), of 16 0]
      len [OF assms(4), of 10 3] len [OF assms(5), of 10 3]
    by (simp add: uevent_lines_def uevent_kvs_def kv_line_def scan_fits_def)
qed


definition demo_usb_os :: "unit os" where
  "demo_usb_os =
     \<lparr>osStat = \<lambda>p s. Inr (), osLstat = \<lambda>p s. Inl NotFound,
      osReadFile = \<lambda>p s. (if p = ''/sys/bus/usb/devices/1-2/uevent''
         then Inr (Join (uevent_lines 0x1d 2 1 1 2) [CHR 0x0A] @ [CHR 0x0A]) else Inl NotFound),
      osReadDir = \<lambda>p s. Inl NotFound,
      osReadlink = \<lambda>p s. Inr ''../../../devices/pci0000:00/0000:00:14.0/usb1/1-2'',
      osEvalSymlinks = \<lambda>p s. Inl NotFound, osGlobPrefix = \<lambda>p s. Inr [], osOpenWrite = \<lambda>p s. Inl NotFound,
      osWriteString = \<lambda>p d s. (Inl NotFound, s), osRemove = \<lambda>p s. (Inl NotFound, s)\<rparr>"


subsection \<open>Bounds\<close>

definition int32 :: "int \<Rightarrow> bool" where
  "int32 i = (- (2 ^ 31) \<le> i \<and> i < 2 ^ 31)"

definition usb_ranges :: "PluginUSBDevice \<Rightarrow> bool" where
  "usb_ranges u = (int32 (puVendor u) \<and> int32 (puProduct u) \<and> int32 (puBCD u)
                   \<and> int32 (puBus u) \<and> int32 (puDeviceNumber u))"

lemma ParseInt_int32: "ParseInt v base 32 = Some i \<Longrightarrow> int32 i"
  using ParseInt_bounds [of v base 32 i] by (simp add: int32_def)

lemma parseSysUeventKeyValue_ranges:
  "parseSysUeventKeyValue k v u = Some u' \<Longrightarrow> usb_ranges u \<Longrightarrow> usb_ranges u'"
  by (auto simp: parseSysUeventKeyValue_def usb_ranges_def Let_def dest: ParseInt_int32
      split: if_splits option.splits)

lemma parse_uevent_lines_ranges:
  "parse_uevent_lines ls u = Some u' \<Longrightarrow> usb_ranges u \<Longrightarrow> usb_ranges u'"
  by (induction ls arbitrary: u)
    (auto simp: Let_def dest: parseSysUeventKeyValue_ranges split: if_splits option.splits)

lemma parseSysUeventFile_ranges: "parseSysUeventFile sys path s = Some u \<Longrightarrow> usb_ranges u"
proof -
  assume "parseSysUeventFile sys path s = Some u"
  then obtain ls a u0 where p: "parse_uevent_lines ls (empty_usb\<lparr>puPCIAddress := a\<rparr>) = Some u0"
    and u: "u = u0\<lparr>puProductName := readSysfsString sys path ''product'' s, puClassType := parseUSBClassType sys path s\<rparr>"
    by (auto simp: parseSysUeventFile_def split: sum.splits option.splits)
  have "usb_ranges (empty_usb\<lparr>puPCIAddress := a\<rparr>)" by (simp add: usb_ranges_def int32_def empty_usb_def)
  with p have "usb_ranges u0" by (rule parse_uevent_lines_ranges)
  then show ?thesis by (simp add: u usb_ranges_def)
qed

text \<open>Every device collected so far is in range and filed under its own vendor.\<close>

definition vendor_ok :: "int \<Rightarrow> PluginUSBDevice list \<Rightarrow> bool" where
  "vendor_ok v ds = (ds \<noteq> [] \<and> list_all (\<lambda>d. puVendor d = v \<and> usb_ranges d) ds)"

definition walk_ok :: "(int, PluginUSBDevice list) gomap \<Rightarrow> bool" where
  "walk_ok m = (wf_map m \<and> list_all (\<lambda>(v, ds). vendor_ok v ds) m)"

lemma walk_ok_iff: "walk_ok m \<longleftrightarrow> wf_map m \<and> (\<forall>v ds. mget m v = Some ds \<longrightarrow> vendor_ok v ds)"
  by (auto simp: walk_ok_def list_all_iff in_set_mget)

lemma walk_ok_put: "walk_ok m \<Longrightarrow> vendor_ok v ds \<Longrightarrow> walk_ok (mput v ds m)"
  by (simp add: walk_ok_iff)

lemma vendor_ok_snoc:
  "walk_ok m \<Longrightarrow> usb_ranges d \<Longrightarrow>
     vendor_ok (puVendor d) ((case mget m (puVendor d) of None \<Rightarrow> [] | Some ds \<Rightarrow> ds) @ [d])"
  by (cases "mget m (puVendor d)") (auto simp: walk_ok_iff vendor_ok_def)

lemma walk_usb_ok: "walk_usb sys ps m s = Inr m' \<Longrightarrow> walk_ok m \<Longrightarrow> walk_ok m'"
proof (induction sys ps m s rule: walk_usb.induct)
  case (3 sys path name rest m s)
  show ?case
  proof (cases "\<exists>x d. \<not> HasPrefix name ''usb'' \<and> osStat sys (filepath_Join [path, ''idVendor'']) s = Inr x
        \<and> parseSysUeventFile sys path s = Some d")
    case True
    then obtain x d where c: "\<not> HasPrefix name ''usb''" "osStat sys (filepath_Join [path, ''idVendor'']) s = Inr x"
      "parseSysUeventFile sys path s = Some d" by auto
    let ?ds = "(case mget m (puVendor d) of None \<Rightarrow> [] | Some ds \<Rightarrow> ds) @ [d]"
    have "walk_ok (mput (puVendor d) ?ds m)"
      using "3.prems"(2) parseSysUeventFile_ranges [OF c(3)] by (intro walk_ok_put vendor_ok_snoc)
    with "3.IH"(4) [OF c(1,2,3)] "3.prems"(1) c show ?thesis by simp
  next
    case False
    with "3" show ?thesis by (auto split: if_splits sum.splits option.splits)
  qed
qed auto

text \<open>
  Property C26.  Every device returned by the walk over sysfs has its five numbers in the range
  of a 32-bit signed integer and is filed under its own vendor number, and no vendor has an
  empty list.
\<close>

theorem WalkUSBDevices_ok:
  "WalkUSBDevices sys walk s = Inr m \<Longrightarrow> walk_ok m"
  unfolding WalkUSBDevices_def by (erule walk_usb_ok) (simp add: walk_ok_def)

theorem WalkUSBDevices_ok_witness:
  "\<exists>d. WalkUSBDevices demo_usb_os (\<lambda>_. [Inr (''/sys/bus/usb/devices'', ''devices''), Inr (''/sys/bus/usb/devices/usb1'', ''usb1''),
            Inr (''/sys/bus/usb/devices/1-2'', ''1-2'')]) () = Inr [(0x1d, [d])]
     \<and> walk_ok [(0x1d, [d])]"
proof -
  let ?w = "\<lambda>_. [Inr (''/sys/bus/usb/devices'', ''devices''), Inr (''/sys/bus/usb/devices/usb1'', ''usb1''),
            Inr (''/sys/bus/usb/devices/1-2'', ''1-2'')]"
  let ?d = "empty_usb\<lparr>puPCIAddress := ''0000:00:14.0'', puDevicePath := ''/dev/bus/usb/001/002'',
      puVendor := 0x1d, puProduct := 2, puBCD := 1, puBus := 1, puDeviceNumber := 2\<rparr>"
  have *: "WalkUSBDevices demo_usb_os ?w () = Inr [(0x1d, [?d])]" by code_simp
  from * WalkUSBDevices_ok [OF *] show ?thesis by blast
qed

text \<open>
  The channel that should wake the kubelet's stream is never created.  A change
  of the device's health seen by the health check is stored and then blocks the health check
  forever, whichever way the health changes; the stream sends the first list and, when it is
  stopped, an empty one, so the kubelet never sees the changed health.
\<close>

theorem usb_health_change_blocks:
  assumes "mhas mon (feName e)" and "feOp e = FsCreate \<and> \<not> pvIsHealthy device
      \<or> (feOp e = FsRemove \<or> feOp e = FsRename) \<and> pvIsHealthy device"
  shows "usb_healthCheck_event mon sock (HcEvent e) device =
      (device\<lparr>pvIsHealthy := \<not> pvIsHealthy device\<rparr>, HcBlocked)
    \<and> set (fst (usb_ListAndWatch send device plugin)) \<subseteq> {devicesToKubeVirtDevicePlugin device, []}"
  using assms by (auto simp: usb_healthCheck_event_def usb_setDeviceHealth_def usb_ListAndWatch_def Let_def)

theorem usb_health_change_blocks_witness:
  "usb_healthCheck_event [(''/proc/1/root/dev/bus/usb/001/002'', ''usb-a'')] ''/k.sock''
     (HcEvent \<lparr>feName = ''/proc/1/root/dev/bus/usb/001/002'', feOp = FsRemove\<rparr>)
     \<lparr>pvID = ''usb-a'', pvIsHealthy = True, pvDevicePath = ''/dev/bus/usb/001/002'', pvBus = 1, pvDeviceNumber = 2\<rparr> =
   (\<lparr>pvID = ''usb-a'', pvIsHealthy = False, pvDevicePath = ''/dev/bus/usb/001/002'', pvBus = 1, pvDeviceNumber = 2\<rparr>, HcBlocked)"
  using usb_health_change_blocks [of "[(''/proc/1/root/dev/bus/usb/001/002'', ''usb-a'')]"
      "\<lparr>feName = ''/proc/1/root/dev/bus/usb/001/002'', feOp = FsRemove\<rparr>"
      "\<lparr>pvID = ''usb-a'', pvIsHealthy = True, pvDevicePath = ''/dev/bus/usb/001/002'', pvBus = 1, pvDeviceNumber = 2\<rparr>"
      "''/k.sock''" "\<lambda>_. True" undefined]
  by (simp add: mhas_def mget_Cons)

end
