(* ===== verification/Usb_Device_Controller.thy ===== *)
theory Usb_Device_Controller
  imports Common Usb_Ids Usb_Device_Plugin
begin

section \<open>The USB device and USB device claim controllers\<close>

text \<open>
  Models \<^verbatim>\<open>pkg/controller/usbdevice\<close>: \<^verbatim>\<open>usbdevice_controller.go\<close>, \<^verbatim>\<open>usbdevice_claim_controller.go\<close> and
  \<^verbatim>\<open>label.go\<close>.  The first keeps one \<^verbatim>\<open>USBDevice\<close> object per device found in sysfs, the second permits
  claimed devices in KubeVirt and runs one device plugin per claim.  The node name of
  \<^verbatim>\<open>label.go\<close> and the parsed identifier tables are fields of the environment; the send on the
  reconcile channel by a goroutine is \<open>ueSignal\<close>.
\<close>

definition KubeVirtNamespace :: string where
  "KubeVirtNamespace = ''harvester-system''"

definition KubeVirtResource :: string where
  "KubeVirtResource = ''kubevirt''"

definition KubeVirtResourcePrefix :: string where
  "KubeVirtResourcePrefix = ''kubevirt.io/''"

definition USBDevicePCIAddress_ix :: string where
  "USBDevicePCIAddress_ix = ''usb-device-pci-address''"

record 's usb_env =
  ueUsb :: "(USBDevice, 's) client"
  ueUsbCache :: "(USBDevice, 's) client"
  ueClaim :: "(USBDeviceClaim, 's) client"
  ueClaimCache :: "(USBDeviceClaim, 's) client"
  ueKv :: "(KubeVirt, 's) client"
  ueOs :: "'s os"
  ueWalk :: "'s \<Rightarrow> (string \<times> string) res list"
  ueIds :: Parser
  ueConsts :: plugin_consts
  ueNodeName :: string
  ueSignal :: "'s \<Rightarrow> 's"

definition labels :: "'s usb_env \<Rightarrow> (string, string) gomap" where
  "labels E = [(NodeKeyName, ueNodeName E)]"

subsection \<open>Devices found in sysfs\<close>

definition usbDeviceName :: "string \<Rightarrow> PluginUSBDevice \<Rightarrow> string" where
  "usbDeviceName nodeName d =
     (let devicePath = ReplaceAll (puDevicePath d) ''/dev/bus/usb/'' [];
          devicePath = Join (split_char (CHR ''/'') devicePath) []
      in nodeName @ ''-'' @ fmt_hex 4 (puVendor d) @ ''-'' @ fmt_hex 4 (puProduct d) @ ''-'' @ devicePath)"

definition usb_resourceName :: "string \<Rightarrow> string" where
  "usb_resourceName name = KubeVirtResourcePrefix @ name"

text \<open>The conversion to \<^verbatim>\<open>gousb.ID\<close> keeps the low 16 bits.\<close>

definition usbDescription :: "Parser \<Rightarrow> PluginUSBDevice \<Rightarrow> string" where
  "usbDescription t d =
     (let desc = DescribeWithVendorAndProduct t (word_of_int (puVendor d)) (word_of_int (puProduct d))
      in if puProductName d \<noteq> [] then desc @ '' ['' @ puProductName d @ '']'' else desc)"

definition isStatusChanged :: "Parser \<Rightarrow> USBDevice \<Rightarrow> PluginUSBDevice \<Rightarrow> bool" where
  "isStatusChanged t existed d \<longleftrightarrow>
     udVendorID (udStatus existed) \<noteq> fmt_hex 4 (puVendor d)
     \<or> udProductID (udStatus existed) \<noteq> fmt_hex 4 (puProduct d)
     \<or> udDescription (udStatus existed) \<noteq> usbDescription t d
     \<or> udClassType (udStatus existed) \<noteq> puClassType d"

definition status_of_local :: "Parser \<Rightarrow> string \<Rightarrow> PluginUSBDevice \<Rightarrow> USBDeviceStatus" where
  "status_of_local t nodeName d =
     \<lparr>udVendorID = fmt_hex 4 (puVendor d), udProductID = fmt_hex 4 (puProduct d), udNodeName = nodeName,
      udResourceName = usb_resourceName (usbDeviceName nodeName d), udDevicePath = puDevicePath d,
      udDescription = usbDescription t d, udPCIAddress = puPCIAddress d, udClassType = puClassType d,
      udEnabled = False, udStatusText = [], udMessage = []\<rparr>"

record UsageList =
  ulCreate :: "USBDevice list"
  ulUpdate :: "USBDevice list"
  ulDelete :: "USBDevice list"
  ulOrphaned :: "USBDevice list"

fun get_list_loop ::
  "'s usb_env \<Rightarrow> string \<Rightarrow> PluginUSBDevice list \<Rightarrow> (string, USBDevice) gomap \<Rightarrow> USBDevice list \<Rightarrow> USBDevice list
   \<Rightarrow> USBDevice list \<times> USBDevice list \<times> (string, USBDevice) gomap" where
  "get_list_loop E nodeName [] stored create update = (create, update, stored)"
| "get_list_loop E nodeName (d # rest) stored create update =
     (case mget stored (puDevicePath d) of
        None \<Rightarrow>
          get_list_loop E nodeName rest stored
            (create @ [\<lparr>udMeta = empty_meta\<lparr>mName := usbDeviceName nodeName d, mLabels := labels E\<rparr>,
                        udStatus = status_of_local (ueIds E) nodeName d\<rparr>]) update
      | Some existed \<Rightarrow>
          get_list_loop E nodeName rest (mdel (puDevicePath d) stored) create
            (if isStatusChanged (ueIds E) existed d
             then update @ [existed\<lparr>udStatus := status_of_local (ueIds E) nodeName d\<rparr>] else update))"

definition getList ::
  "'s usb_env \<Rightarrow> (int, PluginUSBDevice list) gomap \<Rightarrow> (string, USBDevice) gomap \<Rightarrow> string \<Rightarrow> UsageList" where
  "getList E localUSBDevices stored nodeName =
     (case get_list_loop E nodeName (concat (map snd localUSBDevices)) stored [] [] of
        (create, update, left) \<Rightarrow>
          \<lparr>ulCreate = create, ulUpdate = update, ulDelete = map snd left,
           ulOrphaned = filter (\<lambda>d. udEnabled (udStatus d)) (map snd left)\<rparr>)"

fun create_all :: "'s usb_env \<Rightarrow> USBDevice list \<Rightarrow> 's \<Rightarrow> go_error option \<times> 's" where
  "create_all E [] s = (None, s)"
| "create_all E (d # ds) s =
     (case cCreate (ueUsb E) (d\<lparr>udMeta := empty_meta\<lparr>mName := udName d, mLabels := mLabels (udMeta d)\<rparr>,
                               udStatus := \<lparr>udVendorID = [], udProductID = [], udNodeName = [], udResourceName = [],
                                 udDevicePath = [], udDescription = [], udPCIAddress = [], udClassType = [],
                                 udEnabled = False, udStatusText = [], udMessage = []\<rparr>\<rparr>) s of
        (Inl err, s) \<Rightarrow> (Some err, s)
      | (Inr newOne, s) \<Rightarrow>
          (case cUpdateStatus (ueUsb E) (newOne\<lparr>udStatus := udStatus d\<rparr>) s of
             (Inl err, s) \<Rightarrow> (Some err, s)
           | (Inr _, s) \<Rightarrow> create_all E ds s))"

fun update_all :: "'s usb_env \<Rightarrow> USBDevice list \<Rightarrow> 's \<Rightarrow> go_error option \<times> 's" where
  "update_all E [] s = (None, s)"
| "update_all E (d # ds) s =
     (case cUpdateStatus (ueUsb E) d s of
        (Inl err, s) \<Rightarrow> (Some err, s)
      | (Inr _, s) \<Rightarrow> update_all E ds s)"

definition orphan_message :: string where
  "orphan_message = ''The USB device is orphaned, please remove it from virtual machine and disable it.''"

fun orphan_all :: "'s usb_env \<Rightarrow> USBDevice list \<Rightarrow> 's \<Rightarrow> 's" where
  "orphan_all E [] s = s"
| "orphan_all E (d # ds) s =
     (case cDelete (ueClaim E) (udName d) s of
        (Inr _, s) \<Rightarrow> orphan_all E ds s
      | (Inl err, s) \<Rightarrow>
          orphan_all E ds (snd (cUpdateStatus (ueUsb E)
            (d\<lparr>udStatus := (udStatus d)\<lparr>udStatusText := USBDeviceStatusOrphaned, udMessage := orphan_message\<rparr>\<rparr>) s)))"

fun delete_all :: "'s usb_env \<Rightarrow> USBDevice list \<Rightarrow> 's \<Rightarrow> go_error option \<times> 's" where
  "delete_all E [] s = (None, s)"
| "delete_all E (d # ds) s =
     (case cDelete (ueUsb E) (udName d) s of
        (Inl err, s) \<Rightarrow> (Some err, s)
      | (Inr _, s) \<Rightarrow> delete_all E ds s)"

interpretation usb_creates: early_exit_loop "\<lambda>x. create_all E [x]" "create_all E" for E
  by unfold_locales (auto split: prod.splits sum.splits option.splits)

interpretation usb_updates: early_exit_loop "\<lambda>x. update_all E [x]" "update_all E" for E
  by unfold_locales (auto split: prod.splits sum.splits option.splits)

interpretation usb_deletes: early_exit_loop "\<lambda>x. delete_all E [x]" "delete_all E" for E
  by unfold_locales (auto split: prod.splits sum.splits option.splits)

definition handleList :: "'s usb_env \<Rightarrow> UsageList \<Rightarrow> 's \<Rightarrow> go_error option \<times> 's" where
  "handleList E usageList s =
     (case create_all E (ulCreate usageList) s of
        (Some err, s) \<Rightarrow> (Some err, s)
      | (None, s) \<Rightarrow>
          (case update_all E (ulUpdate usageList) s of
             (Some err, s) \<Rightarrow> (Some err, s)
           | (None, s) \<Rightarrow> delete_all E (ulDelete usageList) (orphan_all E (ulOrphaned usageList) s)))"

definition Reconcile :: "'s usb_env \<Rightarrow> 's \<Rightarrow> go_error option \<times> 's" where
  "Reconcile E s =
     (case WalkUSBDevices (ueOs E) (ueWalk E) s of
        Inl err \<Rightarrow> (Some err, s)
      | Inr localUSBDevices \<Rightarrow>
          (case cList (ueUsb E) (labels E) s of
             Inl err \<Rightarrow> (Some err, s)
           | Inr list \<Rightarrow>
               (let stored = foldl (\<lambda>m d. mput (udDevicePath (udStatus d)) d m) [] list
                in handleList E (getList E localUSBDevices stored (ueNodeName E)) s)))"

definition usb_OnDeviceChange :: "'s usb_env \<Rightarrow> USBDevice option \<Rightarrow> 's \<Rightarrow> (string \<times> string) list res" where
  "usb_OnDeviceChange E obj s =
     (case obj of
        None \<Rightarrow> Inr []
      | Some ud \<Rightarrow>
          (if udNodeName (udStatus ud) = ueNodeName E
           then map_sum (\<lambda>e. e) (map (\<lambda>v. (mNamespace (ucMeta v), ucName v)))
                  (cByIndex (ueClaimCache E) USBDevicePCIAddress_ix (udPCIAddress (udStatus ud)) s)
           else Inr []))"

definition isCreateEvent :: "fs_op \<Rightarrow> bool" where
  "isCreateEvent op = (op = FsCreate)"

text \<open>The directory the watcher is asked to add on an event, if any; \<open>stat_dir\<close> is \<^verbatim>\<open>os.Stat\<close> followed
  by \<^verbatim>\<open>IsDir\<close>.\<close>

definition handleNewDirectory :: "(string \<Rightarrow> 's \<Rightarrow> bool res) \<Rightarrow> fs_event \<Rightarrow> 's \<Rightarrow> string option" where
  "handleNewDirectory stat_dir event s =
     (if \<not> isCreateEvent (feOp event) then None
      else case stat_dir (feName event) s of
             Inl err \<Rightarrow> None
           | Inr isdir \<Rightarrow> if isdir then Some (feName event) else None)"

text \<open>The walk below \<^verbatim>\<open>/dev/bus/usb/\<close> that registers every directory with the watcher.\<close>

fun watch_dirs :: "'s watcher \<Rightarrow> (string \<times> bool) res list \<Rightarrow> 's \<Rightarrow> go_error option" where
  "watch_dirs w [] s = None"
| "watch_dirs w (Inl err # rest) s = Some (Errorf ''failed to walk /dev/bus/usb'')"
| "watch_dirs w (Inr (path, isdir) # rest) s =
     (if isdir
      then case wAdd w path s of
             Inl err \<Rightarrow> Some (Errorf (''failed to watch device '' @ path @ '' parent directory''))
           | Inr _ \<Rightarrow> watch_dirs w rest s
      else watch_dirs w rest s)"

definition WatchUSBDevices_setup :: "'s watcher \<Rightarrow> ('s \<Rightarrow> (string \<times> bool) res list) \<Rightarrow> 's \<Rightarrow> go_error option" where
  "WatchUSBDevices_setup w walk s =
     (case wNew w s of
        Inl err \<Rightarrow> Some (Errorf ''failed to creating a fsnotify watcher'')
      | Inr _ \<Rightarrow>
          (case watch_dirs w (walk s) s of
             Some err \<Rightarrow> Some (Errorf ''failed to walk /dev/bus/usb'')
           | None \<Rightarrow> None))"

subsection \<open>Claims\<close>

record DevClaimHandler =
  dhPlugins :: "(string, USBDevicePlugin) gomap"

definition permitted_usb :: "USBDevice \<Rightarrow> USBHostDevice" where
  "permitted_usb d =
     \<lparr>uhResourceName = udResourceName (udStatus d),
      uhSelectors = [\<lparr>usVendor = udVendorID (udStatus d), usProduct = udProductID (udStatus d)\<rparr>],
      uhExternalResourceProvider = True\<rparr>"

definition updateKubeVirt :: "'s usb_env \<Rightarrow> KubeVirt \<Rightarrow> USBDevice \<Rightarrow> 's \<Rightarrow> KubeVirt res \<times> 's" where
  "updateKubeVirt E virt usbDevice s =
     (let permitted = permitted_of virt;
          usbs = pmUSB permitted;
          usbs' = usbs @ [permitted_usb usbDevice]
      in if list_ex (\<lambda>usb. uhResourceName usb = udResourceName (udStatus usbDevice)) usbs then (Inr virt, s)
         else if kvPermittedHostDevices virt \<noteq> None \<and> usbs = usbs' then (Inr virt, s)
         else cUpdate (ueKv E) (virt\<lparr>kvPermittedHostDevices := Some (permitted\<lparr>pmUSB := usbs'\<rparr>)\<rparr>) s)"

text \<open>The plugin of the claim, created on first use and started; the second component tells whether
  it was started now.  The outer \<^const>\<open>None\<close> is a panic.\<close>

definition ensure_plugin ::
  "'s usb_env \<Rightarrow> string \<Rightarrow> USBDevice \<Rightarrow> DevClaimHandler \<Rightarrow> (bool \<times> DevClaimHandler) res option" where
  "ensure_plugin E name usbDevice h =
     (case (case mget (dhPlugins h) name of
              Some devicePlugin \<Rightarrow> Some (Inr devicePlugin)
            | None \<Rightarrow> NewUSBDevicePlugin (ueConsts E) usbDevice) of
        None \<Rightarrow> None
      | Some (Inl err) \<Rightarrow> Some (Inl err)
      | Some (Inr devicePlugin) \<Rightarrow>
          Some (Inr (\<not> upStarted devicePlugin,
                     h\<lparr>dhPlugins := mput name (StartDevicePlugin devicePlugin) (dhPlugins h)\<rparr>)))"

definition claimed_status :: "bool \<Rightarrow> USBDevice \<Rightarrow> USBDevice" where
  "claimed_status started usbDevice =
     (let st = udStatus usbDevice;
          st = (if started then st\<lparr>udStatusText := [], udMessage := []\<rparr> else st)
      in usbDevice\<lparr>udStatus := st\<lparr>udEnabled := True\<rparr>\<rparr>)"

definition finish_claim ::
  "'s usb_env \<Rightarrow> USBDeviceClaim \<Rightarrow> USBDevice \<Rightarrow> 's \<Rightarrow> USBDeviceClaim option \<times> go_error option \<times> 's" where
  "finish_claim E claim usbDevice s =
     (let s = ueSignal E s
      in case cUpdateStatus (ueClaim E)
                (claim\<lparr>ucPCIAddress := udPCIAddress (udStatus usbDevice), ucNodeName := udNodeName (udStatus usbDevice)\<rparr>) s of
           (Inl err, s) \<Rightarrow> (None, Some err, s)
         | (Inr c, s) \<Rightarrow> (Some c, None, s))"

type_synonym 's usb_claim_result = "(USBDeviceClaim option \<times> go_error option \<times> DevClaimHandler \<times> 's) option"

definition OnUSBDeviceClaimChanged :: "'s usb_env \<Rightarrow> USBDeviceClaim option \<Rightarrow> DevClaimHandler \<Rightarrow> 's \<Rightarrow> 's usb_claim_result" where
  "OnUSBDeviceClaimChanged E claimp h s =
     (case claimp of None \<Rightarrow> Some (None, None, h, s) | Some claim \<Rightarrow>
      if mDeletionTimestamp (ucMeta claim) then Some (Some claim, None, h, s)
      else if mOwnerReferences (ucMeta claim) = None
      then Some (Some claim, Some (Errorf (''usb device claim '' @ ucName claim @ '' has no owner reference'')), h, s)
      else case cGet (ueUsbCache E) (ucName claim) s of
        Inl err \<Rightarrow> Some (Some claim, if IsNotFound err then None else Some err, h, s)
      | Inr usbDevice \<Rightarrow>
        (if udNodeName (udStatus usbDevice) \<noteq> ueNodeName E then Some (Some claim, None, h, s)
         else case cGet (ueKv E) (KubeVirtNamespace @ ''/'' @ KubeVirtResource) s of
           Inl err \<Rightarrow> Some (Some claim, Some err, h, s)
         | Inr virt \<Rightarrow>
           (case updateKubeVirt E virt usbDevice s of
              (Inl err, s) \<Rightarrow> Some (Some claim, Some err, h, s)
            | (Inr _, s) \<Rightarrow>
              (case ensure_plugin E (ucName claim) usbDevice h of
                 None \<Rightarrow> None
               | Some (Inl err) \<Rightarrow> Some (Some claim, Some err, h, s)
               | Some (Inr (started, h)) \<Rightarrow>
                 (let usbDeviceCp = claimed_status started usbDevice
                  in if udStatus usbDevice \<noteq> udStatus usbDeviceCp
                     then case cUpdateStatus (ueUsb E) usbDeviceCp s of
                            (Inl err, s) \<Rightarrow> Some (Some claim, Some err, h, s)
                          | (Inr usbDevice, s) \<Rightarrow>
                              (case finish_claim E claim usbDevice s of (c, e, s) \<Rightarrow> Some (c, e, h, s))
                     else (case finish_claim E claim usbDevice s of (c, e, s) \<Rightarrow> Some (c, e, h, s)))))))"

text \<open>The tail of the removal: the plugin is stopped and dropped, the device disabled.\<close>

definition release_usb :: "'s usb_env \<Rightarrow> USBDeviceClaim \<Rightarrow> USBDevice \<Rightarrow> DevClaimHandler \<Rightarrow> 's \<Rightarrow> 's usb_claim_result" where
  "release_usb E claim usbDevice h s =
     (case (case mget (dhPlugins h) (ucName claim) of
              None \<Rightarrow> Some (h, s)
            | Some devicePlugin \<Rightarrow>
                (case StopDevicePlugin devicePlugin of
                   None \<Rightarrow> None
                 | Some _ \<Rightarrow> Some (h\<lparr>dhPlugins := mdel (ucName claim) (dhPlugins h)\<rparr>, ueSignal E s))) of
        None \<Rightarrow> None
      | Some (h, s) \<Rightarrow>
          (case cUpdateStatus (ueUsb E) (usbDevice\<lparr>udStatus := (udStatus usbDevice)\<lparr>udEnabled := False\<rparr>\<rparr>) s of
             (Inl err, s) \<Rightarrow> Some (Some claim, Some err, h, s)
           | (Inr _, s) \<Rightarrow> Some (Some claim, None, h, s)))"

definition remove_permitted :: "USBDevice \<Rightarrow> USBHostDevice list \<Rightarrow> USBHostDevice list" where
  "remove_permitted usbDevice usbs =
     (case find_index (\<lambda>usb. uhResourceName usb = udResourceName (udStatus usbDevice)) usbs of
        None \<Rightarrow> usbs
      | Some i \<Rightarrow> fst (append_remove i usbs))"

definition usb_OnRemove :: "'s usb_env \<Rightarrow> USBDeviceClaim option \<Rightarrow> DevClaimHandler \<Rightarrow> 's \<Rightarrow> 's usb_claim_result" where
  "usb_OnRemove E claimp h s =
     (case claimp of None \<Rightarrow> Some (None, None, h, s) | Some claim \<Rightarrow>
      if \<not> mDeletionTimestamp (ucMeta claim) then Some (Some claim, None, h, s)
      else case cGet (ueUsbCache E) (ucName claim) s of
        Inl err \<Rightarrow> Some (Some claim, if IsNotFound err then None else Some err, h, s)
      | Inr usbDevice \<Rightarrow>
        (if udNodeName (udStatus usbDevice) \<noteq> ueNodeName E then Some (Some claim, None, h, s)
         else case cGet (ueKv E) (KubeVirtNamespace @ ''/'' @ KubeVirtResource) s of
           Inl err \<Rightarrow> Some (None, Some err, h, s)
         | Inr virt \<Rightarrow>
           (case kvPermittedHostDevices virt of
              None \<Rightarrow> None
            | Some permitted \<Rightarrow>
              (if pmUSB permitted = [] then Some (Some claim, None, h, s)
               else let usbs = remove_permitted usbDevice (pmUSB permitted)
                    in if pmUSB permitted \<noteq> usbs
                       then case cUpdate (ueKv E) (virt\<lparr>kvPermittedHostDevices := Some (permitted\<lparr>pmUSB := usbs\<rparr>)\<rparr>) s of
                              (Inl err, s) \<Rightarrow> Some (Some claim, None, h, s)
                            | (Inr _, s) \<Rightarrow> release_usb E claim usbDevice h s
                       else release_usb E claim usbDevice h s))))"

subsection \<open>What a reconcile does\<close>

lemma Reconcile_shrinks:
  assumes "adds_none names (ueUsb E)" "adds_none names (ueClaim E)"
  shows "shrinks names (Reconcile E)"
proof -
  note sc = shrinks_case [where obs = names] and usb = adds_noneD [OF assms(1)] and claim = adds_noneD [OF assms(2)]
  have creates: "shrinks names (create_all E ds)" for ds
    by (rule usb_creates.loop_shrinks, rule shrinksI, simp, intro sc usb(1) subset_trans [OF usb(3)]) simp_all
  have updates: "shrinks names (update_all E ds)" for ds
    by (rule usb_updates.loop_shrinks, rule shrinksI, simp, intro sc usb(3)) simp
  have deletes: "shrinks names (delete_all E ds)" for ds
    by (rule usb_deletes.loop_shrinks, rule shrinksI, simp, intro sc usb(4)) simp
  have "names (orphan_all E ds s) \<subseteq> names s" for ds s
  proof (induction ds arbitrary: s)
    case (Cons d ds)
    obtain r s1 where r: "cDelete (ueClaim E) (udName d) s = (r, s1)" by (cases "cDelete (ueClaim E) (udName d) s")
    then have s1: "names s1 \<subseteq> names s" using claim(4) [of "udName d" s] by simp
    show ?case
    proof (cases r)
      case (Inl e)
      show ?thesis unfolding orphan_all.simps r Inl prod.case sum.case
        by (rule subset_trans [OF Cons], rule subset_trans [OF usb(3)], rule s1)
    qed (use r s1 Cons [of s1] in auto)
  qed simp
  then have "shrinks names (\<lambda>s. delete_all E ds (orphan_all E os s))" for ds os
    using deletes by (meson shrinks_def subset_trans)
  with creates updates have "shrinks names (handleList E l)" for l
    unfolding handleList_def by (intro shrinks_seq)
  then show ?thesis
    by (simp add: shrinks_def Reconcile_def Let_def split: sum.splits)
qed

definition new_object :: "'s usb_env \<Rightarrow> string \<Rightarrow> PluginUSBDevice \<Rightarrow> USBDevice" where
  "new_object E n d = \<lparr>udMeta = empty_meta\<lparr>mName := usbDeviceName n d, mLabels := labels E\<rparr>,
     udStatus = status_of_local (ueIds E) n d\<rparr>"

definition changed_object :: "'s usb_env \<Rightarrow> string \<Rightarrow> (string, USBDevice) gomap \<Rightarrow> PluginUSBDevice \<Rightarrow> USBDevice option" where
  "changed_object E n stored d =
     (case mget stored (puDevicePath d) of
        None \<Rightarrow> None
      | Some e \<Rightarrow> if isStatusChanged (ueIds E) e d then Some (e\<lparr>udStatus := status_of_local (ueIds E) n d\<rparr>) else None)"

lemma get_list_loop_spec:
  "distinct (map puDevicePath ds) \<Longrightarrow>
     get_list_loop E n ds stored c u =
       (c @ map (new_object E n) (filter (\<lambda>d. \<not> mhas stored (puDevicePath d)) ds),
        u @ List.map_filter (changed_object E n stored) ds,
        fold (\<lambda>d. mdel (puDevicePath d)) (filter (\<lambda>d. mhas stored (puDevicePath d)) ds) stored)"
proof (induction ds arbitrary: stored c u)
  case Nil
  then show ?case by (simp add: List.map_filter_def)
next
  case (Cons d ds)
  show ?case
  proof (cases "mget stored (puDevicePath d)")
    case None
    with Cons show ?thesis
      by (simp add: new_object_def mhas_def List.map_filter_def changed_object_def)
  next
    case (Some e)
    let ?st = "mdel (puDevicePath d) stored"
    have eq: "mget ?st (puDevicePath x) = mget stored (puDevicePath x)" if "x \<in> set ds" for x
    proof -
      have "puDevicePath x \<noteq> puDevicePath d" using that Cons.prems by (simp, metis image_eqI)
      then show ?thesis by simp
    qed
    then have f: "filter (\<lambda>x. P (mget ?st (puDevicePath x))) ds = filter (\<lambda>x. P (mget stored (puDevicePath x))) ds" for P
      by (intro filter_cong) auto
    have m: "List.map_filter (changed_object E n ?st) ds = List.map_filter (changed_object E n stored) ds"
      using eq by (simp add: List.map_filter_def changed_object_def cong: filter_cong map_cong)
    from Some Cons show ?thesis
      using f [of "\<lambda>r. r = None"] f [of "\<lambda>r. r \<noteq> None"]
      by (simp add: m mhas_def) (simp add: List.map_filter_def changed_object_def)
  qed
qed

lemma mget_fold_mdel:
  "mget (fold (\<lambda>d. mdel (f d)) ds m) k = (if k \<in> f ` set ds then None else mget m k)"
  by (induction ds arbitrary: m) auto

lemma wf_fold_mdel: "wf_map m \<Longrightarrow> wf_map (fold (\<lambda>d. mdel (f d)) ds m)"
  by (induction ds arbitrary: m) simp_all

lemma set_map_snd: "wf_map m \<Longrightarrow> set (map snd m) = {v. \<exists>k. mget m k = Some v}"
  by (force simp: in_set_mget [symmetric])

text \<open>
  For devices with distinct paths, as the kernel gives them, the lists of a
  reconcile are exact: an object is created for each device without one and its status is that of
  the hardware; an object is updated when identifiers, description or class differ; the objects
  to delete are those whose path no device has, and the claims of the enabled ones among them
  are given up.
\<close>

lemma getList_exact:
  assumes "wf_map stored" and "distinct (map puDevicePath (concat (map snd localDevs)))"
  shows "ulCreate (getList E localDevs stored n) =
      map (new_object E n) (filter (\<lambda>d. mget stored (puDevicePath d) = None) (concat (map snd localDevs)))
    \<and> ulUpdate (getList E localDevs stored n) = List.map_filter (changed_object E n stored) (concat (map snd localDevs))
    \<and> set (ulDelete (getList E localDevs stored n)) =
        {e. \<exists>k. mget stored k = Some e \<and> k \<notin> puDevicePath ` set (concat (map snd localDevs))}
    \<and> set (ulOrphaned (getList E localDevs stored n)) =
        {e \<in> set (ulDelete (getList E localDevs stored n)). udEnabled (udStatus e)}"
proof -
  let ?ds = "concat (map snd localDevs)"
  let ?left = "fold (\<lambda>d. mdel (puDevicePath d)) (filter (\<lambda>d. mhas stored (puDevicePath d)) ?ds) stored"
  have "mget ?left k = (if k \<in> puDevicePath ` set ?ds then None else mget stored k)" for k
    unfolding mget_fold_mdel by (auto simp: mhas_def)
  then have "set (map snd ?left) = {e. \<exists>k. mget stored k = Some e \<and> k \<notin> puDevicePath ` set ?ds}"
    unfolding set_map_snd [OF wf_fold_mdel [OF assms(1)]] by (auto split: if_splits)
  then show ?thesis
    by (simp add: getList_def get_list_loop_spec [OF assms(2)] mhas_def)
qed

subsection \<open>The life of a claim\<close>

lemma updateKubeVirt_ok:
  assumes "updateKubeVirt E virt d s = (Inr virt', s')"
  shows "(\<exists>u \<in> set (pmUSB (permitted_of virt)). uhResourceName u = udResourceName (udStatus d))
    \<or> (\<exists>w. cUpdate (ueKv E) w s = (Inr virt', s') \<and> pmUSB (permitted_of w) = pmUSB (permitted_of virt) @ [permitted_usb d]
         \<and> pmPciHostDevices (permitted_of w) = pmPciHostDevices (permitted_of virt)
         \<and> pmMediatedDevices (permitted_of w) = pmMediatedDevices (permitted_of virt))"
proof (cases "\<exists>u \<in> set (pmUSB (permitted_of virt)). uhResourceName u = udResourceName (udStatus d)")
  case False
  let ?w = "virt\<lparr>kvPermittedHostDevices := Some ((permitted_of virt)\<lparr>pmUSB := pmUSB (permitted_of virt) @ [permitted_usb d]\<rparr>)\<rparr>"
  from False assms have "cUpdate (ueKv E) ?w s = (Inr virt', s')"
    by (auto simp: updateKubeVirt_def Let_def list_ex_iff split: if_splits)
  then show ?thesis by (intro disjI2 exI [of _ ?w]) (simp add: permitted_of_def)
qed blast

lemma ensure_plugin_ok:
  "ensure_plugin E name d h = Some (Inr (started, h')) \<Longrightarrow>
     (\<exists>p. mget (dhPlugins h') name = Some p \<and> upStarted p) \<and> (\<forall>k. k \<noteq> name \<longrightarrow> mget (dhPlugins h') k = mget (dhPlugins h) k)"
  by (auto simp: ensure_plugin_def StartDevicePlugin_def split: option.splits sum.splits)

text \<open>
  Property C34.  When the handler of a USB device claim on this node returns without error, the
  claim's device plugin is in the handler's table and started, the plugins of other claims are
  untouched, and KubeVirt permits the device: its configuration had an entry for the resource, or
  one was written that adds it and keeps all others.
\<close>

theorem OnUSBDeviceClaimChanged_success:
  assumes "OnUSBDeviceClaimChanged E (Some claim) h s = Some (c, None, h', s')"
    and "\<not> mDeletionTimestamp (ucMeta claim)"
    and "cGet (ueUsbCache E) (ucName claim) s = Inr dev" and "udNodeName (udStatus dev) = ueNodeName E"
  shows "(\<exists>p. mget (dhPlugins h') (ucName claim) = Some p \<and> upStarted p)
    \<and> (\<forall>k. k \<noteq> ucName claim \<longrightarrow> mget (dhPlugins h') k = mget (dhPlugins h) k)
    \<and> (\<exists>virt. cGet (ueKv E) (KubeVirtNamespace @ ''/'' @ KubeVirtResource) s = Inr virt
        \<and> ((\<exists>u \<in> set (pmUSB (permitted_of virt)). uhResourceName u = udResourceName (udStatus dev))
           \<or> (\<exists>w virt' s1. cUpdate (ueKv E) w s = (Inr virt', s1)
                \<and> pmUSB (permitted_of w) = pmUSB (permitted_of virt) @ [permitted_usb dev]
                \<and> pmPciHostDevices (permitted_of w) = pmPciHostDevices (permitted_of virt)
                \<and> pmMediatedDevices (permitted_of w) = pmMediatedDevices (permitted_of virt))))"
proof -
  from assms obtain virt virt' s1 started where v: "cGet (ueKv E) (KubeVirtNamespace @ ''/'' @ KubeVirtResource) s = Inr virt"
    and u: "updateKubeVirt E virt dev s = (Inr virt', s1)" and p: "ensure_plugin E (ucName claim) dev h = Some (Inr (started, h'))"
    by (auto simp: OnUSBDeviceClaimChanged_def Let_def split: sum.splits option.splits prod.splits if_splits)
  from ensure_plugin_ok [OF p] updateKubeVirt_ok [OF u] v show ?thesis by blast
qed

lemma remove_permitted_filter:
  "distinct (map uhResourceName usbs) \<Longrightarrow>
     remove_permitted d usbs = filter (\<lambda>u. uhResourceName u \<noteq> udResourceName (udStatus d)) usbs"
  by (auto simp: remove_permitted_def remove_hit_filter find_index_None filter_id_conv split: option.splits)

text \<open>Removing a claim undoes the entry that creating it added.\<close>

lemma remove_permitted_added:
  assumes "distinct (map uhResourceName usbs)" "\<forall>u \<in> set usbs. uhResourceName u \<noteq> udResourceName (udStatus d)"
  shows "remove_permitted d (usbs @ [permitted_usb d]) = usbs"
proof -
  have "distinct (map uhResourceName (usbs @ [permitted_usb d]))" using assms by (auto simp: permitted_usb_def)
  from remove_permitted_filter [OF this, of d] assms(2) show ?thesis by (simp add: permitted_usb_def filter_id_conv)
qed

lemma release_usb_ok:
  "release_usb E claim dev h s = Some (c, None, h', s') \<Longrightarrow>
     mget (dhPlugins h') (ucName claim) = None
     \<and> (\<exists>s1 x. cUpdateStatus (ueUsb E) (dev\<lparr>udStatus := (udStatus dev)\<lparr>udEnabled := False\<rparr>\<rparr>) s1 = (Inr x, s'))"
  by (auto simp: release_usb_def split: option.splits prod.splits sum.splits)


subsection \<open>Instances\<close>

record demo_usb_world =
  dwUsb :: "(string, USBDevice) gomap"
  dwClaim :: "(string, USBDeviceClaim) gomap"
  dwKv :: "(string, KubeVirt) gomap"

definition demo_usb_consts :: plugin_consts where
  "demo_usb_consts = \<lparr>pkDevicePluginPath = ''/var/lib/kubelet/device-plugins/'', pkHostRootMount = ''/proc/1/root/'',
     pkResourceNameToEnvVar = \<lambda>p n. p @ n, pkUSBResourcePrefix = ''USB_RESOURCE''\<rparr>"

definition demo_usb_env :: "demo_usb_world usb_env" where
  "demo_usb_env =
     (let usb = table_client udMeta (\<lambda>old new. old\<lparr>udStatus := udStatus new\<rparr>) (\<lambda>i x. []) dwUsb (\<lambda>m s. s\<lparr>dwUsb := m\<rparr>);
          claim = table_client ucMeta (\<lambda>old new. new) (\<lambda>i x. []) dwClaim (\<lambda>m s. s\<lparr>dwClaim := m\<rparr>)
      in \<lparr>ueUsb = usb, ueUsbCache = usb, ueClaim = claim, ueClaimCache = claim,
          ueKv = table_client kvMeta (\<lambda>old new. new) (\<lambda>i x. []) dwKv (\<lambda>m s. s\<lparr>dwKv := m\<rparr>),
          ueOs = \<lparr>osStat = \<lambda>p s. Inl NotFound, osLstat = \<lambda>p s. Inl NotFound, osReadFile = \<lambda>p s. Inl NotFound,
            osReadDir = \<lambda>p s. Inl NotFound, osReadlink = \<lambda>p s. Inl NotFound, osEvalSymlinks = \<lambda>p s. Inl NotFound,
            osGlobPrefix = \<lambda>p s. Inr [], osOpenWrite = \<lambda>p s. Inl NotFound, osWriteString = \<lambda>p d s. (Inl NotFound, s),
            osRemove = \<lambda>p s. (Inl NotFound, s)\<rparr>,
          ueWalk = \<lambda>s. [], ueIds = NewParser, ueConsts = demo_usb_consts, ueNodeName = ''n1'', ueSignal = \<lambda>s. s\<rparr>)"

definition demo_stored :: "bool \<Rightarrow> USBDevice" where
  "demo_stored enabled = \<lparr>udMeta = empty_meta\<lparr>mName := ''n1-0951-1666-001002''\<rparr>,
     udStatus = \<lparr>udVendorID = ''0951'', udProductID = ''1666'', udNodeName = ''n1'', udResourceName = ''kubevirt.io/n1-0951-1666-001002'',
       udDevicePath = ''/dev/bus/usb/001/002'', udDescription = ''Unknown 0951:1666'', udPCIAddress = ''0000:00:14.0'',
       udClassType = [], udEnabled = enabled, udStatusText = [], udMessage = []\<rparr>\<rparr>"

definition demo_usb_claim :: "bool \<Rightarrow> USBDeviceClaim" where
  "demo_usb_claim deleted = \<lparr>ucMeta = empty_meta\<lparr>mName := udName (demo_stored False), mOwnerReferences := Some [],
     mDeletionTimestamp := deleted\<rparr>, ucUserName = ''admin'', ucNodeName = [], ucPCIAddress = []\<rparr>"

definition demo_usb_kv :: "USBHostDevice list \<Rightarrow> KubeVirt" where
  "demo_usb_kv us = \<lparr>kvMeta = empty_meta\<lparr>mName := ''harvester-system/kubevirt''\<rparr>,
     kvPermittedHostDevices = Some (empty_permitted\<lparr>pmUSB := us\<rparr>)\<rparr>"

definition demo_usb_state :: "bool \<Rightarrow> USBHostDevice list \<Rightarrow> demo_usb_world" where
  "demo_usb_state enabled us = \<lparr>dwUsb = [(udName (demo_stored enabled), demo_stored enabled)],
     dwClaim = [(ucName (demo_usb_claim False), demo_usb_claim False)],
     dwKv = [(''harvester-system/kubevirt'', demo_usb_kv us)]\<rparr>"

theorem OnUSBDeviceClaimChanged_success_witness:
  "\<exists>c h' s' p. OnUSBDeviceClaimChanged demo_usb_env (Some (demo_usb_claim False)) \<lparr>dhPlugins = []\<rparr> (demo_usb_state False [])
       = Some (c, None, h', s')
     \<and> mget (dhPlugins h') (ucName (demo_usb_claim False)) = Some p \<and> upStarted p"
proof -
  let ?r = "OnUSBDeviceClaimChanged demo_usb_env (Some (demo_usb_claim False)) \<lparr>dhPlugins = []\<rparr> (demo_usb_state False [])"
  have "(case ?r of Some (c, None, h', s') \<Rightarrow> True | _ \<Rightarrow> False)" by code_simp
  then obtain c h' s' where r: "?r = Some (c, None, h', s')"
    by (auto split: option.splits prod.splits)
  have "\<not> mDeletionTimestamp (ucMeta (demo_usb_claim False))" by (simp add: demo_usb_claim_def)
  moreover have "cGet (ueUsbCache demo_usb_env) (ucName (demo_usb_claim False)) (demo_usb_state False []) = Inr (demo_stored False)"
    by code_simp
  moreover have "udNodeName (udStatus (demo_stored False)) = ueNodeName demo_usb_env" by code_simp
  ultimately show ?thesis using r OnUSBDeviceClaimChanged_success [OF r] by blast
qed


end
