(* ===== verification/Sriov_Network.thy ===== *)
theory Sriov_Network
  imports Common Pci_Device
begin

section \<open>SR-IOV network devices\<close>

text \<open>
  Models \<^verbatim>\<open>pkg/util/nichelper/helper.go\<close> and \<^verbatim>\<open>pkg/controller/sriovdevice/sriovdevice_controller.go\<close>: which
  network cards Harvester itself uses, which of the others are SR-IOV capable, and how the
  number of virtual functions of a card follows its object.  The links of the host's network
  namespace (netlink), the cards (\<^verbatim>\<open>ghw\<close>), the VLAN configurations and the JSON reader of
  their annotation come from outside the repository and are fields of the environment.
\<close>

subsection \<open>Cards and links\<close>

record NIC =
  nicName :: string
  nicIsVirtual :: bool
  nicPCIAddress :: "string option"

text \<open>What the code reads of the attributes of a link; \<open>lkSlave\<close> tells whether it is enslaved.\<close>

record host_link =
  lkName :: string
  lkIndex :: int
  lkSlave :: bool
  lkMasterIndex :: int

record VlanConfig =
  vcAnnotations :: "(string, string) gomap"
  vcNICs :: "string list"

record 's nic_env =
  neOs :: "'s os"
  neDevicePath :: string
  neHostNS :: "'s \<Rightarrow> unit res"
  neHandle :: "'s \<Rightarrow> unit res"
  neLinkList :: "'s \<Rightarrow> host_link list res"
  neNetwork :: "'s \<Rightarrow> NIC list res"
  neVlanConfigs :: "'s \<Rightarrow> VlanConfig list res"
  neUnmarshal :: "string \<Rightarrow> string list res"

definition defaultBRInterface :: string where "defaultBRInterface = ''mgmt-br''"
definition defaultBOInterface :: string where "defaultBOInterface = ''mgmt-bo''"

definition matchedNodesAnnotation :: string where
  "matchedNodesAnnotation = ''network.harvesterhci.io/matched-nodes''"

definition defaultTotalVFFile :: string where
  "defaultTotalVFFile = ''sriov_totalvfs''"

definition interfaceAnnotation :: string where
  "interfaceAnnotation = ''sriov.devices.harvesterhi.io/interface-name''"

subsection \<open>Cards in use by Harvester\<close>

definition master_indexes :: "host_link list \<Rightarrow> int list" where
  "master_indexes links =
     map lkIndex (filter (\<lambda>l. lkName l = defaultBRInterface \<or> lkName l = defaultBOInterface) links)"

definition IdentifyManagementNics :: "'s nic_env \<Rightarrow> 's \<Rightarrow> string list res" where
  "IdentifyManagementNics E s =
     (case neHostNS E s of
        Inl err \<Rightarrow> Inl (Errorf ''error fetching host network namespace'')
      | Inr _ \<Rightarrow>
          (case neHandle E s of
             Inl err \<Rightarrow> Inl (Errorf ''error generating handler for host network namespace'')
           | Inr _ \<Rightarrow>
               (case neLinkList E s of
                  Inl err \<Rightarrow> Inl (Errorf ''error fetching link by name'')
                | Inr links \<Rightarrow>
                    Inr (concat (map (\<lambda>i. map lkName (filter (\<lambda>l. lkSlave l \<and> lkMasterIndex l = i) links))
                      (master_indexes links))))))"

fun contains_name :: "string list \<Rightarrow> string \<Rightarrow> bool" where
  "contains_name [] nodeName = False"
| "contains_name (v # nodeNames) nodeName = (if v = nodeName then True else contains_name nodeNames nodeName)"

interpretation node_names: membership contains_name "\<lambda>x. x"
proof
  show "contains_name xs k \<longleftrightarrow> k \<in> (\<lambda>x. x) ` set xs" for xs k
    by (induction xs) auto
qed

definition currentNodeMatchesSelector :: "'s nic_env \<Rightarrow> string \<Rightarrow> string \<Rightarrow> bool res" where
  "currentNodeMatchesSelector E nodeName managedNodes =
     (case neUnmarshal E managedNodes of
        Inl err \<Rightarrow> Inl (Errorf ''error unmarshalling matched-nodes'')
      | Inr nodeNames \<Rightarrow> Inr (contains_name nodeNames nodeName))"

fun uplinks_of :: "'s nic_env \<Rightarrow> string \<Rightarrow> VlanConfig list \<Rightarrow> string list \<Rightarrow> string list res" where
  "uplinks_of E nodeName [] nicsList = Inr nicsList"
| "uplinks_of E nodeName (v # vs) nicsList =
     (case mget (vcAnnotations v) matchedNodesAnnotation of
        None \<Rightarrow> uplinks_of E nodeName vs nicsList
      | Some managedNodes \<Rightarrow>
          (case currentNodeMatchesSelector E nodeName managedNodes of
             Inl err \<Rightarrow> Inl (Errorf ''error evaluating nodes from selector'')
           | Inr ok \<Rightarrow> uplinks_of E nodeName vs (if ok then nicsList @ vcNICs v else nicsList)))"

definition identifyClusterNetworks :: "'s nic_env \<Rightarrow> string \<Rightarrow> 's \<Rightarrow> string list res" where
  "identifyClusterNetworks E nodeName s =
     (case neVlanConfigs E s of
        Inl err \<Rightarrow> Inl (Errorf ''error fetching vlanconfigs'')
      | Inr vlanConfigList \<Rightarrow> uplinks_of E nodeName vlanConfigList [])"

definition IsNICSRIOVCapable :: "'s nic_env \<Rightarrow> string \<Rightarrow> 's \<Rightarrow> bool res" where
  "IsNICSRIOVCapable E deviceAddr s =
     (case osStat (neOs E) (filepath_Join [neDevicePath E, deviceAddr, defaultTotalVFFile]) s of
        Inl err \<Rightarrow> if IsNotFound err then Inr False else Inl err
      | Inr _ \<Rightarrow> Inr True)"

definition nic_CurrentVFConfigured :: "'s nic_env \<Rightarrow> string \<Rightarrow> 's \<Rightarrow> int res" where
  "nic_CurrentVFConfigured E deviceAddr s = CurrentVFConfigured (neOs E) (filepath_Join [neDevicePath E, deviceAddr]) s"

definition numvfs_file :: "'s nic_env \<Rightarrow> string \<Rightarrow> string" where
  "numvfs_file E deviceAddr = filepath_Join [neDevicePath E, deviceAddr, defaultConfiguredVFFile]"

definition ConfigureVF :: "'s nic_env \<Rightarrow> string \<Rightarrow> int \<Rightarrow> 's \<Rightarrow> go_error option \<times> 's" where
  "ConfigureVF E deviceAddr numvfs s =
     (case osOpenWrite (neOs E) (numvfs_file E deviceAddr) s of
        Inl err \<Rightarrow> (Some (Errorf (''error opening sriov_numvfs for device '' @ deviceAddr)), s)
      | Inr _ \<Rightarrow>
          (case osWriteString (neOs E) (numvfs_file E deviceAddr) (Itoa numvfs) s of
             (Inl err, s) \<Rightarrow> (Some (Errorf (''error writing to sriov_numvfs for device '' @ deviceAddr)), s)
           | (Inr _, s) \<Rightarrow> (None, s)))"

definition nic_GetVFList :: "'s nic_env \<Rightarrow> string \<Rightarrow> 's \<Rightarrow> string list res" where
  "nic_GetVFList E pf s = GetVFList (neOs E) (filepath_Join [neDevicePath E, pf]) s"

fun ListNICSInUseBySRIOV :: "'s nic_env \<Rightarrow> NIC list \<Rightarrow> 's \<Rightarrow> string list res" where
  "ListNICSInUseBySRIOV E [] s = Inr []"
| "ListNICSInUseBySRIOV E (nic # nics) s =
     (case nicPCIAddress nic of
        None \<Rightarrow> ListNICSInUseBySRIOV E nics s
      | Some addr \<Rightarrow>
          (if nicIsVirtual nic then ListNICSInUseBySRIOV E nics s
           else case IsNICSRIOVCapable E addr s of
             Inl err \<Rightarrow> Inl err
           | Inr ok \<Rightarrow>
               (if \<not> ok then ListNICSInUseBySRIOV E nics s
                else case nic_CurrentVFConfigured E addr s of
                       Inl err \<Rightarrow> Inl err
                     | Inr numvfs \<Rightarrow>
                         map_sum (\<lambda>e. e) (\<lambda>names. if numvfs > 0 then nicName nic # names else names)
                           (ListNICSInUseBySRIOV E nics s))))"

definition nic_address :: "string \<Rightarrow> NIC \<Rightarrow> string list" where
  "nic_address v nic = (if nicName nic = v then (case nicPCIAddress nic of None \<Rightarrow> [] | Some a \<Rightarrow> [a]) else [])"

definition addresses_named :: "NIC list \<Rightarrow> string \<Rightarrow> string list" where
  "addresses_named nics v = concat (map (nic_address v) nics)"

definition IdentifyHarvesterManagedNIC :: "'s nic_env \<Rightarrow> string \<Rightarrow> 's \<Rightarrow> string list res" where
  "IdentifyHarvesterManagedNIC E nodeName s =
     (case IdentifyManagementNics E s of
        Inl err \<Rightarrow> Inl err
      | Inr managementInterfaces \<Rightarrow>
          (case identifyClusterNetworks E nodeName s of
             Inl err \<Rightarrow> Inl err
           | Inr vlanConfigNICS \<Rightarrow>
               (case neNetwork E s of
                  Inl err \<Rightarrow> Inl (Errorf ''error listing network info'')
                | Inr nics \<Rightarrow>
                    (case ListNICSInUseBySRIOV E nics s of
                       Inl err \<Rightarrow> Inl err
                     | Inr sriovInUse \<Rightarrow>
                         Inr (concat (map (addresses_named nics) (managementInterfaces @ vlanConfigNICS @ sriovInUse)))))))"

subsection \<open>Objects of the cards\<close>

definition generateSRIOVDev :: "string \<Rightarrow> string \<Rightarrow> string \<Rightarrow> SRIOVNetworkDevice" where
  "generateSRIOVDev nodeName name addr =
     \<lparr>snMeta = empty_meta\<lparr>mName := ToLower (nodeName @ ''-'' @ name), mLabels := [(NodeKeyName, nodeName)],
        mAnnotations := [(interfaceAnnotation, name)]\<rparr>,
      snSpec = \<lparr>snAddress = addr, snNodeName = nodeName, snNumVFs = 0\<rparr>,
      snStatus = \<lparr>snVFAddresses = None, snVFPCIDevices = None, snStatusText = []\<rparr>\<rparr>"

fun generateSRIOVDeviceObjects :: "'s nic_env \<Rightarrow> string \<Rightarrow> NIC list \<Rightarrow> string list \<Rightarrow> 's \<Rightarrow> SRIOVNetworkDevice list res" where
  "generateSRIOVDeviceObjects E nodeName [] skipNics s = Inr []"
| "generateSRIOVDeviceObjects E nodeName (nic # nics) skipNics s =
     (case nicPCIAddress nic of
        None \<Rightarrow> generateSRIOVDeviceObjects E nodeName nics skipNics s
      | Some addr \<Rightarrow>
          (if nicName nic \<in> set skipNics \<or> nicIsVirtual nic then generateSRIOVDeviceObjects E nodeName nics skipNics s
           else case IsNICSRIOVCapable E addr s of
             Inl err \<Rightarrow> Inl (Errorf (''error checking if device '' @ nicName nic @ '' is sriov capable''))
           | Inr ok \<Rightarrow>
               (if ok then map_sum (\<lambda>e. e) ((#) (generateSRIOVDev nodeName (nicName nic) addr))
                             (generateSRIOVDeviceObjects E nodeName nics skipNics s)
                else generateSRIOVDeviceObjects E nodeName nics skipNics s)))"

definition GenerateSRIOVNics :: "'s nic_env \<Rightarrow> string \<Rightarrow> NIC list \<Rightarrow> 's \<Rightarrow> SRIOVNetworkDevice list res" where
  "GenerateSRIOVNics E nodeName nics s =
     (case identifyClusterNetworks E nodeName s of
        Inl err \<Rightarrow> Inl (Errorf (''error listing nics in use for vlanconfig for node '' @ nodeName))
      | Inr clusterNics \<Rightarrow>
          (case IdentifyManagementNics E s of
             Inl err \<Rightarrow> Inl (Errorf (''error identifying management nics for node '' @ nodeName))
           | Inr mgmtNics \<Rightarrow> generateSRIOVDeviceObjects E nodeName nics (clusterNics @ mgmtNics) s))"

subsection \<open>The controller\<close>

record 's sriov_env =
  seNic :: "'s nic_env"
  seClient :: "(SRIOVNetworkDevice, 's) client"
  seCache :: "(SRIOVNetworkDevice, 's) client"
  seNodeName :: string

fun containsSRIOVDevice :: "SRIOVNetworkDevice list \<Rightarrow> string \<Rightarrow> bool" where
  "containsSRIOVDevice [] key = False"
| "containsSRIOVDevice (v # values) key = (if snName v = key then True else containsSRIOVDevice values key)"

interpretation sriovs: membership containsSRIOVDevice "\<lambda>v. snName v"
proof
  show "containsSRIOVDevice xs k \<longleftrightarrow> k \<in> (\<lambda>v. snName v) ` set xs" for xs k
    by (induction xs) auto
qed

fun create_sriovs :: "'s sriov_env \<Rightarrow> SRIOVNetworkDevice list \<Rightarrow> SRIOVNetworkDevice list \<Rightarrow> 's \<Rightarrow> go_error option \<times> 's" where
  "create_sriovs E existing [] s = (None, s)"
| "create_sriovs E existing (dev # devs) s =
     (if \<not> containsSRIOVDevice existing (snName dev)
      then case cCreate (seClient E) dev s of
             (Inl err, s) \<Rightarrow> (Some (Errorf (''error creating device '' @ snName dev @ '' on node '' @ seNodeName E)), s)
           | (Inr _, s) \<Rightarrow> create_sriovs E existing devs s
      else create_sriovs E existing devs s)"

fun delete_sriovs :: "'s sriov_env \<Rightarrow> SRIOVNetworkDevice list \<Rightarrow> SRIOVNetworkDevice list \<Rightarrow> 's \<Rightarrow> go_error option \<times> 's" where
  "delete_sriovs E generated [] s = (None, s)"
| "delete_sriovs E generated (dev # devs) s =
     (if \<not> containsSRIOVDevice generated (snName dev)
      then case cDelete (seClient E) (snName dev) s of
             (Inl err, s) \<Rightarrow> (Some (Errorf (''error deleting sriov device '' @ snName dev @ '' on node '' @ seNodeName E)), s)
           | (Inr _, s) \<Rightarrow> delete_sriovs E generated devs s
      else delete_sriovs E generated devs s)"

interpretation sriov_creates: early_exit_loop "\<lambda>x. create_sriovs E existing [x]" "create_sriovs E existing" for E existing
  by unfold_locales (auto split: prod.splits sum.splits option.splits)

interpretation sriov_deletes: early_exit_loop "\<lambda>x. delete_sriovs E generated [x]" "delete_sriovs E generated" for E generated
  by unfold_locales (auto split: prod.splits sum.splits option.splits)

definition SetupSriovDevices :: "'s sriov_env \<Rightarrow> 's \<Rightarrow> go_error option \<times> 's" where
  "SetupSriovDevices E s =
     (case cList (seCache E) [(NodeKeyName, seNodeName E)] s of
        Inl err \<Rightarrow> (Some (Errorf (''error listing sriovdevices for node '' @ seNodeName E)), s)
      | Inr sriovDeviceList \<Rightarrow>
          (case neNetwork (seNic E) s of
             Inl err \<Rightarrow> (Some (Errorf (''error listing nics for node '' @ seNodeName E)), s)
           | Inr nics \<Rightarrow>
               (case GenerateSRIOVNics (seNic E) (seNodeName E) nics s of
                  Inl err \<Rightarrow> (Some (Errorf (''error generating sriovdevice list for node '' @ seNodeName E)), s)
                | Inr generated \<Rightarrow>
                    (case create_sriovs E sriovDeviceList generated s of
                       (Some err, s) \<Rightarrow> (Some err, s)
                     | (None, s) \<Rightarrow> delete_sriovs E generated sriovDeviceList s))))"

definition store_sriov :: "'s sriov_env \<Rightarrow> SRIOVNetworkDevice \<Rightarrow> SRIOVNetworkDeviceStatus \<Rightarrow> 's \<Rightarrow> (SRIOVNetworkDevice, 's) handler_result" where
  "store_sriov E dev st s =
     (if st \<noteq> snStatus dev
      then (case cUpdateStatus (seClient E) (dev\<lparr>snStatus := st\<rparr>) s of
              (Inl err, s) \<Rightarrow> (None, Some err, s)
            | (Inr x, s) \<Rightarrow> (Some x, None, s))
      else (Some dev, None, s))"

definition ensureDeviceIsDisabled :: "'s sriov_env \<Rightarrow> SRIOVNetworkDevice \<Rightarrow> 's \<Rightarrow> (SRIOVNetworkDevice, 's) handler_result" where
  "ensureDeviceIsDisabled E dev s =
     (case nic_CurrentVFConfigured (seNic E) (snAddress (snSpec dev)) s of
        Inl err \<Rightarrow> (Some dev, Some (Errorf (''error querying number of vf's on device '' @ snName dev)), s)
      | Inr vfs \<Rightarrow>
          (if vfs \<noteq> 0
           then case ConfigureVF (seNic E) (snAddress (snSpec dev)) 0 s of
                  (Some err, s) \<Rightarrow> (Some dev, Some (Errorf (''error setting vf count to 0 on device '' @ snName dev)), s)
                | (None, s) \<Rightarrow> store_sriov E dev ((snStatus dev)\<lparr>snStatusText := DeviceDisabled, snVFAddresses := None\<rparr>) s
           else store_sriov E dev (snStatus dev) s))"

definition ensureDeviceIsConfigured :: "'s sriov_env \<Rightarrow> SRIOVNetworkDevice \<Rightarrow> 's \<Rightarrow> (SRIOVNetworkDevice, 's) handler_result" where
  "ensureDeviceIsConfigured E dev s =
     (case nic_CurrentVFConfigured (seNic E) (snAddress (snSpec dev)) s of
        Inl err \<Rightarrow> (Some dev, Some (Errorf (''error querying number of vf's on device '' @ snName dev)), s)
      | Inr vfs \<Rightarrow>
          (case (if vfs \<noteq> snNumVFs (snSpec dev) then ConfigureVF (seNic E) (snAddress (snSpec dev)) (snNumVFs (snSpec dev)) s
                 else (None, s)) of
             (Some err, s) \<Rightarrow> (Some dev, Some (Errorf (''error setting vf count on device '' @ snName dev)), s)
           | (None, s) \<Rightarrow>
               (case nic_GetVFList (seNic E) (snAddress (snSpec dev)) s of
                  Inl err \<Rightarrow> (Some dev, Some (Errorf (''error looking up vf addresses for device '' @ snAddress (snSpec dev))), s)
                | Inr vfAddresses \<Rightarrow>
                    store_sriov E dev \<lparr>snVFAddresses = Some vfAddresses,
                      snVFPCIDevices = Some (map (\<lambda>vf. PCIDeviceNameForHostname vf (seNodeName E)) vfAddresses),
                      snStatusText = DeviceEnabled\<rparr> s)))"

definition reconcileSriovDevice :: "'s sriov_env \<Rightarrow> SRIOVNetworkDevice option \<Rightarrow> 's \<Rightarrow> (SRIOVNetworkDevice, 's) handler_result" where
  "reconcileSriovDevice E devp s =
     (case devp of None \<Rightarrow> (None, None, s) | Some dev \<Rightarrow>
      if mDeletionTimestamp (snMeta dev) \<or> snNodeName (snSpec dev) \<noteq> seNodeName E then (Some dev, None, s)
      else if snNumVFs (snSpec dev) = 0 then ensureDeviceIsDisabled E dev s
      else ensureDeviceIsConfigured E dev s)"

subsection \<open>Managed cards are left alone\<close>

text \<open>
  The cards which Harvester uses itself: those enslaved to the management bridge or bond, and
  the uplinks of the VLAN configurations that match the node.
\<close>

definition management_nic :: "host_link list \<Rightarrow> string \<Rightarrow> bool" where
  "management_nic links name \<longleftrightarrow>
     (\<exists>m \<in> set links. \<exists>l \<in> set links. (lkName m = defaultBRInterface \<or> lkName m = defaultBOInterface)
        \<and> lkSlave l \<and> lkMasterIndex l = lkIndex m \<and> lkName l = name)"

definition vlan_uplink :: "'s nic_env \<Rightarrow> string \<Rightarrow> VlanConfig list \<Rightarrow> string \<Rightarrow> bool" where
  "vlan_uplink E nodeName vcs name \<longleftrightarrow>
     (\<exists>v \<in> set vcs. \<exists>a ns. mget (vcAnnotations v) matchedNodesAnnotation = Some a
        \<and> neUnmarshal E a = Inr ns \<and> nodeName \<in> set ns \<and> name \<in> set (vcNICs v))"

lemma IdentifyManagementNics_iff:
  assumes "IdentifyManagementNics E s = Inr names"
  shows "\<exists>links. neLinkList E s = Inr links \<and> (\<forall>n. n \<in> set names \<longleftrightarrow> management_nic links n)"
  using assms
  by (auto simp: IdentifyManagementNics_def management_nic_def master_indexes_def split: sum.splits; blast)

lemma uplinks_of_iff:
  "uplinks_of E nodeName vcs acc = Inr names \<Longrightarrow> n \<in> set names \<longleftrightarrow> n \<in> set acc \<or> vlan_uplink E nodeName vcs n"
proof (induction vcs arbitrary: acc)
  case (Cons v vs)
  have step: "vlan_uplink E nodeName (v # vs) n \<longleftrightarrow> vlan_uplink E nodeName vs n
      \<or> (\<exists>a ns. mget (vcAnnotations v) matchedNodesAnnotation = Some a \<and> neUnmarshal E a = Inr ns \<and> nodeName \<in> set ns \<and> n \<in> set (vcNICs v))"
    unfolding vlan_uplink_def by auto
  from Cons show ?case unfolding step
    by (auto simp: currentNodeMatchesSelector_def node_names.contains_iff split: option.splits sum.splits if_splits)
qed (simp add: vlan_uplink_def)

lemma identifyClusterNetworks_iff:
  assumes "identifyClusterNetworks E nodeName s = Inr names"
  shows "\<exists>vcs. neVlanConfigs E s = Inr vcs \<and> (\<forall>n. n \<in> set names \<longleftrightarrow> vlan_uplink E nodeName vcs n)"
  using assms uplinks_of_iff [of E nodeName _ "[]"] by (auto simp: identifyClusterNetworks_def split: sum.splits)

text \<open>A card that may be offered: it has a PCI address, is not virtual, supports SR-IOV and
  Harvester does not use it.\<close>

definition offered :: "'s nic_env \<Rightarrow> (string \<Rightarrow> bool) \<Rightarrow> 's \<Rightarrow> NIC \<Rightarrow> bool" where
  "offered E managed s nic \<longleftrightarrow>
     \<not> managed (nicName nic) \<and> \<not> nicIsVirtual nic
     \<and> (\<exists>a. nicPCIAddress nic = Some a \<and> IsNICSRIOVCapable E a s = Inr True)"

lemma generateSRIOVDeviceObjects_exact:
  "generateSRIOVDeviceObjects E nodeName nics skip s = Inr devs \<Longrightarrow>
     devs = map (\<lambda>nic. generateSRIOVDev nodeName (nicName nic) (the (nicPCIAddress nic))) (filter (offered E (\<lambda>n. n \<in> set skip) s) nics)"
proof (induction nics arbitrary: devs)
  case (Cons nic nics)
  then show ?case
    by (cases "generateSRIOVDeviceObjects E nodeName nics skip s")
      (auto simp: offered_def split: option.splits if_splits sum.splits)
qed simp

text \<open>
  Property C37.  The SR-IOV network devices generated for a node are exactly its physical,
  SR-IOV capable cards, in the order in which the host lists them, less the slaves of the
  management bridge or bond and the uplinks of the VLAN configurations that match the node.
\<close>

theorem GenerateSRIOVNics_exact:
  assumes "GenerateSRIOVNics E nodeName nics s = Inr devs"
  shows "\<exists>links vcs. neLinkList E s = Inr links \<and> neVlanConfigs E s = Inr vcs
    \<and> devs = map (\<lambda>nic. generateSRIOVDev nodeName (nicName nic) (the (nicPCIAddress nic)))
        (filter (offered E (\<lambda>n. management_nic links n \<or> vlan_uplink E nodeName vcs n) s) nics)"
proof -
  from assms obtain cn mn where c: "identifyClusterNetworks E nodeName s = Inr cn"
    and m: "IdentifyManagementNics E s = Inr mn" and g: "generateSRIOVDeviceObjects E nodeName nics (cn @ mn) s = Inr devs"
    by (auto simp: GenerateSRIOVNics_def split: sum.splits)
  from identifyClusterNetworks_iff [OF c] obtain vcs where vcs: "neVlanConfigs E s = Inr vcs" "\<forall>n. n \<in> set cn \<longleftrightarrow> vlan_uplink E nodeName vcs n" by blast
  from IdentifyManagementNics_iff [OF m] obtain links where links: "neLinkList E s = Inr links" "\<forall>n. n \<in> set mn \<longleftrightarrow> management_nic links n" by blast
  have "(\<lambda>n. n \<in> set (cn @ mn)) = (\<lambda>n. management_nic links n \<or> vlan_uplink E nodeName vcs n)"
    using vcs(2) links(2) by auto
  with generateSRIOVDeviceObjects_exact [OF g] vcs(1) links(1) show ?thesis by auto
qed

text \<open>A node with a management card, a VLAN uplink and one free SR-IOV card.  The world is the
  content of the free card's \<^verbatim>\<open>sriov_numvfs\<close> and the table of objects.\<close>

type_synonym demo_nic_state = "string \<times> (string, SRIOVNetworkDevice) gomap"

definition demo_nic_os :: "demo_nic_state os" where
  "demo_nic_os =
     \<lparr>osStat = \<lambda>p s. (if p = ''/sys/bus/pci/devices/0000:04:00.0/sriov_totalvfs'' then Inr () else Inl NotFound),
      osLstat = \<lambda>p s. Inr False,
      osReadFile = \<lambda>p s. (if p = ''/sys/bus/pci/devices/0000:04:00.0/sriov_numvfs'' then Inr (fst s) else Inl NotFound),
      osReadDir = \<lambda>p s. Inl NotFound, osReadlink = \<lambda>p s. Inl NotFound, osEvalSymlinks = \<lambda>p s. Inl NotFound,
      osGlobPrefix = \<lambda>p s. Inr [], osOpenWrite = \<lambda>p s. Inr (),
      osWriteString = \<lambda>p d s. (Inr (), (d @ [CHR 0x0A], snd s)), osRemove = \<lambda>p s. (Inl NotFound, s)\<rparr>"

definition demo_links :: "host_link list" where
  "demo_links = [\<lparr>lkName = ''mgmt-bo'', lkIndex = 3, lkSlave = False, lkMasterIndex = 0\<rparr>,
                 \<lparr>lkName = ''eno1'', lkIndex = 4, lkSlave = True, lkMasterIndex = 3\<rparr>]"

definition demo_vlans :: "VlanConfig list" where
  "demo_vlans = [\<lparr>vcAnnotations = [(matchedNodesAnnotation, ''[node1]'')], vcNICs = [''ens2'']\<rparr>]"

definition demo_nics :: "NIC list" where
  "demo_nics = [\<lparr>nicName = ''eno1'', nicIsVirtual = False, nicPCIAddress = Some ''0000:02:00.0''\<rparr>,
                \<lparr>nicName = ''ens2'', nicIsVirtual = False, nicPCIAddress = Some ''0000:03:00.0''\<rparr>,
                \<lparr>nicName = ''ens3'', nicIsVirtual = False, nicPCIAddress = Some ''0000:04:00.0''\<rparr>,
                \<lparr>nicName = ''lo'', nicIsVirtual = True, nicPCIAddress = None\<rparr>]"

definition demo_nic_env :: "demo_nic_state nic_env" where
  "demo_nic_env =
     \<lparr>neOs = demo_nic_os, neDevicePath = ''/sys/bus/pci/devices'', neHostNS = \<lambda>s. Inr (), neHandle = \<lambda>s. Inr (),
      neLinkList = \<lambda>s. Inr demo_links, neNetwork = \<lambda>s. Inr demo_nics, neVlanConfigs = \<lambda>s. Inr demo_vlans,
      neUnmarshal = \<lambda>a. (if a = ''[node1]'' then Inr [''node1''] else Inl (Errorf ''json''))\<rparr>"

theorem GenerateSRIOVNics_exact_witness:
  "map nicName (filter (offered demo_nic_env
     (\<lambda>n. management_nic demo_links n \<or> vlan_uplink demo_nic_env ''node1'' demo_vlans n) (''0'', [])) demo_nics) = [''ens3'']"
proof -
  let ?s = "(''0'', []) :: demo_nic_state"
  have run: "GenerateSRIOVNics demo_nic_env ''node1'' demo_nics ?s = Inr [generateSRIOVDev ''node1'' ''ens3'' ''0000:04:00.0'']"
    by code_simp
  have "neLinkList demo_nic_env ?s = Inr demo_links" "neVlanConfigs demo_nic_env ?s = Inr demo_vlans"
    by (simp_all add: demo_nic_env_def)
  with GenerateSRIOVNics_exact [OF run]
  have eq: "[generateSRIOVDev ''node1'' ''ens3'' ''0000:04:00.0''] =
      map (\<lambda>nic. generateSRIOVDev ''node1'' (nicName nic) (the (nicPCIAddress nic)))
        (filter (offered demo_nic_env (\<lambda>n. management_nic demo_links n \<or> vlan_uplink demo_nic_env ''node1'' demo_vlans n) ?s) demo_nics)"
    by auto
  have name: "mget (mAnnotations (snMeta (generateSRIOVDev a b c))) interfaceAnnotation = Some b" for a b c
    by (simp add: generateSRIOVDev_def mget_def)
  show ?thesis
    using arg_cong [OF eq, of "map (\<lambda>d. the (mget (mAnnotations (snMeta d)) interfaceAnnotation))"]
    by (simp add: name comp_def)
qed

lemma ListNICSInUse_iff:
  "ListNICSInUseBySRIOV E nics s = Inr names \<Longrightarrow>
     n \<in> set names \<longleftrightarrow> (\<exists>nic \<in> set nics. \<exists>a k. nicName nic = n \<and> \<not> nicIsVirtual nic \<and> nicPCIAddress nic = Some a
        \<and> IsNICSRIOVCapable E a s = Inr True \<and> nic_CurrentVFConfigured E a s = Inr k \<and> k > 0)"
proof (induction nics arbitrary: names)
  case (Cons nic nics)
  then show ?case
    by (cases "ListNICSInUseBySRIOV E nics s") (auto split: option.splits if_splits sum.splits)
qed simp

lemma nic_address_iff: "x \<in> set (nic_address v nic) \<longleftrightarrow> nicName nic = v \<and> nicPCIAddress nic = Some x"
proof (cases "nicName nic = v")
  case True
  then show ?thesis by (cases "nicPCIAddress nic") (auto simp: nic_address_def)
qed (simp add: nic_address_def)

lemma addresses_named_iff:
  "x \<in> set (addresses_named nics v) \<longleftrightarrow> (\<exists>nic \<in> set nics. nicName nic = v \<and> nicPCIAddress nic = Some x)"
  by (simp add: addresses_named_def nic_address_iff)

text \<open>Every address of a managed card is among those which the PCI device controller skips.\<close>

lemma IdentifyHarvesterManagedNIC_covers:
  assumes "IdentifyHarvesterManagedNIC E nodeName s = Inr addrs"
  shows "\<exists>links vcs nics. neLinkList E s = Inr links \<and> neVlanConfigs E s = Inr vcs \<and> neNetwork E s = Inr nics
    \<and> (\<forall>nic \<in> set nics. \<forall>a. nicPCIAddress nic = Some a \<and> (management_nic links (nicName nic) \<or> vlan_uplink E nodeName vcs (nicName nic)
          \<or> \<not> nicIsVirtual nic \<and> IsNICSRIOVCapable E a s = Inr True \<and> (\<exists>k > 0. nic_CurrentVFConfigured E a s = Inr k))
        \<longrightarrow> a \<in> set addrs)"
proof -
  from assms obtain mn cn nics iu where m: "IdentifyManagementNics E s = Inr mn" and c: "identifyClusterNetworks E nodeName s = Inr cn"
    and nics: "neNetwork E s = Inr nics" and iu: "ListNICSInUseBySRIOV E nics s = Inr iu"
    and addrs: "addrs = concat (map (addresses_named nics) (mn @ cn @ iu))"
    by (auto simp: IdentifyHarvesterManagedNIC_def split: sum.splits)
  from identifyClusterNetworks_iff [OF c] obtain vcs where vcs: "neVlanConfigs E s = Inr vcs" "\<forall>n. n \<in> set cn \<longleftrightarrow> vlan_uplink E nodeName vcs n" by blast
  from IdentifyManagementNics_iff [OF m] obtain links where links: "neLinkList E s = Inr links" "\<forall>n. n \<in> set mn \<longleftrightarrow> management_nic links n" by blast
  have "a \<in> set addrs" if "nic \<in> set nics" "nicPCIAddress nic = Some a" "nicName nic \<in> set mn \<union> set cn \<union> set iu" for nic a
    using that addresses_named_iff [of a nics "nicName nic"] unfolding addrs by auto
  with vcs links nics ListNICSInUse_iff [OF iu] show ?thesis by blast
qed

subsection \<open>The number of virtual functions follows the object\<close>

text \<open>The file \<^verbatim>\<open>sriov_numvfs\<close> reads back what was written to it, followed by a newline, and API calls
  leave it alone.\<close>

definition numvfs_written :: "'s sriov_env \<Rightarrow> string \<Rightarrow> bool" where
  "numvfs_written E f \<longleftrightarrow>
     (\<forall>n s. is_ok (fst (osWriteString (neOs (seNic E)) f (Itoa n) s)) \<longrightarrow>
        osReadFile (neOs (seNic E)) f (snd (osWriteString (neOs (seNic E)) f (Itoa n) s)) = Inr (Itoa n @ [CHR 0x0A]))"

definition numvfs_kept :: "'s sriov_env \<Rightarrow> string \<Rightarrow> bool" where
  "numvfs_kept E f \<longleftrightarrow>
     (\<forall>d s. osReadFile (neOs (seNic E)) f (snd (cUpdateStatus (seClient E) d s)) = osReadFile (neOs (seNic E)) f s)"

lemma set_Itoa: "c \<in> set (Itoa i) \<Longrightarrow> c = CHR ''-'' \<or> is_digit c \<or> is_lower c"
  using set_format_nat [of 10 c "nat i"] set_format_nat [of 10 c "nat (- i)"] by (auto simp: Itoa_def split: if_splits)

lemma Itoa_no_newline: "CHR 0x0A \<notin> set (Itoa i)"
  using set_Itoa [of "CHR 0x0A" i] by (auto simp: is_digit_def is_lower_def)

lemma dropWhile_absent: "c \<notin> set w \<Longrightarrow> dropWhile (\<lambda>x. x = c) w = w"
  by (cases w) auto

lemma Trim_newline:
  assumes "CHR 0x0A \<notin> set w" "w \<noteq> []"
  shows "Trim (w @ [CHR 0x0A]) [CHR 0x0A] = w"
proof -
  have "dropWhile (\<lambda>x. x = CHR 0x0A) (rev w) = rev w"
    using assms(1) by (intro dropWhile_absent) simp
  moreover have "dropWhile (\<lambda>x. x = CHR 0x0A) (w @ [CHR 0x0A]) = w @ [CHR 0x0A]"
    using assms by (cases w) auto
  ultimately show ?thesis by (simp add: Trim_def TrimRight_def)
qed

lemma Itoa_nonempty: "Itoa i \<noteq> []"
  by (simp add: Itoa_def)

lemma nic_CurrentVFConfigured_file:
  "neDevicePath E \<noteq> [] \<Longrightarrow> nic_CurrentVFConfigured E a s =
     (case osReadFile (neOs E) (numvfs_file E a) s of
        Inl err \<Rightarrow> Inl (Errorf (''error reading sriov_numvfs for device '' @ filepath_Join [neDevicePath E, a]))
      | Inr contents \<Rightarrow> (case Atoi (Trim contents [CHR 0x0A]) of
             None \<Rightarrow> Inl (Errorf ''strconv.Atoi: parsing sriov_numvfs'') | Some n \<Rightarrow> Inr n))"
  unfolding nic_CurrentVFConfigured_def CurrentVFConfigured_def numvfs_file_def
  by (subst filepath_Join_nested) (simp_all add: defaultConfiguredVFFile_def)

lemma ConfigureVF_effect:
  assumes "neDevicePath (seNic E) \<noteq> []" "numvfs_written E (numvfs_file (seNic E) a)" "- (2 ^ 63) \<le> n" "n < 2 ^ 63"
    and "ConfigureVF (seNic E) a n s = (None, s')"
  shows "nic_CurrentVFConfigured (seNic E) a s' = Inr n"
proof -
  from assms(5) obtain u where "osWriteString (neOs (seNic E)) (numvfs_file (seNic E) a) (Itoa n) s = (Inr u, s')"
    by (auto simp: ConfigureVF_def split: sum.splits prod.splits)
  then have "osReadFile (neOs (seNic E)) (numvfs_file (seNic E) a) s' = Inr (Itoa n @ [CHR 0x0A])"
    using assms(2) unfolding numvfs_written_def is_ok_def by (metis fst_conv snd_conv sum.simps(6))
  then show ?thesis
    by (simp only: nic_CurrentVFConfigured_file [OF assms(1)] sum.simps Trim_newline [OF Itoa_no_newline Itoa_nonempty] Atoi_Itoa [OF assms(3,4)] option.simps)
qed

lemma store_sriov_kept:
  assumes "neDevicePath (seNic E) \<noteq> []" "numvfs_kept E (numvfs_file (seNic E) a)"
  shows "nic_CurrentVFConfigured (seNic E) a (world_of (store_sriov E dev st s)) = nic_CurrentVFConfigured (seNic E) a s"
proof -
  have "world_of (store_sriov E dev st s) \<in> {s, snd (cUpdateStatus (seClient E) (dev\<lparr>snStatus := st\<rparr>) s)}"
    by (auto simp: store_sriov_def world_of_def split: prod.splits sum.splits)
  then have "osReadFile (neOs (seNic E)) (numvfs_file (seNic E) a) (world_of (store_sriov E dev st s)) =
      osReadFile (neOs (seNic E)) (numvfs_file (seNic E) a) s"
    using assms(2) unfolding numvfs_kept_def by auto
  then show ?thesis by (simp add: nic_CurrentVFConfigured_file [OF assms(1)])
qed


definition demo_sriov_env :: "demo_nic_state sriov_env" where
  "demo_sriov_env =
     (let c = table_client snMeta (\<lambda>old new. old\<lparr>snStatus := snStatus new\<rparr>) (\<lambda>i v. []) snd (\<lambda>t s. (fst s, t))
      in \<lparr>seNic = demo_nic_env, seClient = c, seCache = c, seNodeName = ''node1''\<rparr>)"

definition demo_sriov :: SRIOVNetworkDevice where
  "demo_sriov =
     (let d = generateSRIOVDev ''node1'' ''ens3'' ''0000:04:00.0'' in d\<lparr>snSpec := (snSpec d)\<lparr>snNumVFs := 4\<rparr>\<rparr>)"


end
