(* ===== verification/Gpu_Helper.thy ===== *)
theory Gpu_Helper
  imports Common Pci_Device
begin

section \<open>NVIDIA GPUs: discovery and MIG commands\<close>

text \<open>
  Models \<^verbatim>\<open>pkg/util/gpuhelper\<close> (\<^verbatim>\<open>gpuhelper.go\<close>, \<^verbatim>\<open>mig.go\<close>) and \<^verbatim>\<open>pkg/util/executor\<close>.  An executor is a
  record of the two functions of the interface, over the world; the process that runs a
  command is a parameter of its two implementations.  The list of NVIDIA devices comes from
  \<^verbatim>\<open>nvpci\<close>, outside the repository.  The outer \<^const>\<open>None\<close> of a result is a panic on a row of
  \<^verbatim>\<open>nvidia-smi\<close> with too few columns.
\<close>

subsection \<open>Executors\<close>

record 's executor =
  exCheckReady :: "'s \<Rightarrow> string res \<times> 's"
  exRun :: "string \<Rightarrow> string list \<Rightarrow> 's \<Rightarrow> string res \<times> 's"

definition localExecutorPrefix :: string where
  "localExecutorPrefix = ''/host''"

definition sriovManageCommand :: string where
  "sriovManageCommand = ''/usr/lib/nvidia/sriov-manage''"

definition fileCommand :: string where
  "fileCommand = ''/usr/bin/file''"

text \<open>\<open>spawn\<close> starts a program with arguments and environment and waits for its output.\<close>

definition local_Run :: "(string \<Rightarrow> string list \<Rightarrow> string list \<Rightarrow> 's \<Rightarrow> string res \<times> 's) \<Rightarrow> string list
   \<Rightarrow> string \<Rightarrow> string list \<Rightarrow> 's \<Rightarrow> string res \<times> 's" where
  "local_Run spawn envVars cmd args s = spawn (filepath_Join [localExecutorPrefix, cmd]) args envVars s"

definition NewLocalExecutor :: "(string \<Rightarrow> string list \<Rightarrow> string list \<Rightarrow> 's \<Rightarrow> string res \<times> 's) \<Rightarrow> string list \<Rightarrow> 's executor" where
  "NewLocalExecutor spawn envVars =
     \<lparr>exCheckReady = local_Run spawn envVars fileCommand [filepath_Join [localExecutorPrefix, sriovManageCommand]],
      exRun = local_Run spawn envVars\<rparr>"

text \<open>\<open>exec\<close> runs a command in the driver pod; its error output is returned with the error, and
  the callers only log it.\<close>

definition remote_Run :: "(string list \<Rightarrow> 's \<Rightarrow> string res \<times> 's) \<Rightarrow> string \<Rightarrow> string list \<Rightarrow> 's \<Rightarrow> string res \<times> 's" where
  "remote_Run exec cmd args s =
     (case exec [''/bin/sh'', ''-c'', cmd @ '' '' @ Join args '' ''] s of
        (Inl err, s) \<Rightarrow> (Inl (Errorf ''error during command execution''), s)
      | (Inr out, s) \<Rightarrow> (Inr out, s))"

definition RemoteCommandExecutor :: "(string list \<Rightarrow> 's \<Rightarrow> string res \<times> 's) \<Rightarrow> 's executor" where
  "RemoteCommandExecutor exec =
     \<lparr>exCheckReady = remote_Run exec ''/usr/bin/file'' [''/tmp/ready''], exRun = remote_Run exec\<rparr>"

subsection \<open>Discovery\<close>

record NvidiaPCIDevice =
  nvPath :: string
  nvAddress :: string
  nvIsGPU :: bool
  nvIsVF :: bool

record 's nvpci =
  nvGetGPUs :: "'s \<Rightarrow> NvidiaPCIDevice list res"
  nvGetAllDevices :: "'s \<Rightarrow> NvidiaPCIDevice list res"

definition nil_if_empty :: "'a list \<Rightarrow> 'a list option" where
  "nil_if_empty xs = (if xs = [] then None else Some xs)"

lemma slice_of_nil_if_empty [simp]: "slice_of (nil_if_empty xs) = xs"
  by (simp add: nil_if_empty_def)

definition GenerateGPUStatus :: "'s os \<Rightarrow> string \<Rightarrow> string \<Rightarrow> 's \<Rightarrow> (bool \<times> SRIOVGPUDeviceStatus) res" where
  "GenerateGPUStatus sys devicePath hostname s =
     (case CurrentVFConfigured sys devicePath s of
        Inl err \<Rightarrow> Inl err
      | Inr count \<Rightarrow>
          (case GetVFList sys devicePath s of
             Inl err \<Rightarrow> Inl err
           | Inr vfs \<Rightarrow>
               Inr (count > 0, \<lparr>sgVFAddresses = Some vfs,
                                 sgVGPUDevices = nil_if_empty (map (\<lambda>v. PCIDeviceNameForHostname v hostname) vfs)\<rparr>)))"

definition generateSRIOVGPUDevice :: "NvidiaPCIDevice \<Rightarrow> string \<Rightarrow> SRIOVGPUDevice" where
  "generateSRIOVGPUDevice gpu nodeName =
     \<lparr>sgMeta = empty_meta\<lparr>mName := PCIDeviceNameForHostname (nvAddress gpu) nodeName, mLabels := [(NodeKeyName, nodeName)]\<rparr>,
      sgSpec = \<lparr>sgAddress = nvAddress gpu, sgNodeName = nodeName, sgEnabled = False\<rparr>,
      sgStatus = \<lparr>sgVFAddresses = None, sgVGPUDevices = None\<rparr>\<rparr>"

fun identify_gpus :: "'s os \<Rightarrow> string \<Rightarrow> NvidiaPCIDevice list \<Rightarrow> 's \<Rightarrow> SRIOVGPUDevice list res" where
  "identify_gpus sys hostname [] s = Inr []"
| "identify_gpus sys hostname (v # vs) s =
     (case IsDeviceSRIOVCapable sys (nvPath v) s of
        Inl err \<Rightarrow> Inl err
      | Inr ok \<Rightarrow>
          (if \<not> ok then identify_gpus sys hostname vs s
           else case GenerateGPUStatus sys (nvPath v) hostname s of
                  Inl err \<Rightarrow> Inl err
                | Inr (enabled, st) \<Rightarrow>
                    (let devObj = generateSRIOVGPUDevice v hostname;
                         devObj = devObj\<lparr>sgSpec := (sgSpec devObj)\<lparr>sgEnabled := enabled\<rparr>, sgStatus := st\<rparr>
                     in map_sum (\<lambda>e. e) ((#) devObj) (identify_gpus sys hostname vs s))))"

definition IdentifySRIOVGPU :: "'s os \<Rightarrow> 's nvpci \<Rightarrow> string \<Rightarrow> 's \<Rightarrow> SRIOVGPUDevice list res" where
  "IdentifySRIOVGPU sys mgr hostname s =
     (case nvGetGPUs mgr s of
        Inl err \<Rightarrow> Inl (Errorf ''error querying GPU's'')
      | Inr nvidiaGPU \<Rightarrow> identify_gpus sys hostname nvidiaGPU s)"

definition evalPhysFn :: "'s os \<Rightarrow> string \<Rightarrow> 's \<Rightarrow> string res" where
  "evalPhysFn sys devicePath s =
     (case osEvalSymlinks sys (filepath_Join [devicePath, ''physfn'']) s of
        Inl err \<Rightarrow> Inl (Errorf ''error querying physical function'')
      | Inr physResolvedLink \<Rightarrow> Inr (path_last physResolvedLink))"

text \<open>The rows of \<^verbatim>\<open>creatable_vgpu_types\<close>: from profile name to identifier, the header dropped.\<close>

definition parseCurrentVGPUTypes :: "string \<Rightarrow> (string, string) gomap" where
  "parseCurrentVGPUTypes contents =
     foldl (\<lambda>availableTypes v.
              let elements = split_char (CHR '':'') v
              in if length elements \<noteq> 2 then availableTypes
                 else mdel ''vGPU Name'' (mput (TrimSpace (elements ! 1)) (TrimSpace (elements ! 0)) availableTypes))
       [] (split_char (CHR 0x0A) contents)"

definition fetchAvailableTypes :: "'s os \<Rightarrow> string \<Rightarrow> string \<Rightarrow> 's \<Rightarrow> (string, string) gomap res" where
  "fetchAvailableTypes sys pciDeviceRoot deviceAddress s =
     (let creatableVgpuTypesFile = filepath_Join [pciDeviceRoot, deviceAddress, ''nvidia'', CreatableVGPUTypes]
      in case osStat sys creatableVgpuTypesFile s of
           Inl err \<Rightarrow> Inl (Wrapf (''could not get file creatable_vgpu_types for vgpu device '' @ deviceAddress) err)
         | Inr _ \<Rightarrow>
             (case osReadFile sys creatableVgpuTypesFile s of
                Inl err \<Rightarrow> Inl (Wrapf ''error reading creatable_vgpu_types_file'' err)
              | Inr contents \<Rightarrow> Inr (parseCurrentVGPUTypes contents)))"

definition fetchCurrentVGPUType :: "'s os \<Rightarrow> string \<Rightarrow> string \<Rightarrow> 's \<Rightarrow> string res" where
  "fetchCurrentVGPUType sys basepath pciAddress s =
     (case osReadFile sys (filepath_Join [basepath, pciAddress, ''nvidia'', CurrentVGPUType]) s of
        Inl err \<Rightarrow> Inl (Wrapf (''error reading current_vgpu_type for device '' @ pciAddress) err)
      | Inr data \<Rightarrow> Inr (TrimSpace data))"

definition FetchVGPUStatus :: "'s os \<Rightarrow> string \<Rightarrow> string \<Rightarrow> 's \<Rightarrow> VGPUDeviceStatus res" where
  "FetchVGPUStatus sys pciDeviceRoot deviceAddress s =
     (case fetchCurrentVGPUType sys pciDeviceRoot deviceAddress s of
        Inl err \<Rightarrow> Inl (Wrapf ''error during fetchVGPUstatus'' err)
      | Inr currentType \<Rightarrow>
          (case fetchAvailableTypes sys pciDeviceRoot deviceAddress s of
             Inl err \<Rightarrow> Inl (Wrapf ''error during fetchAvailableTypes'' err)
           | Inr availableTypes \<Rightarrow>
               Inr (if currentType \<noteq> ''0'' \<and> currentType \<noteq> []
                    then \<lparr>vgVGPUStatus = VGPUEnabled, vgUUID = currentType, vgConfiguredVGPUTypeName = [], vgAvailableTypes = availableTypes\<rparr>
                    else \<lparr>vgVGPUStatus = VGPUDisabled, vgUUID = [], vgConfiguredVGPUTypeName = [], vgAvailableTypes = availableTypes\<rparr>)))"

definition generateVGPUDevice :: "'s os \<Rightarrow> NvidiaPCIDevice \<Rightarrow> string \<Rightarrow> 's \<Rightarrow> VGPUDevice res" where
  "generateVGPUDevice sys device nodeName s =
     (case evalPhysFn sys (nvPath device) s of
        Inl err \<Rightarrow> Inl err
      | Inr physFn \<Rightarrow>
          (case FetchVGPUStatus sys SysDevRoot (nvAddress device) s of
             Inl err \<Rightarrow> Inl err
           | Inr st \<Rightarrow>
               Inr \<lparr>vgMeta = empty_meta\<lparr>mName := PCIDeviceNameForHostname (nvAddress device) nodeName,
                      mLabels := [(NodeKeyName, nodeName), (ParentSRIOVGPUDeviceLabel, PCIDeviceNameForHostname physFn nodeName)]\<rparr>,
                    vgSpec = \<lparr>vgVGPUTypeName = [], vgAddress = nvAddress device, vgEnabled = vgConfiguredVGPUTypeName st \<noteq> [],
                      vgNodeName = nodeName, vgParentGPUDeviceAddress = physFn\<rparr>,
                    vgStatus = st\<rparr>))"

fun identify_vgpus :: "'s os \<Rightarrow> string \<Rightarrow> NvidiaPCIDevice list \<Rightarrow> 's \<Rightarrow> VGPUDevice list res" where
  "identify_vgpus sys nodeName [] s = Inr []"
| "identify_vgpus sys nodeName (v # vs) s =
     (if nvIsGPU v \<and> nvIsVF v
      then case generateVGPUDevice sys v nodeName s of
             Inl err \<Rightarrow> Inl err
           | Inr dev \<Rightarrow> map_sum (\<lambda>e. e) ((#) dev) (identify_vgpus sys nodeName vs s)
      else identify_vgpus sys nodeName vs s)"

definition IdentifyVGPU :: "'s os \<Rightarrow> 's nvpci \<Rightarrow> string \<Rightarrow> 's \<Rightarrow> VGPUDevice list res" where
  "IdentifyVGPU sys mgr nodeName s =
     (case nvGetAllDevices mgr s of
        Inl err \<Rightarrow> Inl (Errorf ''error querying devices'')
      | Inr nvidiaDevices \<Rightarrow> identify_vgpus sys nodeName nvidiaDevices s)"

subsection \<open>MIG commands\<close>

definition MigPrefix :: string where "MigPrefix = ''MIG''"
definition NA :: string where "NA = ''[N/A]''"

definition generateMigStatusCheckCommand :: "string \<Rightarrow> string" where
  "generateMigStatusCheckCommand address = ''nvidia-smi -i '' @ address @ '' --query-gpu=mig.mode.current --format=csv,noheader''"

definition generateListMIGProfileCommand :: "string \<Rightarrow> string" where
  "generateListMIGProfileCommand address = ''nvidia-smi mig -i '' @ address @ '' -lgip''"

definition generateListMIGComputeInstanceCommand :: "string \<Rightarrow> string" where
  "generateListMIGComputeInstanceCommand address = ''nvidia-smi mig -i '' @ address @ '' -lci || exit 0''"

definition generateListMigInstanceInfoCommand :: "string \<Rightarrow> string" where
  "generateListMigInstanceInfoCommand address = ''nvidia-smi mig -i '' @ address @ '' -lgi || exit 0''"

definition generateCreateInstanceCommand :: "string \<Rightarrow> int \<Rightarrow> string" where
  "generateCreateInstanceCommand address profile = ''nvidia-smi mig -i '' @ address @ '' -cgi '' @ Itoa profile @ '' -C''"

definition generateDeleteComputeInstanceCommand :: "string \<Rightarrow> string \<Rightarrow> string" where
  "generateDeleteComputeInstanceCommand address inst = ''nvidia-smi mig -i '' @ address @ '' -dci -gi '' @ inst"

definition generateDeleteGPUInstanceCommand :: "string \<Rightarrow> string \<Rightarrow> string" where
  "generateDeleteGPUInstanceCommand address inst = ''nvidia-smi mig -i '' @ address @ '' -dgi -gi '' @ inst"

definition generateEnableMIGModeCommand :: "string \<Rightarrow> string" where
  "generateEnableMIGModeCommand address = ''nvidia-smi -i '' @ address @ '' -mig 1''"

definition run_cmd :: "'s executor \<Rightarrow> string \<Rightarrow> 's \<Rightarrow> string res \<times> 's" where
  "run_cmd ex cmd s =
     (case exRun ex cmd [] s of
        (Inl err, s) \<Rightarrow> (Inl (Wrapf (''error executing '' @ cmd) err), s)
      | (Inr out, s) \<Rightarrow> (Inr out, s))"

subsection \<open>The tables of nvidia-smi\<close>

definition parseMigInfo :: "string \<Rightarrow> string list res" where
  "parseMigInfo input =
     (let info = filter (\<lambda>line. Contains line MigPrefix) (scan_lines input)
      in case scan_err input of Some err \<Rightarrow> Inl err | None \<Rightarrow> Inr info)"

definition row_elements :: "string \<Rightarrow> string list" where
  "row_elements v = split_char (CHR '','') (replace_spaces '','' (TrimSpace (ReplaceAll v ''|'' [])))"

text \<open>Name, identifier, available and total count of a profile.\<close>

definition generateProfile :: "string list \<Rightarrow> (string \<times> int \<times> string \<times> string) res option" where
  "generateProfile elements =
     (if length elements \<le> 3 then None
      else case Atoi (elements ! 3) of
             None \<Rightarrow> Some (Inl (Errorf (''error converting profile id '' @ elements ! 3 @ '' to string'')))
           | Some i \<Rightarrow>
               (if length elements \<le> 4 then None
                else let capacity = split_char (CHR ''/'') (elements ! 4)
                     in if length capacity < 2 then None
                        else Some (Inr (elements ! 1 @ '' '' @ elements ! 2, i, capacity ! 0, capacity ! 1))))"

fun profile_requests :: "string list \<Rightarrow> MigProfileRequest list res option" where
  "profile_requests [] = Some (Inr [])"
| "profile_requests (v # vs) =
     (case generateProfile (row_elements v) of
        None \<Rightarrow> None
      | Some (Inl err) \<Rightarrow> Some (Inl (Wrapf ''error calling generateProfile in GenerateProfileSpec'' err))
      | Some (Inr (name, i, _, _)) \<Rightarrow>
          map_option (map_sum (\<lambda>e. e) ((#) \<lparr>mprName = name, mprID = i, mprRequested = 0\<rparr>)) (profile_requests vs))"

definition generateProfileSpec :: "string \<Rightarrow> MigProfileRequest list res option" where
  "generateProfileSpec input =
     (case parseMigInfo input of
        Inl err \<Rightarrow> Some (Inl (Wrapf ''error parsing mig info'' err))
      | Inr info \<Rightarrow> profile_requests info)"

fun profile_statuses :: "string list \<Rightarrow> MigProfileStatus list res option" where
  "profile_statuses [] = Some (Inr [])"
| "profile_statuses (v # vs) =
     (case generateProfile (row_elements v) of
        None \<Rightarrow> None
      | Some (Inl err) \<Rightarrow> Some (Inl err)
      | Some (Inr (name, i, available, totalCount)) \<Rightarrow>
          (case Atoi available of
             None \<Rightarrow> Some (Inl (Errorf (''error converting available count '' @ available @ '' to int'')))
           | Some availableInt \<Rightarrow>
               (case Atoi totalCount of
                  None \<Rightarrow> Some (Inl (Errorf (''error converting total count '' @ totalCount @ '' to int'')))
                | Some totalInt \<Rightarrow>
                    map_option (map_sum (\<lambda>e. e)
                      ((#) \<lparr>mpsName = name, mpsID = i, mpsAvailable = availableInt, mpsTotal = totalInt, mpsVGPUID = None\<rparr>))
                      (profile_statuses vs))))"

fun generateProfileInstanceMap :: "string list \<Rightarrow> (string, string list) gomap \<Rightarrow> (string, string list) gomap option" where
  "generateProfileInstanceMap [] profileMap = Some profileMap"
| "generateProfileInstanceMap (v # info) profileMap =
     (let elements = row_elements v
      in if length elements \<le> 4 then None
         else let ids = (case mget profileMap (elements ! 3) of None \<Rightarrow> [] | Some ids \<Rightarrow> ids);
                  ids = (if elements ! 4 \<notin> set ids then ids @ [elements ! 4] else ids)
              in generateProfileInstanceMap info (mput (elements ! 3) ids profileMap))"

fun int_keys :: "(string, string list) gomap \<Rightarrow> (int, string list) gomap \<Rightarrow> (int, string list) gomap res" where
  "int_keys [] profileIntMap = Inr profileIntMap"
| "int_keys ((k, v) # rest) profileIntMap =
     (case Atoi k of
        None \<Rightarrow> Inl (Errorf (''error converting '' @ k @ '' to int''))
      | Some intK \<Rightarrow> int_keys rest (mput intK v profileIntMap))"

definition generateMIGInstanceInfo :: "string \<Rightarrow> (int, string list) gomap res option" where
  "generateMIGInstanceInfo instanceInfo =
     (case parseMigInfo instanceInfo of
        Inl err \<Rightarrow> Some (Inl (Wrapf ''error parsing instance info'' err))
      | Inr info \<Rightarrow> map_option (\<lambda>m. int_keys m []) (generateProfileInstanceMap info []))"

definition GenerateProfileStatus :: "string \<Rightarrow> string \<Rightarrow> MigProfileStatus list res option" where
  "GenerateProfileStatus profileInfo instanceInfo =
     (case (case parseMigInfo profileInfo of
              Inl err \<Rightarrow> Some (Inl (Wrapf ''error parsing mig info'' err))
            | Inr info \<Rightarrow> profile_statuses info) of
        None \<Rightarrow> None
      | Some (Inl err) \<Rightarrow> Some (Inl err)
      | Some (Inr profileStatuses) \<Rightarrow>
          (case generateMIGInstanceInfo instanceInfo of
             None \<Rightarrow> None
           | Some (Inl err) \<Rightarrow> Some (Inl (Wrapf ''error profile instance map'' err))
           | Some (Inr profileInstanceMap) \<Rightarrow>
               Some (Inr (map (\<lambda>v. case mget profileInstanceMap (mpsID v) of
                                     None \<Rightarrow> v | Some ids \<Rightarrow> v\<lparr>mpsVGPUID := Some ids\<rparr>) profileStatuses))))"

definition isMigSupported :: "string \<Rightarrow> bool" where
  "isMigSupported info = (\<not> Contains info NA)"

fun compute_instance_ids :: "string list \<Rightarrow> string list option" where
  "compute_instance_ids [] = Some []"
| "compute_instance_ids (v # vs) =
     (let elements = row_elements v
      in if length elements \<le> 1 then None else map_option ((#) (elements ! 1)) (compute_instance_ids vs))"

definition generateComputeInstanceList :: "string \<Rightarrow> string list res option" where
  "generateComputeInstanceList info =
     (case parseMigInfo info of
        Inl err \<Rightarrow> Some (Inl (Wrapf ''error parsing mig info'' err))
      | Inr parsedInfo \<Rightarrow> map_option Inr (compute_instance_ids parsedInfo))"

subsection \<open>MIG operations\<close>

definition IsMigConfigurationNeeded :: "'s executor \<Rightarrow> string \<Rightarrow> 's \<Rightarrow> bool res \<times> 's" where
  "IsMigConfigurationNeeded ex deviceAddress s =
     (case run_cmd ex (generateMigStatusCheckCommand deviceAddress) s of
        (Inl err, s) \<Rightarrow> (Inl err, s)
      | (Inr result, s) \<Rightarrow> (Inr (isMigSupported result), s))"

definition GenerateMIGConfiguration :: "'s executor \<Rightarrow> string \<Rightarrow> string \<Rightarrow> 's \<Rightarrow> (MigConfiguration res \<times> 's) option" where
  "GenerateMIGConfiguration ex deviceAddress deviceName s =
     (case run_cmd ex (generateListMIGProfileCommand deviceAddress) s of
        (Inl err, s) \<Rightarrow> Some (Inl err, s)
      | (Inr profileResult, s) \<Rightarrow>
          (case generateProfileSpec profileResult of
             None \<Rightarrow> None
           | Some (Inl err) \<Rightarrow> Some (Inl (Wrapf ''error generating migconfiguration profile info'' err), s)
           | Some (Inr profileInfo) \<Rightarrow>
               Some (Inr \<lparr>mcMeta = empty_meta\<lparr>mName := deviceName\<rparr>,
                          mcSpec = \<lparr>mcEnabled = False, mcGPUAddress = deviceAddress, mcNodeName = [], mcProfileSpec = Some profileInfo\<rparr>,
                          mcStatus = \<lparr>mcProfileStatus = None, mcStatusText = [], mcMessage = []\<rparr>\<rparr>, s)))"

definition GenerateMIGConfigurationStatus :: "'s executor \<Rightarrow> string \<Rightarrow> 's \<Rightarrow> (MigConfigurationStatus res \<times> 's) option" where
  "GenerateMIGConfigurationStatus ex deviceAddress s =
     (case run_cmd ex (generateListMigInstanceInfoCommand deviceAddress) s of
        (Inl err, s) \<Rightarrow> Some (Inl err, s)
      | (Inr instanceResult, s) \<Rightarrow>
          (case run_cmd ex (generateListMIGProfileCommand deviceAddress) s of
             (Inl err, s) \<Rightarrow> Some (Inl err, s)
           | (Inr profileResult, s) \<Rightarrow>
               (case GenerateProfileStatus profileResult instanceResult of
                  None \<Rightarrow> None
                | Some (Inl err) \<Rightarrow> Some (Inl (Errorf ''error generating profile status''), s)
                | Some (Inr profileStatus) \<Rightarrow>
                    Some (Inr \<lparr>mcProfileStatus = Some profileStatus, mcStatusText = [], mcMessage = []\<rparr>, s))))"

definition CreateMIGInstance :: "'s executor \<Rightarrow> string \<Rightarrow> int \<Rightarrow> 's \<Rightarrow> go_error option \<times> 's" where
  "CreateMIGInstance ex deviceAddress profileID s =
     (case run_cmd ex (generateCreateInstanceCommand deviceAddress profileID) s of
        (Inl err, s) \<Rightarrow> (Some err, s)
      | (Inr _, s) \<Rightarrow> (None, s))"

fun create_instances :: "'s executor \<Rightarrow> string \<Rightarrow> string \<Rightarrow> int \<Rightarrow> nat \<Rightarrow> 's \<Rightarrow> go_error option \<times> 's" where
  "create_instances ex address name profile 0 s = (None, s)"
| "create_instances ex address name profile (Suc n) s =
     (case CreateMIGInstance ex address profile s of
        (Some err, s) \<Rightarrow> (Some (Wrapf (''failed creation for '' @ name @
           '' MIG configuration, please check if the requested and available resources match'') err), s)
      | (None, s) \<Rightarrow> create_instances ex address name profile n s)"

definition request_maps :: "MigProfileRequest list \<Rightarrow> int list \<times> (int, int) gomap \<times> (int, string) gomap" where
  "request_maps specs =
     foldl (\<lambda>(impacted, requestMap, nameMap) v.
              if mprRequested v > 0
              then (impacted @ [mprID v], mput (mprID v) (mprRequested v) requestMap, mput (mprID v) (mprName v) nameMap)
              else (impacted, requestMap, nameMap)) ([], [], []) specs"

fun enable_profiles :: "'s executor \<Rightarrow> string \<Rightarrow> (int, int) gomap \<Rightarrow> (int, string) gomap \<Rightarrow> int list \<Rightarrow> 's \<Rightarrow> go_error option \<times> 's" where
  "enable_profiles ex address requestMap nameMap [] s = (None, s)"
| "enable_profiles ex address requestMap nameMap (profile # profiles) s =
     (case create_instances ex address (case mget nameMap profile of None \<Rightarrow> [] | Some n \<Rightarrow> n) profile
             (nat (case mget requestMap profile of None \<Rightarrow> 0 | Some n \<Rightarrow> n)) s of
        (Some err, s) \<Rightarrow> (Some err, s)
      | (None, s) \<Rightarrow> enable_profiles ex address requestMap nameMap profiles s)"

text \<open>\<^verbatim>\<open>sort.IntSlice\<close> only converts the type, so the profiles stay in the order of the request.\<close>

definition EnableMIGProfiles :: "'s executor \<Rightarrow> MigConfiguration \<Rightarrow> 's \<Rightarrow> go_error option \<times> 's" where
  "EnableMIGProfiles ex migConfig s =
     (case request_maps (slice_of (mcProfileSpec (mcSpec migConfig))) of
        (impactedProfiles, requestMap, profileNameMap) \<Rightarrow>
          (let sortedProfiles = impactedProfiles
           in enable_profiles ex (mcGPUAddress (mcSpec migConfig)) requestMap profileNameMap sortedProfiles s))"

definition DeleteMIGInstance :: "'s executor \<Rightarrow> string \<Rightarrow> string \<Rightarrow> 's \<Rightarrow> (go_error option \<times> 's) option" where
  "DeleteMIGInstance ex deviceAddress migInstanceID s =
     (case run_cmd ex (generateListMIGComputeInstanceCommand deviceAddress) s of
        (Inl err, s) \<Rightarrow> Some (Some err, s)
      | (Inr listComputeInstanceOutput, s) \<Rightarrow>
          (case generateComputeInstanceList listComputeInstanceOutput of
             None \<Rightarrow> None
           | Some (Inl err) \<Rightarrow> Some (Some (Wrapf ''error generating compute instance IDs'' err), s)
           | Some (Inr computeInstanceIDs) \<Rightarrow>
               (case (if migInstanceID \<in> set computeInstanceIDs
                      then (case exRun ex (generateDeleteComputeInstanceCommand deviceAddress migInstanceID) [] s of
                              (Inl err, s) \<Rightarrow> (Some (Wrapf (''error deleting compute instance '' @ migInstanceID @ '' on device '' @ deviceAddress) err), s)
                            | (Inr _, s) \<Rightarrow> (None, s))
                      else (None, s)) of
                  (Some err, s) \<Rightarrow> Some (Some err, s)
                | (None, s) \<Rightarrow>
                    (case run_cmd ex (generateListMigInstanceInfoCommand deviceAddress) s of
                       (Inl err, s) \<Rightarrow> Some (Some err, s)
                     | (Inr listMigInstanceOutput, s) \<Rightarrow>
                         (case generateMIGInstanceInfo listMigInstanceOutput of
                            None \<Rightarrow> None
                          | Some (Inl err) \<Rightarrow> Some (Some (Wrapf ''error generating profileInstanceMap'' err), s)
                          | Some (Inr profileInstanceMap) \<Rightarrow>
                              Some (if list_ex (\<lambda>(k, v). migInstanceID \<in> set v) profileInstanceMap
                                    then (case exRun ex (generateDeleteGPUInstanceCommand deviceAddress migInstanceID) [] s of
                                            (Inl err, s) \<Rightarrow> (Some err, s)
                                          | (Inr _, s) \<Rightarrow> (None, s))
                                    else (None, s)))))))"

fun delete_instances :: "'s executor \<Rightarrow> string \<Rightarrow> string list \<Rightarrow> 's \<Rightarrow> (go_error option \<times> 's) option" where
  "delete_instances ex address [] s = Some (None, s)"
| "delete_instances ex address (i # is) s =
     (case DeleteMIGInstance ex address i s of
        None \<Rightarrow> None
      | Some (Some err, s) \<Rightarrow> Some (Some (Wrapf (''error deleting instance '' @ i @ '' on gpu '' @ address) err), s)
      | Some (None, s) \<Rightarrow> delete_instances ex address is s)"

definition DisableMIGProfiles :: "'s executor \<Rightarrow> MigConfiguration \<Rightarrow> 's \<Rightarrow> (go_error option \<times> 's) option" where
  "DisableMIGProfiles ex mig s =
     delete_instances ex (mcGPUAddress (mcSpec mig))
       (concat (map (\<lambda>p. slice_of (mpsVGPUID p)) (slice_of (mcProfileStatus (mcStatus mig))))) s"

definition EnableMIGMode :: "'s executor \<Rightarrow> string \<Rightarrow> 's \<Rightarrow> go_error option \<times> 's" where
  "EnableMIGMode ex deviceAddress s =
     (case run_cmd ex (generateEnableMIGModeCommand deviceAddress) s of
        (Inl err, s) \<Rightarrow> (Some err, s)
      | (Inr _, s) \<Rightarrow> (None, s))"


subsection \<open>Reading the tables\<close>

text \<open>
  A row of the tables: a bar, columns separated by one or more spaces, a bar.  The number that
  goes with a column is that of the extra spaces behind it.
\<close>

definition table_row :: "nat \<times> (string \<times> nat) list \<Rightarrow> string" where
  "table_row r = (case r of (k, ws) \<Rightarrow>
     ''|'' @ replicate k (CHR '' '') @ concat (map (\<lambda>(w, n). w @ replicate (Suc n) (CHR '' '')) ws) @ ''|'')"

definition column_ok :: "string \<Rightarrow> bool" where
  "column_ok w = (w \<noteq> [] \<and> list_all (\<lambda>c. \<not> is_space c \<and> c \<noteq> CHR '','' \<and> c \<noteq> CHR ''|'') w)"

lemma re_space_is_space: "re_space c \<Longrightarrow> is_space c"
  by (auto simp: re_space_def is_space_def)

lemma space_is_space [simp]: "is_space (CHR '' '')" "re_space (CHR '' '')"
  by (simp_all add: re_space_def is_space_def)

lemma collapse_word:
  "w \<noteq> [] \<Longrightarrow> \<forall>c \<in> set w. \<not> re_space c \<Longrightarrow> collapse_spaces rep b (w @ rest) = w @ collapse_spaces rep False rest"
  by (induction w arbitrary: b) (auto, metis append_Nil)

lemma collapse_run: "collapse_spaces rep True (replicate n (CHR '' '') @ rest) = collapse_spaces rep True rest"
  by (induction n) simp_all

lemma collapse_columns:
  "ws \<noteq> [] \<Longrightarrow> list_all (\<lambda>(w, n). column_ok w) ws \<Longrightarrow>
     collapse_spaces '','' b (concat (map (\<lambda>(w, n). w @ replicate (Suc n) (CHR '' '')) (butlast ws)) @ fst (last ws)) = Join (map fst ws) '',''"
proof (induction ws arbitrary: b)
  case (Cons x ws)
  obtain w n where x: "x = (w, n)" by (cases x)
  with Cons.prems have w: "w \<noteq> []" "\<forall>c \<in> set w. \<not> re_space c"
    by (auto simp: column_ok_def list_all_iff dest: re_space_is_space)
  show ?case
  proof (cases "ws = []")
    case True
    then show ?thesis using x w collapse_word [OF w, of "'',''" b "[]"] by simp
  next
    case False
    with Cons x w show ?thesis by (simp add: collapse_word collapse_run Join_Cons)
  qed
qed simp

lemma TrimSpace_between:
  assumes "body \<noteq> []" "\<not> is_space (hd body)" "\<not> is_space (last body)"
  shows "TrimSpace (replicate k (CHR '' '') @ body @ replicate n (CHR '' '')) = body"
proof -
  have d1: "dropWhile is_space (replicate m (CHR '' '') @ b) = b" if "b \<noteq> []" "\<not> is_space (hd b)" for m b
  proof (induction m)
    case 0
    then show ?case using that by (cases b) simp_all
  qed simp
  have "dropWhile is_space (replicate k (CHR '' '') @ body @ replicate n (CHR '' '')) = body @ replicate n (CHR '' '')"
    using assms by (intro d1) simp_all
  moreover have "dropWhile is_space (replicate n (CHR '' '') @ rev body) = rev body"
    using assms by (intro d1) (simp_all add: hd_rev)
  ultimately show ?thesis by (simp add: TrimSpace_def)
qed

lemma column_ok_ends: "column_ok w \<Longrightarrow> w \<noteq> [] \<and> \<not> is_space (hd w) \<and> \<not> is_space (last w)"
  by (auto simp: column_ok_def list_all_iff)

lemma column_no_comma: "column_ok w \<Longrightarrow> CHR '','' \<notin> set w"
  unfolding column_ok_def list_all_iff by blast

lemma TrimSpace_columns:
  assumes "ws \<noteq> []" "list_all (\<lambda>(w, n). column_ok w) ws"
  shows "TrimSpace (replicate k (CHR '' '') @ concat (map (\<lambda>(w, n). w @ replicate (Suc n) (CHR '' '')) ws)) =
    concat (map (\<lambda>(w, n). w @ replicate (Suc n) (CHR '' '')) (butlast ws)) @ fst (last ws)"
proof -
  let ?f = "\<lambda>(w, n). w @ replicate (Suc n) (CHR '' '')"
  let ?body = "concat (map ?f (butlast ws)) @ fst (last ws)"
  have l: "column_ok (fst (last ws))" and h: "column_ok (fst (hd ws))"
    using assms by (auto simp: list_all_iff case_prod_beta)
  have split: "concat (map ?f ws) = ?body @ replicate (Suc (snd (last ws))) (CHR '' '')"
    using assms(1) by (subst append_butlast_last_id [symmetric, of ws]) (simp_all add: case_prod_beta del: append_butlast_last_id)
  have "hd ?body = hd (fst (hd ws))"
  proof (cases "butlast ws = []")
    case True
    then show ?thesis using assms(1) by (cases ws) (simp_all split: if_splits)
  next
    case False
    then obtain x xs where "ws = x # xs" "xs \<noteq> []" by (cases ws) (auto split: if_splits)
    then show ?thesis using column_ok_ends [OF h] by (simp add: case_prod_beta)
  qed
  then have "?body \<noteq> [] \<and> \<not> is_space (hd ?body) \<and> \<not> is_space (last ?body)"
    using column_ok_ends [OF h] column_ok_ends [OF l] by simp
  then show ?thesis unfolding split by (intro TrimSpace_between) blast+
qed

lemma row_elements_row:
  assumes "ws \<noteq> []" "list_all (\<lambda>(w, n). column_ok w) ws"
  shows "row_elements (table_row (k, ws)) = map fst ws"
proof -
  let ?f = "\<lambda>(w, n). w @ replicate (Suc n) (CHR '' '')"
  have "filter (\<lambda>c. c \<noteq> CHR ''|'') (concat (map ?f ws)) = concat (map ?f ws)"
    using assms(2) by (auto simp: filter_id_conv list_all_iff column_ok_def split: if_splits)
  then have "ReplaceAll (table_row (k, ws)) ''|'' [] = replicate k (CHR '' '') @ concat (map ?f ws)"
    by (simp add: table_row_def ReplaceAll_delete filter_replicate)
  then have "row_elements (table_row (k, ws)) = split_char (CHR '','') (Join (map fst ws) '','')"
    unfolding row_elements_def replace_spaces_def by (simp only: TrimSpace_columns [OF assms] collapse_columns [OF assms])
  moreover have "\<forall>x \<in> set ws. column_ok (fst x)"
    using assms(2) by (simp add: list_all_iff case_prod_beta)
  then have "\<forall>w \<in> set (map fst ws). CHR '','' \<notin> set w"
    using column_no_comma by simp
  then have "split_char (CHR '','') (Join (map fst ws) '','') = map fst ws"
    using assms(1) by (intro split_char_Join) simp_all
  ultimately show ?thesis by simp
qed

lemma Contains_append: "Contains (a @ sub @ b) sub"
proof (induction a)
  case Nil
  then show ?case by (cases "sub @ b") (auto simp: HasPrefix_def, metis append_eq_conv_conj)
qed simp

text \<open>
  A table of \<^verbatim>\<open>nvidia-smi\<close>: rows of profiles or instances between heading and closing lines, which
  do not mention MIG.  A row lists the GPU, the word MIG, the profile's name and identifier, and
  in its fifth column the counts of the profile or the identifier of the instance.
\<close>

type_synonym mig_table = "string list \<times> (nat \<times> (string \<times> nat) list) list \<times> string list"

definition print_table :: "mig_table \<Rightarrow> string" where
  "print_table t = (case t of (heading, rows, closing) \<Rightarrow>
     Join (heading @ map table_row rows @ closing) [CHR 0x0A] @ [CHR 0x0A])"

definition line_ok :: "string \<Rightarrow> bool" where
  "line_ok l = (CHR 0x0A \<notin> set l \<and> CHR 0x0D \<notin> set l)"

definition row_ok :: "nat \<times> (string \<times> nat) list \<Rightarrow> bool" where
  "row_ok r = (list_all (\<lambda>(w, n). column_ok w) (snd r) \<and> length (snd r) \<ge> 5 \<and> fst (snd r ! 1) = MigPrefix
     \<and> scan_fits (table_row r))"

definition table_ok :: "mig_table \<Rightarrow> bool" where
  "table_ok t = (case t of (heading, rows, closing) \<Rightarrow>
     heading \<noteq> [] \<and> list_all (\<lambda>l. line_ok l \<and> scan_fits l \<and> \<not> Contains l MigPrefix) (heading @ closing) \<and> list_all row_ok rows)"

lemma row_ok_elements: "row_ok r \<Longrightarrow> row_elements (table_row r) = map fst (snd r)"
  by (cases r) (auto simp: row_ok_def intro: row_elements_row)

lemma set_table_row: "set (table_row (k, ws)) \<subseteq> {CHR ''|'', CHR '' ''} \<union> \<Union> (set ` fst ` set ws)"
  by (auto simp: table_row_def split: if_splits)

lemma column_line_ok: "column_ok w \<Longrightarrow> line_ok w"
proof -
  have "is_space (CHR 0x0A)" "is_space (CHR 0x0D)" by (simp_all add: is_space_def)
  then show "column_ok w \<Longrightarrow> line_ok w" unfolding column_ok_def list_all_iff line_ok_def by blast
qed

lemma row_ok_line:
  assumes "row_ok r"
  shows "line_ok (table_row r)"
proof -
  obtain k ws where r: "r = (k, ws)" by (cases r)
  have "\<forall>w \<in> fst ` set ws. line_ok w"
    using assms column_line_ok by (simp add: r row_ok_def list_all_iff case_prod_beta)
  moreover have "CHR 0x0A \<notin> {CHR ''|'', CHR '' ''}" "CHR 0x0D \<notin> {CHR ''|'', CHR '' ''}" by simp_all
  ultimately show ?thesis
    using set_table_row [of k ws] unfolding line_ok_def r by blast
qed

lemma row_ok_Contains:
  assumes "row_ok r"
  shows "Contains (table_row r) MigPrefix"
proof -
  obtain k ws where r: "r = (k, ws)" by (cases r)
  let ?f = "\<lambda>(w, n). w @ replicate (Suc n) (CHR '' '')"
  from assms r obtain x n ys where "ws = x # (MigPrefix, n) # ys"
    by (cases ws; cases "tl ws") (auto simp: row_ok_def)
  then have "table_row r = (''|'' @ replicate k (CHR '' '') @ ?f x) @ MigPrefix @ replicate (Suc n) (CHR '' '') @ concat (map ?f ys) @ ''|''"
    by (simp add: r table_row_def)
  then show ?thesis using Contains_append by metis
qed

lemma parseMigInfo_table:
  assumes "table_ok (heading, rows, closing)"
  shows "parseMigInfo (print_table (heading, rows, closing)) = Inr (map table_row rows)"
proof -
  let ?ls = "heading @ map table_row rows @ closing"
  have "\<forall>l \<in> set ?ls. line_ok l" "?ls \<noteq> []"
    using assms row_ok_line by (auto simp: table_ok_def list_all_iff)
  moreover have "\<forall>l \<in> set ?ls. scan_fits l"
    using assms by (auto simp: table_ok_def list_all_iff row_ok_def)
  ultimately have "scan_lines (print_table (heading, rows, closing)) = ?ls" "scan_err (print_table (heading, rows, closing)) = None"
    using scan_lines_Join [of ?ls] unfolding print_table_def prod.case line_ok_def by blast+
  moreover have "filter (\<lambda>l. Contains l MigPrefix) heading = []" "filter (\<lambda>l. Contains l MigPrefix) closing = []"
    "filter (\<lambda>l. Contains l MigPrefix) (map table_row rows) = map table_row rows"
    using assms row_ok_Contains by (auto simp: table_ok_def list_all_iff filter_empty_conv filter_id_conv)
  ultimately show ?thesis by (simp add: parseMigInfo_def)
qed

subsection \<open>Round trip of the profile and instance tables\<close>

definition int64 :: "int \<Rightarrow> bool" where
  "int64 i = (- (2 ^ 63) \<le> i \<and> i < 2 ^ 63)"

text \<open>A profile with its identifier, available and total count; an instance with its profile.\<close>

definition profile_row :: "nat \<times> (string \<times> nat) list \<Rightarrow> string \<times> int \<times> int \<times> int \<Rightarrow> bool" where
  "profile_row r p = (case p of (name, i, available, capacity) \<Rightarrow>
     row_ok r \<and> fst (snd r ! 2) = name \<and> fst (snd r ! 3) = Itoa i \<and> fst (snd r ! 4) = Itoa available @ ''/'' @ Itoa capacity
     \<and> int64 i \<and> int64 available \<and> int64 capacity)"

definition instance_row :: "nat \<times> (string \<times> nat) list \<Rightarrow> int \<times> string \<Rightarrow> bool" where
  "instance_row r x = (case x of (i, inst) \<Rightarrow> row_ok r \<and> fst (snd r ! 3) = Itoa i \<and> fst (snd r ! 4) = inst \<and> int64 i)"

lemma Atoi_int64: "int64 i \<Longrightarrow> Atoi (Itoa i) = Some i"
  by (simp add: int64_def Atoi_Itoa)

lemma Itoa_eq: "int64 i \<Longrightarrow> int64 j \<Longrightarrow> Itoa i = Itoa j \<longleftrightarrow> i = j"
  by (metis Atoi_int64 option.inject)

lemma Itoa_no_slash: "CHR ''/'' \<notin> set (Itoa i)"
proof -
  have "CHR ''/'' \<notin> set (format_nat 10 n)" for n
    using set_format_nat [of 10 "CHR ''/''" n] by (auto simp: is_digit_def is_lower_def)
  then show ?thesis by (simp add: Itoa_def)
qed

lemma generateProfile_row:
  assumes "profile_row r (name, i, available, capacity)"
  shows "generateProfile (row_elements (table_row r)) = Some (Inr (''MIG '' @ name, i, Itoa available, Itoa capacity))"
proof -
  have "row_elements (table_row r) = map fst (snd r)" "5 \<le> length (snd r)" "fst (snd r ! 1) = ''MIG''"
    using assms row_ok_elements by (auto simp: profile_row_def row_ok_def MigPrefix_def)
  moreover have "split_char (CHR ''/'') (Itoa available @ ''/'' @ Itoa capacity) = [Itoa available, Itoa capacity]"
    using split_char_append_sep [OF Itoa_no_slash] split_char_no_sep [OF Itoa_no_slash] by simp
  ultimately show ?thesis
    using assms by (simp add: generateProfile_def profile_row_def Atoi_int64)
qed

definition status_of_profile :: "string \<times> int \<times> int \<times> int \<Rightarrow> MigProfileStatus" where
  "status_of_profile p = (case p of (name, i, available, capacity) \<Rightarrow>
     \<lparr>mpsName = ''MIG '' @ name, mpsID = i, mpsAvailable = available, mpsTotal = capacity, mpsVGPUID = None\<rparr>)"

lemma profile_statuses_rows:
  "list_all2 profile_row rows ps \<Longrightarrow> profile_statuses (map table_row rows) = Some (Inr (map status_of_profile ps))"
proof (induction rule: list_all2_induct)
  case (Cons r rows p ps)
  obtain name i available capacity where p: "p = (name, i, available, capacity)" by (cases p)
  have "int64 available" "int64 capacity" using Cons p by (simp_all add: profile_row_def)
  then show ?case
    using Cons generateProfile_row [of r name i available capacity] by (simp add: p status_of_profile_def Atoi_int64)
qed simp

lemma instance_map_rows:
  assumes "list_all2 instance_row rows xs" and "distinct (map snd xs)" and "wf_map m"
    and "\<And>k ids. mget m k = Some ids \<Longrightarrow> set ids \<inter> snd ` set xs = {}"
  shows "\<exists>m'. generateProfileInstanceMap (map table_row rows) m = Some m' \<and> wf_map m'
    \<and> set (mkeys m') = set (mkeys m) \<union> Itoa ` fst ` set xs
    \<and> (\<forall>i. int64 i \<longrightarrow> mget m' (Itoa i) = (let new = map snd (filter (\<lambda>x. fst x = i) xs)
          in if new = [] then mget m (Itoa i) else Some (slice_of (mget m (Itoa i)) @ new)))"
  using assms
proof (induction arbitrary: m rule: list_all2_induct)
  case Nil
  then show ?case by simp
next
  case (Cons r rows x xs)
  obtain j inst where x: "x = (j, inst)" by (cases x)
  have el: "row_elements (table_row r) = map fst (snd r)" "5 \<le> length (snd r)" "fst (snd r ! 3) = Itoa j" "fst (snd r ! 4) = inst"
    and j: "int64 j" using Cons.hyps(1) x row_ok_elements by (auto simp: instance_row_def row_ok_def)
  let ?m = "mput (Itoa j) (slice_of (mget m (Itoa j)) @ [inst]) m"
  have "inst \<notin> set (slice_of (mget m (Itoa j)))"
    using Cons.prems(3) x by (cases "mget m (Itoa j)") fastforce+
  then have step: "generateProfileInstanceMap (map table_row (r # rows)) m = generateProfileInstanceMap (map table_row rows) ?m"
    using el by (simp add: Let_def slice_of_def)
  have old: "set ids \<inter> snd ` set xs = {}" if "mget m k = Some ids" for k ids
    using Cons.prems(3) [OF that] by auto
  then have "set (slice_of (mget m (Itoa j))) \<inter> snd ` set xs = {}"
    by (cases "mget m (Itoa j)") simp_all
  moreover have "inst \<notin> snd ` set xs" using Cons.prems(1) by (simp add: x)
  ultimately have here: "set (slice_of (mget m (Itoa j)) @ [inst]) \<inter> snd ` set xs = {}" by simp
  have "set ids \<inter> snd ` set xs = {}" if "mget ?m k = Some ids" for k ids
  proof (cases "k = Itoa j")
    case True
    with that have "ids = slice_of (mget m (Itoa j)) @ [inst]" by simp
    with here show ?thesis by simp
  qed (use that old [of k ids] in simp)
  with Cons.prems(1,2) Cons.IH [of ?m] obtain m' where
    "generateProfileInstanceMap (map table_row rows) ?m = Some m'" "wf_map m'"
    "set (mkeys m') = set (mkeys ?m) \<union> Itoa ` fst ` set xs"
    "\<forall>i. int64 i \<longrightarrow> mget m' (Itoa i) = (let new = map snd (filter (\<lambda>x. fst x = i) xs)
          in if new = [] then mget ?m (Itoa i) else Some (slice_of (mget ?m (Itoa i)) @ new))" by auto
  then show ?case
    unfolding step using j by (intro exI [of _ m']) (auto simp: x mkeys_mput Let_def Itoa_eq)
qed

lemma int_keys_Itoa:
  assumes "wf_map m" "\<forall>k \<in> set (mkeys m). \<exists>i. int64 i \<and> k = Itoa i"
  shows "\<exists>r. int_keys m acc = Inr r \<and> (\<forall>i. int64 i \<longrightarrow> mget r i = (case mget m (Itoa i) of Some v \<Rightarrow> Some v | None \<Rightarrow> mget acc i))"
  using assms
proof (induction m arbitrary: acc)
  case (Cons kv m)
  obtain k v where kv: "kv = (k, v)" by (cases kv)
  with Cons.prems obtain j where j: "int64 j" "k = Itoa j" by (auto simp: mkeys_def)
  have "wf_map m" "\<forall>k \<in> set (mkeys m). \<exists>i. int64 i \<and> k = Itoa i" and "mget m (Itoa j) = None"
    using Cons.prems kv j by (auto simp: wf_map_def mkeys_def mget_def map_of_eq_None_iff)
  with Cons.IH [of "mput j v acc"] j kv show ?case
    by (auto simp: mget_Cons Atoi_int64 Itoa_eq split: option.splits)
qed simp


definition demo_heading :: "string list" where
  "demo_heading = [''+------------------------------------------+'', ''| GPU   Name             ID    Instances   |'']"

text \<open>Two profiles, and two instances of the first.\<close>

definition demo_profiles :: "(nat \<times> (string \<times> nat) list) list" where
  "demo_profiles =
     [(2, [(''0'', 1), (''MIG'', 0), (''1g.5gb'', 9), (''19'', 4), (''5/7'', 8), (''4.75'', 0)]),
      (2, [(''0'', 1), (''MIG'', 0), (''2g.10gb'', 8), (''14'', 4), (''3/3'', 8), (''9.75'', 0)])]"

definition demo_instances :: "(nat \<times> (string \<times> nat) list) list" where
  "demo_instances =
     [(2, [(''0'', 1), (''MIG'', 0), (''1g.5gb'', 9), (''19'', 4), (''7'', 8), (''0:1'', 0)]),
      (2, [(''0'', 1), (''MIG'', 0), (''1g.5gb'', 9), (''19'', 4), (''8'', 8), (''1:1'', 0)])]"


subsection \<open>Creating instances\<close>

text \<open>Running commands in order up to the first failure.\<close>

fun run_all :: "'s executor \<Rightarrow> string list \<Rightarrow> 's \<Rightarrow> bool \<times> 's" where
  "run_all ex [] s = (True, s)"
| "run_all ex (c # cs) s = (case exRun ex c [] s of (Inl err, s) \<Rightarrow> (False, s) | (Inr out, s) \<Rightarrow> run_all ex cs s)"

definition outcome :: "go_error option \<times> 's \<Rightarrow> bool \<times> 's" where
  "outcome r = (fst r = None, snd r)"

lemma run_all_append:
  "run_all ex (xs @ ys) s = (case run_all ex xs s of (True, s) \<Rightarrow> run_all ex ys s | (False, s) \<Rightarrow> (False, s))"
  by (induction xs arbitrary: s) (auto split: prod.splits sum.splits)

lemma create_instances_run:
  "outcome (create_instances ex address name profile n s) = run_all ex (replicate n (generateCreateInstanceCommand address profile)) s"
  by (induction n arbitrary: s) (auto simp: outcome_def CreateMIGInstance_def run_cmd_def split: prod.splits sum.splits option.splits)

lemma enable_profiles_run:
  "outcome (enable_profiles ex address rm nm ids s) =
     run_all ex (concat (map (\<lambda>i. replicate (nat (case mget rm i of None \<Rightarrow> 0 | Some n \<Rightarrow> n)) (generateCreateInstanceCommand address i)) ids)) s"
proof (induction ids arbitrary: s)
  case Nil
  then show ?case by (simp add: outcome_def)
next
  case (Cons i ids)
  let ?r = "create_instances ex address (case mget nm i of None \<Rightarrow> [] | Some n \<Rightarrow> n) i (nat (case mget rm i of None \<Rightarrow> 0 | Some n \<Rightarrow> n)) s"
  obtain e s1 where r: "?r = (e, s1)" by (cases ?r)
  then have "run_all ex (replicate (nat (case mget rm i of None \<Rightarrow> 0 | Some n \<Rightarrow> n)) (generateCreateInstanceCommand address i)) s = (e = None, s1)"
    using create_instances_run [of ex address _ i "nat (case mget rm i of None \<Rightarrow> 0 | Some n \<Rightarrow> n)" s] by (metis fst_conv snd_conv outcome_def)
  then show ?case
    using r by (cases e) (simp_all add: run_all_append Cons.IH [symmetric], simp_all add: outcome_def)
qed

lemma request_maps_snoc:
  "request_maps (vs @ [v]) =
     (case request_maps vs of (ids, rm, nm) \<Rightarrow>
        if mprRequested v > 0 then (ids @ [mprID v], mput (mprID v) (mprRequested v) rm, mput (mprID v) (mprName v) nm)
        else (ids, rm, nm))"
  by (simp add: request_maps_def case_prod_beta)

lemma request_maps_spec:
  "distinct (map mprID (filter (\<lambda>v. mprRequested v > 0) vs)) \<Longrightarrow>
     fst (request_maps vs) = map mprID (filter (\<lambda>v. mprRequested v > 0) vs)
     \<and> (\<forall>v \<in> set vs. mprRequested v > 0 \<longrightarrow> mget (fst (snd (request_maps vs))) (mprID v) = Some (mprRequested v))"
proof (induction vs rule: rev_induct)
  case Nil
  then show ?case by (simp add: request_maps_def)
next
  case (snoc v vs)
  obtain ids rm nm where r: "request_maps vs = (ids, rm, nm)" by (cases "request_maps vs")
  from snoc r show ?case
    by (auto simp: request_maps_snoc)
qed

lemma concat_requests:
  "(\<forall>v \<in> set vs. mprRequested v > 0 \<longrightarrow> g (mprID v) = mprRequested v) \<Longrightarrow>
     concat (map (\<lambda>i. replicate (nat (g i)) (c i)) (map mprID (filter (\<lambda>v. mprRequested v > 0) vs))) =
     concat (map (\<lambda>v. replicate (nat (mprRequested v)) (c (mprID v))) vs)"
  by (induction vs) auto


text \<open>An executor that records the commands and rejects profile 14.\<close>

definition demo_executor :: "string list executor" where
  "demo_executor =
     \<lparr>exCheckReady = \<lambda>s. (Inr [], s),
      exRun = \<lambda>cmd args s. (if cmd = ''nvidia-smi mig -i 0000:04:00.0 -cgi 14 -C'' then Inl (Errorf ''no resources'')
                            else Inr [], s @ [cmd])\<rparr>"

definition demo_mig :: MigConfiguration where
  "demo_mig =
     \<lparr>mcMeta = empty_meta,
      mcSpec = \<lparr>mcEnabled = True, mcGPUAddress = ''0000:04:00.0'', mcNodeName = ''node1'',
        mcProfileSpec = Some [\<lparr>mprName = ''MIG 1g.5gb'', mprID = 19, mprRequested = 2\<rparr>,
                              \<lparr>mprName = ''MIG 7g.40gb'', mprID = 0, mprRequested = 0\<rparr>,
                              \<lparr>mprName = ''MIG 2g.10gb'', mprID = 14, mprRequested = 2\<rparr>]\<rparr>,
      mcStatus = \<lparr>mcProfileStatus = None, mcStatusText = [], mcMessage = []\<rparr>\<rparr>"


end
