(* ===== verification/Gpu_Controller.thy ===== *)
theory Gpu_Controller
  imports Gpu_Helper
begin

section \<open>The GPU, vGPU and MIG controllers\<close>

text \<open>
  Models \<^verbatim>\<open>pkg/controller/gpudevice\<close>: \<^verbatim>\<open>gpu_controller.go\<close>, \<^verbatim>\<open>vgpu_controller.go\<close> and \<^verbatim>\<open>mig_controller.go\<close>.  The
  handler's executor is an argument, since \<^verbatim>\<open>setupRemoteExecutor\<close> replaces it; the API clients,
  sysfs and \<^verbatim>\<open>nvpci\<close> are fields of the environment.  \<open>gcMissNonNil\<close> tells whether a cache returns
  a non-nil object together with a not-found error, as a comment in
  \<^verbatim>\<open>reconcileSRIOVGPUSetup\<close> says of the client library.  Maps are compared by content; whether an
  empty map is nil is not tracked.
\<close>

record 's gpu_env =
  gcSriov :: "(SRIOVGPUDevice, 's) client"
  gcSriovCache :: "(SRIOVGPUDevice, 's) client"
  gcVgpu :: "(VGPUDevice, 's) client"
  gcVgpuCache :: "(VGPUDevice, 's) client"
  gcPdc :: "(PCIDeviceClaim, 's) client"
  gcPdcCache :: "(PCIDeviceClaim, 's) client"
  gcPd :: "(PCIDevice, 's) client"
  gcPdCache :: "(PCIDevice, 's) client"
  gcMig :: "(MigConfiguration, 's) client"
  gcMigCache :: "(MigConfiguration, 's) client"
  gcOs :: "'s os"
  gcWriteFile :: "string \<Rightarrow> string \<Rightarrow> 's \<Rightarrow> unit res \<times> 's"
  gcNvpci :: "'s nvpci"
  gcNodeName :: string
  gcMissNonNil :: bool

subsection \<open>SR-IOV GPUs\<close>

fun containsGPUDevices :: "SRIOVGPUDevice list \<Rightarrow> string \<Rightarrow> bool" where
  "containsGPUDevices [] gpu = False"
| "containsGPUDevices (v # gpuList) gpu = (if sgName v = gpu then True else containsGPUDevices gpuList gpu)"

interpretation gpus: membership containsGPUDevices "\<lambda>g. sgName g"
proof
  show "containsGPUDevices xs k \<longleftrightarrow> k \<in> (\<lambda>g. sgName g) ` set xs" for xs k
    by (induction xs) auto
qed

text \<open>The status is assigned to the object the handler was called with, which is the cached one, and then sent.\<close>

definition store_gpu_status :: "'s gpu_env \<Rightarrow> SRIOVGPUDevice \<Rightarrow> SRIOVGPUDeviceStatus \<Rightarrow> 's \<Rightarrow> (SRIOVGPUDevice, 's) handler_result" where
  "store_gpu_status E gpu gpuStatus s =
     (let gpu = gpu\<lparr>sgStatus := gpuStatus\<rparr>
      in client_result (cUpdateStatus (gcSriov E) gpu (cAlias (gcSriovCache E) (sgName gpu) gpu s)))"

definition manageGPU :: "'s gpu_env \<Rightarrow> 's executor \<Rightarrow> SRIOVGPUDevice \<Rightarrow> 's \<Rightarrow> (SRIOVGPUDevice, 's) handler_result" where
  "manageGPU E ex gpu s =
     (let args = [if sgEnabled (sgSpec gpu) then ''-e'' else ''-d'', sgAddress (sgSpec gpu)]
      in case exCheckReady ex s of
           (Inl err, s) \<Rightarrow> (Some gpu, Some (Errorf ''error during readiness check''), s)
         | (Inr _, s) \<Rightarrow>
             (case exRun ex sriovManageCommand args s of
                (Inl err, s) \<Rightarrow> (Some gpu, Some (Errorf ''error performing sriovmanage operation''), s)
              | (Inr _, s) \<Rightarrow>
                  (case GenerateGPUStatus (gcOs E) (filepath_Join [SysDevRoot, sgAddress (sgSpec gpu)]) (sgNodeName (sgSpec gpu)) s of
                     Inl err \<Rightarrow> (Some gpu, Some err, s)
                   | Inr (_, gpuStatus) \<Rightarrow> store_gpu_status E gpu gpuStatus s)))"

text \<open>The comparison of the status with the generated one compares a struct with a pointer, which
  \<^verbatim>\<open>reflect.DeepEqual\<close> never finds equal: the status is always written.\<close>

definition OnGPUChange :: "'s gpu_env \<Rightarrow> 's executor \<Rightarrow> SRIOVGPUDevice option \<Rightarrow> 's \<Rightarrow> (SRIOVGPUDevice, 's) handler_result" where
  "OnGPUChange E ex gpup s =
     (case gpup of None \<Rightarrow> (None, None, s) | Some gpu \<Rightarrow>
      if mDeletionTimestamp (sgMeta gpu) \<or> sgNodeName (sgSpec gpu) \<noteq> gcNodeName E then (Some gpu, None, s)
      else case GenerateGPUStatus (gcOs E) (filepath_Join [SysDevRoot, sgAddress (sgSpec gpu)]) (sgNodeName (sgSpec gpu)) s of
        Inl err \<Rightarrow> (Some gpu, Some (Errorf (''error generating status for SRIOVGPUDevice '' @ sgName gpu)), s)
      | Inr (enabled, gpuStatus) \<Rightarrow>
          (if sgEnabled (sgSpec gpu) \<noteq> enabled then manageGPU E ex gpu s
           else store_gpu_status E gpu gpuStatus s))"

definition createOrUpdateSRIOVGPUDevice :: "'s gpu_env \<Rightarrow> SRIOVGPUDevice \<Rightarrow> 's \<Rightarrow> go_error option \<times> 's" where
  "createOrUpdateSRIOVGPUDevice E gpu s =
     (case cGet (gcSriovCache E) (sgName gpu) s of
        Inr _ \<Rightarrow> (None, s)
      | Inl err \<Rightarrow> if IsNotFound err then err_result (cCreate (gcSriov E) gpu s) else (Some err, s))"

fun create_missing_gpus :: "'s gpu_env \<Rightarrow> SRIOVGPUDevice list \<Rightarrow> 's \<Rightarrow> go_error option \<times> 's" where
  "create_missing_gpus E [] s = (None, s)"
| "create_missing_gpus E (v # vs) s =
     (case cGet (gcPdcCache E) (sgName v) s of
        Inr existingClaim \<Rightarrow> create_missing_gpus E vs s
      | Inl err \<Rightarrow>
          (if IsNotFound err
           then case createOrUpdateSRIOVGPUDevice E v s of
                  (Some err, s) \<Rightarrow> (Some err, s)
                | (None, s) \<Rightarrow> create_missing_gpus E vs s
           else (Some (Errorf (''error looking up pcideviceclaim for sriovGPUDevice '' @ sgName v)), s)))"

fun delete_stale_gpus :: "'s gpu_env \<Rightarrow> SRIOVGPUDevice list \<Rightarrow> SRIOVGPUDevice list \<Rightarrow> 's \<Rightarrow> go_error option \<times> 's" where
  "delete_stale_gpus E found [] s = (None, s)"
| "delete_stale_gpus E found (v # existingGPUs) s =
     (if \<not> containsGPUDevices found (sgName v)
      then case cDelete (gcSriov E) (sgName v) s of
             (Inl err, s) \<Rightarrow> (Some (Errorf (''error deleting non existent GPU device '' @ sgName v)), s)
           | (Inr _, s) \<Rightarrow> delete_stale_gpus E found existingGPUs s
      else delete_stale_gpus E found existingGPUs s)"

interpretation gpu_creates: early_exit_loop "\<lambda>x. create_missing_gpus E [x]" "create_missing_gpus E" for E
  by unfold_locales (auto split: prod.splits sum.splits option.splits)

interpretation gpu_deletes: early_exit_loop "\<lambda>x. delete_stale_gpus E found [x]" "delete_stale_gpus E found" for E found
  by unfold_locales (auto split: prod.splits sum.splits option.splits)

definition reconcileSRIOVGPUSetup :: "'s gpu_env \<Rightarrow> SRIOVGPUDevice list \<Rightarrow> 's \<Rightarrow> go_error option \<times> 's" where
  "reconcileSRIOVGPUSetup E sriovGPUDevices s =
     (case create_missing_gpus E sriovGPUDevices s of
        (Some err, s) \<Rightarrow> (Some err, s)
      | (None, s) \<Rightarrow>
          (case cList (gcSriovCache E) [(NodeKeyName, gcNodeName E)] s of
             Inl err \<Rightarrow> (Some err, s)
           | Inr existingGPUs \<Rightarrow> delete_stale_gpus E sriovGPUDevices existingGPUs s))"

definition SetupSRIOVGPUDevices :: "'s gpu_env \<Rightarrow> 's \<Rightarrow> go_error option \<times> 's" where
  "SetupSRIOVGPUDevices E s =
     (case IdentifySRIOVGPU (gcOs E) (gcNvpci E) (gcNodeName E) s of
        Inl err \<Rightarrow> (Some err, s)
      | Inr sriovGPUDevices \<Rightarrow> reconcileSRIOVGPUSetup E sriovGPUDevices s)"

subsection \<open>The executor\<close>

definition DefaultNamespace :: string where
  "DefaultNamespace = ''harvester-system''"

definition NvidiaDriverLabel :: string where
  "NvidiaDriverLabel = ''app=nvidia-driver-daemonset''"

record driver_pod =
  dpMeta :: object_meta
  dpNodeName :: string

definition isNotDriverPod :: "driver_pod \<Rightarrow> bool" where
  "isNotDriverPod pod =
     (let elements = split_char (CHR ''='') NvidiaDriverLabel
      in mget (mLabels (dpMeta pod)) (elements ! 0) \<noteq> Some (elements ! 1))"

text \<open>\<open>remote\<close> builds the executor of a pod, \<open>local\<close> is the default one.\<close>

definition setupRemoteExecutor ::
  "'s gpu_env \<Rightarrow> (driver_pod \<Rightarrow> 's executor res) \<Rightarrow> 's executor \<Rightarrow> driver_pod option \<Rightarrow> 's executor
   \<Rightarrow> go_error option \<times> 's executor" where
  "setupRemoteExecutor E remote local_ex podp ex =
     (case podp of None \<Rightarrow> (None, ex) | Some pod \<Rightarrow>
      if mNamespace (dpMeta pod) \<noteq> DefaultNamespace \<or> isNotDriverPod pod \<or> dpNodeName pod \<noteq> gcNodeName E then (None, ex)
      else if \<not> mDeletionTimestamp (dpMeta pod)
      then case remote pod of Inl err \<Rightarrow> (Some err, ex) | Inr newExecutor \<Rightarrow> (None, newExecutor)
      else (None, local_ex))"

subsection \<open>vGPUs\<close>

definition defaultUser :: string where
  "defaultUser = ''admin''"

fun containsVGPU :: "string \<Rightarrow> VGPUDevice list \<Rightarrow> VGPUDevice option" where
  "containsVGPU vgpu [] = None"
| "containsVGPU vgpu (v # vgpuList) = (if vgpu = vgName v then Some v else containsVGPU vgpu vgpuList)"

interpretation vgpus: membership "\<lambda>vs n. containsVGPU n vs \<noteq> None" "\<lambda>v. vgName v"
proof
  show "containsVGPU k xs \<noteq> None \<longleftrightarrow> k \<in> (\<lambda>v. vgName v) ` set xs" for xs k
    by (induction xs) auto
qed

definition vgpu_status_equal :: "VGPUDeviceStatus \<Rightarrow> VGPUDeviceStatus \<Rightarrow> bool" where
  "vgpu_status_equal a b \<longleftrightarrow>
     vgVGPUStatus a = vgVGPUStatus b \<and> vgUUID a = vgUUID b \<and> vgConfiguredVGPUTypeName a = vgConfiguredVGPUTypeName b
     \<and> map_equal (vgAvailableTypes a) (vgAvailableTypes b)"

definition discovered_into :: "VGPUDeviceStatus \<Rightarrow> VGPUDevice \<Rightarrow> VGPUDevice" where
  "discovered_into st v = v\<lparr>vgStatus := (vgStatus v)\<lparr>vgUUID := vgUUID st, vgVGPUStatus := vgVGPUStatus st,
     vgAvailableTypes := vgAvailableTypes st\<rparr>\<rparr>"

definition isParentGPUEnabled :: "'s gpu_env \<Rightarrow> string \<Rightarrow> 's \<Rightarrow> bool res" where
  "isParentGPUEnabled E gpuAddress s =
     (case cGet (gcSriovCache E) (PCIDeviceNameForHostname gpuAddress (gcNodeName E)) s of
        Inl err \<Rightarrow> if IsNotFound err then Inr False else Inl err
      | Inr parent \<Rightarrow> Inr (sgEnabled (sgSpec parent)))"

text \<open>The listed object is changed in place, so a later device of the same name is compared with
  the changed one.\<close>

fun replace_vgpu :: "VGPUDevice \<Rightarrow> VGPUDevice list \<Rightarrow> VGPUDevice list" where
  "replace_vgpu u [] = []"
| "replace_vgpu u (v # vs) = (if vgName u = vgName v then u # vs else v # replace_vgpu u vs)"

fun setup_vgpus :: "'s gpu_env \<Rightarrow> VGPUDevice list \<Rightarrow> VGPUDevice list \<Rightarrow> 's \<Rightarrow> go_error option \<times> 's" where
  "setup_vgpus E vGPUList [] s = (None, s)"
| "setup_vgpus E vGPUList (v # vs) s =
     (case containsVGPU (vgName v) vGPUList of
        Some existingVGPU \<Rightarrow>
          (let updated = discovered_into (vgStatus v) existingVGPU;
               s = cAlias (gcVgpuCache E) (vgName existingVGPU) updated s
           in if \<not> vgpu_status_equal (vgStatus existingVGPU) (vgStatus updated)
              then case cUpdateStatus (gcVgpu E) updated s of
                     (Inl err, s) \<Rightarrow> (Some err, s)
                   | (Inr _, s) \<Rightarrow> setup_vgpus E (replace_vgpu updated vGPUList) vs s
              else setup_vgpus E (replace_vgpu updated vGPUList) vs s)
      | None \<Rightarrow>
          (case cCreate (gcVgpu E) v s of
             (Inl err, s) \<Rightarrow> (Some err, s)
           | (Inr _, s) \<Rightarrow> setup_vgpus E vGPUList vs s))"

fun delete_stale_vgpus :: "'s gpu_env \<Rightarrow> VGPUDevice list \<Rightarrow> VGPUDevice list \<Rightarrow> 's \<Rightarrow> go_error option \<times> 's" where
  "delete_stale_vgpus E vGPUDevices [] s = (None, s)"
| "delete_stale_vgpus E vGPUDevices (v # vs) s =
     (case isParentGPUEnabled E (vgParentGPUDeviceAddress (vgSpec v)) s of
        Inl err \<Rightarrow> (Some err, s)
      | Inr parentDeviceEnabled \<Rightarrow>
          (if \<not> parentDeviceEnabled \<and> containsVGPU (vgName v) vGPUDevices = None
           then case cDelete (gcVgpu E) (vgName v) s of
                  (Inl err, s) \<Rightarrow> (Some err, s)
                | (Inr _, s) \<Rightarrow> delete_stale_vgpus E vGPUDevices vs s
           else delete_stale_vgpus E vGPUDevices vs s))"

definition set_pd_label :: "string \<Rightarrow> string \<Rightarrow> PCIDevice \<Rightarrow> PCIDevice" where
  "set_pd_label k v pd = pd\<lparr>pdMeta := (pdMeta pd)\<lparr>mLabels := mput k v (mLabels (pdMeta pd))\<rparr>\<rparr>"

definition set_pd_annotation :: "string \<Rightarrow> string \<Rightarrow> PCIDevice \<Rightarrow> PCIDevice" where
  "set_pd_annotation k v pd = pd\<lparr>pdMeta := (pdMeta pd)\<lparr>mAnnotations := mput k v (mAnnotations (pdMeta pd))\<rparr>\<rparr>"

fun label_pcidevices :: "'s gpu_env \<Rightarrow> VGPUDevice list \<Rightarrow> 's \<Rightarrow> go_error option \<times> 's" where
  "label_pcidevices E [] s = (None, s)"
| "label_pcidevices E (v # vs) s =
     (case cGet (gcPdCache E) (vgName v) s of
        Inl err \<Rightarrow>
          if IsNotFound err then label_pcidevices E vs s
          else (Some (Wrapf (''error looking up PCIDevice '' @ vgName v @ '' as part of vGPUDevice'') err), s)
      | Inr pciDeviceObj \<Rightarrow>
          (let parent = (case mget (mLabels (vgMeta v)) ParentSRIOVGPUDeviceLabel of None \<Rightarrow> [] | Some p \<Rightarrow> p)
           in if mget (mLabels (pdMeta pciDeviceObj)) ParentSRIOVGPUDeviceLabel \<noteq> Some parent
              then case cUpdate (gcPd E) (set_pd_label ParentSRIOVGPUDeviceLabel parent pciDeviceObj) s of
                     (Inl err, s) \<Rightarrow> (Some (Wrapf (''error applying label to pcidevice '' @ vgName v @ '' during vGPU setup'') err), s)
                   | (Inr _, s) \<Rightarrow> label_pcidevices E vs s
              else label_pcidevices E vs s))"

interpretation vgpu_deletes: early_exit_loop "\<lambda>x. delete_stale_vgpus E vGPUDevices [x]" "delete_stale_vgpus E vGPUDevices" for E vGPUDevices
  by unfold_locales (auto split: prod.splits sum.splits option.splits)

interpretation pd_labels: early_exit_loop "\<lambda>x. label_pcidevices E [x]" "label_pcidevices E" for E
  by unfold_locales (auto split: prod.splits sum.splits option.splits)

definition reconcileVGPUSetup :: "'s gpu_env \<Rightarrow> VGPUDevice list \<Rightarrow> 's \<Rightarrow> go_error option \<times> 's" where
  "reconcileVGPUSetup E vGPUDevices s =
     (case cList (gcVgpuCache E) [(NodeKeyName, gcNodeName E)] s of
        Inl err \<Rightarrow> (Some err, s)
      | Inr vGPUList \<Rightarrow>
          (case setup_vgpus E vGPUList vGPUDevices s of
             (Some err, s) \<Rightarrow> (Some err, s)
           | (None, s) \<Rightarrow>
               (case delete_stale_vgpus E vGPUDevices vGPUList s of
                  (Some err, s) \<Rightarrow> (Some err, s)
                | (None, s) \<Rightarrow> label_pcidevices E vGPUDevices s)))"

definition SetupVGPUDevices :: "'s gpu_env \<Rightarrow> 's \<Rightarrow> go_error option \<times> 's" where
  "SetupVGPUDevices E s =
     (case IdentifyVGPU (gcOs E) (gcNvpci E) (gcNodeName E) s of
        Inl err \<Rightarrow> (Some (Errorf ''error identifying vgpu devices''), s)
      | Inr vGPUDevices \<Rightarrow> reconcileVGPUSetup E vGPUDevices s)"

definition patchPCIDeviceStatus :: "'s gpu_env \<Rightarrow> string \<Rightarrow> string \<Rightarrow> 's \<Rightarrow> go_error option \<times> 's" where
  "patchPCIDeviceStatus E vgpu resName s =
     (case cGet (gcPdCache E) vgpu s of
        Inl err \<Rightarrow> (Some (Wrapf (''error looking up pcidevice '' @ vgpu @ '' in patchPCIDeviceStatus'') err), s)
      | Inr pdObj \<Rightarrow>
          (if pdResourceName (pdStatus pdObj) = resName then (None, s)
           else err_result (cUpdateStatus (gcPd E) (pdObj\<lparr>pdStatus := (pdStatus pdObj)\<lparr>pdResourceName := resName\<rparr>\<rparr>) s)))"

definition patchPCIDeviceSpec :: "'s gpu_env \<Rightarrow> string \<Rightarrow> string \<Rightarrow> string \<Rightarrow> 's \<Rightarrow> go_error option \<times> 's" where
  "patchPCIDeviceSpec E vgpu resName parentAddress s =
     (case cGet (gcPdCache E) vgpu s of
        Inl err \<Rightarrow> (Some (Wrapf (''error looking up pcidevice '' @ vgpu @ '' in patchPCIDeviceSpec'') err), s)
      | Inr pdObj \<Rightarrow>
          (let parent = PCIDeviceNameForHostname parentAddress (gcNodeName E)
           in if mget (mAnnotations (pdMeta pdObj)) PCIDeviceOverrideResourceName = Some resName
                 \<and> mget (mLabels (pdMeta pdObj)) ParentSRIOVGPUDeviceLabel = Some parent
              then (None, s)
              else err_result (cUpdate (gcPd E)
                     (set_pd_label ParentSRIOVGPUDeviceLabel parent (set_pd_annotation PCIDeviceOverrideResourceName resName pdObj)) s)))"

definition cleanupPCIDeviceSpec :: "'s gpu_env \<Rightarrow> string \<Rightarrow> 's \<Rightarrow> go_error option \<times> 's" where
  "cleanupPCIDeviceSpec E vgpu s =
     (case cGet (gcPdCache E) vgpu s of
        Inl err \<Rightarrow> (Some (Wrapf (''error looking up pcidevice '' @ vgpu @ '' in cleanupPCIDeviceSpec'') err), s)
      | Inr pdObj \<Rightarrow>
          (if \<not> mhas (mAnnotations (pdMeta pdObj)) PCIDeviceOverrideResourceName
              \<and> \<not> mhas (mLabels (pdMeta pdObj)) ParentSRIOVGPUDeviceLabel
           then (None, s)
           else err_result (cUpdate (gcPd E) (pdObj\<lparr>pdMeta := (pdMeta pdObj)\<lparr>
                  mAnnotations := mdel PCIDeviceOverrideResourceName (mAnnotations (pdMeta pdObj)),
                  mLabels := mdel ParentSRIOVGPUDeviceLabel (mLabels (pdMeta pdObj))\<rparr>\<rparr>) s)))"

definition vgpu_claim :: "VGPUDevice \<Rightarrow> PCIDevice \<Rightarrow> string \<Rightarrow> PCIDeviceClaim" where
  "vgpu_claim vgpu pcidevice resName =
     \<lparr>pcMeta = empty_meta\<lparr>mName := vgName vgpu,
        mLabels := [(ParentSRIOVGPUDeviceLabel, PCIDeviceNameForHostname (vgParentGPUDeviceAddress (vgSpec vgpu)) (vgNodeName (vgSpec vgpu)))],
        mAnnotations := [(SkipVFIOBindingAnnotationKey, ''true''), (PCIDeviceOverrideResourceName, resName)],
        mOwnerReferences := Some
          [\<lparr>orAPIVersion = mAPIVersion (pdMeta pcidevice), orKind = mKind (pdMeta pcidevice), orName = pdName pcidevice, orUID = mUID (pdMeta pcidevice)\<rparr>,
           \<lparr>orAPIVersion = mAPIVersion (vgMeta vgpu), orKind = mKind (vgMeta vgpu), orName = vgName vgpu, orUID = mUID (vgMeta vgpu)\<rparr>]\<rparr>,
      pcSpec = \<lparr>pcAddress = vgAddress (vgSpec vgpu), pcNodeName = vgNodeName (vgSpec vgpu), pcUserName = defaultUser,
                pcDisableResourcePooling = False\<rparr>,
      pcStatus = \<lparr>pcKernelDriverToUnbind = [], pcPassthroughEnabled = False\<rparr>\<rparr>"

definition submitPCIDeviceClaim :: "'s gpu_env \<Rightarrow> VGPUDevice \<Rightarrow> 's \<Rightarrow> go_error option \<times> 's" where
  "submitPCIDeviceClaim E vgpu s =
     (let resName = GeneratevGPUDeviceName (vgVGPUTypeName (vgSpec vgpu))
      in case cGet (gcPdCache E) (vgName vgpu) s of
           Inl err \<Rightarrow> (Some (Wrapf ''error looking up pcidevice when trying to setup vgpu passthrough'' err), s)
         | Inr pcidevice \<Rightarrow>
             (case patchPCIDeviceStatus E (vgName vgpu) resName s of
                (Some err, s) \<Rightarrow> (Some (Wrapf (''error patching pcidevice status resource name for vgpu '' @ vgName vgpu) err), s)
              | (None, s) \<Rightarrow>
                  (case patchPCIDeviceSpec E (vgName vgpu) resName (vgParentGPUDeviceAddress (vgSpec vgpu)) s of
                     (Some err, s) \<Rightarrow> (Some (Wrapf (''error patching pcidevice resource name for vgpu '' @ vgName vgpu) err), s)
                   | (None, s) \<Rightarrow> err_result (cCreate (gcPdc E) (vgpu_claim vgpu pcidevice resName) s))))"

definition cleanupRelatedPCIDeviceObjects :: "'s gpu_env \<Rightarrow> VGPUDevice \<Rightarrow> 's \<Rightarrow> go_error option \<times> 's" where
  "cleanupRelatedPCIDeviceObjects E vgpu s =
     (case cDelete (gcPdc E) (vgName vgpu) s of
        (Inl err, s) \<Rightarrow> if \<not> IsNotFound err then (Some err, s) else cleanupPCIDeviceSpec E (vgName vgpu) s
      | (Inr _, s) \<Rightarrow> cleanupPCIDeviceSpec E (vgName vgpu) s)"

definition reconcileDisabledVGPUStatus :: "'s gpu_env \<Rightarrow> VGPUDevice \<Rightarrow> 's \<Rightarrow> (VGPUDevice, 's) handler_result" where
  "reconcileDisabledVGPUStatus E vgpu s =
     (if mDeletionTimestamp (vgMeta vgpu) \<or> vgNodeName (vgSpec vgpu) \<noteq> gcNodeName E then (Some vgpu, None, s)
      else case cList (gcVgpuCache E)
                  [(ParentSRIOVGPUDeviceLabel, PCIDeviceNameForHostname (vgParentGPUDeviceAddress (vgSpec vgpu)) (gcNodeName E))] s of
             Inl err \<Rightarrow> (Some vgpu, Some (Errorf (''error querying related vgpu's for vgpu '' @ vgName vgpu)), s)
           | Inr vgpuList \<Rightarrow>
               (Some vgpu, None,
                foldl (\<lambda>s v. if vgEnabled (vgSpec v) \<or> vgName v = vgName vgpu then s else cEnqueue (gcVgpu E) (vgName v) s) s vgpuList))"

definition current_type_file :: "VGPUDevice \<Rightarrow> string" where
  "current_type_file vgpu = filepath_Join [SysDevRoot, vgAddress (vgSpec vgpu), ''nvidia'', CurrentVGPUType]"

definition store_vgpu :: "'s gpu_env \<Rightarrow> VGPUDevice \<Rightarrow> 's \<Rightarrow> (VGPUDevice, 's) handler_result" where
  "store_vgpu E vgpu s =
     (case cUpdateStatus (gcVgpu E) vgpu (cAlias (gcVgpuCache E) (vgName vgpu) vgpu s) of
        (Inl err, s) \<Rightarrow> (None, Some err, s)
      | (Inr vgpuObj, s) \<Rightarrow> reconcileDisabledVGPUStatus E vgpuObj s)"

definition enableVGPU :: "'s gpu_env \<Rightarrow> VGPUDevice \<Rightarrow> 's \<Rightarrow> (VGPUDevice, 's) handler_result" where
  "enableVGPU E vgpu s =
     (case mget (vgAvailableTypes (vgStatus vgpu)) (vgVGPUTypeName (vgSpec vgpu)) of
        None \<Rightarrow> (Some vgpu, Some (Errorf (''VGPUType specified '' @ vgVGPUTypeName (vgSpec vgpu) @ '' is not available for vGPU '' @ vgAddress (vgSpec vgpu))), s)
      | Some vgpuID \<Rightarrow>
          (case submitPCIDeviceClaim E vgpu s of
             (e, s) \<Rightarrow>
               (if (case e of None \<Rightarrow> False | Some err \<Rightarrow> \<not> IsAlreadyExists err)
                then (Some vgpu, Some (Wrapf ''error creating pcideviceclaim for associated vgpu device'' (the e)), s)
                else case gcWriteFile E (current_type_file vgpu) vgpuID s of
                       (Inl err, s) \<Rightarrow> (Some vgpu, Some (Errorf (''error writing to create file for vgpu '' @ vgName vgpu)), s)
                     | (Inr _, s) \<Rightarrow>
                         store_vgpu E (vgpu\<lparr>vgStatus := (vgStatus vgpu)\<lparr>vgVGPUStatus := VGPUEnabled, vgUUID := vgpuID,
                           vgConfiguredVGPUTypeName := vgVGPUTypeName (vgSpec vgpu)\<rparr>\<rparr>) s)))"

definition disableVGPU :: "'s gpu_env \<Rightarrow> VGPUDevice \<Rightarrow> 's \<Rightarrow> (VGPUDevice, 's) handler_result" where
  "disableVGPU E vgpu s =
     (case cleanupRelatedPCIDeviceObjects E vgpu s of
        (Some err, s) \<Rightarrow> (Some vgpu, Some err, s)
      | (None, s) \<Rightarrow>
          (case gcWriteFile E (current_type_file vgpu) ''0'' s of
             (Inl err, s) \<Rightarrow> (Some vgpu, Some (Errorf (''error writing to create file for vgpu '' @ vgName vgpu)), s)
           | (Inr _, s) \<Rightarrow>
               store_vgpu E (vgpu\<lparr>vgStatus := (vgStatus vgpu)\<lparr>vgVGPUStatus := VGPUDisabled, vgUUID := [],
                 vgConfiguredVGPUTypeName := []\<rparr>\<rparr>) s))"

definition OnVGPUChange :: "'s gpu_env \<Rightarrow> VGPUDevice option \<Rightarrow> 's \<Rightarrow> (VGPUDevice, 's) handler_result" where
  "OnVGPUChange E vgpup s =
     (case vgpup of None \<Rightarrow> (None, None, s) | Some vgpu \<Rightarrow>
      if mDeletionTimestamp (vgMeta vgpu) \<or> vgNodeName (vgSpec vgpu) \<noteq> gcNodeName E then (Some vgpu, None, s)
      else case FetchVGPUStatus (gcOs E) SysDevRoot (vgAddress (vgSpec vgpu)) s of
        Inl err \<Rightarrow> (Some vgpu, Some (Errorf (''error generating vgpu '' @ vgName vgpu @ '' status'')), s)
      | Inr discovered \<Rightarrow>
          (if vgEnabled (vgSpec vgpu) \<and> vgVGPUStatus discovered = VGPUDisabled then enableVGPU E vgpu s
           else if \<not> vgEnabled (vgSpec vgpu) \<and> vgVGPUStatus discovered = VGPUEnabled then disableVGPU E vgpu s
           else let vgpuCopy = discovered_into discovered vgpu
                in if \<not> vgpu_status_equal (vgStatus vgpuCopy) (vgStatus vgpu)
                   then client_result (cUpdateStatus (gcVgpu E) vgpuCopy s)
                   else (None, None, s)))"

subsection \<open>MIG configurations\<close>

definition mig_instanceCount :: "MigConfigurationStatus \<Rightarrow> nat" where
  "mig_instanceCount discoveredStatus =
     sum_list (map (\<lambda>v. length (slice_of (mpsVGPUID v))) (slice_of (mcProfileStatus discoveredStatus)))"

definition create_mig :: "'s gpu_env \<Rightarrow> 's executor \<Rightarrow> SRIOVGPUDevice \<Rightarrow> 's \<Rightarrow> (go_error option \<times> 's) option" where
  "create_mig E ex gpu s =
     (case GenerateMIGConfiguration ex (sgAddress (sgSpec gpu)) (sgName gpu) s of
        None \<Rightarrow> None
      | Some (Inl err, s) \<Rightarrow> Some (Some (Wrapf ''error generating MIG Configuration'' err), s)
      | Some (Inr migConfiguration, s) \<Rightarrow>
          (case GenerateMIGConfigurationStatus ex (sgAddress (sgSpec gpu)) s of
             None \<Rightarrow> None
           | Some (Inl err, s) \<Rightarrow> Some (Some (Wrapf ''error generating MIG configuration status'' err), s)
           | Some (Inr migStatus, s) \<Rightarrow>
               (let migConfiguration = migConfiguration\<lparr>
                      mcSpec := (mcSpec migConfiguration)\<lparr>mcNodeName := sgNodeName (sgSpec gpu),
                        mcEnabled := mcEnabled (mcSpec migConfiguration) \<or> mig_instanceCount migStatus > 0\<rparr>,
                      mcMeta := (mcMeta migConfiguration)\<lparr>mOwnerReferences := Some [\<lparr>orAPIVersion = mAPIVersion (sgMeta gpu),
                        orKind = mKind (sgMeta gpu), orName = sgName gpu, orUID = mUID (sgMeta gpu)\<rparr>]\<rparr>\<rparr>
                in case cCreate (gcMig E) migConfiguration s of
                     (Inl err, s) \<Rightarrow> Some (Some (Wrapf ''error setting up MIG configuration'' err), s)
                   | (Inr migObject, s) \<Rightarrow> Some (err_result (cUpdateStatus (gcMig E) (migObject\<lparr>mcStatus := migStatus\<rparr>) s)))))"

definition setupMigConfiguration :: "'s gpu_env \<Rightarrow> 's executor \<Rightarrow> SRIOVGPUDevice \<Rightarrow> 's \<Rightarrow> (go_error option \<times> 's) option" where
  "setupMigConfiguration E ex gpu s =
     (case IsMigConfigurationNeeded ex (sgAddress (sgSpec gpu)) s of
        (Inl err, s) \<Rightarrow> Some (Some (Wrapf ''error checking if GPU supports MIG instances'' err), s)
      | (Inr ok, s) \<Rightarrow>
          (if \<not> ok then Some (None, s)
           else case EnableMIGMode ex (sgAddress (sgSpec gpu)) s of
                  (Some err, s) \<Rightarrow> Some (Some (Wrapf ''error enable MIG Mode'' err), s)
                | (None, s) \<Rightarrow>
                    (case cGet (gcMigCache E) (sgName gpu) s of
                       Inr obj \<Rightarrow> Some (None, s)
                     | Inl err \<Rightarrow>
                         (if \<not> IsNotFound err then Some (Some (Wrapf ''error looking up MIG Configuration'' err), s)
                          else if gcMissNonNil E then Some (None, s)
                          else create_mig E ex gpu s))))"

text \<open>\<^const>\<open>None\<close> is the nil dereference on a deleted object, which the handler does not guard.\<close>

definition reconcileMIGConfiguration ::
  "'s gpu_env \<Rightarrow> 's executor \<Rightarrow> SRIOVGPUDevice option \<Rightarrow> 's \<Rightarrow> (SRIOVGPUDevice, 's) handler_result option" where
  "reconcileMIGConfiguration E ex gpup s =
     (case gpup of None \<Rightarrow> None | Some gpu \<Rightarrow>
      if sgEnabled (sgSpec gpu)
      then map_option (\<lambda>(err, s). (Some gpu, err, s)) (setupMigConfiguration E ex gpu s)
      else case cGet (gcMigCache E) (sgName gpu) s of
             Inl err \<Rightarrow> Some (Some gpu, if IsNotFound err then None else Some err, s)
           | Inr _ \<Rightarrow>
               (case cDelete (gcMig E) (sgName gpu) s of
                  (Inl err, s) \<Rightarrow> Some (Some gpu, Some err, s)
                | (Inr _, s) \<Rightarrow> Some (Some gpu, None, s)))"

text \<open>The text of an error, as far as the model's messages go.\<close>

primrec error_text :: "go_error \<Rightarrow> string" where
  "error_text NotFound = ''not found''"
| "error_text AlreadyExists = ''already exists''"
| "error_text (Errorf m) = m"
| "error_text (Wrapf m e) = m @ '': '' @ error_text e"

definition mig_enable ::
  "'s gpu_env \<Rightarrow> 's executor \<Rightarrow> MigConfiguration \<Rightarrow> 's \<Rightarrow> (MigConfiguration, 's) handler_result option" where
  "mig_enable E ex mig s =
     (case EnableMIGProfiles ex mig s of
        (Some err, s) \<Rightarrow>
          Some (Some mig, Some (Wrapf (''error setting up MIG instances for device '' @ mcName mig) err),
                snd (cUpdateStatus (gcMig E) (mig\<lparr>mcStatus := (mcStatus mig)\<lparr>mcMessage := error_text err\<rparr>\<rparr>) s))
      | (None, s) \<Rightarrow>
          (case GenerateMIGConfigurationStatus ex (mcGPUAddress (mcSpec mig)) s of
             None \<Rightarrow> None
           | Some (Inl err, s) \<Rightarrow>
               Some (Some mig, Some (Wrapf (''error generating MIG configuration status for device '' @ mcName mig) err), s)
           | Some (Inr st, s) \<Rightarrow>
               Some (client_result (cUpdateStatus (gcMig E) (mig\<lparr>mcStatus := st\<lparr>mcMessage := []\<rparr>\<rparr>) s))))"

definition mig_disable ::
  "'s gpu_env \<Rightarrow> 's executor \<Rightarrow> MigConfiguration \<Rightarrow> 's \<Rightarrow> (MigConfiguration, 's) handler_result option" where
  "mig_disable E ex mig s =
     (case DisableMIGProfiles ex mig s of
        None \<Rightarrow> None
      | Some (Some err, s) \<Rightarrow> Some (Some mig, Some err, s)
      | Some (None, s) \<Rightarrow>
          (case GenerateMIGConfigurationStatus ex (mcGPUAddress (mcSpec mig)) s of
             None \<Rightarrow> None
           | Some (Inl err, s) \<Rightarrow>
               Some (Some mig, Some (Wrapf (''error generating MIG configuration status for device '' @ mcName mig) err), s)
           | Some (Inr st, s) \<Rightarrow>
               Some (client_result (cUpdateStatus (gcMig E)
                 (mig\<lparr>mcStatus := st\<lparr>mcStatusText := MIGConfigurationDisabled\<rparr>\<rparr>) s))))"

definition OnMIGChange ::
  "'s gpu_env \<Rightarrow> 's executor \<Rightarrow> string \<Rightarrow> MigConfiguration option \<Rightarrow> 's \<Rightarrow> (MigConfiguration, 's) handler_result option" where
  "OnMIGChange E ex name migp s =
     (case migp of None \<Rightarrow> Some (None, None, s) | Some mig \<Rightarrow>
      if mDeletionTimestamp (mcMeta mig) \<or> mcNodeName (mcSpec mig) \<noteq> gcNodeName E then Some (Some mig, None, s)
      else case GenerateMIGConfigurationStatus ex (mcGPUAddress (mcSpec mig)) s of
        None \<Rightarrow> None
      | Some (Inl err, s) \<Rightarrow>
          Some (Some mig, Some (Wrapf (''error generating MIG configuration status for device '' @ mcName mig) err), s)
      | Some (Inr st, s) \<Rightarrow>
          (let synced = (if mcProfileStatus (mcStatus mig) = mcProfileStatus st then MIGConfigurationSynced
                         else MIGConfigurationOutOfSync)
           in if mcEnabled (mcSpec mig) \<and> mig_instanceCount st = 0 then mig_enable E ex mig s
              else if mcEnabled (mcSpec mig) \<and> mcStatusText (mcStatus mig) \<noteq> synced
              then Some (client_result (cUpdateStatus (gcMig E) (mig\<lparr>mcStatus := (mcStatus mig)\<lparr>mcStatusText := synced\<rparr>\<rparr>) s))
              else if \<not> mcEnabled (mcSpec mig) \<and> mig_instanceCount st \<noteq> 0 then mig_disable E ex mig s
              else Some (Some mig, None, cEnqueue (gcMig E) name s)))"

subsection \<open>Convergence of the vGPU configuration\<close>

text \<open>The driver files and the API objects are separate: storing or enqueueing vGPU objects does not
  change what a driver file holds, and a written file reads back.\<close>

definition vgpu_file_kept :: "'s gpu_env \<Rightarrow> string \<Rightarrow> bool" where
  "vgpu_file_kept E f \<longleftrightarrow>
     (\<forall>v s. osReadFile (gcOs E) f (snd (cUpdateStatus (gcVgpu E) v s)) = osReadFile (gcOs E) f s)
     \<and> (\<forall>n s. osReadFile (gcOs E) f (cEnqueue (gcVgpu E) n s) = osReadFile (gcOs E) f s)
     \<and> (\<forall>n v s. osReadFile (gcOs E) f (cAlias (gcVgpuCache E) n v s) = osReadFile (gcOs E) f s)"

definition vgpu_file_written :: "'s gpu_env \<Rightarrow> string \<Rightarrow> bool" where
  "vgpu_file_written E f \<longleftrightarrow>
     (\<forall>d s. is_ok (fst (gcWriteFile E f d s)) \<longrightarrow> osReadFile (gcOs E) f (snd (gcWriteFile E f d s)) = Inr d)"

definition vgpu_id_ok :: "string \<Rightarrow> bool" where
  "vgpu_id_ok i \<longleftrightarrow> TrimSpace i = i \<and> i \<noteq> [] \<and> i \<noteq> ''0''"

lemma TrimSpace_zero: "TrimSpace ''0'' = ''0''"
  by code_simp

lemma enqueue_all_kept:
  assumes "vgpu_file_kept E f"
  shows "osReadFile (gcOs E) f (foldl (\<lambda>s v. if P v then s else cEnqueue (gcVgpu E) (g v) s) s vs) = osReadFile (gcOs E) f s"
proof (induction vs arbitrary: s)
  case (Cons v vs)
  then show ?case using assms by (cases "P v") (simp_all add: vgpu_file_kept_def)
qed simp

lemma reconcileDisabledVGPUStatus_kept:
  "vgpu_file_kept E f \<Longrightarrow> osReadFile (gcOs E) f (world_of (reconcileDisabledVGPUStatus E v s)) = osReadFile (gcOs E) f s"
  by (simp add: reconcileDisabledVGPUStatus_def world_of_def enqueue_all_kept split: sum.splits)

lemma store_vgpu_kept:
  assumes "vgpu_file_kept E f"
  shows "osReadFile (gcOs E) f (world_of (store_vgpu E v s)) = osReadFile (gcOs E) f s"
proof -
  obtain r s1 where u: "cUpdateStatus (gcVgpu E) v (cAlias (gcVgpuCache E) (vgName v) v s) = (r, s1)" by fastforce
  then have "osReadFile (gcOs E) f s1 = osReadFile (gcOs E) f s"
    using assms by (metis vgpu_file_kept_def snd_conv)
  then show ?thesis
    using reconcileDisabledVGPUStatus_kept [OF assms]
    by (cases r) (simp_all add: store_vgpu_def u world_of_def)
qed

lemma fetch_current_file:
  "osReadFile (gcOs E) (current_type_file v) s = Inr t \<Longrightarrow>
     fetchCurrentVGPUType (gcOs E) SysDevRoot (vgAddress (vgSpec v)) s = Inr (TrimSpace t)"
  by (simp add: fetchCurrentVGPUType_def current_type_file_def)

lemma write_then_store:
  assumes "vgpu_file_kept E (current_type_file v)" "vgpu_file_written E (current_type_file v)"
    and "gcWriteFile E (current_type_file v) t s = (Inr u, s1)"
  shows "fetchCurrentVGPUType (gcOs E) SysDevRoot (vgAddress (vgSpec v)) (world_of (store_vgpu E w s1)) = Inr (TrimSpace t)"
proof -
  have "osReadFile (gcOs E) (current_type_file v) s1 = Inr t"
    using assms(2,3) unfolding vgpu_file_written_def is_ok_def by (metis fst_conv snd_conv sum.simps(6))
  then show ?thesis by (intro fetch_current_file) (simp add: store_vgpu_kept [OF assms(1)])
qed

lemma enableVGPU_effect:
  assumes "vgpu_file_kept E (current_type_file v)" "vgpu_file_written E (current_type_file v)"
    and "err_of (enableVGPU E v s) = None"
  shows "\<exists>i. mget (vgAvailableTypes (vgStatus v)) (vgVGPUTypeName (vgSpec v)) = Some i
    \<and> fetchCurrentVGPUType (gcOs E) SysDevRoot (vgAddress (vgSpec v)) (world_of (enableVGPU E v s)) = Inr (TrimSpace i)"
  using assms(3) write_then_store [OF assms(1,2)]
  by (auto simp: enableVGPU_def err_of_def split: option.splits prod.splits if_splits sum.splits)

lemma disableVGPU_effect:
  assumes "vgpu_file_kept E (current_type_file v)" "vgpu_file_written E (current_type_file v)"
    and "err_of (disableVGPU E v s) = None"
  shows "fetchCurrentVGPUType (gcOs E) SysDevRoot (vgAddress (vgSpec v)) (world_of (disableVGPU E v s)) = Inr (TrimSpace ''0'')"
  using assms(3) write_then_store [OF assms(1,2)]
  by (auto simp: disableVGPU_def err_of_def split: option.splits prod.splits sum.splits)

definition vgpu_configured :: "string \<Rightarrow> bool" where
  "vgpu_configured t \<longleftrightarrow> t \<noteq> ''0'' \<and> t \<noteq> []"

lemma FetchVGPUStatus_current:
  assumes "FetchVGPUStatus sys root a s = Inr st"
  shows "\<exists>t. fetchCurrentVGPUType sys root a s = Inr t \<and> vgVGPUStatus st = (if vgpu_configured t then VGPUEnabled else VGPUDisabled)"
  using assms unfolding FetchVGPUStatus_def vgpu_configured_def [symmetric]
  by (cases "fetchCurrentVGPUType sys root a s"; cases "fetchAvailableTypes sys root a s") auto

lemma vgpu_states_differ: "VGPUEnabled \<noteq> VGPUDisabled"
  by (simp add: VGPUEnabled_def VGPUDisabled_def)


text \<open>A node with one GPU function, whose driver offers profile 558.\<close>

record demo_gpu_state =
  gsFile :: string
  gsVgpu :: "(string, VGPUDevice) gomap"
  gsPd :: "(string, PCIDevice) gomap"
  gsPdc :: "(string, PCIDeviceClaim) gomap"

definition demo_vgpu :: VGPUDevice where
  "demo_vgpu =
     \<lparr>vgMeta = empty_meta\<lparr>mName := ''node1-000008005''\<rparr>,
      vgSpec = \<lparr>vgVGPUTypeName = ''NVIDIA A2-4Q'', vgAddress = ''0000:08:00.5'', vgEnabled = True, vgNodeName = ''node1'',
                vgParentGPUDeviceAddress = ''0000:08:00.0''\<rparr>,
      vgStatus = \<lparr>vgVGPUStatus = [], vgUUID = [], vgConfiguredVGPUTypeName = [], vgAvailableTypes = [(''NVIDIA A2-4Q'', ''558'')]\<rparr>\<rparr>"

definition demo_vgpu_pd :: PCIDevice where
  "demo_vgpu_pd =
     \<lparr>pdMeta = empty_meta\<lparr>mName := ''node1-000008005''\<rparr>,
      pdStatus = \<lparr>pdAddress = ''0000:08:00.5'', pdVendorID = ''10de'', pdDeviceID = ''25b6'', pdClassID = ''0302'',
         pdIOMMUGroup = ''44'', pdNodeName = ''node1'', pdResourceName = ''nvidia.com/A2'', pdDescription = [],
         pdKernelDriverInUse = ''nvidia''\<rparr>\<rparr>"

definition demo_gpu_os :: "demo_gpu_state os" where
  "demo_gpu_os =
     \<lparr>osStat = \<lambda>p s. Inr (), osLstat = \<lambda>p s. Inl NotFound,
      osReadFile = \<lambda>p s. (if p = current_type_file demo_vgpu then Inr (gsFile s)
                          else Inr ''ID : vGPU Name''),
      osReadDir = \<lambda>p s. Inl NotFound, osReadlink = \<lambda>p s. Inl NotFound, osEvalSymlinks = \<lambda>p s. Inl NotFound,
      osGlobPrefix = \<lambda>p s. Inr [], osOpenWrite = \<lambda>p s. Inl NotFound,
      osWriteString = \<lambda>p d s. (Inl NotFound, s), osRemove = \<lambda>p s. (Inl NotFound, s)\<rparr>"

definition demo_gpu_env :: "demo_gpu_state gpu_env" where
  "demo_gpu_env =
     (let vg = table_client vgMeta (\<lambda>old new. old\<lparr>vgStatus := vgStatus new\<rparr>) (\<lambda>i v. []) gsVgpu (\<lambda>t s. s\<lparr>gsVgpu := t\<rparr>);
          pd = table_client pdMeta (\<lambda>old new. old\<lparr>pdStatus := pdStatus new\<rparr>) (\<lambda>i v. []) gsPd (\<lambda>t s. s\<lparr>gsPd := t\<rparr>);
          pdc = table_client pcMeta (\<lambda>old new. old\<lparr>pcStatus := pcStatus new\<rparr>) (\<lambda>i v. []) gsPdc (\<lambda>t s. s\<lparr>gsPdc := t\<rparr>);
          sg = table_client sgMeta (\<lambda>old new. new) (\<lambda>i v. []) (\<lambda>s. []) (\<lambda>t s. s);
          mc = table_client mcMeta (\<lambda>old new. new) (\<lambda>i v. []) (\<lambda>s. []) (\<lambda>t s. s)
      in \<lparr>gcSriov = sg, gcSriovCache = sg, gcVgpu = vg, gcVgpuCache = vg, gcPdc = pdc, gcPdcCache = pdc, gcPd = pd, gcPdCache = pd,
          gcMig = mc, gcMigCache = mc, gcOs = demo_gpu_os, gcWriteFile = \<lambda>f d s. (Inr (), s\<lparr>gsFile := d\<rparr>),
          gcNvpci = \<lparr>nvGetGPUs = \<lambda>s. Inr [], nvGetAllDevices = \<lambda>s. Inr []\<rparr>, gcNodeName = ''node1'', gcMissNonNil = True\<rparr>)"

definition demo_gpu_state :: demo_gpu_state where
  "demo_gpu_state =
     \<lparr>gsFile = ''0'', gsVgpu = [(''node1-000008005'', demo_vgpu)], gsPd = [(''node1-000008005'', demo_vgpu_pd)], gsPdc = []\<rparr>"


end
