(* ===== verification/Node_Controller.thy ===== *)
theory Node_Controller
  imports Object_Cache Pci_Device_Controller Usb_Device_Controller Sriov_Network Gpu_Controller
begin

section \<open>The node controller\<close>

text \<open>
  Models \<^verbatim>\<open>pkg/controller/nodes/node_controller.go\<close>: the periodic reconciliation of one node runs the
  PCI, USB, SR-IOV, GPU and vGPU reconciliations in turn over one world, and keeps the label that
  asks for the NVIDIA driver.  It is the composition of the operations of the other theories:
  the environments of these are fields of its own.
\<close>

record K8sNode =
  knMeta :: object_meta

record 's node_env =
  noPci :: "'s \<Rightarrow> pci_device list res"
  noPd :: "'s pd_env"
  noNic :: "'s nic_env"
  noUsb :: "'s usb_env"
  noSriov :: "'s sriov_env"
  noGpu :: "'s gpu_env"
  noCore :: "(K8sNode, 's) client"
  noCoreCache :: "(K8sNode, 's) client"
  noNode :: "(DevicesNode, 's) client"
  noNodeCache :: "(DevicesNode, 's) client"
  noNodeName :: string

definition checkAndUpdateNodeLabels :: "'s node_env \<Rightarrow> 's \<Rightarrow> go_error option \<times> 's" where
  "checkAndUpdateNodeLabels E s =
     (case cList (gcSriovCache (noGpu E)) [(NodeKeyName, noNodeName E)] s of
        Inl err \<Rightarrow> (Some err, s)
      | Inr existingGPUs \<Rightarrow>
          (let removeLabel = (length existingGPUs = 0)
           in case cGet (noCoreCache E) (noNodeName E) s of
                Inl err \<Rightarrow> (Some err, s)
              | Inr nodeObj \<Rightarrow>
                  (let labelPresent = mhas (mLabels (knMeta nodeObj)) NvidiaDriverNeededKey;
                       lbls = mLabels (knMeta nodeObj);
                       lbls = (if labelPresent \<and> removeLabel then mdel NvidiaDriverNeededKey lbls else lbls);
                       lbls = (if \<not> labelPresent \<and> \<not> removeLabel then mput NvidiaDriverNeededKey ''true'' lbls else lbls)
                   in let nodeObjNew = nodeObj\<lparr>knMeta := (knMeta nodeObj)\<lparr>mLabels := lbls\<rparr>\<rparr>;
                          s = cAlias (noCoreCache E) (noNodeName E) nodeObjNew s
                   in if \<not> map_equal lbls (mLabels (knMeta nodeObj)) then err_result (cUpdate (noCore E) nodeObjNew s)
                      else (None, s))))"

text \<open>The labels are changed inside the cache: when the server refuses the update, the next pass finds nothing to do.\<close>

lemma checkAndUpdateNodeLabels_update_lost:
  assumes "object_cache (noCoreCache E) (cUpdate (noCore E)) stored"
    and "\<And>s s'. stored s = stored s' \<Longrightarrow> cList (gcSriovCache (noGpu E)) [(NodeKeyName, noNodeName E)] s = cList (gcSriovCache (noGpu E)) [(NodeKeyName, noNodeName E)] s'"
    and "cList (gcSriovCache (noGpu E)) [(NodeKeyName, noNodeName E)] s = Inr gpus" and "cGet (noCoreCache E) (noNodeName E) s = Inr node"
    and "checkAndUpdateNodeLabels E s = (Some err, s1)"
  shows "\<exists>s2. checkAndUpdateNodeLabels E s1 = (None, s2) \<and> stored s2 = stored s"
proof -
  let ?add = "\<not> mhas (mLabels (knMeta node)) NvidiaDriverNeededKey \<and> gpus \<noteq> []"
  let ?del = "mhas (mLabels (knMeta node)) NvidiaDriverNeededKey \<and> gpus = []"
  define lbls where "lbls = (let l = mLabels (knMeta node); l = (if ?del then mdel NvidiaDriverNeededKey l else l)
    in if ?add then mput NvidiaDriverNeededKey ''true'' l else l)"
  let ?new = "node\<lparr>knMeta := (knMeta node)\<lparr>mLabels := lbls\<rparr>\<rparr>"
  have upd: "err_result (cUpdate (noCore E) ?new (cAlias (noCoreCache E) (noNodeName E) ?new s)) = (Some err, s1)"
    using assms(3-5) by (simp add: checkAndUpdateNodeLabels_def Let_def lbls_def split: if_splits)
  note cached = object_cache.refused_in_place [OF assms(1,4) upd]
  have "mhas lbls NvidiaDriverNeededKey \<longleftrightarrow> gpus \<noteq> []" by (auto simp: lbls_def Let_def mhas_def)
  then have "checkAndUpdateNodeLabels E s1 = (None, cAlias (noCoreCache E) (noNodeName E) ?new s1)"
    using cached(1) assms(3) assms(2) [OF cached(2)] by (simp add: checkAndUpdateNodeLabels_def Let_def)
  with cached(2) object_cache.stored_alias [OF assms(1)] show ?thesis by simp
qed

definition SetupNodeObjects :: "'s node_env \<Rightarrow> 's \<Rightarrow> go_error option \<times> 's" where
  "SetupNodeObjects E s =
     (case cGet (noNodeCache E) (noNodeName E) s of
        Inr _ \<Rightarrow> (None, s)
      | Inl err \<Rightarrow>
          if IsNotFound err then err_result (cCreate (noNode E) \<lparr>dnMeta = empty_meta\<lparr>mName := noNodeName E\<rparr>\<rparr> s)
          else (Some err, s))"

text \<open>The PCI part: the addresses of managed cards and of bridges are left out.\<close>

definition pd_env_for :: "'s node_env \<Rightarrow> pci_device list \<Rightarrow> string list \<Rightarrow> 's pd_env" where
  "pd_env_for E pci skipAddresses =
     (noPd E)\<lparr>pePci := pci, peSkipAddresses := skipAddresses @ IdentifyPCIBridgeDevices pci\<rparr>"

text \<open>The steps after it, run in order up to the first error.\<close>

fun run_steps :: "('s \<Rightarrow> go_error option \<times> 's) list \<Rightarrow> 's \<Rightarrow> go_error option \<times> 's" where
  "run_steps [] s = (None, s)"
| "run_steps (f # fs) s = (case f s of (Some err, s) \<Rightarrow> (Some err, s) | (None, s) \<Rightarrow> run_steps fs s)"

interpretation node_steps: early_exit_loop "\<lambda>f. f" run_steps
  by unfold_locales simp_all

definition device_steps :: "'s node_env \<Rightarrow> ('s \<Rightarrow> go_error option \<times> 's) list" where
  "device_steps E =
     [Reconcile (noUsb E), SetupSriovDevices (noSriov E), SetupSRIOVGPUDevices (noGpu E), SetupVGPUDevices (noGpu E),
      checkAndUpdateNodeLabels E]"

definition reconcileNodeDevices ::
  "'s node_env \<Rightarrow> string \<Rightarrow> DevicesNode option \<Rightarrow> 's \<Rightarrow> (DevicesNode, 's) handler_result option" where
  "reconcileNodeDevices E name nodep s =
     (case nodep of None \<Rightarrow> Some (None, None, s) | Some node \<Rightarrow>
      if mDeletionTimestamp (dnMeta node) \<or> mName (dnMeta node) \<noteq> noNodeName E then Some (Some node, None, s)
      else case noPci E s of
        Inl err \<Rightarrow> Some (Some node, Some (Errorf ''error listing pcidevices''), s)
      | Inr pci \<Rightarrow>
          (case IdentifyHarvesterManagedNIC (noNic E) (noNodeName E) s of
             Inl err \<Rightarrow> Some (Some node, Some (Errorf ''error identifying management nics''), s)
           | Inr skipAddresses \<Rightarrow>
               (case ReconcilePCIDevices (pd_env_for E pci skipAddresses) (noNodeName E) s of
                  None \<Rightarrow> None
                | Some (Some err, s) \<Rightarrow> Some (None, Some (Errorf (''error reconciling pcidevices for node '' @ noNodeName E)), s)
                | Some (None, s) \<Rightarrow>
                    (case run_steps (device_steps E) s of
                       (Some err, s) \<Rightarrow> Some (None, Some (Errorf (''error reconciling devices for node '' @ noNodeName E)), s)
                     | (None, s) \<Rightarrow> Some (Some node, None, cEnqueue (noNode E) name s)))))"

subsection \<open>Which PCIDevice objects a reconciliation can create\<close>

text \<open>
  \<open>names\<close> observes the names of the PCIDevice objects in the world.  A client of another kind of
  object adds none; the PCIDevice client adds at most the name of the object it creates.
\<close>

definition adds_created :: "('s \<Rightarrow> string set) \<Rightarrow> (PCIDevice, 's) client \<Rightarrow> bool" where
  "adds_created names c \<longleftrightarrow>
     (\<forall>x s. names (snd (cCreate c x s)) \<subseteq> insert (pdName x) (names s)) \<and> (\<forall>x s. names (snd (cUpdate c x s)) \<subseteq> names s)
     \<and> (\<forall>x s. names (snd (cUpdateStatus c x s)) \<subseteq> names s) \<and> (\<forall>n s. names (snd (cDelete c n s)) \<subseteq> names s)"

lemma adds_createdD:
  assumes "adds_created names c"
  shows "names (snd (cCreate c x s)) \<subseteq> insert (pdName x) (names s)" "names (snd (cUpdate c x s)) \<subseteq> names s"
    "names (snd (cUpdateStatus c x s)) \<subseteq> names s" "names (snd (cDelete c n s)) \<subseteq> names s"
  using assms by (simp_all add: adds_created_def)

lemma snd_err_result [simp]: "snd (err_result r) = snd r"
  by (simp add: err_result_def)

lemma SetupSriovDevices_shrinks:
  assumes "adds_none names (seClient E)"
  shows "shrinks names (SetupSriovDevices E)"
proof -
  note sc = shrinks_case [where obs = names] and sriov = adds_noneD [OF assms]
  have "shrinks names (create_sriovs E ex ds)" for ex ds
    by (rule sriov_creates.loop_shrinks, rule shrinksI, simp, intro impI sc sriov(1)) simp
  moreover have "shrinks names (delete_sriovs E ex ds)" for ex ds
    by (rule sriov_deletes.loop_shrinks, rule shrinksI, simp, intro impI sc sriov(4)) simp
  ultimately have "shrinks names (\<lambda>s. case create_sriovs E ex g s of (Some err, s') \<Rightarrow> (Some err, s') | (None, s') \<Rightarrow> delete_sriovs E g ex s')" for ex g
    by (intro shrinks_seq)
  then show ?thesis
    by (simp add: shrinks_def SetupSriovDevices_def split: sum.splits)
qed

lemma SetupSRIOVGPUDevices_shrinks:
  assumes "adds_none names (gcSriov E)"
  shows "shrinks names (SetupSRIOVGPUDevices E)"
proof -
  note sc = shrinks_case [where obs = names] and gpu = adds_noneD [OF assms]
  have one: "shrinks names (createOrUpdateSRIOVGPUDevice E v)" for v
    by (rule shrinksI) (simp add: createOrUpdateSRIOVGPUDevice_def gpu(1) err_result_def split: sum.splits)
  have "shrinks names (create_missing_gpus E [v])" for v
    by (rule shrinksI, simp split: sum.split, intro allI impI shrinks_case_err [where obs = names] shrinksD [OF one]) simp
  then have "shrinks names (create_missing_gpus E ds)" for ds
    by (rule gpu_creates.loop_shrinks)
  moreover have "shrinks names (delete_stale_gpus E found ds)" for found ds
    by (rule gpu_deletes.loop_shrinks, rule shrinksI, simp, intro impI sc gpu(4)) simp
  then have "shrinks names (\<lambda>s. case cList (gcSriovCache E) [(NodeKeyName, gcNodeName E)] s of
      Inl err \<Rightarrow> (Some err, s) | Inr existingGPUs \<Rightarrow> delete_stale_gpus E ds existingGPUs s)" for ds
    by (simp add: shrinks_def split: sum.splits)
  ultimately have "shrinks names (reconcileSRIOVGPUSetup E ds)" for ds
    unfolding reconcileSRIOVGPUSetup_def by (intro shrinks_seq)
  then show ?thesis by (simp add: shrinks_def SetupSRIOVGPUDevices_def split: sum.splits)
qed

lemma setup_vgpus_shrinks:
  assumes "adds_none names (gcVgpu E)" "adds_none names (gcVgpuCache E)"
  shows "names (snd (setup_vgpus E l vs s)) \<subseteq> names s"
proof (induction vs arbitrary: l s)
  case (Cons v vs)
  note sc = shrinks_case [where obs = names] and vgpu = adds_noneD [OF assms(1)] and through = adds_noneD(6) [OF assms(2)]
  show ?case
  proof (cases "containsVGPU (vgName v) l")
    case None
    then show ?thesis by (simp, intro sc vgpu(1) subset_trans [OF Cons])
  next
    case (Some old)
    then show ?thesis
      by (simp add: Let_def, intro conjI impI sc subset_trans [OF vgpu(3)] subset_trans [OF Cons] through)
  qed
qed simp

lemma SetupVGPUDevices_shrinks:
  assumes "adds_none names (gcVgpu E)" "adds_created names (gcPd E)" "adds_none names (gcVgpuCache E)"
  shows "shrinks names (SetupVGPUDevices E)"
proof -
  note sc = shrinks_case [where obs = names] and vgpu = adds_noneD [OF assms(1)] and pd = adds_createdD [OF assms(2)]
  have setups: "shrinks names (setup_vgpus E l vs)" for l vs
    using setup_vgpus_shrinks [OF assms(1,3)] by (simp add: shrinks_def)
  have "shrinks names (delete_stale_vgpus E vs [v])" for vs v
    by (rule shrinksI) (simp split: sum.split, intro allI impI sc vgpu(4), simp)
  then have deletes: "shrinks names (delete_stale_vgpus E vs ds)" for vs ds
    by (rule vgpu_deletes.loop_shrinks)
  have "shrinks names (label_pcidevices E [v])" for v
    by (rule shrinksI) (simp add: Let_def split: sum.split option.split, intro allI impI conjI sc pd(2); simp)
  then have labels: "shrinks names (label_pcidevices E vs)" for vs
    by (rule pd_labels.loop_shrinks)
  have "shrinks names (\<lambda>s. case setup_vgpus E l vs s of (Some err, s) \<Rightarrow> (Some err, s)
      | (None, s) \<Rightarrow> (case delete_stale_vgpus E vs l s of (Some err, s) \<Rightarrow> (Some err, s) | (None, s) \<Rightarrow> label_pcidevices E vs s))" for l vs
    by (intro shrinks_seq setups deletes labels)
  then have "shrinks names (reconcileVGPUSetup E vs)" for vs
    by (simp add: shrinks_def reconcileVGPUSetup_def split: sum.splits)
  then show ?thesis by (simp add: shrinks_def SetupVGPUDevices_def split: sum.splits)
qed

lemma checkAndUpdateNodeLabels_shrinks:
  assumes "adds_none names (noCore E)" "adds_none names (noCoreCache E)"
  shows "shrinks names (checkAndUpdateNodeLabels E)"
  using subset_trans [OF adds_noneD(2) [OF assms(1)] adds_noneD(6) [OF assms(2)]] adds_noneD(6) [OF assms(2)]
  by (simp add: shrinks_def checkAndUpdateNodeLabels_def Let_def split: sum.splits)

lemma adds_createdE:
  assumes "adds_created names c"
  shows "cCreate c x s = (r, s') \<Longrightarrow> names s' \<subseteq> insert (pdName x) (names s)"
    and "cUpdateStatus c x s = (r, s') \<Longrightarrow> names s' \<subseteq> names s"
  using adds_createdD [OF assms] by (metis snd_conv)+

lemma get_or_create_names:
  assumes "adds_created names (peClient E)" "get_or_create E n l dev s = Some (r, s')"
  shows "names s' \<subseteq> insert (dev_name n dev) (names s)"
  using assms(2) unfolding get_or_create_def Let_def
  by (auto split: sum.splits if_splits option.splits prod.splits dest!: New_name adds_createdE(1) [OF assms(1)])

lemma reconcile_devices_names:
  assumes "adds_created names (peClient E)"
  shows "reconcile_devices E n m devs l addrs s = Some (r, s') \<Longrightarrow> names s' \<subseteq> names s \<union> dev_name n ` set (wanted E devs)"
proof (induction devs arbitrary: l addrs s)
  case (Cons dev devs)
  show ?case
  proof (cases "containsString (peSkipAddresses E) (dvAddress dev)")
    case True
    with Cons show ?thesis by (simp add: wanted_def)
  next
    case False
    then have w: "wanted E (dev # devs) = dev # wanted E devs" by (simp add: wanted_def)
    from Cons.prems False obtain g s1 where g: "get_or_create E n l dev s = Some (g, s1)" by (auto split: option.splits)
    then have s1: "names s1 \<subseteq> insert (dev_name n dev) (names s)" by (rule get_or_create_names [OF assms])
    have "names s' \<subseteq> names s1 \<union> dev_name n ` set (wanted E devs)"
      using Cons.prems False g
      by (auto simp: Let_def split: sum.splits option.splits prod.splits dest!: Cons.IH adds_createdE(2) [OF assms])
    with s1 show ?thesis unfolding w by auto
  qed
qed simp

lemma ReconcilePCIDevices_names:
  assumes "adds_created names (peClient E)" "ReconcilePCIDevices E n s = Some (r, s')"
  shows "names s' \<subseteq> names s \<union> dev_name n ` set (wanted E (pePci E))"
proof -
  have del: "names (snd (delete_devices E vs s)) \<subseteq> names s" for vs s
    by (rule shrinksD, rule pd_deletes.loop_shrinks, rule shrinksI, simp,
        intro shrinks_case [where obs = names] adds_createdD(4) [OF assms(1)]) simp
  have dels: "delete_devices E vs s1 = (e, s2) \<Longrightarrow> names s2 \<subseteq> names s1" for vs s1 e s2
    using del [of vs s1] by simp
  from assms(2) show ?thesis
    unfolding ReconcilePCIDevices_def
    by (auto split: sum.splits option.splits prod.splits dest!: reconcile_devices_names [OF assms(1)] dels)
qed

text \<open>
  Property C4.  Whatever its outcome, the reconciliation of a node creates PCIDevice objects
  only for devices of this node that are not bridges and not the card of a management link, of
  a VLAN uplink or of an SR-IOV function in use: the cards Harvester depends on can never be
  claimed for passthrough.
\<close>

theorem reconcileNodeDevices_spares_managed:
  assumes "adds_created names (peClient (noPd E))" "adds_created names (gcPd (noGpu E))"
    and "adds_none names (ueUsb (noUsb E))" "adds_none names (ueClaim (noUsb E))" "adds_none names (seClient (noSriov E))"
    and "adds_none names (gcSriov (noGpu E))" "adds_none names (gcVgpu (noGpu E))"
    and "adds_none names (noCore E)" "adds_none names (noNode E)"
    and "adds_none names (gcVgpuCache (noGpu E))" "adds_none names (noCoreCache E)"
    and "reconcileNodeDevices E name nodep s = Some (r, e, s')"
    and "k \<in> names s'" "k \<notin> names s"
    and "neLinkList (noNic E) s = Inr links" "neVlanConfigs (noNic E) s = Inr vcs" "neNetwork (noNic E) s = Inr nics"
  shows "\<exists>pci dev. noPci E s = Inr pci \<and> dev \<in> set pci \<and> k = PCIDeviceNameForHostname (dvAddress dev) (noNodeName E)
    \<and> dvClassID dev @ dvSubclassID dev \<noteq> pciBridgeClassID
    \<and> (\<forall>nic \<in> set nics. nicPCIAddress nic = Some (dvAddress dev) \<longrightarrow>
        \<not> management_nic links (nicName nic) \<and> \<not> vlan_uplink (noNic E) (noNodeName E) vcs (nicName nic)
        \<and> \<not> (\<not> nicIsVirtual nic \<and> IsNICSRIOVCapable (noNic E) (dvAddress dev) s = Inr True
            \<and> (\<exists>n > 0. nic_CurrentVFConfigured (noNic E) (dvAddress dev) s = Inr n)))"
proof -
  have quiet: "shrinks names (run_steps (device_steps E))"
    using Reconcile_shrinks [OF assms(3,4)] SetupSriovDevices_shrinks [OF assms(5)] SetupSRIOVGPUDevices_shrinks [OF assms(6)]
      SetupVGPUDevices_shrinks [OF assms(7,2,10)] checkAndUpdateNodeLabels_shrinks [OF assms(8,11)]
    by (intro node_steps.loop_shrinks) (auto simp: device_steps_def)
  from assms(12-14) obtain pci skip e1 s1 where pci: "noPci E s = Inr pci"
    and skip: "IdentifyHarvesterManagedNIC (noNic E) (noNodeName E) s = Inr skip"
    and rec: "ReconcilePCIDevices (pd_env_for E pci skip) (noNodeName E) s = Some (e1, s1)"
    and rest: "s' = s1 \<or> (\<exists>e2 s2. run_steps (device_steps E) s1 = (e2, s2) \<and> (s' = s2 \<or> s' = cEnqueue (noNode E) name s2))"
    by (auto simp: reconcileNodeDevices_def split: option.splits if_splits sum.splits prod.splits)
  have "names s' \<subseteq> names s1"
    using rest shrinksD [OF quiet, of s1] adds_noneD(5) [OF assms(9)] by fastforce
  moreover have "names s1 \<subseteq> names s \<union> dev_name (noNodeName E) ` set (wanted (pd_env_for E pci skip) pci)"
    using ReconcilePCIDevices_names [OF _ rec] assms(1) by (simp add: pd_env_for_def)
  ultimately obtain dev where dev: "dev \<in> set pci" "k = dev_name (noNodeName E) dev" "dvAddress dev \<notin> set skip"
    and "dvAddress dev \<notin> set (IdentifyPCIBridgeDevices pci)"
    using assms(13,14) by (auto simp: wanted_def pd_env_for_def strs.contains_iff)
  then have "dvClassID dev @ dvSubclassID dev \<noteq> pciBridgeClassID"
    by (auto simp: IdentifyPCIBridgeDevices_def)
  with dev pci IdentifyHarvesterManagedNIC_covers [OF skip] assms(15-17) show ?thesis by fastforce
qed

text \<open>A node with a management card and one other card; the world is the table of PCIDevice objects.\<close>

definition demo_static_os :: "pd_store os" where
  "demo_static_os = peOs (demo_pd_env False)"

definition demo_mgmt_nic :: "pd_store nic_env" where
  "demo_mgmt_nic =
     \<lparr>neOs = demo_static_os, neDevicePath = ''/sys/bus/pci/devices'', neHostNS = \<lambda>s. Inr (), neHandle = \<lambda>s. Inr (),
      neLinkList = \<lambda>s. Inr demo_links, neNetwork = \<lambda>s. Inr demo_nics, neVlanConfigs = \<lambda>s. Inr demo_vlans,
      neUnmarshal = \<lambda>a. (if a = ''[node1]'' then Inr [''node1''] else Inl (Errorf ''json''))\<rparr>"

definition idle_client :: "('o \<Rightarrow> object_meta) \<Rightarrow> (string, 'o) gomap \<Rightarrow> ('o, pd_store) client" where
  "idle_client meta objs = table_client meta (\<lambda>old new. new) (\<lambda>i x. []) (\<lambda>s. objs) (\<lambda>m s. s)"

definition demo_node_env :: "pd_store node_env" where
  "demo_node_env =
     (let usb = idle_client udMeta []; claim = idle_client ucMeta []; sn = idle_client snMeta []; sg = idle_client sgMeta [];
          vg = idle_client vgMeta []; pc = idle_client pcMeta []; mc = idle_client mcMeta []; dn = idle_client dnMeta [];
          core = idle_client knMeta [(''node1'', \<lparr>knMeta = empty_meta\<lparr>mName := ''node1''\<rparr>\<rparr>)]
      in \<lparr>noPci = \<lambda>s. Inr [demo_hw ''0000:02:00.0'', demo_hw ''0000:04:00.0''],
          noPd = demo_pd_env False, noNic = demo_mgmt_nic,
          noUsb = \<lparr>ueUsb = usb, ueUsbCache = usb, ueClaim = claim, ueClaimCache = claim, ueKv = idle_client kvMeta [],
            ueOs = demo_static_os, ueWalk = \<lambda>s. [], ueIds = NewParser, ueConsts = demo_usb_consts, ueNodeName = ''node1'', ueSignal = \<lambda>s. s\<rparr>,
          noSriov = \<lparr>seNic = demo_mgmt_nic, seClient = sn, seCache = sn, seNodeName = ''node1''\<rparr>,
          noGpu = \<lparr>gcSriov = sg, gcSriovCache = sg, gcVgpu = vg, gcVgpuCache = vg, gcPdc = pc, gcPdcCache = pc, gcPd = pd_table,
            gcPdCache = pd_table, gcMig = mc, gcMigCache = mc, gcOs = demo_static_os, gcWriteFile = \<lambda>f d s. (Inr (), s),
            gcNvpci = \<lparr>nvGetGPUs = \<lambda>s. Inr [], nvGetAllDevices = \<lambda>s. Inr []\<rparr>, gcNodeName = ''node1'', gcMissNonNil = True\<rparr>,
          noCore = core, noCoreCache = core, noNode = dn, noNodeCache = dn, noNodeName = ''node1''\<rparr>)"

lemma idle_client_adds_none: "adds_none names (idle_client meta objs)"
  by (simp add: adds_none_def idle_client_def table_client_def split: option.splits)

definition pd_names :: "pd_store \<Rightarrow> string set" where
  "pd_names s = set (mkeys s)"

lemma pd_table_adds_created: "adds_created pd_names pd_table"
  by (auto simp: adds_created_def pd_names_def pd_table_def table_client_def mhas_mkeys [symmetric] mhas_def
      split: option.splits if_splits)

theorem reconcileNodeDevices_spares_managed_witness:
  "\<exists>r e s'. reconcileNodeDevices demo_node_env ''node1'' (Some \<lparr>dnMeta = empty_meta\<lparr>mName := ''node1''\<rparr>\<rparr>) [] = Some (r, e, s')
     \<and> e = None \<and> ''node1-000004000'' \<in> set (mkeys s')
     \<and> (\<exists>dev :: pci_device. PCIDeviceNameForHostname (dvAddress dev) ''node1'' = ''node1-000004000'' \<and> \<not> dvAddress dev = ''0000:02:00.0'')"
proof -
  let ?run = "reconcileNodeDevices demo_node_env ''node1'' (Some \<lparr>dnMeta = empty_meta\<lparr>mName := ''node1''\<rparr>\<rparr>) []"
  have "map_option (\<lambda>(r, e, s'). (e, mkeys s')) ?run = Some (None, [''node1-000004000''])" by code_simp
  then obtain r s' where run: "?run = Some (r, None, s')" and keys: "mkeys s' = [''node1-000004000'']" by auto
  have "noNic demo_node_env = demo_mgmt_nic" "noNodeName demo_node_env = ''node1''" "peClient (noPd demo_node_env) = pd_table"
    "gcPd (noGpu demo_node_env) = pd_table" "ueUsb (noUsb demo_node_env) = idle_client udMeta []"
    "ueClaim (noUsb demo_node_env) = idle_client ucMeta []" "seClient (noSriov demo_node_env) = idle_client snMeta []"
    "gcSriov (noGpu demo_node_env) = idle_client sgMeta []" "gcVgpu (noGpu demo_node_env) = idle_client vgMeta []"
    "noNode demo_node_env = idle_client dnMeta []" "gcVgpuCache (noGpu demo_node_env) = idle_client vgMeta []"
    "noCoreCache demo_node_env = idle_client knMeta [(''node1'', \<lparr>knMeta = empty_meta\<lparr>mName := ''node1''\<rparr>\<rparr>)]"
    "noCore demo_node_env = idle_client knMeta [(''node1'', \<lparr>knMeta = empty_meta\<lparr>mName := ''node1''\<rparr>\<rparr>)]"
    by (simp_all add: demo_node_env_def demo_pd_env_def Let_def)
  note env = this
  have "neLinkList demo_mgmt_nic [] = Inr demo_links" "neVlanConfigs demo_mgmt_nic [] = Inr demo_vlans"
    "neNetwork demo_mgmt_nic [] = Inr demo_nics" by (simp_all add: demo_mgmt_nic_def)
  moreover have "''node1-000004000'' \<in> pd_names s'" "''node1-000004000'' \<notin> pd_names []"
    using keys by (simp_all add: pd_names_def mkeys_def)
  ultimately
  have "\<exists>pci dev. noPci demo_node_env [] = Inr pci \<and> dev \<in> set pci \<and> ''node1-000004000'' = PCIDeviceNameForHostname (dvAddress dev) ''node1''
      \<and> (\<forall>nic \<in> set demo_nics. nicPCIAddress nic = Some (dvAddress dev) \<longrightarrow> \<not> management_nic demo_links (nicName nic))"
    using reconcileNodeDevices_spares_managed [of pd_names demo_node_env, OF _ _ _ _ _ _ _ _ _ _ _ run,
      of "''node1-000004000''" demo_links demo_vlans demo_nics]
    unfolding env by (simp add: pd_table_adds_created idle_client_adds_none) blast
  then obtain dev :: pci_device where dev: "''node1-000004000'' = PCIDeviceNameForHostname (dvAddress dev) ''node1''"
    and spared: "\<forall>nic \<in> set demo_nics. nicPCIAddress nic = Some (dvAddress dev) \<longrightarrow> \<not> management_nic demo_links (nicName nic)"
    by blast
  have "\<exists>nic \<in> set demo_nics. nicPCIAddress nic = Some ''0000:02:00.0'' \<and> management_nic demo_links (nicName nic)"
    by code_simp
  with spared have "\<not> dvAddress dev = ''0000:02:00.0''" by (elim bexE conjE) (rule notI, drule (1) bspec, simp)
  with dev have "\<exists>dev :: pci_device. PCIDeviceNameForHostname (dvAddress dev) ''node1'' = ''node1-000004000'' \<and> \<not> dvAddress dev = ''0000:02:00.0''"
    by (intro exI [of _ dev]) simp
  with run keys show ?thesis by (intro exI [of _ r] exI [of _ None] exI [of _ s']) simp
qed

end
