(* ===== verification/Webhook_VM.thy ===== *)
theory Webhook_VM
  imports Common
begin

section \<open>The mutating webhook for virtual machines\<close>

text \<open>
  Models \<^verbatim>\<open>pkg/webhook/vm.go\<close> and the indexers of \<^verbatim>\<open>pkg/webhook/indexer.go\<close> and
  \<^verbatim>\<open>pkg/controller/indexer.go\<close>.  A JSON patch is a list of operations, one constructor per
  operation the code prints; \<open>apply_op\<close> is their meaning by RFC 6902 on the parts of the machine
  they address, with \<^const>\<open>None\<close> for an operation whose target does not exist, which makes the
  API server refuse the request.
\<close>

subsection \<open>Indexers\<close>

definition vmByName :: "VirtualMachine \<Rightarrow> string list" where
  "vmByName vm = [vmName vm @ ''-'' @ mNamespace (vmMeta vm)]"

definition pciDeviceByResourceName :: "PCIDevice \<Rightarrow> string list" where
  "pciDeviceByResourceName pd = [pdResourceName (pdStatus pd)]"

definition iommuGroupByNodeName :: "PCIDevice \<Rightarrow> string list" where
  "iommuGroupByNodeName pd = [pdNodeName (pdStatus pd) @ ''-'' @ pdIOMMUGroup (pdStatus pd)]"

definition usbDeviceClaimByAddress :: "USBDeviceClaim \<Rightarrow> string list" where
  "usbDeviceClaimByAddress uc = [ucNodeName uc @ ''-'' @ ucPCIAddress uc]"

definition getSriovDeviceFromVF :: "SRIOVNetworkDevice \<Rightarrow> string list" where
  "getSriovDeviceFromVF sd = (case snVFPCIDevices (snStatus sd) of None \<Rightarrow> [] | Some ds \<Rightarrow> ds)"

definition getUSBDeviceClaimFromPCIAddress :: "USBDeviceClaim \<Rightarrow> string list" where
  "getUSBDeviceClaimFromPCIAddress uc = [ucPCIAddress uc]"

definition VMByName_ix :: string where
  "VMByName_ix = ''harvesterhci.io/vm-by-name''"

definition PCIDeviceByResourceName_ix :: string where
  "PCIDeviceByResourceName_ix = ''harvesterhcio.io/pcidevice-by-resource-name''"

definition IommuGroupByNode_ix :: string where
  "IommuGroupByNode_ix = ''pcidevice.harvesterhci.io/iommu-by-node''"

definition USBDeviceByAddress_ix :: string where
  "USBDeviceByAddress_ix = ''pcidevice.harvesterhci.io/usb-device-by-address''"

definition VMByPCIDeviceClaim_ix :: string where
  "VMByPCIDeviceClaim_ix = ''harvesterhci.io/vm-by-pcideviceclaim''"

definition VMByUSBDeviceClaim_ix :: string where
  "VMByUSBDeviceClaim_ix = ''harvesterhci.io/vm-by-usbdeviceclaim''"

definition USBDeviceByResourceName_ix :: string where
  "USBDeviceByResourceName_ix = ''harvesterhci.io/usbdevice-by-resource-name''"

definition vGPUDeviceByResourceName_ix :: string where
  "vGPUDeviceByResourceName_ix = ''harvesterhci.io/vgpu-device-by-resource-name''"

subsection \<open>Patches\<close>

datatype patch_op =
    AddHostDevice HostDevice    \<comment> \<open>\<^verbatim>\<open>add /spec/template/spec/domain/devices/hostDevices/-\<close>\<close>
  | InitHostDevices             \<comment> \<open>\<^verbatim>\<open>add .../hostDevices []\<close>\<close>
  | RemoveGPU nat               \<comment> \<open>\<^verbatim>\<open>remove .../gpus/i\<close>\<close>
  | RemoveAllocation            \<comment> \<open>\<^verbatim>\<open>remove /metadata/annotations/...\<close>\<close>
  | ReplaceAllocation string    \<comment> \<open>\<^verbatim>\<open>replace /metadata/annotations/...\<close>\<close>

text \<open>The machine as the patch sees it: whether the \<^verbatim>\<open>hostDevices\<close> array is present matters for
  appending to it.\<close>

record patched_vm =
  pvHostDevices :: "HostDevice list option"
  pvGPUs :: "GPU list"
  pvAllocation :: "string option"

definition patch_view :: "VirtualMachine \<Rightarrow> patched_vm" where
  "patch_view vm = \<lparr>pvHostDevices = (if vmHostDevices vm = [] then None else Some (vmHostDevices vm)),
     pvGPUs = vmGPUs vm, pvAllocation = mget (mAnnotations (vmMeta vm)) DeviceAllocationKey\<rparr>"

fun apply_op :: "patch_op \<Rightarrow> patched_vm \<Rightarrow> patched_vm option" where
  "apply_op (AddHostDevice d) p =
     (case pvHostDevices p of None \<Rightarrow> None | Some ds \<Rightarrow> Some (p\<lparr>pvHostDevices := Some (ds @ [d])\<rparr>))"
| "apply_op InitHostDevices p = Some (p\<lparr>pvHostDevices := Some []\<rparr>)"
| "apply_op (RemoveGPU i) p =
     (if i < length (pvGPUs p) then Some (p\<lparr>pvGPUs := take i (pvGPUs p) @ drop (Suc i) (pvGPUs p)\<rparr>) else None)"
| "apply_op RemoveAllocation p =
     (case pvAllocation p of None \<Rightarrow> None | Some _ \<Rightarrow> Some (p\<lparr>pvAllocation := None\<rparr>))"
| "apply_op (ReplaceAllocation v) p =
     (case pvAllocation p of None \<Rightarrow> None | Some _ \<Rightarrow> Some (p\<lparr>pvAllocation := Some v\<rparr>))"

fun apply_ops :: "patch_op list \<Rightarrow> patched_vm \<Rightarrow> patched_vm option" where
  "apply_ops [] p = Some p"
| "apply_ops (x # xs) p = (case apply_op x p of None \<Rightarrow> None | Some p \<Rightarrow> apply_ops xs p)"

subsection \<open>The mutator\<close>

record 's mutator_env =
  meDeviceCache :: "(PCIDevice, 's) client"
  meClaimCache :: "(PCIDeviceClaim, 's) client"
  meClaimClient :: "(PCIDeviceClaim, 's) client"
  meVmiExists :: "string \<Rightarrow> 's \<Rightarrow> unit res" \<comment> \<open>the VMI cache's \<^verbatim>\<open>Get\<close>\<close>
  meJson :: json_codec

record pciDeviceWithOwners =
  poDevice :: PCIDevice
  poOwner :: string

fun additionalDeviceAlreadyExists :: "string list \<Rightarrow> string \<Rightarrow> bool" where
  "additionalDeviceAlreadyExists [] dev = False"
| "additionalDeviceAlreadyExists (v # devList) dev =
     (if v = dev then True else additionalDeviceAlreadyExists devList dev)"

interpretation adae: membership additionalDeviceAlreadyExists "\<lambda>x. x"
proof
  show "additionalDeviceAlreadyExists xs k \<longleftrightarrow> k \<in> (\<lambda>x. x) ` set xs" for xs k
    by (induction xs) auto
qed

definition identifyAdditionalPCIDevices ::
  "string list \<Rightarrow> pciDeviceWithOwners list \<Rightarrow> pciDeviceWithOwners list" where
  "identifyAdditionalPCIDevices pciDevicesInVM possible =
     filter (\<lambda>v. \<not> additionalDeviceAlreadyExists pciDevicesInVM (pdName (poDevice v))) possible"

definition generatePCIDeviceClaim :: "PCIDevice \<Rightarrow> string \<Rightarrow> PCIDeviceClaim" where
  "generatePCIDeviceClaim dev owner =
     \<lparr>pcMeta = empty_meta\<lparr>mName := pdName dev,
        mOwnerReferences := Some [\<lparr>orAPIVersion = mAPIVersion (pdMeta dev), orKind = mKind (pdMeta dev),
                                   orName = pdName dev, orUID = mUID (pdMeta dev)\<rparr>]\<rparr>,
      pcSpec = \<lparr>pcAddress = pdAddress (pdStatus dev), pcNodeName = pdNodeName (pdStatus dev),
                pcUserName = owner, pcDisableResourcePooling = False\<rparr>,
      pcStatus = \<lparr>pcKernelDriverToUnbind = [], pcPassthroughEnabled = False\<rparr>\<rparr>"

definition findAndCreateClaim :: "'s mutator_env \<Rightarrow> PCIDevice \<Rightarrow> string \<Rightarrow> 's \<Rightarrow> go_error option \<times> 's" where
  "findAndCreateClaim E dev owner s =
     (case cGet (meClaimCache E) (pdName dev) s of
        Inr _ \<Rightarrow> (None, s)
      | Inl err \<Rightarrow>
          (if IsNotFound err
           then case cCreate (meClaimClient E) (generatePCIDeviceClaim dev owner) s of
                  (Inl createErr, s) \<Rightarrow> (Some createErr, s)
                | (Inr _, s) \<Rightarrow> (None, s)
           else (Some err, s)))"

fun create_claims :: "'s mutator_env \<Rightarrow> pciDeviceWithOwners list \<Rightarrow> 's \<Rightarrow> go_error option \<times> 's" where
  "create_claims E [] s = (None, s)"
| "create_claims E (v # vs) s =
     (case findAndCreateClaim E (poDevice v) (poOwner v) s of
        (Some err, s) \<Rightarrow> (Some (Errorf ''error during findAndCreateClaim''), s)
      | (None, s) \<Rightarrow> create_claims E vs s)"

definition generateDevicePatch :: "string \<Rightarrow> string \<Rightarrow> patch_op list" where
  "generateDevicePatch name resourceName = [AddHostDevice \<lparr>hdName = name, hdDeviceName = resourceName\<rparr>]"

definition generatePatchFromDevices :: "pciDeviceWithOwners list \<Rightarrow> patch_op list" where
  "generatePatchFromDevices devicesNeeded =
     concat (map (\<lambda>dev. generateDevicePatch (pdName (poDevice dev)) (pdResourceName (pdStatus (poDevice dev)))) devicesNeeded)"

text \<open>The loop over the host devices: an early return without patch when a device or its claim
  is not found is \<open>Inr None\<close>.\<close>

fun collect_devices ::
  "'s mutator_env \<Rightarrow> HostDevice list \<Rightarrow> string list \<Rightarrow> pciDeviceWithOwners list \<Rightarrow> 's
   \<Rightarrow> (string list \<times> pciDeviceWithOwners list) option res" where
  "collect_devices E [] inVM possible s = Inr (Some (inVM, possible))"
| "collect_devices E (v # vs) inVM possible s =
     (case cGet (meDeviceCache E) (hdName v) s of
        Inl err \<Rightarrow> if IsNotFound err then Inr None
                   else Inl (Errorf (''error looking up pcidevice '' @ hdName v @ '' from cache''))
      | Inr pciDeviceObj \<Rightarrow>
          (case cGet (meClaimCache E) (hdName v) s of
             Inl err \<Rightarrow> if IsNotFound err then Inr None
                        else Inl (Errorf (''error looking up pcidevice '' @ hdName v @ '' from cache''))
           | Inr claim \<Rightarrow>
               (case cByIndex (meDeviceCache E) IommuGroupByNode_ix
                       (pdNodeName (pdStatus pciDeviceObj) @ ''-'' @ pdIOMMUGroup (pdStatus pciDeviceObj)) s of
                  Inl err \<Rightarrow> Inl (Errorf ''error lookup up pcidevices'')
                | Inr pciDevices \<Rightarrow>
                    collect_devices E vs (inVM @ [hdName v])
                      (possible @ map (\<lambda>d. \<lparr>poDevice = d, poOwner = pcUserName (pcSpec claim)\<rparr>) pciDevices) s)))"

definition generateHostDevicesPatch :: "'s mutator_env \<Rightarrow> VirtualMachine \<Rightarrow> 's \<Rightarrow> patch_op list res \<times> 's" where
  "generateHostDevicesPatch E vmObj s =
     (case collect_devices E (vmHostDevices vmObj) [] [] s of
        Inl err \<Rightarrow> (Inl err, s)
      | Inr None \<Rightarrow> (Inr [], s)
      | Inr (Some (inVM, possible)) \<Rightarrow>
          (let devicesNeeded = identifyAdditionalPCIDevices inVM possible
           in if devicesNeeded = [] then (Inr [], s)
              else case create_claims E devicesNeeded s of
                     (Some err, s) \<Rightarrow> (Inl err, s)
                   | (None, s) \<Rightarrow> (Inr (generatePatchFromDevices devicesNeeded), s)))"

definition convertGPUsToHostDevices :: "VirtualMachine \<Rightarrow> patch_op list" where
  "convertGPUsToHostDevices vm =
     (if vmHostDevices vm = [] then [InitHostDevices] else [])
     @ concat (map (\<lambda>(i, vgpu). RemoveGPU i # generateDevicePatch (gpName vgpu) (gpDeviceName vgpu))
                 (zip [0..<length (vmGPUs vm)] (vmGPUs vm)))"

definition group_by_device_name :: "HostDevice list \<Rightarrow> (string, string list) gomap" where
  "group_by_device_name hds =
     foldl (\<lambda>m h. mput (hdDeviceName h) ((case mget m (hdDeviceName h) of None \<Rightarrow> [] | Some ns \<Rightarrow> ns) @ [hdName h]) m)
       [] hds"

definition reconcileDeviceAllocationAnnotation :: "'s mutator_env \<Rightarrow> VirtualMachine \<Rightarrow> 's \<Rightarrow> patch_op list res" where
  "reconcileDeviceAllocationAnnotation E vmObj s =
     (case mget (mAnnotations (vmMeta vmObj)) DeviceAllocationKey of
        None \<Rightarrow> Inr []
      | Some currentVal \<Rightarrow>
          (case meVmiExists E (mNamespace (vmMeta vmObj) @ ''/'' @ vmName vmObj) s of
             Inr _ \<Rightarrow> Inr []
           | Inl err \<Rightarrow>
               (if \<not> IsNotFound err then Inl (Errorf ''error looking up VMI for vm'')
                else let newHostDevices = group_by_device_name (vmHostDevices vmObj)
                     in if newHostDevices = [] then Inr [RemoveAllocation]
                        else let newVal = jMarshal (meJson E) \<lparr>adGPUs = [], adHostDevices = newHostDevices\<rparr>
                             in if newVal = currentVal then Inr [] else Inr [ReplaceAllocation newVal])))"

definition mutator_Create :: "'s mutator_env \<Rightarrow> VirtualMachine \<Rightarrow> 's \<Rightarrow> patch_op list res \<times> 's" where
  "mutator_Create E vmObj s =
     (case (if vmHostDevices vmObj \<noteq> [] then generateHostDevicesPatch E vmObj s else (Inr [], s)) of
        (Inl err, s) \<Rightarrow> (Inl (Wrapf ''error generating hostdevices patch for vm'' err), s)
      | (Inr patches, s) \<Rightarrow>
          (Inr (patches @ (if vmGPUs vmObj \<noteq> [] then convertGPUsToHostDevices vmObj else [])), s))"

text \<open>\<^verbatim>\<open>oldVMObj\<close> is taken from the new object, as in the code.\<close>

definition mutator_Update :: "'s mutator_env \<Rightarrow> VirtualMachine \<Rightarrow> VirtualMachine \<Rightarrow> 's \<Rightarrow> patch_op list res \<times> 's" where
  "mutator_Update E old newObj s =
     (let vmObj = newObj; oldVMObj = newObj
      in case (if vmHostDevices oldVMObj \<noteq> vmHostDevices vmObj then generateHostDevicesPatch E vmObj s else (Inr [], s)) of
           (Inl err, s) \<Rightarrow> (Inl (Wrapf ''error generating hostdevices patch for vm'' err), s)
         | (Inr patches, s) \<Rightarrow>
             (let patches = patches @ (if vmGPUs vmObj \<noteq> [] then convertGPUsToHostDevices vmObj else [])
              in case reconcileDeviceAllocationAnnotation E vmObj s of
                   Inl err \<Rightarrow> (Inl (Wrapf ''error reconciling device allocation annotation for vm'' err), s)
                 | Inr annotationPatches \<Rightarrow> (Inr (patches @ annotationPatches), s)))"

subsection \<open>The group index\<close>

text \<open>The key of a node and a group determines both, since a group is a number without hyphens.\<close>

lemma hyphen_key_inj:
  assumes "a @ ''-'' @ x = b @ ''-'' @ y" "CHR ''-'' \<notin> set x" "CHR ''-'' \<notin> set y"
  shows "a = b \<and> x = y"
proof -
  have cut: "takeWhile (\<lambda>c. c \<noteq> CHR ''-'') (rev (p @ ''-'' @ q)) = rev q" if "CHR ''-'' \<notin> set q" for p q :: string
    using that by simp (subst takeWhile_append2, auto)
  have "rev x = takeWhile (\<lambda>c. c \<noteq> CHR ''-'') (rev (b @ ''-'' @ y))"
    using cut [OF assms(2), of a] unfolding assms(1) by (rule sym)
  also have "\<dots> = rev y" by (rule cut [OF assms(3)])
  finally show ?thesis using assms(1) by simp
qed

definition same_group :: "PCIDevice \<Rightarrow> PCIDevice \<Rightarrow> bool" where
  "same_group d d' \<longleftrightarrow> pdNodeName (pdStatus d) = pdNodeName (pdStatus d') \<and> pdIOMMUGroup (pdStatus d) = pdIOMMUGroup (pdStatus d')"

definition group_key :: "PCIDevice \<Rightarrow> string" where
  "group_key d = pdNodeName (pdStatus d) @ ''-'' @ pdIOMMUGroup (pdStatus d)"

lemma group_key_iff:
  "CHR ''-'' \<notin> set (pdIOMMUGroup (pdStatus d)) \<Longrightarrow> CHR ''-'' \<notin> set (pdIOMMUGroup (pdStatus d')) \<Longrightarrow>
     group_key d = group_key d' \<longleftrightarrow> same_group d d'"
  unfolding group_key_def same_group_def by (auto dest!: hyphen_key_inj simp del: append.simps append_Cons)

subsection \<open>Completing the IOMMU groups\<close>

text \<open>The caches during one request: all the PCIDevice objects, and the index over them.\<close>

definition index_of :: "'s mutator_env \<Rightarrow> 's \<Rightarrow> PCIDevice list \<Rightarrow> bool" where
  "index_of E s devs \<longleftrightarrow>
     (\<forall>k. cByIndex (meDeviceCache E) IommuGroupByNode_ix k s = Inr (filter (\<lambda>d. k \<in> set (iommuGroupByNodeName d)) devs))"

definition device_of :: "'s mutator_env \<Rightarrow> 's \<Rightarrow> HostDevice \<Rightarrow> PCIDevice \<Rightarrow> bool" where
  "device_of E s h d \<longleftrightarrow> cGet (meDeviceCache E) (hdName h) s = Inr d"

lemma index_of_group:
  "index_of E s devs \<Longrightarrow>
     cByIndex (meDeviceCache E) IommuGroupByNode_ix (pdNodeName (pdStatus d) @ CHR ''-'' # pdIOMMUGroup (pdStatus d)) s =
     Inr (filter (\<lambda>d'. group_key d' = group_key d) devs)"
  by (simp add: index_of_def iommuGroupByNodeName_def group_key_def eq_commute)

lemma collect_devices_result:
  assumes "index_of E s devs" "collect_devices E hs inVM possible s = Inr (Some (inVM', possible'))"
  shows "inVM' = inVM @ map hdName hs \<and>
    poDevice ` set possible' = poDevice ` set possible \<union>
      {d' \<in> set devs. \<exists>h \<in> set hs. \<exists>d. device_of E s h d \<and> group_key d' = group_key d}"
  using assms(2)
proof (induction hs arbitrary: inVM possible)
  case (Cons h hs)
  then obtain d c where d: "cGet (meDeviceCache E) (hdName h) s = Inr d" "cGet (meClaimCache E) (hdName h) s = Inr c"
    and rest: "collect_devices E hs (inVM @ [hdName h])
      (possible @ map (\<lambda>d. \<lparr>poDevice = d, poOwner = pcUserName (pcSpec c)\<rparr>) (filter (\<lambda>d'. group_key d' = group_key d) devs)) s
      = Inr (Some (inVM', possible'))"
    by (auto simp: index_of_group [OF assms(1)] split: sum.splits if_splits)
  have dev: "device_of E s h x \<longleftrightarrow> x = d" for x using d(1) by (auto simp: device_of_def)
  from Cons.IH [OF rest] show ?case by (auto simp: dev image_Un image_image)
qed simp

lemma collect_devices_defined:
  assumes "index_of E s devs"
    and "\<forall>h \<in> set hs. \<exists>d \<in> set devs. \<exists>c. device_of E s h d \<and> cGet (meClaimCache E) (hdName h) s = Inr c"
  shows "\<exists>inVM' possible'. collect_devices E hs inVM possible s = Inr (Some (inVM', possible'))"
  using assms(2)
proof (induction hs arbitrary: inVM possible)
  case (Cons h hs)
  then obtain d c where "cGet (meDeviceCache E) (hdName h) s = Inr d" "cGet (meClaimCache E) (hdName h) s = Inr c"
    by (auto simp: device_of_def)
  with Cons show ?case by (simp add: index_of_group [OF assms(1)])
qed simp

lemma apply_adds:
  "pvHostDevices p = Some ds \<Longrightarrow>
     apply_ops (map AddHostDevice xs) p = Some (p\<lparr>pvHostDevices := Some (ds @ xs)\<rparr>)"
  by (induction xs arbitrary: p ds) simp_all

lemma generatePatchFromDevices_adds:
  "generatePatchFromDevices vs =
     map AddHostDevice (map (\<lambda>v. \<lparr>hdName = pdName (poDevice v), hdDeviceName = pdResourceName (pdStatus (poDevice v))\<rparr>) vs)"
  by (simp add: generatePatchFromDevices_def generateDevicePatch_def comp_def)


subsection \<open>Converting GPUs\<close>

definition gpu_ops :: "nat \<Rightarrow> GPU list \<Rightarrow> patch_op list" where
  "gpu_ops k gs = concat (map (\<lambda>(i, vgpu). RemoveGPU i # generateDevicePatch (gpName vgpu) (gpDeviceName vgpu))
                    (zip [k..<k + length gs] gs))"

lemma gpu_ops_Cons:
  "gpu_ops k (g # gs) = RemoveGPU k # AddHostDevice \<lparr>hdName = gpName g, hdDeviceName = gpDeviceName g\<rparr> # gpu_ops (Suc k) gs"
proof -
  have "[k..<k + length (g # gs)] = k # [Suc k..<Suc k + length gs]" by (simp add: upt_conv_Cons del: upt_Suc)
  then show ?thesis by (simp add: gpu_ops_def generateDevicePatch_def)
qed

text \<open>Removing at the indices 0, 1, 2, ... of a shrinking list runs out of range.\<close>

lemma gpu_ops_apply:
  "apply_ops (gpu_ops k gs) p = Some p' \<Longrightarrow> length (pvGPUs p) = length gs \<Longrightarrow> gs \<noteq> [] \<Longrightarrow> k + length gs \<le> 1"
proof (induction gs arbitrary: k p)
  case (Cons g gs)
  from Cons.prems(1) obtain ds where k: "k < length (pvGPUs p)"
    and ds: "apply_ops (gpu_ops (Suc k) gs)
      (p\<lparr>pvGPUs := take k (pvGPUs p) @ drop (Suc k) (pvGPUs p), pvHostDevices := Some ds\<rparr>) = Some p'"
    by (auto simp: gpu_ops_Cons split: if_splits option.splits)
  show ?case
  proof (cases "gs = []")
    case True
    with k Cons.prems(2) show ?thesis by simp
  next
    case False
    with Cons.IH [OF ds] k Cons.prems(2) show ?thesis by simp
  qed
qed simp

lemma convertGPUs_ops:
  "convertGPUsToHostDevices vm = (if vmHostDevices vm = [] then [InitHostDevices] else []) @ gpu_ops 0 (vmGPUs vm)"
  by (simp add: convertGPUsToHostDevices_def gpu_ops_def)

text \<open>
  Converting the GPUs of a machine with exactly one GPU yields a patch that applies,
  empties the GPU list and appends the GPU as a host device.  With two or more GPUs the patch
  does not apply: the indices of the removals refer to the original list, but each removal
  shortens it.
\<close>

theorem convertGPUsToHostDevices_apply:
  "(\<forall>g. vmGPUs vm = [g] \<longrightarrow> apply_ops (convertGPUsToHostDevices vm) (patch_view vm) =
      Some ((patch_view vm)\<lparr>pvGPUs := [], pvHostDevices := Some (vmHostDevices vm @ [\<lparr>hdName = gpName g, hdDeviceName = gpDeviceName g\<rparr>])\<rparr>))
   \<and> (2 \<le> length (vmGPUs vm) \<longrightarrow> apply_ops (convertGPUsToHostDevices vm) (patch_view vm) = None)"
proof (intro conjI allI impI)
  fix g assume "vmGPUs vm = [g]"
  then show "apply_ops (convertGPUsToHostDevices vm) (patch_view vm) =
      Some ((patch_view vm)\<lparr>pvGPUs := [], pvHostDevices := Some (vmHostDevices vm @ [\<lparr>hdName = gpName g, hdDeviceName = gpDeviceName g\<rparr>])\<rparr>)"
    by (auto simp: convertGPUs_ops gpu_ops_Cons gpu_ops_def [of _ "[]"] patch_view_def)
next
  assume l: "2 \<le> length (vmGPUs vm)"
  have "apply_ops (gpu_ops 0 (vmGPUs vm)) p = None" if "pvGPUs p = vmGPUs vm" for p
  proof (rule ccontr)
    assume "apply_ops (gpu_ops 0 (vmGPUs vm)) p \<noteq> None"
    then obtain p' where "apply_ops (gpu_ops 0 (vmGPUs vm)) p = Some p'" by blast
    from gpu_ops_apply [OF this] that l show False by (cases "vmGPUs vm") auto
  qed
  then show "apply_ops (convertGPUsToHostDevices vm) (patch_view vm) = None"
    by (simp add: convertGPUs_ops patch_view_def)
qed

text \<open>
  On an update no host device is ever added for IOMMU completeness: whatever the old
  and the new machine are, an update of a machine without GPUs changes no claim and yields
  operations on the allocation annotation only.
\<close>

theorem mutator_Update_no_host_patch:
  assumes "vmGPUs newObj = []"
  shows "snd (mutator_Update E old newObj s) = s
    \<and> (\<forall>ops. fst (mutator_Update E old newObj s) = Inr ops \<longrightarrow>
         list_all (\<lambda>x. x = RemoveAllocation \<or> (\<exists>v. x = ReplaceAllocation v)) ops)"
  using assms by (auto simp: mutator_Update_def reconcileDeviceAllocationAnnotation_def Let_def
      split: sum.splits option.splits if_splits)

subsection \<open>The allocation annotation\<close>

lemma group_by_device_name_snoc:
  "group_by_device_name (hds @ [h]) =
     mput (hdDeviceName h) ((case mget (group_by_device_name hds) (hdDeviceName h) of None \<Rightarrow> [] | Some ns \<Rightarrow> ns) @ [hdName h])
       (group_by_device_name hds)"
  by (simp add: group_by_device_name_def)

lemma group_by_device_name_get:
  "mget (group_by_device_name hds) n =
     (let ns = map hdName (filter (\<lambda>h. hdDeviceName h = n) hds) in if ns = [] then None else Some ns)"
  by (induction hds rule: rev_induct)
    (auto simp: group_by_device_name_snoc Let_def group_by_device_name_def [of "[]"] split: option.splits if_splits)

lemma group_by_device_name_Nil: "group_by_device_name hds = [] \<longleftrightarrow> hds = []"
proof
  assume "group_by_device_name hds = []"
  then have none: "mget (group_by_device_name hds) n = None" for n by simp
  show "hds = []"
  proof (cases hds)
    case (Cons h hs)
    then show ?thesis using none [of "hdDeviceName h"] by (simp add: group_by_device_name_get)
  qed
qed (simp add: group_by_device_name_def)

text \<open>
  Property C30.  For a stopped machine with an allocation annotation, the patch applies and leaves the
  annotation in step with the specification: none without host devices, otherwise the encoding
  of the map that gives each resource the names of its devices, in order.
\<close>

theorem reconcileDeviceAllocationAnnotation_sync:
  assumes "meVmiExists E (mNamespace (vmMeta vm) @ ''/'' @ vmName vm) s = Inl err" and "IsNotFound err"
    and "mget (mAnnotations (vmMeta vm)) DeviceAllocationKey = Some cur"
  shows "\<exists>ops p. reconcileDeviceAllocationAnnotation E vm s = Inr ops \<and> apply_ops ops (patch_view vm) = Some p
    \<and> pvHostDevices p = pvHostDevices (patch_view vm)
    \<and> (if vmHostDevices vm = [] then pvAllocation p = None
       else \<exists>m. pvAllocation p = Some (jMarshal (meJson E) \<lparr>adGPUs = [], adHostDevices = m\<rparr>)
            \<and> (\<forall>n. mget m n = (let ns = map hdName (filter (\<lambda>h. hdDeviceName h = n) (vmHostDevices vm))
                                in if ns = [] then None else Some ns)))"
proof (cases "vmHostDevices vm = []")
  case True
  with assms show ?thesis
    by (simp add: reconcileDeviceAllocationAnnotation_def group_by_device_name_Nil patch_view_def)
next
  case False
  let ?m = "group_by_device_name (vmHostDevices vm)"
  have "?m \<noteq> []" using False by (simp add: group_by_device_name_Nil)
  with assms have "\<exists>ops p. reconcileDeviceAllocationAnnotation E vm s = Inr ops \<and> apply_ops ops (patch_view vm) = Some p
      \<and> pvHostDevices p = pvHostDevices (patch_view vm) \<and> pvAllocation p = Some (jMarshal (meJson E) \<lparr>adGPUs = [], adHostDevices = ?m\<rparr>)"
    by (cases "jMarshal (meJson E) \<lparr>adGPUs = [], adHostDevices = ?m\<rparr> = cur")
      (simp_all add: reconcileDeviceAllocationAnnotation_def patch_view_def Let_def)
  with False show ?thesis by (fastforce simp: group_by_device_name_get)
qed

subsection \<open>Concrete requests\<close>

definition demo_gdev :: "string \<Rightarrow> string \<Rightarrow> PCIDevice" where
  "demo_gdev n grp = \<lparr>pdMeta = empty_meta\<lparr>mName := n\<rparr>,
     pdStatus = empty_pd_status\<lparr>pdNodeName := ''n1'', pdIOMMUGroup := grp, pdResourceName := ''intel.com/X710''\<rparr>\<rparr>"

definition demo_gdevs :: "PCIDevice list" where
  "demo_gdevs = [demo_gdev ''a'' ''1'', demo_gdev ''b'' ''1'', demo_gdev ''c'' ''2'']"

type_synonym claim_store = "(string, PCIDeviceClaim) gomap"

definition demo_claims :: "(PCIDeviceClaim, claim_store) client" where
  "demo_claims = table_client pcMeta (\<lambda>old new. old\<lparr>pcStatus := pcStatus new\<rparr>) (\<lambda>i x. []) (\<lambda>s. s) (\<lambda>m s. m)"

definition demo_mutator :: "claim_store mutator_env" where
  "demo_mutator =
     \<lparr>meDeviceCache = table_client pdMeta (\<lambda>old new. new) (\<lambda>i x. if i = IommuGroupByNode_ix then iommuGroupByNodeName x else [])
        (\<lambda>s. map (\<lambda>d. (pdName d, d)) demo_gdevs) (\<lambda>m s. s),
      meClaimCache = demo_claims, meClaimClient = demo_claims,
      meVmiExists = \<lambda>n s. Inl NotFound,
      meJson = \<lparr>jMarshal = \<lambda>d. Join (map fst (adHostDevices d)) '','', jUnmarshal = \<lambda>v. Inl NotFound\<rparr>\<rparr>"

definition demo_vm :: "string list \<Rightarrow> string list \<Rightarrow> VirtualMachine" where
  "demo_vm hosts gpus = \<lparr>vmMeta = empty_meta\<lparr>mName := ''vm1'', mNamespace := ''default'', mAnnotations := [(DeviceAllocationKey, ''x'')]\<rparr>,
     vmHostDevices = map (\<lambda>n. \<lparr>hdName = n, hdDeviceName = ''intel.com/X710''\<rparr>) hosts,
     vmGPUs = map (\<lambda>n. \<lparr>gpName = n, gpDeviceName = ''nvidia.com/A2''\<rparr>) gpus\<rparr>"

lemma demo_index: "index_of demo_mutator s demo_gdevs"
  by (simp add: index_of_def demo_mutator_def table_client_def comp_def)


theorem convertGPUsToHostDevices_apply_witness:
  "apply_ops (convertGPUsToHostDevices (demo_vm [] [''g1''])) (patch_view (demo_vm [] [''g1''])) \<noteq> None
   \<and> apply_ops (convertGPUsToHostDevices (demo_vm [] [''g1'', ''g2''])) (patch_view (demo_vm [] [''g1'', ''g2''])) = None"
proof -
  have "vmGPUs (demo_vm [] [''g1'']) = [\<lparr>gpName = ''g1'', gpDeviceName = ''nvidia.com/A2''\<rparr>]"
    "2 \<le> length (vmGPUs (demo_vm [] [''g1'', ''g2'']))" by (simp_all add: demo_vm_def)
  then show ?thesis
    using convertGPUsToHostDevices_apply [of "demo_vm [] [''g1'']"]
      convertGPUsToHostDevices_apply [of "demo_vm [] [''g1'', ''g2'']"] by simp
qed

theorem mutator_Update_no_host_patch_witness:
  "snd (mutator_Update demo_mutator (demo_vm [] []) (demo_vm [''a''] []) []) = []"
proof -
  have "vmGPUs (demo_vm [''a''] []) = []" by (simp add: demo_vm_def)
  then show ?thesis by (rule mutator_Update_no_host_patch [THEN conjunct1])
qed

theorem reconcileDeviceAllocationAnnotation_sync_witness:
  "\<exists>ops p m. reconcileDeviceAllocationAnnotation demo_mutator (demo_vm [''a'', ''b''] []) [] = Inr ops
     \<and> apply_ops ops (patch_view (demo_vm [''a'', ''b''] [])) = Some p
     \<and> pvAllocation p = Some (jMarshal (meJson demo_mutator) \<lparr>adGPUs = [], adHostDevices = m\<rparr>)
     \<and> mget m ''intel.com/X710'' = Some [''a'', ''b'']"
proof -
  let ?vm = "demo_vm [''a'', ''b''] []"
  have v: "meVmiExists demo_mutator (mNamespace (vmMeta ?vm) @ ''/'' @ vmName ?vm) [] = Inl NotFound"
    by (simp add: demo_mutator_def)
  have k: "mget (mAnnotations (vmMeta ?vm)) DeviceAllocationKey = Some ''x''" by code_simp
  have h: "vmHostDevices ?vm \<noteq> []" by (simp add: demo_vm_def)
  have f: "map hdName (filter (\<lambda>h. hdDeviceName h = ''intel.com/X710'') (vmHostDevices ?vm)) = [''a'', ''b'']" by code_simp
  obtain ops p m where "reconcileDeviceAllocationAnnotation demo_mutator ?vm [] = Inr ops"
      "apply_ops ops (patch_view ?vm) = Some p"
      "pvAllocation p = Some (jMarshal (meJson demo_mutator) \<lparr>adGPUs = [], adHostDevices = m\<rparr>)"
    and m: "\<forall>n. mget m n = (let ns = map hdName (filter (\<lambda>h. hdDeviceName h = n) (vmHostDevices ?vm))
                                in if ns = [] then None else Some ns)"
    using reconcileDeviceAllocationAnnotation_sync [OF v _ k] unfolding if_not_P [OF h] by (auto simp only: IsNotFound.simps)
  moreover have "mget m ''intel.com/X710'' = Some [''a'', ''b'']"
    unfolding m [rule_format] f Let_def by (rule if_not_P) (rule list.distinct)
  ultimately show ?thesis by blast
qed

end
