(* ===== verification/Go_Int.thy ===== *)
theory Go_Int
  imports Main "HOL-Library.Word"
begin

section \<open>Go's signed integers\<close>

text \<open>
  Values of Go's type \<^verbatim>\<open>int\<close> are 64 bits wide on the platforms the controller runs on.  The
  model keeps them as \<^typ>\<open>int\<close>; \<open>go_int\<close> is the wrap-around of an arithmetic result, read from
  the 64-bit word as a signed number.
\<close>

definition go_int :: "int \<Rightarrow> int" where
  "go_int x = sint (word_of_int x :: 64 word)"

lemma go_int_range: "- (2 ^ 63) \<le> go_int x \<and> go_int x < 2 ^ 63"
  using sint_range_size [of "word_of_int x :: 64 word"] by (simp add: go_int_def word_size)

lemma go_int_id: "- (2 ^ 63) \<le> x \<Longrightarrow> x < 2 ^ 63 \<Longrightarrow> go_int x = x"
  by (simp add: go_int_def sint_word_ariths signed_take_bit_int_eq_self sint_sbintrunc')

lemma go_int_add: "go_int (go_int x + y) = go_int (x + y)"
  by (simp add: go_int_def wi_hom_syms)

text \<open>A running sum wraps to the wrapped total, whatever wraps on the way.\<close>

lemma foldl_go_int: "foldl (\<lambda>n v. go_int (n + f v)) (go_int a) xs = go_int (a + (\<Sum>v \<leftarrow> xs. f v))"
  by (induction xs arbitrary: a) (simp_all add: go_int_add add.assoc)

end
