(* ===== verification/Webhook_Validators.thy ===== *)
theory Webhook_Validators
  imports Webhook_VM Go_Int
begin

section \<open>The validating webhooks\<close>

text \<open>
  Models \<^verbatim>\<open>pkg/webhook/pcideviceclaim.go\<close>, \<^verbatim>\<open>vm_validatation.go\<close>, \<^verbatim>\<open>usbdevice.go\<close>,
  \<^verbatim>\<open>usbdeviceclaim.go\<close>, \<^verbatim>\<open>sriov.go\<close>, \<^verbatim>\<open>sriovgpudevices.go\<close>, \<^verbatim>\<open>vgpu.go\<close>, \<^verbatim>\<open>migconfiguration.go\<close> and
  \<^verbatim>\<open>isNodeDeleted\<close> of \<^verbatim>\<open>indexer.go\<close>.  A validator reads caches and returns an error or accepts the
  request (\<^const>\<open>None\<close>).  Of a node only the metadata matters.  The validators of deletions
  share a contract, the locale \<open>delete_validator\<close>.
\<close>

record 's validator_env =
  waPd :: "(PCIDevice, 's) client"
  waPdc :: "(PCIDeviceClaim, 's) client"
  waVm :: "(VirtualMachine, 's) client"
  waUsb :: "(USBDevice, 's) client"
  waUsbClaim :: "(USBDeviceClaim, 's) client"
  waVgpu :: "(VGPUDevice, 's) client"
  waNode :: "(object_meta, 's) client"

definition VGPUDeviceKind :: string where
  "VGPUDeviceKind = ''VGPUDevice''"

definition HarvesterPCIDevicesControllerUser :: string where
  "HarvesterPCIDevicesControllerUser = ''system:serviceaccount:harvester-system:harvester-pcidevices-controller''"

definition isNodeDeleted :: "'s validator_env \<Rightarrow> string \<Rightarrow> 's \<Rightarrow> bool res" where
  "isNodeDeleted E nodeName s =
     (case cGet (waNode E) nodeName s of
        Inl err \<Rightarrow> if IsNotFound err then Inr True else Inl err
      | Inr nodeObj \<Rightarrow> Inr (mDeletionTimestamp nodeObj))"

subsection \<open>PCI device claims\<close>

fun names_in_use :: "'s validator_env \<Rightarrow> USBDeviceClaim list \<Rightarrow> 's \<Rightarrow> string list res" where
  "names_in_use E [] s = Inr []"
| "names_in_use E (usbClaimDev # rest) s =
     (case cGet (waUsb E) (ucName usbClaimDev) s of
        Inl err \<Rightarrow> Inl err
      | Inr usbDev \<Rightarrow>
          map_sum (\<lambda>e. e) (\<lambda>used. (udName usbDev @ '' ('' @ udDescription (udStatus usbDev) @ '')'') # used)
            (names_in_use E rest s))"

definition pdc_Create :: "'s validator_env \<Rightarrow> PCIDeviceClaim \<Rightarrow> 's \<Rightarrow> go_error option" where
  "pdc_Create E pciClaimObj s =
     (case cGet (waPd E) (pcName pciClaimObj) s of
        Inl err \<Rightarrow> Some err
      | Inr pciDev \<Rightarrow>
          (if pdIOMMUGroup (pdStatus pciDev) = []
           then Some (Errorf (''pcidevice '' @ pdName pciDev @ '' has no iommuGroup available''))
           else case cByIndex (waUsbClaim E) USBDeviceByAddress_ix
                       (pdNodeName (pdStatus pciDev) @ ''-'' @ pdAddress (pdStatus pciDev)) s of
                  Inl err \<Rightarrow> Some err
                | Inr usbClaimDevs \<Rightarrow>
                    (if usbClaimDevs \<noteq> []
                     then case names_in_use E usbClaimDevs s of
                            Inl err \<Rightarrow> Some err
                          | Inr used \<Rightarrow>
                              Some (Errorf (''these USB devices ['' @ Join used '', '' @ ''] are using the PCI USB Controller ['' @
                                pdName pciDev @ '' ('' @ pdDescription (pdStatus pciDev) @ '')]''))
                     else case cList (waPd E) [(ParentSRIOVGPUDeviceLabel, pdName pciDev)] s of
                            Inl err \<Rightarrow> Some err
                          | Inr childDevices \<Rightarrow>
                              (if childDevices \<noteq> []
                               then Some (Errorf (''these vGPU devices ['' @ Join (map pdName childDevices) '', '' @
                                      ''] are using the PCI GPU Device ['' @ pdName pciDev @ '']''))
                               else None))))"

fun vgpu_owner_check :: "string \<Rightarrow> string \<Rightarrow> owner_reference list \<Rightarrow> go_error option" where
  "vgpu_owner_check user name [] = None"
| "vgpu_owner_check user name (ref # refs) =
     (if orKind ref = VGPUDeviceKind \<and> user \<noteq> HarvesterPCIDevicesControllerUser
      then Some (Errorf (''pcideviceclaim '' @ name @ '' cannot be deleted as it is owned by VGPUDevice '' @ orName ref))
      else vgpu_owner_check user name refs)"

definition pdc_in_use :: "'s validator_env \<Rightarrow> string \<Rightarrow> PCIDeviceClaim \<Rightarrow> 's \<Rightarrow> go_error option" where
  "pdc_in_use E user pciClaimObj s =
     (case cByIndex (waVm E) VMByPCIDeviceClaim_ix (pcName pciClaimObj) s of
        Inl err \<Rightarrow> Some err
      | Inr vms \<Rightarrow>
          (if vms \<noteq> []
           then Some (Errorf (''pcideviceclaim '' @ pcName pciClaimObj @ '' is already in use with vm '' @ vmName (hd vms) @
                  '' in namespace '' @ mNamespace (vmMeta (hd vms))))
           else vgpu_owner_check user (pcName pciClaimObj) (slice_of (mOwnerReferences (pcMeta pciClaimObj)))))"

definition pdc_Delete :: "'s validator_env \<Rightarrow> string \<Rightarrow> PCIDeviceClaim \<Rightarrow> 's \<Rightarrow> go_error option" where
  "pdc_Delete E user pciClaimObj s =
     (case isNodeDeleted E (pcNodeName (pcSpec pciClaimObj)) s of
        Inl err \<Rightarrow> Some (Wrapf (''error looking up node for PCIDeviceClaim '' @ pcName pciClaimObj @ '' from node cache'') err)
      | Inr ok \<Rightarrow> if ok then None else pdc_in_use E user pciClaimObj s)"

subsection \<open>Virtual machines\<close>

definition lookup_nil :: "('o, 's) client \<Rightarrow> string \<Rightarrow> 's \<Rightarrow> 'o option res" where
  "lookup_nil c name s =
     (case cGet c name s of
        Inl err \<Rightarrow> if \<not> IsNotFound err then Inl err else Inr None
      | Inr o' \<Rightarrow> Inr (Some o'))"

fun same_nodes :: "'s validator_env \<Rightarrow> string \<Rightarrow> HostDevice list \<Rightarrow> string \<Rightarrow> 's \<Rightarrow> go_error option" where
  "same_nodes E vmname [] nodeName s = None"
| "same_nodes E vmname (device # rest) nodeName s =
     (case lookup_nil (waUsb E) (hdName device) s of
        Inl err \<Rightarrow> Some err
      | Inr usb \<Rightarrow>
          (if nodeName = [] \<and> usb \<noteq> None
           then same_nodes E vmname rest (udNodeName (udStatus (the usb))) s
           else case lookup_nil (waPd E) (hdName device) s of
                  Inl err \<Rightarrow> Some err
                | Inr pci \<Rightarrow>
                    (if nodeName = [] \<and> pci \<noteq> None
                     then same_nodes E vmname rest (pdNodeName (pdStatus (the pci))) s
                     else if pci \<noteq> None \<and> pdNodeName (pdStatus (the pci)) \<noteq> nodeName
                     then Some (Errorf (''device pcidevice/'' @ pdName (the pci) @
                            '' is not on the same node in VirtualMachine.Spec.Template.Spec.Domain.Devices.HostDevices '' @ vmname))
                     else if usb \<noteq> None \<and> udNodeName (udStatus (the usb)) \<noteq> nodeName
                     then Some (Errorf (''device usbdevice/'' @ udName (the usb) @
                            '' is not on the same node in VirtualMachine.Spec.Template.Spec.Domain.Devices.HostDevices '' @ vmname))
                     else same_nodes E vmname rest nodeName s)))"

definition validateDevicesFromSameNodes :: "'s validator_env \<Rightarrow> VirtualMachine \<Rightarrow> 's \<Rightarrow> go_error option" where
  "validateDevicesFromSameNodes E vmObj s = same_nodes E (vmName vmObj) (vmHostDevices vmObj) [] s"

definition validatePCIDevice :: "'s validator_env \<Rightarrow> string \<Rightarrow> 's \<Rightarrow> bool res" where
  "validatePCIDevice E resourceName s =
     (case cByIndex (waPd E) PCIDeviceByResourceName_ix resourceName s of
        Inl err \<Rightarrow> Inl (Errorf (''error looking up pcidevice '' @ resourceName @ '' from cache''))
      | Inr pciDeviceObjs \<Rightarrow> Inr (pciDeviceObjs \<noteq> []))"

definition validateUSBDevice :: "'s validator_env \<Rightarrow> string \<Rightarrow> 's \<Rightarrow> bool res" where
  "validateUSBDevice E resourceName s =
     (case cByIndex (waUsb E) USBDeviceByResourceName_ix resourceName s of
        Inl err \<Rightarrow> Inl (Errorf (''error looking up usbdevice '' @ resourceName @ '' from cache''))
      | Inr usbDeviceObjs \<Rightarrow> Inr (usbDeviceObjs \<noteq> []))"

fun validateHostDevices :: "'s validator_env \<Rightarrow> HostDevice list \<Rightarrow> 's \<Rightarrow> go_error option" where
  "validateHostDevices E [] s = None"
| "validateHostDevices E (hostDevice # rest) s =
     (case validatePCIDevice E (hdDeviceName hostDevice) s of
        Inl err \<Rightarrow> Some err
      | Inr foundInPCI \<Rightarrow>
          (case validateUSBDevice E (hdDeviceName hostDevice) s of
             Inl err \<Rightarrow> Some err
           | Inr foundInUSB \<Rightarrow>
               (if \<not> foundInPCI \<and> \<not> foundInUSB
                then Some (Errorf (''hostdevice '' @ hdName hostDevice @ '': resource name '' @ hdDeviceName hostDevice @
                       '' not found in pcidevice and usbdevice cache''))
                else validateHostDevices E rest s)))"

definition validateDevices :: "'s validator_env \<Rightarrow> VirtualMachine \<Rightarrow> 's \<Rightarrow> go_error option" where
  "validateDevices E vmObj s =
     (if vmHostDevices vmObj \<noteq> []
      then case validateHostDevices E (vmHostDevices vmObj) s of
             Some err \<Rightarrow> Some err
           | None \<Rightarrow> validateDevicesFromSameNodes E vmObj s
      else None)"

definition vmv_Create :: "'s validator_env \<Rightarrow> VirtualMachine \<Rightarrow> 's \<Rightarrow> go_error option" where
  "vmv_Create E newObj s = validateDevices E newObj s"

definition vmv_Update :: "'s validator_env \<Rightarrow> VirtualMachine \<Rightarrow> VirtualMachine \<Rightarrow> 's \<Rightarrow> go_error option" where
  "vmv_Update E oldObj newObj s = validateDevices E newObj s"

subsection \<open>USB devices and their claims\<close>

definition usb_in_use :: "USBDevice \<Rightarrow> go_error option" where
  "usb_in_use usbDevice =
     (if udEnabled (udStatus usbDevice) then Some (Errorf (''usbdevice '' @ udName usbDevice @ '' is still in use'')) else None)"

definition usb_Delete :: "'s validator_env \<Rightarrow> USBDevice \<Rightarrow> 's \<Rightarrow> go_error option" where
  "usb_Delete E usbDevice s =
     (case isNodeDeleted E (udNodeName (udStatus usbDevice)) s of
        Inl err \<Rightarrow> Some (Wrapf (''error looking up node for usbdevice '' @ udName usbDevice @ '' from node cache'') err)
      | Inr ok \<Rightarrow> if ok then None else usb_in_use usbDevice)"

definition usbclaim_in_use :: "'s validator_env \<Rightarrow> USBDeviceClaim \<Rightarrow> 's \<Rightarrow> go_error option" where
  "usbclaim_in_use E usbClaimObj s =
     (case cByIndex (waVm E) VMByUSBDeviceClaim_ix (ucName usbClaimObj) s of
        Inl err \<Rightarrow> Some err
      | Inr vms \<Rightarrow>
          (if vms \<noteq> []
           then Some (Errorf (''usbdeviceclaim '' @ ucName usbClaimObj @ '' is still in use by vm '' @ vmName (hd vms) @
                  ''/'' @ mNamespace (vmMeta (hd vms))))
           else None))"

definition usbclaim_Delete :: "'s validator_env \<Rightarrow> USBDeviceClaim \<Rightarrow> 's \<Rightarrow> go_error option" where
  "usbclaim_Delete E usbClaimObj s =
     (case isNodeDeleted E (ucNodeName usbClaimObj) s of
        Inl err \<Rightarrow> Some (Wrapf (''error looking up node for usbdeviceclaim '' @ ucName usbClaimObj @ '' from node cache'') err)
      | Inr ok \<Rightarrow> if ok then None else usbclaim_in_use E usbClaimObj s)"

definition usbclaim_Update :: "USBDeviceClaim \<Rightarrow> USBDeviceClaim \<Rightarrow> go_error option" where
  "usbclaim_Update old new =
     (if ucUserName old \<noteq> ucUserName new
      then Some (Errorf (''usbdeviceclaim '' @ ucName new @ '' username is immutable'')) else None)"

subsection \<open>SR-IOV network devices\<close>

fun vf_claims :: "'s validator_env \<Rightarrow> string list \<Rightarrow> 's \<Rightarrow> string list res" where
  "vf_claims E [] s = Inr []"
| "vf_claims E (v # vs) s =
     (case cGet (waPdc E) v s of
        Inl err \<Rightarrow> if IsNotFound err then vf_claims E vs s
                   else Inl (Errorf ''error looking up pcideviceclaim'')
      | Inr vfObj \<Rightarrow> map_sum (\<lambda>e. e) (\<lambda>claimsFound. pcName vfObj # claimsFound) (vf_claims E vs s))"

definition checkVFInUse :: "'s validator_env \<Rightarrow> SRIOVNetworkDevice \<Rightarrow> 's \<Rightarrow> go_error option" where
  "checkVFInUse E obj s =
     (case vf_claims E (slice_of (snVFPCIDevices (snStatus obj))) s of
        Inl err \<Rightarrow> Some err
      | Inr claimsFound \<Rightarrow>
          (if claimsFound \<noteq> []
           then Some (Errorf (''found pcideviceclaims: '' @ Join claimsFound '','' @ '' related to sriovnetworkdevice '' @
                  snName obj @ '' in use''))
           else None))"

definition sriov_Update :: "'s validator_env \<Rightarrow> SRIOVNetworkDevice \<Rightarrow> SRIOVNetworkDevice \<Rightarrow> 's \<Rightarrow> go_error option" where
  "sriov_Update E old new s =
     (if snNumVFs (snSpec old) = snNumVFs (snSpec new) then None
      else if snNumVFs (snSpec new) = 0 then checkVFInUse E new s else None)"

definition sriov_Delete :: "'s validator_env \<Rightarrow> SRIOVNetworkDevice \<Rightarrow> 's \<Rightarrow> go_error option" where
  "sriov_Delete E old s = checkVFInUse E old s"

subsection \<open>vGPUs and SR-IOV GPUs\<close>

definition checkVGPUUsage :: "'s validator_env \<Rightarrow> string \<Rightarrow> 's \<Rightarrow> go_error option" where
  "checkVGPUUsage E deviceName s =
     (case cByIndex (waVm E) VMByPCIDeviceClaim_ix deviceName s of
        Inl err \<Rightarrow> Some err
      | Inr objs \<Rightarrow>
          (if objs \<noteq> []
           then Some (Errorf (''device '' @ deviceName @ '' is in use with VM '' @ vmName (hd objs) @
                  '' in namespace '' @ mNamespace (vmMeta (hd objs))))
           else None))"

definition validateVGPUProfiles :: "VGPUDevice \<Rightarrow> VGPUDevice \<Rightarrow> go_error option" where
  "validateVGPUProfiles old new =
     (if vgVGPUTypeName (vgSpec new) = []
      then Some (Errorf (''VGPUTypeName cannot be empty for vGPU device '' @ vgName new))
      else if \<not> mhas (vgAvailableTypes (vgStatus old)) (vgVGPUTypeName (vgSpec new))
      then Some (Errorf (''VGPUTypeName '' @ vgVGPUTypeName (vgSpec new) @ '' is not a valid profile for vGPU device '' @ vgName new))
      else None)"

definition vgpuv_Update :: "'s validator_env \<Rightarrow> VGPUDevice \<Rightarrow> VGPUDevice \<Rightarrow> 's \<Rightarrow> go_error option" where
  "vgpuv_Update E old new s =
     (if vgSpec old = vgSpec new then None
      else if vgEnabled (vgSpec old) \<and> \<not> vgEnabled (vgSpec new) then checkVGPUUsage E (vgName new) s
      else if \<not> vgEnabled (vgSpec old) \<and> vgEnabled (vgSpec new) then validateVGPUProfiles old new
      else None)"

definition vgpuv_Delete :: "'s validator_env \<Rightarrow> VGPUDevice \<Rightarrow> 's \<Rightarrow> go_error option" where
  "vgpuv_Delete E vGPUObj s =
     (case isNodeDeleted E (vgNodeName (vgSpec vGPUObj)) s of
        Inl err \<Rightarrow> Some (Wrapf (''error looking up node for vGPU '' @ vgName vGPUObj @ '' from node cache'') err)
      | Inr ok \<Rightarrow> if ok then None else checkVGPUUsage E (vgName vGPUObj) s)"

fun check_vgpus :: "'s validator_env \<Rightarrow> string list \<Rightarrow> 's \<Rightarrow> go_error option" where
  "check_vgpus E [] s = None"
| "check_vgpus E (vgpu # rest) s =
     (case checkVGPUUsage E vgpu s of Some err \<Rightarrow> Some err | None \<Rightarrow> check_vgpus E rest s)"

definition checkGPUUsage :: "'s validator_env \<Rightarrow> SRIOVGPUDevice \<Rightarrow> 's \<Rightarrow> go_error option" where
  "checkGPUUsage E obj s = check_vgpus E (slice_of (sgVGPUDevices (sgStatus obj))) s"

definition sriovgpu_Update :: "'s validator_env \<Rightarrow> SRIOVGPUDevice \<Rightarrow> SRIOVGPUDevice \<Rightarrow> 's \<Rightarrow> go_error option" where
  "sriovgpu_Update E old new s =
     (if sgSpec old = sgSpec new then None
      else if sgEnabled (sgSpec old) \<and> \<not> sgEnabled (sgSpec new) then checkGPUUsage E new s
      else None)"

definition gpu_in_use :: "SRIOVGPUDevice \<Rightarrow> go_error option" where
  "gpu_in_use gpuObj =
     (if sgEnabled (sgSpec gpuObj) then Some (Errorf (''please disable gpuDevice '' @ sgName gpuObj @ '' before deletion'')) else None)"

definition sriovgpu_Delete :: "'s validator_env \<Rightarrow> SRIOVGPUDevice \<Rightarrow> 's \<Rightarrow> go_error option" where
  "sriovgpu_Delete E gpuObj s =
     (case isNodeDeleted E (sgNodeName (sgSpec gpuObj)) s of
        Inl err \<Rightarrow> Some (Wrapf (''error looking up node for SRIOVGPU '' @ sgName gpuObj @ '' from node cache'') err)
      | Inr ok \<Rightarrow> if ok then None else gpu_in_use gpuObj)"

subsection \<open>MIG configurations\<close>

definition MaxMIGInstanceCount :: int where
  "MaxMIGInstanceCount = 7"

definition instanceCount :: "MigConfiguration \<Rightarrow> int" where
  "instanceCount obj = foldl (\<lambda>n v. go_int (n + mprRequested v)) 0 (slice_of (mcProfileSpec (mcSpec obj)))"

definition available_counts :: "MigProfileStatus list \<Rightarrow> (int, int) gomap" where
  "available_counts ps = foldl (\<lambda>m v. mput (mpsID v) (mpsAvailable v) m) [] ps"

fun check_requests :: "string \<Rightarrow> (int, int) gomap \<Rightarrow> MigProfileRequest list \<Rightarrow> go_error option" where
  "check_requests name instanceCountMap [] = None"
| "check_requests name instanceCountMap (v # vs) =
     (let availableCount = (case mget instanceCountMap (mprID v) of None \<Rightarrow> 0 | Some n \<Rightarrow> n)
      in if mprRequested v > availableCount
         then Some (Errorf (''MIGConfiguration '' @ name @ '' cannot has requested count for profile '' @ mprName v))
         else check_requests name instanceCountMap vs)"

definition validRequestedCount :: "MigConfiguration \<Rightarrow> go_error option" where
  "validRequestedCount obj =
     check_requests (mcName obj) (available_counts (slice_of (mcProfileStatus (mcStatus obj)))) (slice_of (mcProfileSpec (mcSpec obj)))"

definition verifyInUsevGPU :: "'s validator_env \<Rightarrow> MigConfiguration \<Rightarrow> 's \<Rightarrow> go_error option" where
  "verifyInUsevGPU E obj s =
     (case cList (waVgpu E) [(ParentSRIOVGPUDeviceLabel, mcName obj)] s of
        Inl err \<Rightarrow> Some (Wrapf ''error looking up vGPU from cache'' err)
      | Inr vGPUList \<Rightarrow>
          (case filter (\<lambda>v. vgEnabled (vgSpec v)) vGPUList of
             [] \<Rightarrow> None
           | v # _ \<Rightarrow> Some (Errorf (''cannot disable MIGConfiguration '' @ mcName obj @ '' as vGPU '' @ vgName v @ '' is enabled''))))"

definition mig_Update :: "'s validator_env \<Rightarrow> MigConfiguration \<Rightarrow> MigConfiguration \<Rightarrow> 's \<Rightarrow> go_error option" where
  "mig_Update E old new s =
     (if instanceCount new > MaxMIGInstanceCount
      then Some (Errorf (''MIGConfiguration '' @ mcName new @ '' Invalid: Cannot have more than 7 instances defined''))
      else if (mcStatusText (mcStatus old) = MIGConfigurationOutOfSync \<or> mcStatusText (mcStatus old) = MIGConfigurationSynced)
              \<and> mcProfileSpec (mcSpec old) \<noteq> mcProfileSpec (mcSpec new)
      then Some (Errorf (''MIGConfiguration '' @ mcName old @ '' cannot be modified unless configuration is disabled''))
      else if \<not> mcEnabled (mcSpec old) \<and> mcEnabled (mcSpec new) then validRequestedCount new
      else if mcEnabled (mcSpec old) \<and> \<not> mcEnabled (mcSpec new) then verifyInUsevGPU E new s
      else None)"


subsection \<open>The contract of the deletion validators\<close>

text \<open>
  Five validators guard deletions in the same way: an object of a node that is gone may
  always be deleted, otherwise a check of its own decides.
\<close>

locale delete_validator =
  fixes Delete :: "'o \<Rightarrow> 's \<Rightarrow> go_error option"
    and node_deleted :: "string \<Rightarrow> 's \<Rightarrow> bool res"
    and node_of :: "'o \<Rightarrow> string"
    and in_use :: "'o \<Rightarrow> 's \<Rightarrow> go_error option"
  assumes node_error: "node_deleted (node_of x) s = Inl err \<Longrightarrow> \<exists>m. Delete x s = Some (Wrapf m err)"
    and node_gone: "node_deleted (node_of x) s = Inr True \<Longrightarrow> Delete x s = None"
    and node_present: "node_deleted (node_of x) s = Inr False \<Longrightarrow> Delete x s = in_use x s"
begin

lemma accepts_iff:
  "Delete x s = None \<longleftrightarrow>
     node_deleted (node_of x) s = Inr True \<or> (node_deleted (node_of x) s = Inr False \<and> in_use x s = None)"
proof (cases "node_deleted (node_of x) s")
  case (Inl err)
  with node_error [OF this] show ?thesis by auto
next
  case (Inr ok)
  then show ?thesis by (cases ok) (simp_all add: node_gone node_present)
qed

lemma refuses_in_use:
  "node_deleted (node_of x) s = Inr False \<Longrightarrow> in_use x s \<noteq> None \<Longrightarrow> Delete x s \<noteq> None"
  by (simp add: node_present)

end

interpretation pdcv: delete_validator "pdc_Delete E user" "isNodeDeleted E" "\<lambda>c. pcNodeName (pcSpec c)" "pdc_in_use E user"
  for E :: "'s validator_env" and user
  by unfold_locales (simp_all add: pdc_Delete_def)

interpretation usbv: delete_validator "usb_Delete E" "isNodeDeleted E" "\<lambda>d. udNodeName (udStatus d)" "\<lambda>d s. usb_in_use d"
  for E :: "'s validator_env"
  by unfold_locales (simp_all add: usb_Delete_def)

interpretation usbclaimv: delete_validator "usbclaim_Delete E" "isNodeDeleted E" ucNodeName "usbclaim_in_use E"
  for E :: "'s validator_env"
  by unfold_locales (simp_all add: usbclaim_Delete_def)

interpretation vgpuv: delete_validator "vgpuv_Delete E" "isNodeDeleted E" "\<lambda>v. vgNodeName (vgSpec v)" "\<lambda>v. checkVGPUUsage E (vgName v)"
  for E :: "'s validator_env"
  by unfold_locales (simp_all add: vgpuv_Delete_def)

interpretation sgpuv: delete_validator "sriovgpu_Delete E" "isNodeDeleted E" "\<lambda>g. sgNodeName (sgSpec g)" "\<lambda>g s. gpu_in_use g"
  for E :: "'s validator_env"
  by unfold_locales (simp_all add: sriovgpu_Delete_def)

text \<open>A node is present when the cache has it without a deletion timestamp.\<close>

definition node_present :: "'s validator_env \<Rightarrow> string \<Rightarrow> 's \<Rightarrow> bool" where
  "node_present E n s \<longleftrightarrow> (\<exists>m. cGet (waNode E) n s = Inr m \<and> \<not> mDeletionTimestamp m)"

lemma isNodeDeleted_present: "node_present E n s \<longleftrightarrow> isNodeDeleted E n s = Inr False"
  by (auto simp: node_present_def isNodeDeleted_def split: sum.splits)

lemma vgpu_owner_check_None:
  "vgpu_owner_check user name refs = None \<longleftrightarrow>
     user = HarvesterPCIDevicesControllerUser \<or> (\<forall>ref \<in> set refs. orKind ref \<noteq> VGPUDeviceKind)"
  by (induction refs) auto

lemma checkVGPUUsage_None:
  "checkVGPUUsage E n s = None \<longleftrightarrow> cByIndex (waVm E) VMByPCIDeviceClaim_ix n s = Inr []"
  by (auto simp: checkVGPUUsage_def split: sum.splits)

lemma check_vgpus_None:
  "check_vgpus E vs s = None \<longleftrightarrow> (\<forall>v \<in> set vs. cByIndex (waVm E) VMByPCIDeviceClaim_ix v s = Inr [])"
  by (induction vs) (auto simp: checkVGPUUsage_None [symmetric] split: option.splits)

lemma pdc_Delete_in_use:
  "node_present E (pcNodeName (pcSpec claim)) s \<Longrightarrow> cByIndex (waVm E) VMByPCIDeviceClaim_ix (pcName claim) s \<noteq> Inr [] \<Longrightarrow>
     pdc_Delete E user claim s \<noteq> None"
  by (auto simp: pdcv.accepts_iff isNodeDeleted_present pdc_in_use_def split: sum.splits)


subsection \<open>Creating claims\<close>


subsection \<open>Virtual machines on one node\<close>

text \<open>The nodes of the devices a host device entry names.\<close>

definition device_nodes :: "'s validator_env \<Rightarrow> 's \<Rightarrow> HostDevice \<Rightarrow> string list" where
  "device_nodes E s h =
     (case cGet (waUsb E) (hdName h) s of Inl _ \<Rightarrow> [] | Inr u \<Rightarrow> [udNodeName (udStatus u)])
     @ (case cGet (waPd E) (hdName h) s of Inl _ \<Rightarrow> [] | Inr p \<Rightarrow> [pdNodeName (pdStatus p)])"

text \<open>A cache that only fails with not-found, no name in both caches, and devices that know
  their node.\<close>

definition device_caches_ok :: "'s validator_env \<Rightarrow> 's \<Rightarrow> bool" where
  "device_caches_ok E s \<longleftrightarrow>
     (\<forall>n err. cGet (waUsb E) n s = Inl err \<longrightarrow> IsNotFound err)
     \<and> (\<forall>n err. cGet (waPd E) n s = Inl err \<longrightarrow> IsNotFound err)
     \<and> (\<forall>n u. cGet (waUsb E) n s = Inr u \<longrightarrow> udNodeName (udStatus u) \<noteq> [] \<and> (\<forall>p. cGet (waPd E) n s \<noteq> Inr p))
     \<and> (\<forall>n p. cGet (waPd E) n s = Inr p \<longrightarrow> pdNodeName (pdStatus p) \<noteq> [])"

lemma device_nodes_cases:
  assumes "device_caches_ok E s"
  shows "(device_nodes E s h = [] \<and> lookup_nil (waUsb E) (hdName h) s = Inr None \<and> lookup_nil (waPd E) (hdName h) s = Inr None)
    \<or> (\<exists>u. device_nodes E s h = [udNodeName (udStatus u)] \<and> udNodeName (udStatus u) \<noteq> []
         \<and> lookup_nil (waUsb E) (hdName h) s = Inr (Some u) \<and> lookup_nil (waPd E) (hdName h) s = Inr None)
    \<or> (\<exists>p. device_nodes E s h = [pdNodeName (pdStatus p)] \<and> pdNodeName (pdStatus p) \<noteq> []
         \<and> lookup_nil (waUsb E) (hdName h) s = Inr None \<and> lookup_nil (waPd E) (hdName h) s = Inr (Some p))"
  using assms unfolding device_caches_ok_def device_nodes_def lookup_nil_def
  by (cases "cGet (waUsb E) (hdName h) s"; cases "cGet (waPd E) (hdName h) s") force+

lemma same_nodes_fixed:
  assumes "device_caches_ok E s" "n \<noteq> []"
  shows "same_nodes E vm hs n s = None \<longleftrightarrow> (\<forall>h \<in> set hs. set (device_nodes E s h) \<subseteq> {n})"
  using assms(2)
proof (induction hs)
  case (Cons h hs)
  from device_nodes_cases [OF assms(1), of h] Cons show ?case by (elim disjE exE conjE) simp_all
qed simp

lemma same_nodes_free:
  assumes "device_caches_ok E s"
  shows "same_nodes E vm hs [] s = None \<longleftrightarrow> (\<exists>n. \<forall>h \<in> set hs. set (device_nodes E s h) \<subseteq> {n})"
proof (induction hs)
  case (Cons h hs)
  from device_nodes_cases [OF assms, of h] Cons show ?case
    by (elim disjE exE conjE) (auto simp: same_nodes_fixed [OF assms])
qed simp

lemma validateHostDevices_None:
  "validateHostDevices E hs s = None \<longleftrightarrow>
     (\<forall>h \<in> set hs. \<exists>ps us. cByIndex (waPd E) PCIDeviceByResourceName_ix (hdDeviceName h) s = Inr ps
        \<and> cByIndex (waUsb E) USBDeviceByResourceName_ix (hdDeviceName h) s = Inr us \<and> (ps \<noteq> [] \<or> us \<noteq> []))"
  by (induction hs) (auto simp: validatePCIDevice_def validateUSBDevice_def split: sum.splits)

text \<open>
  Property C32.  A virtual machine is accepted, on creation as on update, exactly when the resource
  of each of its host devices is known to one of the two indexes and all devices that its
  entries name are on one node, whichever mix of USB and PCI devices they are and in any order.
\<close>

theorem validateDevices_accepts:
  assumes "device_caches_ok E s"
  shows "(vmv_Create E vm s = None \<longleftrightarrow> vmv_Update E old vm s = None)
    \<and> (vmv_Create E vm s = None \<longleftrightarrow>
     (\<forall>h \<in> set (vmHostDevices vm). \<exists>ps us. cByIndex (waPd E) PCIDeviceByResourceName_ix (hdDeviceName h) s = Inr ps
        \<and> cByIndex (waUsb E) USBDeviceByResourceName_ix (hdDeviceName h) s = Inr us \<and> (ps \<noteq> [] \<or> us \<noteq> []))
     \<and> (\<exists>n. \<forall>h \<in> set (vmHostDevices vm). set (device_nodes E s h) \<subseteq> {n}))"
proof -
  have "validateDevices E vm s = None \<longleftrightarrow>
      validateHostDevices E (vmHostDevices vm) s = None \<and> validateDevicesFromSameNodes E vm s = None"
    by (auto simp: validateDevices_def validateDevicesFromSameNodes_def split: option.splits)
  then show ?thesis
    by (simp only: vmv_Create_def vmv_Update_def validateHostDevices_None validateDevicesFromSameNodes_def
        same_nodes_free [OF assms])
qed

subsection \<open>MIG requests\<close>

lemma instanceCount_sum:
  "instanceCount obj = go_int (\<Sum>v \<leftarrow> slice_of (mcProfileSpec (mcSpec obj)). mprRequested v)"
  using foldl_go_int [of mprRequested 0] by (simp add: instanceCount_def go_int_id)

lemma check_requests_None:
  "check_requests name m vs = None \<longleftrightarrow>
     (\<forall>v \<in> set vs. mprRequested v \<le> (case mget m (mprID v) of None \<Rightarrow> 0 | Some n \<Rightarrow> n))"
  by (induction vs) (auto simp: Let_def not_less)

lemma available_counts_snoc:
  "available_counts (ps @ [p]) = mput (mpsID p) (mpsAvailable p) (available_counts ps)"
  by (simp add: available_counts_def)

lemma available_counts_last:
  "mget (available_counts ps) i = map_option mpsAvailable (List.find (\<lambda>p. mpsID p = i) (rev ps))"
  by (induction ps rule: rev_induct) (auto simp: available_counts_snoc available_counts_def [of "[]"])

text \<open>
  Property C33.  What the validator accepts when a MIG configuration is enabled: at most the
  available number of instances of each profile, and at most seven instances in all, provided
  the requested numbers are not negative and their sum fits a Go integer.
\<close>

theorem mig_Update_enable:
  assumes "mig_Update E old new s = None" and "\<not> mcEnabled (mcSpec old)" and "mcEnabled (mcSpec new)"
  shows "(\<forall>v \<in> set (slice_of (mcProfileSpec (mcSpec new))). mprRequested v \<le>
       (case List.find (\<lambda>p. mpsID p = mprID v) (rev (slice_of (mcProfileStatus (mcStatus new)))) of
          None \<Rightarrow> 0 | Some p \<Rightarrow> mpsAvailable p))
    \<and> ((\<Sum>v \<leftarrow> slice_of (mcProfileSpec (mcSpec new)). mprRequested v) < 2 ^ 63
        \<longrightarrow> (\<forall>v \<in> set (slice_of (mcProfileSpec (mcSpec new))). 0 \<le> mprRequested v)
        \<longrightarrow> (\<Sum>v \<leftarrow> slice_of (mcProfileSpec (mcSpec new)). mprRequested v) \<le> 7
            \<and> (\<forall>v \<in> set (slice_of (mcProfileSpec (mcSpec new))). mprRequested v \<le> 7))"
proof (intro conjI impI)
  let ?vs = "slice_of (mcProfileSpec (mcSpec new))" and ?sum = "\<Sum>v \<leftarrow> slice_of (mcProfileSpec (mcSpec new)). mprRequested v"
  have "validRequestedCount new = None" and c: "instanceCount new \<le> 7"
    using assms by (auto simp: mig_Update_def MaxMIGInstanceCount_def split: if_splits)
  then show "\<forall>v \<in> set ?vs. mprRequested v \<le>
       (case List.find (\<lambda>p. mpsID p = mprID v) (rev (slice_of (mcProfileStatus (mcStatus new)))) of None \<Rightarrow> 0 | Some p \<Rightarrow> mpsAvailable p)"
    by (auto simp: validRequestedCount_def check_requests_None available_counts_last split: option.splits)
  assume small: "?sum < 2 ^ 63" and nonneg: "\<forall>v \<in> set ?vs. 0 \<le> mprRequested v"
  then have "0 \<le> ?sum" by (auto intro!: sum_list_nonneg)
  with small c show sum: "?sum \<le> 7" by (simp add: instanceCount_sum go_int_id)
  show "\<forall>v \<in> set ?vs. mprRequested v \<le> 7"
    using nonneg sum member_le_sum_list [of _ "map mprRequested ?vs"] by fastforce
qed

subsection \<open>Instances\<close>

definition demo_profile :: "int \<Rightarrow> int \<Rightarrow> MigProfileStatus" where
  "demo_profile i n = \<lparr>mpsName = ''1g.5gb'', mpsID = i, mpsAvailable = n, mpsTotal = n, mpsVGPUID = None\<rparr>"

definition demo_request :: "int \<Rightarrow> int \<Rightarrow> MigProfileRequest" where
  "demo_request i n = \<lparr>mprName = ''1g.5gb'', mprID = i, mprRequested = n\<rparr>"

definition demo_mig :: "bool \<Rightarrow> MigProfileRequest list \<Rightarrow> MigProfileStatus list \<Rightarrow> MigConfiguration" where
  "demo_mig enabled reqs ps = \<lparr>mcMeta = empty_meta\<lparr>mName := ''gpu1''\<rparr>,
     mcSpec = \<lparr>mcEnabled = enabled, mcGPUAddress = ''0000:08:00.0'', mcNodeName = ''n1'', mcProfileSpec = Some reqs\<rparr>,
     mcStatus = \<lparr>mcProfileStatus = Some ps, mcStatusText = MIGConfigurationDisabled, mcMessage = []\<rparr>\<rparr>"

text \<open>The sign matters: eight instances of a profile are accepted when another request is
  negative.\<close>

lemma mig_Update_negative_accepted:
  "mig_Update E (demo_mig False [] [demo_profile 19 9]) (demo_mig True [demo_request 19 8, demo_request 20 (- 1)] [demo_profile 19 9]) s = None"
  by (simp add: mig_Update_def demo_mig_def demo_profile_def demo_request_def instanceCount_sum MaxMIGInstanceCount_def
      go_int_id MIGConfigurationDisabled_def MIGConfigurationOutOfSync_def MIGConfigurationSynced_def
      validRequestedCount_def check_requests_None available_counts_last)

definition demo_usb :: "string \<Rightarrow> string \<Rightarrow> USBDevice" where
  "demo_usb n node = \<lparr>udMeta = empty_meta\<lparr>mName := n\<rparr>,
     udStatus = \<lparr>udVendorID = ''0951'', udProductID = ''1666'', udNodeName = node, udResourceName = ''kubevirt.io/'' @ n,
       udDevicePath = ''/dev/bus/usb/001/002'', udDescription = ''Flash drive'', udPCIAddress = ''0000:00:14.0'', udClassType = [],
       udEnabled = False, udStatusText = [], udMessage = []\<rparr>\<rparr>"

text \<open>A cluster with the PCI devices of the mutator's example and USB devices on two nodes; the
  machine \<^verbatim>\<open>vm1\<close> uses the device \<^verbatim>\<open>a\<close>.\<close>

definition demo_validator :: "unit validator_env" where
  "demo_validator =
     \<lparr>waPd = table_client pdMeta (\<lambda>old new. new) (\<lambda>i x. if i = PCIDeviceByResourceName_ix then pciDeviceByResourceName x else [])
        (\<lambda>s. map (\<lambda>d. (pdName d, d)) demo_gdevs) (\<lambda>m s. s),
      waPdc = table_client pcMeta (\<lambda>old new. new) (\<lambda>i x. []) (\<lambda>s. []) (\<lambda>m s. s),
      waVm = table_client vmMeta (\<lambda>old new. new) (\<lambda>i x. if i = VMByPCIDeviceClaim_ix then VMBySpecHostDeviceName x else [])
        (\<lambda>s. [(''vm1'', demo_vm [''a''] [])]) (\<lambda>m s. s),
      waUsb = table_client udMeta (\<lambda>old new. new) (\<lambda>i x. if i = USBDeviceByResourceName_ix then USBDeviceByResourceName x else [])
        (\<lambda>s. [(''u1'', demo_usb ''u1'' ''n1''), (''u2'', demo_usb ''u2'' ''n2'')]) (\<lambda>m s. s),
      waUsbClaim = table_client ucMeta (\<lambda>old new. new) (\<lambda>i x. []) (\<lambda>s. []) (\<lambda>m s. s),
      waVgpu = table_client vgMeta (\<lambda>old new. new) (\<lambda>i x. []) (\<lambda>s. []) (\<lambda>m s. s),
      waNode = table_client (\<lambda>m. m) (\<lambda>old new. new) (\<lambda>i x. []) (\<lambda>s. [(''n1'', empty_meta\<lparr>mName := ''n1''\<rparr>)]) (\<lambda>m s. s)\<rparr>"

definition demo_vgpu :: "string \<Rightarrow> VGPUDevice" where
  "demo_vgpu n = \<lparr>vgMeta = empty_meta\<lparr>mName := n\<rparr>,
     vgSpec = \<lparr>vgVGPUTypeName = [], vgAddress = [], vgEnabled = False, vgNodeName = ''n1'', vgParentGPUDeviceAddress = []\<rparr>,
     vgStatus = \<lparr>vgVGPUStatus = [], vgUUID = [], vgConfiguredVGPUTypeName = [], vgAvailableTypes = []\<rparr>\<rparr>"

definition demo_sgpu :: "bool \<Rightarrow> SRIOVGPUDevice" where
  "demo_sgpu enabled = \<lparr>sgMeta = empty_meta\<lparr>mName := ''gpu1''\<rparr>,
     sgSpec = \<lparr>sgAddress = [], sgNodeName = ''n1'', sgEnabled = enabled\<rparr>,
     sgStatus = \<lparr>sgVFAddresses = None, sgVGPUDevices = Some [''v1'']\<rparr>\<rparr>"

lemma demo_node_present: "node_present demo_validator ''n1'' ()"
  by (simp add: node_present_def demo_validator_def table_client_def mget_Cons empty_meta_def)


lemma demo_caches_ok: "device_caches_ok demo_validator ()"
  unfolding device_caches_ok_def demo_validator_def demo_gdevs_def
  by (auto simp: table_client_def mget_Cons demo_usb_def demo_gdev_def split: option.splits if_splits)

lemma demo_resources:
  "\<exists>ps us. cByIndex (waPd demo_validator) PCIDeviceByResourceName_ix ''intel.com/X710'' () = Inr ps
     \<and> cByIndex (waUsb demo_validator) USBDeviceByResourceName_ix ''intel.com/X710'' () = Inr us \<and> (ps \<noteq> [] \<or> us \<noteq> [])"
proof -
  have "cByIndex (waPd demo_validator) PCIDeviceByResourceName_ix ''intel.com/X710'' () = Inr demo_gdevs"
    "cByIndex (waUsb demo_validator) USBDeviceByResourceName_ix ''intel.com/X710'' () = Inr []" by code_simp+
  moreover have "demo_gdevs \<noteq> []" by (simp add: demo_gdevs_def)
  ultimately show ?thesis by blast
qed

theorem validateDevices_accepts_witness:
  "vmv_Create demo_validator (demo_vm [''u1'', ''a''] []) () = None
   \<and> vmv_Create demo_validator (demo_vm [''a'', ''u2''] []) () \<noteq> None"
proof -
  note P = validateDevices_accepts [OF demo_caches_ok, THEN conjunct2]
  have r: "hdDeviceName h = ''intel.com/X710''" if "h \<in> set (vmHostDevices (demo_vm ns []))" for h ns
    using that by (auto simp: demo_vm_def)
  have h: "vmHostDevices (demo_vm [x, y] []) = [\<lparr>hdName = x, hdDeviceName = ''intel.com/X710''\<rparr>, \<lparr>hdName = y, hdDeviceName = ''intel.com/X710''\<rparr>]" for x y
    by (simp add: demo_vm_def)
  have n: "device_nodes demo_validator () \<lparr>hdName = ''u1'', hdDeviceName = ''intel.com/X710''\<rparr> = [''n1'']"
    "device_nodes demo_validator () \<lparr>hdName = ''a'', hdDeviceName = ''intel.com/X710''\<rparr> = [''n1'']"
    "device_nodes demo_validator () \<lparr>hdName = ''u2'', hdDeviceName = ''intel.com/X710''\<rparr> = [''n2'']" by code_simp+
  have "\<forall>h \<in> set (vmHostDevices (demo_vm [''u1'', ''a''] [])). set (device_nodes demo_validator () h) \<subseteq> {''n1''}"
    unfolding h by (simp add: n)
  then have "vmv_Create demo_validator (demo_vm [''u1'', ''a''] []) () = None"
    unfolding P using demo_resources r by metis
  moreover have "\<not> (\<exists>n. \<forall>h \<in> set (vmHostDevices (demo_vm [''a'', ''u2''] [])). set (device_nodes demo_validator () h) \<subseteq> {n})"
    unfolding h by (simp add: n)
  then have "vmv_Create demo_validator (demo_vm [''a'', ''u2''] []) () \<noteq> None" unfolding P by blast
  ultimately show ?thesis by blast
qed

theorem mig_Update_enable_witness:
  "(\<Sum>v \<leftarrow> slice_of (mcProfileSpec (mcSpec (demo_mig True [demo_request 19 3, demo_request 20 2] [demo_profile 19 7, demo_profile 20 2]))).
      mprRequested v) \<le> 7"
proof -
  let ?new = "demo_mig True [demo_request 19 3, demo_request 20 2] [demo_profile 19 7, demo_profile 20 2]"
  have "mig_Update demo_validator (demo_mig False [] []) ?new () = None"
    by (simp add: mig_Update_def demo_mig_def demo_profile_def demo_request_def instanceCount_sum MaxMIGInstanceCount_def
        go_int_id MIGConfigurationDisabled_def MIGConfigurationOutOfSync_def MIGConfigurationSynced_def
        validRequestedCount_def check_requests_None available_counts_last)
  moreover have "\<not> mcEnabled (mcSpec (demo_mig False [] []))" "mcEnabled (mcSpec ?new)" by (simp_all add: demo_mig_def)
  moreover have "(\<Sum>v \<leftarrow> slice_of (mcProfileSpec (mcSpec ?new)). mprRequested v) < 2 ^ 63"
    "\<forall>v \<in> set (slice_of (mcProfileSpec (mcSpec ?new))). 0 \<le> mprRequested v"
    by (simp_all add: demo_mig_def demo_request_def)
  ultimately show ?thesis by (rule mig_Update_enable [THEN conjunct2, THEN mp, THEN mp, THEN conjunct1])
qed

end
