(* ===== verification/Crd.thy ===== *)
theory Crd
  imports Loops Go_Strings
begin

section \<open>The resource definitions\<close>

text \<open>
  Models \<^verbatim>\<open>pkg/crd/crd.go\<close>: the list of the program's resources, with their scope, status subresource and
  printed columns, its conversion to API objects and the text of the chart template.  The conversion of
  one definition and the YAML export are wrangler's and parameters here.
\<close>

definition GroupName :: string where
  "GroupName = ''devices.harvesterhci.io''"

definition SchemeGroupVersion :: "string \<times> string" where
  "SchemeGroupVersion = (GroupName, ''v1beta1'')"

record CRD =
  crGVK :: "string \<times> string"
  crSchemaObject :: string
  crNonNamespace :: bool
  crStatus :: bool
  crColumns :: "(string \<times> string) list"

text \<open>Of the schema object only the name of its type matters, which is the kind of the resource.\<close>

definition newCRD :: "string \<Rightarrow> (CRD \<Rightarrow> CRD) \<Rightarrow> CRD" where
  "newCRD obj customize =
     customize \<lparr>crGVK = (''devices.harvesterhci.io'', ''v1beta1''), crSchemaObject = obj, crNonNamespace = False, crStatus = True, crColumns = []\<rparr>"

definition crd_List :: "CRD list" where
  "crd_List =
     [newCRD ''PCIDevice'' (\<lambda>c. c\<lparr>crNonNamespace := True, crColumns := [(''Address'', ''.status.address''),
          (''Vendor Id'', ''.status.vendorId''),
          (''Device Id'', ''.status.deviceId''),
          (''Node Name'', ''.status.nodeName''),
          (''Description'', ''.status.description''),
          (''Kernel Driver In Use'', ''.status.kernelDriverInUse'')]\<rparr>),
      newCRD ''PCIDeviceClaim'' (\<lambda>c. c\<lparr>crNonNamespace := True, crColumns := [(''Address'', ''.spec.address''),
          (''Node Name'', ''.spec.nodeName''),
          (''User Name'', ''.spec.userName''),
          (''Kernel Driver '' @ [CHR 0xCE] @ [CHR 0xA4] @ [CHR 0xCE] @ [CHR 0xBF] @ '' Unbind'', ''.status.kernelDriverToUnbind''),
          (''Passthrough Enabled'', ''.status.passthroughEnabled'')]\<rparr>),
      newCRD ''SRIOVNetworkDevice'' (\<lambda>c. c\<lparr>crNonNamespace := True, crColumns := [(''Address'', ''.spec.address''),
          (''Node Name'', ''.spec.nodeName''),
          (''NumVFs'', ''.spec.numVFs''),
          (''VF Addresses'', ''.status.vfAddresses'')]\<rparr>),
      newCRD ''Node'' (\<lambda>c. c\<lparr>crNonNamespace := True, crStatus := False, crColumns := []\<rparr>),
      newCRD ''SRIOVGPUDevice'' (\<lambda>c. c\<lparr>crNonNamespace := True, crColumns := [(''Address'', ''.spec.address''),
          (''Node Name'', ''.spec.nodeName''),
          (''Enabled'', ''.spec.enabled''),
          (''VGPUDevices'', ''.status.vGPUDevices'')]\<rparr>),
      newCRD ''VGPUDevice'' (\<lambda>c. c\<lparr>crNonNamespace := True, crColumns := [(''Address'', ''.spec.address''),
          (''Node Name'', ''.spec.nodeName''),
          (''Enabled'', ''.spec.enabled''),
          (''UUID'', ''.status.uuid''),
          (''VGPUType'', ''.status.configureVGPUTypeName''),
          (''ParentGPUDevice'', ''.spec.parentGPUDeviceAddress'')]\<rparr>),
      newCRD ''USBDevice'' (\<lambda>c. c\<lparr>crNonNamespace := True, crColumns := [(''Vendor ID'', ''.status.vendorID''),
          (''Product ID'', ''.status.productID''),
          (''Node Name'', ''.status.nodeName''),
          (''Description'', ''.status.description''),
          (''Resource Name'', ''.status.resourceName''),
          (''PCI Address'', ''.status.pciAddress''),
          (''Enabled'', ''.status.enabled'')]\<rparr>),
      newCRD ''USBDeviceClaim'' (\<lambda>c. c\<lparr>crNonNamespace := True, crColumns := [(''Node Name'', ''.status.nodeName''),
          (''PCI Address'', ''.status.pciAddress''),
          (''User Name'', ''.spec.userName'')]\<rparr>),
      newCRD ''MigConfiguration'' (\<lambda>c. c\<lparr>crNonNamespace := True, crColumns := [(''Node Name'', ''.spec.nodeName''),
          (''Address'', ''.spec.gpuAddress''),
          (''Enabled'', ''.spec.enabled''),
          (''Status'', ''.status.status''),
          (''Message'', ''.status.message'')]\<rparr>)]"

record 'obj crd_lib =
  clToV1 :: "CRD \<Rightarrow> 'obj res"
  clToV1Beta1 :: "CRD \<Rightarrow> 'obj res"
  clExport :: "'obj list \<Rightarrow> string res"

fun convert_all :: "(CRD \<Rightarrow> 'obj res) \<Rightarrow> CRD list \<Rightarrow> 'obj list res" where
  "convert_all f [] = Inr []"
| "convert_all f (crdDef # rest) =
     (case f crdDef of Inl err \<Rightarrow> Inl err
      | Inr x \<Rightarrow> (case convert_all f rest of Inl err \<Rightarrow> Inl err | Inr xs \<Rightarrow> Inr (x # xs)))"

definition Objects :: "'obj crd_lib \<Rightarrow> bool \<Rightarrow> 'obj list res" where
  "Objects L v1beta1 = convert_all (if v1beta1 then clToV1Beta1 L else clToV1 L) crd_List"

definition crd_Print :: "'obj crd_lib \<Rightarrow> (string \<Rightarrow> 's \<Rightarrow> go_error option \<times> 's) \<Rightarrow> 's \<Rightarrow> go_error option \<times> 's" where
  "crd_Print L out s =
     (case Objects L False of Inl err \<Rightarrow> (Some err, s) | Inr obj \<Rightarrow>
      (case clExport L obj of Inl err \<Rightarrow> (Some err, s) | Inr data \<Rightarrow>
       (case Objects L True of Inl err \<Rightarrow> (Some err, s) | Inr objV1Beta1 \<Rightarrow>
        (case clExport L objV1Beta1 of Inl err \<Rightarrow> (Some err, s) | Inr dataV1Beta1 \<Rightarrow>
           out (''{{- if .Capabilities.APIVersions.Has '' @ [CHR 0x22] @ ''apiextensions.k8s.io/v1'' @ [CHR 0x22] @ '' -}}'' @ [CHR 0x0A]
                @ data @ ''{{- else -}}'' @ [CHR 0x0A] @ ''---'' @ [CHR 0x0A] @ dataV1Beta1 @ ''{{- end -}}'') s))))"

text \<open>\<^verbatim>\<open>Create\<close>: the factory registers the whole list and waits for it.\<close>

definition crd_Create :: "('s \<Rightarrow> 'f res) \<Rightarrow> ('f \<Rightarrow> CRD list \<Rightarrow> 's \<Rightarrow> go_error option \<times> 's) \<Rightarrow> 's \<Rightarrow> go_error option \<times> 's" where
  "crd_Create newFactory batchCreate s =
     (case newFactory s of Inl err \<Rightarrow> (Some err, s) | Inr factory \<Rightarrow> batchCreate factory crd_List s)"

definition crd_WriteFile ::
  "'obj crd_lib \<Rightarrow> (string \<Rightarrow> 's \<Rightarrow> go_error option \<times> 's) \<Rightarrow> (string \<Rightarrow> 's \<Rightarrow> (string \<Rightarrow> 's \<Rightarrow> go_error option \<times> 's) res \<times> 's)
   \<Rightarrow> (string \<Rightarrow> string) \<Rightarrow> string \<Rightarrow> 's \<Rightarrow> go_error option \<times> 's" where
  "crd_WriteFile L mkdirAll create dir filename s =
     (case mkdirAll (dir filename) s of (Some err, s) \<Rightarrow> (Some err, s) | (None, s) \<Rightarrow>
      (case create filename s of (Inl err, s) \<Rightarrow> (Some err, s) | (Inr f, s) \<Rightarrow> crd_Print L f s))"

text \<open>All resources are cluster scoped, of one group and version, and listed once; all but the node have a status.\<close>

lemma crd_List_uniform:
  "\<forall>c \<in> set crd_List. crGVK c = SchemeGroupVersion \<and> crNonNamespace c \<and> crStatus c = (crSchemaObject c \<noteq> ''Node'')"
  "distinct (map crSchemaObject crd_List)"
  by (simp_all add: crd_List_def newCRD_def GroupName_def SchemeGroupVersion_def)

subsection \<open>The types of the scheme\<close>

text \<open>The types that \<^verbatim>\<open>addKnownTypes\<close> adds to the scheme under \<^const>\<open>SchemeGroupVersion\<close>, by name.\<close>

definition addKnownTypes :: "string list" where
  "addKnownTypes =
     [''MigConfiguration'', ''MigConfigurationList'', ''Node'', ''NodeList'', ''PCIDevice'', ''PCIDeviceList'',
      ''PCIDeviceClaim'', ''PCIDeviceClaimList'', ''SRIOVGPUDevice'', ''SRIOVGPUDeviceList'',
      ''SRIOVNetworkDevice'', ''SRIOVNetworkDeviceList'', ''USBDevice'', ''USBDeviceList'',
      ''USBDeviceClaim'', ''USBDeviceClaimList'', ''VGPUDevice'', ''VGPUDeviceList'']"

text \<open>The resources that are created in the cluster are those that the clients can decode, with their lists.\<close>

lemma crd_List_known:
  "set addKnownTypes = (\<Union>c \<in> set crd_List. {crSchemaObject c, crSchemaObject c @ ''List''})"
  by (auto simp: addKnownTypes_def crd_List_def newCRD_def)

end
