(* ===== verification/Webhook_Server.thy ===== *)
theory Webhook_Server
  imports Webhook_Validators Crd
begin

section \<open>The webhook server\<close>

text \<open>
  Models \<^verbatim>\<open>pkg/webhook/server.go\<close>, \<^verbatim>\<open>validation.go\<close>, \<^verbatim>\<open>mutation.go\<close>, the \<^verbatim>\<open>Resource\<close> methods of the validators and
  the mutator, and \<^verbatim>\<open>RegisterIndexers\<close>: which requests the API server is told to send here, and
  which check each of them meets.  The HTTP server, the router of wrangler and Harvester's admission handler are
  parameters; the locale \<open>admission_server\<close> states what is relied on.
\<close>

subsection \<open>Resources\<close>

datatype OperationType = OpCreate | OpUpdate | OpDelete | OpConnect

datatype ScopeType = ClusterScope | NamespacedScope

record Resource =
  rsNames :: "string list"
  rsScope :: ScopeType
  rsAPIGroup :: string
  rsAPIVersion :: string
  rsObjectType :: string
  rsOperationTypes :: "OperationType list"

definition device_resource :: "string \<Rightarrow> string \<Rightarrow> OperationType list \<Rightarrow> Resource" where
  "device_resource name ty ops = \<lparr>rsNames = [name], rsScope = ClusterScope, rsAPIGroup = fst SchemeGroupVersion,
     rsAPIVersion = snd SchemeGroupVersion, rsObjectType = ty, rsOperationTypes = ops\<rparr>"

definition sriov_Resource :: Resource where
  "sriov_Resource = device_resource ''sriovnetworkdevices'' ''SRIOVNetworkDevice'' [OpDelete, OpUpdate]"

definition pdc_Resource :: Resource where
  "pdc_Resource = device_resource ''pcideviceclaims'' ''PCIDeviceClaim'' [OpCreate, OpDelete]"

definition vgpu_Resource :: Resource where
  "vgpu_Resource = device_resource ''vgpudevices'' ''VGPUDevice'' [OpUpdate, OpDelete]"

definition sriovgpu_Resource :: Resource where
  "sriovgpu_Resource = device_resource ''sriovgpudevices'' ''SRIOVGPUDevice'' [OpUpdate, OpDelete]"

definition usbclaim_Resource :: Resource where
  "usbclaim_Resource = device_resource ''usbdeviceclaims'' ''USBDeviceClaim'' [OpUpdate, OpDelete]"

definition usb_Resource :: Resource where
  "usb_Resource = device_resource ''usbdevices'' ''USBDevice'' [OpDelete]"

definition mig_Resource :: Resource where
  "mig_Resource = device_resource ''migconfigurations'' ''MigConfiguration'' [OpUpdate]"

text \<open>Group and version of KubeVirt come from its package: \<open>kv\<close>.\<close>

definition vm_resource :: "string \<times> string \<Rightarrow> Resource" where
  "vm_resource kv = \<lparr>rsNames = [''virtualmachines''], rsScope = NamespacedScope, rsAPIGroup = fst kv, rsAPIVersion = snd kv,
     rsObjectType = ''VirtualMachine'', rsOperationTypes = [OpCreate, OpUpdate]\<rparr>"

definition vmv_Resource :: "string \<times> string \<Rightarrow> Resource" where
  "vmv_Resource kv = vm_resource kv"

definition mutator_Resource :: "string \<times> string \<Rightarrow> Resource" where
  "mutator_Resource kv = vm_resource kv"

subsection \<open>Requests and validators\<close>

text \<open>The object of a request, decoded to the type of its kind; a type assertion to another type panics.\<close>

datatype admission_object = PdcObj PCIDeviceClaim | SnObj SRIOVNetworkDevice | VgpuObj VGPUDevice | SgpuObj SRIOVGPUDevice
  | UsbClaimObj USBDeviceClaim | UsbObj USBDevice | MigObj MigConfiguration | VmObj VirtualMachine

record request =
  rqOperation :: OperationType
  rqGroup :: string
  rqVersion :: string
  rqResource :: string
  rqKind :: string
  rqScope :: ScopeType
  rqUser :: string
  rqOld :: "admission_object option"
  rqNew :: "admission_object option"

text \<open>
  A validator overrides some methods of \<^verbatim>\<open>types.DefaultValidator\<close>, which accepts everything; \<^const>\<open>None\<close> is a
  method it does not override.  The result \<^const>\<open>None\<close> of a method is a panic.
\<close>

type_synonym verdict = "go_error option option"

record 's validator =
  vdResource :: Resource
  vdCreate :: "(string \<Rightarrow> admission_object \<Rightarrow> 's \<Rightarrow> verdict) option"
  vdUpdate :: "(string \<Rightarrow> admission_object \<Rightarrow> admission_object \<Rightarrow> 's \<Rightarrow> verdict) option"
  vdDelete :: "(string \<Rightarrow> admission_object \<Rightarrow> 's \<Rightarrow> verdict) option"

definition sriovNetworkDeviceValidator :: "'s validator_env \<Rightarrow> 's validator" where
  "sriovNetworkDeviceValidator E = \<lparr>vdResource = sriov_Resource, vdCreate = None,
     vdUpdate = Some (\<lambda>user old new s. case (old, new) of (SnObj o', SnObj n) \<Rightarrow> Some (sriov_Update E o' n s) | _ \<Rightarrow> None),
     vdDelete = Some (\<lambda>user old s. case old of SnObj o' \<Rightarrow> Some (sriov_Delete E o' s) | _ \<Rightarrow> None)\<rparr>"

definition pciDeviceClaimValidator :: "'s validator_env \<Rightarrow> 's validator" where
  "pciDeviceClaimValidator E = \<lparr>vdResource = pdc_Resource,
     vdCreate = Some (\<lambda>user new s. case new of PdcObj n \<Rightarrow> Some (pdc_Create E n s) | _ \<Rightarrow> None), vdUpdate = None,
     vdDelete = Some (\<lambda>user old s. case old of PdcObj o' \<Rightarrow> Some (pdc_Delete E user o' s) | _ \<Rightarrow> None)\<rparr>"

definition vgpuValidator :: "'s validator_env \<Rightarrow> 's validator" where
  "vgpuValidator E = \<lparr>vdResource = vgpu_Resource, vdCreate = None,
     vdUpdate = Some (\<lambda>user old new s. case (old, new) of (VgpuObj o', VgpuObj n) \<Rightarrow> Some (vgpuv_Update E o' n s) | _ \<Rightarrow> None),
     vdDelete = Some (\<lambda>user old s. case old of VgpuObj o' \<Rightarrow> Some (vgpuv_Delete E o' s) | _ \<Rightarrow> None)\<rparr>"

definition sriovGPUValidator :: "'s validator_env \<Rightarrow> 's validator" where
  "sriovGPUValidator E = \<lparr>vdResource = sriovgpu_Resource, vdCreate = None,
     vdUpdate = Some (\<lambda>user old new s. case (old, new) of (SgpuObj o', SgpuObj n) \<Rightarrow> Some (sriovgpu_Update E o' n s) | _ \<Rightarrow> None),
     vdDelete = Some (\<lambda>user old s. case old of SgpuObj o' \<Rightarrow> Some (sriovgpu_Delete E o' s) | _ \<Rightarrow> None)\<rparr>"

definition usbDeviceClaimValidator :: "'s validator_env \<Rightarrow> 's validator" where
  "usbDeviceClaimValidator E = \<lparr>vdResource = usbclaim_Resource, vdCreate = None,
     vdUpdate = Some (\<lambda>user old new s. case (old, new) of (UsbClaimObj o', UsbClaimObj n) \<Rightarrow> Some (usbclaim_Update o' n) | _ \<Rightarrow> None),
     vdDelete = Some (\<lambda>user old s. case old of UsbClaimObj o' \<Rightarrow> Some (usbclaim_Delete E o' s) | _ \<Rightarrow> None)\<rparr>"

text \<open>The validator of machines ignores the old object.\<close>

definition vmDeviceHostValidator :: "string \<times> string \<Rightarrow> 's validator_env \<Rightarrow> 's validator" where
  "vmDeviceHostValidator kv E = \<lparr>vdResource = vmv_Resource kv,
     vdCreate = Some (\<lambda>user new s. case new of VmObj n \<Rightarrow> Some (vmv_Create E n s) | _ \<Rightarrow> None),
     vdUpdate = Some (\<lambda>user old new s. case new of VmObj n \<Rightarrow> Some (vmv_Update E n n s) | _ \<Rightarrow> None), vdDelete = None\<rparr>"

definition usbDeviceValidator :: "'s validator_env \<Rightarrow> 's validator" where
  "usbDeviceValidator E = \<lparr>vdResource = usb_Resource, vdCreate = None, vdUpdate = None,
     vdDelete = Some (\<lambda>user old s. case old of UsbObj o' \<Rightarrow> Some (usb_Delete E o' s) | _ \<Rightarrow> None)\<rparr>"

definition migConfigurationValidator :: "'s validator_env \<Rightarrow> 's validator" where
  "migConfigurationValidator E = \<lparr>vdResource = mig_Resource, vdCreate = None,
     vdUpdate = Some (\<lambda>user old new s. case (old, new) of (MigObj o', MigObj n) \<Rightarrow> Some (mig_Update E o' n s) | _ \<Rightarrow> None), vdDelete = None\<rparr>"

text \<open>The mutator, whose update ignores the old object too.\<close>

type_synonym 's mutation = "(patch_op list res \<times> 's) option"

record 's mutator =
  muResource :: Resource
  muCreate :: "(admission_object \<Rightarrow> 's \<Rightarrow> 's mutation) option"
  muUpdate :: "(admission_object \<Rightarrow> admission_object \<Rightarrow> 's \<Rightarrow> 's mutation) option"

definition vmPCIMutator :: "string \<times> string \<Rightarrow> 's mutator_env \<Rightarrow> 's mutator" where
  "vmPCIMutator kv M = \<lparr>muResource = mutator_Resource kv,
     muCreate = Some (\<lambda>new s. case new of VmObj n \<Rightarrow> Some (mutator_Create M n s) | _ \<Rightarrow> None),
     muUpdate = Some (\<lambda>old new s. case new of VmObj n \<Rightarrow> Some (mutator_Update M n n s) | _ \<Rightarrow> None)\<rparr>"

subsection \<open>Registration\<close>

text \<open>A route of wrangler's router: kind, group and the admitter.\<close>

type_synonym 'a route = "(string \<times> string) \<times> 'a"

definition addHandler :: "'a route list \<Rightarrow> Resource \<Rightarrow> 'a \<Rightarrow> 'a route list" where
  "addHandler router rsc admitter = router @ [((rsObjectType rsc, rsAPIGroup rsc), admitter)]"

fun add_all :: "('a \<Rightarrow> Resource) \<Rightarrow> 'a list \<Rightarrow> 'a route list \<Rightarrow> Resource list \<Rightarrow> 'a route list \<times> Resource list" where
  "add_all res [] router resources = (router, resources)"
| "add_all res (v # vs) router resources = add_all res vs (addHandler router (res v) v) (resources @ [res v])"

definition validators :: "string \<times> string \<Rightarrow> 's validator_env \<Rightarrow> 's validator list" where
  "validators kv E =
     [sriovNetworkDeviceValidator E, pciDeviceClaimValidator E, vgpuValidator E, sriovGPUValidator E, usbDeviceClaimValidator E,
      vmDeviceHostValidator kv E, usbDeviceValidator E, migConfigurationValidator E]"

definition Validation :: "string \<times> string \<Rightarrow> 's validator_env \<Rightarrow> 's validator route list \<times> Resource list" where
  "Validation kv E = add_all vdResource (validators kv E) [] []"

definition Mutation :: "string \<times> string \<Rightarrow> 's mutator_env \<Rightarrow> 's mutator route list \<times> Resource list" where
  "Mutation kv M = add_all muResource [vmPCIMutator kv M] [] []"

record RuleWithOperations =
  ruOperations :: "OperationType list"
  ruAPIGroups :: "string list"
  ruAPIVersions :: "string list"
  ruResources :: "string list"
  ruScope :: ScopeType

definition buildRules :: "Resource list \<Rightarrow> RuleWithOperations list" where
  "buildRules resources =
     map (\<lambda>rsc. \<lparr>ruOperations = rsOperationTypes rsc, ruAPIGroups = [rsAPIGroup rsc], ruAPIVersions = [rsAPIVersion rsc],
       ruResources = rsNames rsc, ruScope = rsScope rsc\<rparr>) resources"

datatype FailurePolicyType = Ignore | Fail

datatype SideEffectClass = SideEffectClassNone | SideEffectClassSome

record webhook_configuration =
  wcMetaName :: string
  wcName :: string
  wcServiceNamespace :: string
  wcServiceName :: string
  wcPath :: string
  wcPort :: int
  wcCABundle :: string
  wcRules :: "RuleWithOperations list"
  wcFailurePolicy :: FailurePolicyType
  wcSideEffects :: SideEffectClass
  wcAdmissionReviewVersions :: "string list"

definition caName :: string where
  "caName = ''pcidevices-webhook-ca''"

definition webhook_namespace :: string where
  "webhook_namespace = ''harvester-system''"

definition webhook_configuration :: "string \<Rightarrow> string \<Rightarrow> string \<Rightarrow> RuleWithOperations list \<Rightarrow> webhook_configuration" where
  "webhook_configuration name path ca rules =
     \<lparr>wcMetaName = name, wcName = ''pcidevices.harvesterhci.io'', wcServiceNamespace = webhook_namespace,
      wcServiceName = ''pcidevices-webhook'', wcPath = path, wcPort = 8443, wcCABundle = ca, wcRules = rules,
      wcFailurePolicy = Ignore, wcSideEffects = SideEffectClassNone, wcAdmissionReviewVersions = [''v1'', ''v1beta1'']\<rparr>"

definition mutatingWebhookConfiguration :: "string \<Rightarrow> Resource list \<Rightarrow> webhook_configuration" where
  "mutatingWebhookConfiguration ca resources =
     webhook_configuration ''pcidevices-mutator'' ''/v1/webhook/mutation'' ca (buildRules resources)"

definition validatingWebhookConfiguration :: "string \<Rightarrow> Resource list \<Rightarrow> webhook_configuration" where
  "validatingWebhookConfiguration ca resources =
     webhook_configuration ''pcidevices-validator'' ''/v1/webhook/validation'' ca (buildRules resources)"

text \<open>The certificate of the server's CA; \<open>seTLSCert\<close> is the entry \<^verbatim>\<open>tls.crt\<close>, empty when absent.\<close>

record Secret =
  seMeta :: object_meta
  seTLSCert :: string

definition secret_OnChange ::
  "(webhook_configuration list \<Rightarrow> 's \<Rightarrow> go_error option \<times> 's) \<Rightarrow> Resource list \<Rightarrow> Resource list \<Rightarrow> Secret option \<Rightarrow> 's
   \<Rightarrow> (Secret, 's) handler_result" where
  "secret_OnChange apply mutationResources validationResources secretp s =
     (case secretp of None \<Rightarrow> (None, None, s) | Some secret \<Rightarrow>
      if mName (seMeta secret) \<noteq> caName \<or> mNamespace (seMeta secret) \<noteq> webhook_namespace \<or> seTLSCert secret = []
      then (None, None, s)
      else (Some secret,
            apply [mutatingWebhookConfiguration (seTLSCert secret) mutationResources,
                   validatingWebhookConfiguration (seTLSCert secret) validationResources] s))"

text \<open>\<^verbatim>\<open>RegisterIndexers\<close>: the index functions of each cache, by the name of the index.\<close>

type_synonym 'o indexers = "(string, 'o \<Rightarrow> string list res) gomap"

definition vm_indexers :: "json_codec \<Rightarrow> VirtualMachine indexers" where
  "vm_indexers J = [(VMByName_ix, \<lambda>vm. Inr (vmByName vm)), (VMByPCIDeviceClaim_ix, VMByHostDeviceName J),
     (VMByUSBDeviceClaim_ix, \<lambda>vm. Inr (VMBySpecHostDeviceName vm))]"

definition pd_indexers :: "PCIDevice indexers" where
  "pd_indexers = [(PCIDeviceByResourceName_ix, \<lambda>d. Inr (pciDeviceByResourceName d)), (IommuGroupByNode_ix, \<lambda>d. Inr (iommuGroupByNodeName d))]"

definition usb_indexers :: "USBDevice indexers" where
  "usb_indexers = [(USBDeviceByResourceName_ix, \<lambda>d. Inr (USBDeviceByResourceName d))]"

definition usbclaim_indexers :: "USBDeviceClaim indexers" where
  "usbclaim_indexers = [(USBDeviceByAddress_ix, \<lambda>c. Inr (usbDeviceClaimByAddress c))]"

definition vgpu_indexers :: "VGPUDevice indexers" where
  "vgpu_indexers = [(vGPUDeviceByResourceName_ix, \<lambda>v. Inr (VGPUDeviceByResourceName v))]"

text \<open>The answer of a cache with index functions over its objects.\<close>

definition by_index :: "'o indexers \<Rightarrow> string \<Rightarrow> string \<Rightarrow> 'o list \<Rightarrow> 'o list res" where
  "by_index fs i k xs =
     (case mget fs i of None \<Rightarrow> Inl (Errorf ''Index does not exist'')
      | Some f \<Rightarrow> Inr (filter (\<lambda>x. case f x of Inl err \<Rightarrow> False | Inr ks \<Rightarrow> k \<in> set ks) xs))"

record 's server_env =
  svNewClient :: "'s \<Rightarrow> ('s validator_env \<times> 's mutator_env) res \<times> 's"
  svRegisterIndexers :: "'s \<Rightarrow> 's"
  svListen :: "'s mutator route list \<Rightarrow> 's validator route list \<Rightarrow> Resource list \<Rightarrow> Resource list \<Rightarrow> 's \<Rightarrow> go_error option \<times> 's"
  svStart :: "'s \<Rightarrow> go_error option \<times> 's"
  svKubevirt :: "string \<times> string"

definition ListenAndServe :: "'s server_env \<Rightarrow> 's \<Rightarrow> go_error option \<times> 's" where
  "ListenAndServe V s =
     (case svNewClient V s of (Inl err, s) \<Rightarrow> (Some err, s) | (Inr (E, M), s) \<Rightarrow>
      (let s = svRegisterIndexers V s;
           (mutationHandler, mutationResources) = Mutation (svKubevirt V) M;
           (validationHandler, validationResources) = Validation (svKubevirt V) E
       in case svListen V mutationHandler validationHandler mutationResources validationResources s of
            (Some err, s) \<Rightarrow> (Some err, s)
          | (None, s) \<Rightarrow> svStart V s))"

subsection \<open>From a request to its check\<close>

text \<open>What Harvester's admission handler does with a validator: it calls the method of the operation.\<close>

definition validate :: "'s validator \<Rightarrow> request \<Rightarrow> 's \<Rightarrow> verdict" where
  "validate v rq s =
     (case rqOperation rq of
        OpCreate \<Rightarrow> (case (vdCreate v, rqNew rq) of (None, _) \<Rightarrow> Some None | (Some f, Some x) \<Rightarrow> f (rqUser rq) x s | (Some f, None) \<Rightarrow> None)
      | OpUpdate \<Rightarrow> (case (vdUpdate v, rqOld rq, rqNew rq) of (None, _, _) \<Rightarrow> Some None
          | (Some f, Some x, Some y) \<Rightarrow> f (rqUser rq) x y s | (Some f, _, _) \<Rightarrow> None)
      | OpDelete \<Rightarrow> (case (vdDelete v, rqOld rq) of (None, _) \<Rightarrow> Some None | (Some f, Some x) \<Rightarrow> f (rqUser rq) x s | (Some f, None) \<Rightarrow> None)
      | OpConnect \<Rightarrow> Some None)"

text \<open>The server: a request is handed to the admitter registered for its kind and group, when that is unambiguous.\<close>

locale admission_server =
  fixes serve :: "'s validator route list \<Rightarrow> request \<Rightarrow> 's \<Rightarrow> verdict"
  assumes serve_route: "distinct (map fst router) \<Longrightarrow> ((rqKind rq, rqGroup rq), v) \<in> set router \<Longrightarrow> serve router rq s = validate v rq s"
begin

lemma serve_resource:
  assumes "distinct (map (\<lambda>v. (rsObjectType (vdResource v), rsAPIGroup (vdResource v))) vs)" and "v \<in> set vs"
    and "rqKind rq = rsObjectType (vdResource v)" "rqGroup rq = rsAPIGroup (vdResource v)"
  shows "serve (map (\<lambda>v. ((rsObjectType (vdResource v), rsAPIGroup (vdResource v)), v)) vs) rq s = validate v rq s"
  using assms by (intro serve_route) (auto simp: comp_def)

end

definition serve_first :: "'s validator route list \<Rightarrow> request \<Rightarrow> 's \<Rightarrow> verdict" where
  "serve_first router rq s =
     (case map_of router (rqKind rq, rqGroup rq) of None \<Rightarrow> Some (Some (Errorf ''no route'')) | Some v \<Rightarrow> validate v rq s)"

interpretation first_match: admission_server serve_first
  by unfold_locales (simp add: serve_first_def)

text \<open>What the API server does with a configuration: the rules select the requests it sends, the failure policy decides
  when the webhook does not answer.\<close>

definition rule_matches :: "request \<Rightarrow> RuleWithOperations \<Rightarrow> bool" where
  "rule_matches rq r \<longleftrightarrow> rqOperation rq \<in> set (ruOperations r) \<and> rqGroup rq \<in> set (ruAPIGroups r)
     \<and> rqVersion rq \<in> set (ruAPIVersions r) \<and> rqResource rq \<in> set (ruResources r) \<and> rqScope rq = ruScope r"

definition on_failure :: "webhook_configuration \<Rightarrow> go_error option" where
  "on_failure c = (case wcFailurePolicy c of Ignore \<Rightarrow> None | Fail \<Rightarrow> Some (Errorf ''failed calling webhook''))"

definition admission ::
  "('s validator route list \<Rightarrow> request \<Rightarrow> 's \<Rightarrow> verdict) \<Rightarrow> bool \<Rightarrow> string \<Rightarrow> string \<times> string \<Rightarrow> 's validator_env \<Rightarrow> request \<Rightarrow> 's \<Rightarrow> go_error option" where
  "admission serve reachable ca kv E rq s =
     (let (router, resources) = Validation kv E; c = validatingWebhookConfiguration ca resources
      in if \<not> list_ex (rule_matches rq) (wcRules c) then None
         else if \<not> reachable then on_failure c
         else case serve router rq s of None \<Rightarrow> on_failure c | Some answer \<Rightarrow> answer)"

text \<open>The request for an object of a kind, with the names the resource definition gives it.\<close>

fun kind_of :: "admission_object \<Rightarrow> string" where
  "kind_of (PdcObj x) = ''PCIDeviceClaim''"
| "kind_of (SnObj x) = ''SRIOVNetworkDevice''"
| "kind_of (VgpuObj x) = ''VGPUDevice''"
| "kind_of (SgpuObj x) = ''SRIOVGPUDevice''"
| "kind_of (UsbClaimObj x) = ''USBDeviceClaim''"
| "kind_of (UsbObj x) = ''USBDevice''"
| "kind_of (MigObj x) = ''MigConfiguration''"
| "kind_of (VmObj x) = ''VirtualMachine''"

definition request_of ::
  "string \<times> string \<Rightarrow> OperationType \<Rightarrow> string \<Rightarrow> admission_object option \<Rightarrow> admission_object option \<Rightarrow> admission_object \<Rightarrow> request" where
  "request_of kv op user old new x =
     (let (gv, scope) = (case find (\<lambda>c. crSchemaObject c = kind_of x) crd_List of
            Some c \<Rightarrow> (crGVK c, if crNonNamespace c then ClusterScope else NamespacedScope)
          | None \<Rightarrow> (kv, NamespacedScope))
      in \<lparr>rqOperation = op, rqGroup = fst gv, rqVersion = snd gv, rqResource = ToLower (kind_of x) @ ''s'', rqKind = kind_of x,
          rqScope = scope, rqUser = user, rqOld = old, rqNew = new\<rparr>)"

abbreviation create_request :: "string \<times> string \<Rightarrow> string \<Rightarrow> admission_object \<Rightarrow> request" where
  "create_request kv user x \<equiv> request_of kv OpCreate user None (Some x) x"

abbreviation update_request :: "string \<times> string \<Rightarrow> string \<Rightarrow> admission_object \<Rightarrow> admission_object \<Rightarrow> request" where
  "update_request kv user x y \<equiv> request_of kv OpUpdate user (Some x) (Some y) y"

abbreviation delete_request :: "string \<times> string \<Rightarrow> string \<Rightarrow> admission_object \<Rightarrow> request" where
  "delete_request kv user x \<equiv> request_of kv OpDelete user (Some x) None x"

lemma add_all_eq: "add_all res vs router rs = (router @ map (\<lambda>v. ((rsObjectType (res v), rsAPIGroup (res v)), v)) vs, rs @ map res vs)"
  by (induction vs arbitrary: router rs) (simp_all add: addHandler_def)

lemmas resource_defs = device_resource_def sriov_Resource_def pdc_Resource_def vgpu_Resource_def sriovgpu_Resource_def usbclaim_Resource_def
  usb_Resource_def mig_Resource_def vm_resource_def vmv_Resource_def

lemmas validator_defs = sriovNetworkDeviceValidator_def pciDeviceClaimValidator_def vgpuValidator_def sriovGPUValidator_def
  usbDeviceClaimValidator_def vmDeviceHostValidator_def usbDeviceValidator_def migConfigurationValidator_def

lemma validators_distinct:
  "distinct (map (\<lambda>v. (rsObjectType (vdResource v), rsAPIGroup (vdResource v))) (validators kv E))"
  "distinct (map (\<lambda>v. rsNames (vdResource v)) (validators kv E))"
  by (simp_all add: validators_def validator_defs resource_defs)

definition addressed :: "request \<Rightarrow> Resource \<Rightarrow> bool" where
  "addressed rq r \<longleftrightarrow> rqKind rq = rsObjectType r \<and> rqGroup rq = rsAPIGroup r \<and> rqVersion rq = rsAPIVersion r \<and> rsNames r = [rqResource rq] \<and> rqScope rq = rsScope r"

lemma admission_addressed:
  assumes "admission_server serve" and "v \<in> set (validators kv E)" and "addressed rq (vdResource v)"
  shows "admission serve reachable ca kv E rq s =
    (if reachable \<and> rqOperation rq \<in> set (rsOperationTypes (vdResource v)) then (case validate v rq s of None \<Rightarrow> None | Some answer \<Rightarrow> answer) else None)"
proof -
  have only: "w = v" if "w \<in> set (validators kv E)" "rqResource rq \<in> set (rsNames (vdResource w))" for w
  proof -
    have "rsNames (vdResource w) = rsNames (vdResource v)"
      using that assms(3) by (auto simp: validators_def validator_defs resource_defs addressed_def)
    then show ?thesis using validators_distinct(2) [of kv E] that(1) assms(2) by (simp add: distinct_map inj_on_def)
  qed
  have self: "rqGroup rq = rsAPIGroup (vdResource v)" "rqVersion rq = rsAPIVersion (vdResource v)"
    "rqResource rq \<in> set (rsNames (vdResource v))" "rqScope rq = rsScope (vdResource v)"
    using assms(3) by (simp_all add: addressed_def)
  have "list_ex (rule_matches rq) (buildRules (map vdResource (validators kv E))) \<longleftrightarrow>
      (\<exists>w \<in> set (validators kv E). rqOperation rq \<in> set (rsOperationTypes (vdResource w)) \<and> rqGroup rq = rsAPIGroup (vdResource w)
        \<and> rqVersion rq = rsAPIVersion (vdResource w) \<and> rqResource rq \<in> set (rsNames (vdResource w)) \<and> rqScope rq = rsScope (vdResource w))"
    by (simp add: list_ex_iff buildRules_def rule_matches_def)
  also have "\<dots> \<longleftrightarrow> rqOperation rq \<in> set (rsOperationTypes (vdResource v))"
    using assms(2) self only by blast
  finally have "list_ex (rule_matches rq) (buildRules (map vdResource (validators kv E))) \<longleftrightarrow> rqOperation rq \<in> set (rsOperationTypes (vdResource v))" .
  moreover have "serve (map (\<lambda>v. ((rsObjectType (vdResource v), rsAPIGroup (vdResource v)), v)) (validators kv E)) rq s = validate v rq s"
    using admission_server.serve_resource [OF assms(1) validators_distinct(1) assms(2)] assms(3) by (simp add: addressed_def)
  ultimately show ?thesis
    by (simp add: admission_def Let_def Validation_def add_all_eq validatingWebhookConfiguration_def webhook_configuration_def on_failure_def
        split: option.split)
qed

text \<open>Each kind with its validator.\<close>

lemma request_addressed:
  "addressed (request_of kv op user old new (PdcObj c)) (vdResource (pciDeviceClaimValidator E))"
  "addressed (request_of kv op user old new (SnObj d)) (vdResource (sriovNetworkDeviceValidator E))"
  "addressed (request_of kv op user old new (VgpuObj g)) (vdResource (vgpuValidator E))"
  "addressed (request_of kv op user old new (SgpuObj p)) (vdResource (sriovGPUValidator E))"
  "addressed (request_of kv op user old new (UsbClaimObj u)) (vdResource (usbDeviceClaimValidator E))"
  "addressed (request_of kv op user old new (UsbObj b)) (vdResource (usbDeviceValidator E))"
  "addressed (request_of kv op user old new (MigObj m)) (vdResource (migConfigurationValidator E))"
  "addressed (request_of kv op user old new (VmObj vm)) (vdResource (vmDeviceHostValidator kv E))"
proof -
  have plural: "ToLower ''PCIDeviceClaim'' @ ''s'' = ''pcideviceclaims''" "ToLower ''SRIOVNetworkDevice'' @ ''s'' = ''sriovnetworkdevices''"
    "ToLower ''VGPUDevice'' @ ''s'' = ''vgpudevices''" "ToLower ''SRIOVGPUDevice'' @ ''s'' = ''sriovgpudevices''"
    "ToLower ''USBDeviceClaim'' @ ''s'' = ''usbdeviceclaims''" "ToLower ''USBDevice'' @ ''s'' = ''usbdevices''"
    "ToLower ''MigConfiguration'' @ ''s'' = ''migconfigurations''" "ToLower ''VirtualMachine'' @ ''s'' = ''virtualmachines''"
    by code_simp+
  note defs = addressed_def request_of_def crd_List_def newCRD_def resource_defs SchemeGroupVersion_def GroupName_def validator_defs
  show "addressed (request_of kv op user old new (PdcObj c)) (vdResource (pciDeviceClaimValidator E))" by (simp add: defs plural)
  show "addressed (request_of kv op user old new (SnObj d)) (vdResource (sriovNetworkDeviceValidator E))" by (simp add: defs plural)
  show "addressed (request_of kv op user old new (VgpuObj g)) (vdResource (vgpuValidator E))" by (simp add: defs plural)
  show "addressed (request_of kv op user old new (SgpuObj p)) (vdResource (sriovGPUValidator E))" by (simp add: defs plural)
  show "addressed (request_of kv op user old new (UsbClaimObj u)) (vdResource (usbDeviceClaimValidator E))" by (simp add: defs plural)
  show "addressed (request_of kv op user old new (UsbObj b)) (vdResource (usbDeviceValidator E))" by (simp add: defs plural)
  show "addressed (request_of kv op user old new (MigObj m)) (vdResource (migConfigurationValidator E))" by (simp add: defs plural)
  show "addressed (request_of kv op user old new (VmObj vm)) (vdResource (vmDeviceHostValidator kv E))" by (simp add: defs plural)
qed

lemma validators_members:
  "pciDeviceClaimValidator E \<in> set (validators kv E)"
  "sriovNetworkDeviceValidator E \<in> set (validators kv E)"
  "vgpuValidator E \<in> set (validators kv E)"
  "sriovGPUValidator E \<in> set (validators kv E)"
  "usbDeviceClaimValidator E \<in> set (validators kv E)"
  "usbDeviceValidator E \<in> set (validators kv E)"
  "migConfigurationValidator E \<in> set (validators kv E)"
  "vmDeviceHostValidator kv E \<in> set (validators kv E)"
  by (simp_all add: validators_def)

lemma registered_operations:
  "rsOperationTypes (vdResource (pciDeviceClaimValidator E)) = [OpCreate, OpDelete]"
  "rsOperationTypes (vdResource (sriovNetworkDeviceValidator E)) = [OpDelete, OpUpdate]"
  "rsOperationTypes (vdResource (vgpuValidator E)) = [OpUpdate, OpDelete]"
  "rsOperationTypes (vdResource (sriovGPUValidator E)) = [OpUpdate, OpDelete]"
  "rsOperationTypes (vdResource (usbDeviceClaimValidator E)) = [OpUpdate, OpDelete]"
  "rsOperationTypes (vdResource (usbDeviceValidator E)) = [OpDelete]"
  "rsOperationTypes (vdResource (migConfigurationValidator E)) = [OpUpdate]"
  "rsOperationTypes (vdResource (vmDeviceHostValidator kv E)) = [OpCreate, OpUpdate]"
  by (simp_all add: validator_defs resource_defs)

lemmas admission_kinds = 
  admission_addressed [OF _ validators_members(1) request_addressed(1)]
  admission_addressed [OF _ validators_members(2) request_addressed(2)]
  admission_addressed [OF _ validators_members(3) request_addressed(3)]
  admission_addressed [OF _ validators_members(4) request_addressed(4)]
  admission_addressed [OF _ validators_members(5) request_addressed(5)]
  admission_addressed [OF _ validators_members(6) request_addressed(6)]
  admission_addressed [OF _ validators_members(7) request_addressed(7)]
  admission_addressed [OF _ validators_members(8) request_addressed(8)]

lemma request_of_fields [simp]:
  "rqOperation (request_of kv op user old new x) = op" "rqUser (request_of kv op user old new x) = user"
  "rqOld (request_of kv op user old new x) = old" "rqNew (request_of kv op user old new x) = new"
  by (simp_all add: request_of_def Let_def split: prod.splits)

lemma admission_unreachable: "admission serve False ca kv E rq s = None"
  by (simp add: admission_def Let_def validatingWebhookConfiguration_def webhook_configuration_def on_failure_def split: prod.split)

lemma claim_deletion_checked:
  "admission_server serve \<Longrightarrow> admission serve True ca kv E (delete_request kv user (PdcObj c)) s = pdc_Delete E user c s"
  by (simp add: admission_kinds registered_operations validate_def) (simp add: validator_defs)

text \<open>
  Property C6.  Every check of the validators is in force for the requests it is meant for: the rules built from the
  registered resources select, under the names the resource definitions give, exactly the operations the
  validators implement, and the request meets its own check.  Operations without a check are accepted, and as the failure
  policy is to ignore, every request is accepted while the webhook cannot be reached.
\<close>

theorem requests_meet_their_checks:
  assumes "admission_server serve"
  shows "admission serve True ca kv E (create_request kv user (PdcObj c)) s = pdc_Create E c s
    \<and> admission serve True ca kv E (delete_request kv user (PdcObj c)) s = pdc_Delete E user c s
    \<and> admission serve True ca kv E (update_request kv user (SnObj d) (SnObj d')) s = sriov_Update E d d' s
    \<and> admission serve True ca kv E (delete_request kv user (SnObj d)) s = sriov_Delete E d s
    \<and> admission serve True ca kv E (update_request kv user (VgpuObj g) (VgpuObj g')) s = vgpuv_Update E g g' s
    \<and> admission serve True ca kv E (delete_request kv user (VgpuObj g)) s = vgpuv_Delete E g s
    \<and> admission serve True ca kv E (update_request kv user (SgpuObj p) (SgpuObj p')) s = sriovgpu_Update E p p' s
    \<and> admission serve True ca kv E (delete_request kv user (SgpuObj p)) s = sriovgpu_Delete E p s
    \<and> admission serve True ca kv E (update_request kv user (UsbClaimObj u) (UsbClaimObj u')) s = usbclaim_Update u u'
    \<and> admission serve True ca kv E (delete_request kv user (UsbClaimObj u)) s = usbclaim_Delete E u s
    \<and> admission serve True ca kv E (delete_request kv user (UsbObj b)) s = usb_Delete E b s
    \<and> admission serve True ca kv E (update_request kv user (MigObj m) (MigObj m')) s = mig_Update E m m' s
    \<and> admission serve True ca kv E (create_request kv user (VmObj vm)) s = vmv_Create E vm s
    \<and> admission serve True ca kv E (update_request kv user (VmObj vm) (VmObj vm')) s = vmv_Update E vm vm' s
    \<and> admission serve True ca kv E (update_request kv user (PdcObj c) (PdcObj c')) s = None
    \<and> admission serve True ca kv E (delete_request kv user (VmObj vm)) s = None
    \<and> admission serve False ca kv E rq s = None"
proof -
  note kinds = admission_kinds [OF assms] registered_operations admission_unreachable validate_def
  show ?thesis
    by (intro conjI; simp add: kinds; simp add: validator_defs vmv_Update_def)
qed

theorem requests_meet_their_checks_witness:
  "admission serve_first True ''ca'' (''kubevirt.io'', ''v1'') demo_validator
       (update_request (''kubevirt.io'', ''v1'') ''admin'' (SgpuObj (demo_sgpu True)) (SgpuObj (demo_sgpu False))) () =
     sriovgpu_Update demo_validator (demo_sgpu True) (demo_sgpu False) ()
   \<and> admission serve_first False ''ca'' (''kubevirt.io'', ''v1'') demo_validator
       (update_request (''kubevirt.io'', ''v1'') ''admin'' (SgpuObj (demo_sgpu True)) (SgpuObj (demo_sgpu False))) () = None"
  using requests_meet_their_checks [OF first_match.admission_server_axioms, of "''ca''" "(''kubevirt.io'', ''v1'')" demo_validator "''admin''"] by blast

end
