(* ===== verification/Setup.thy ===== *)
theory Setup
  imports Node_Controller Webhook_Server
begin

section \<open>Process set-up\<close>

text \<open>
  Models \<^verbatim>\<open>Setup\<close> of \<^verbatim>\<open>pkg/controller/setup.go\<close>: the order in which the process creates its resources and clients, registers the
  controllers, starts them, creates the node object and serves the webhook.  Building the factories, the
  registration of each controller, the leader election and the start of the informers are calls of libraries or
  wiring: parameters.
\<close>

text \<open>\<^verbatim>\<open>RegisterIndexers\<close> of the controllers (\<^verbatim>\<open>pkg/controller/indexer.go\<close>).\<close>

definition sriov_indexers :: "SRIOVNetworkDevice indexers" where
  "sriov_indexers = [(SRIOVFromVF, \<lambda>d. Inr (getSriovDeviceFromVF d))]"

definition usbclaim_controller_indexers :: "USBDeviceClaim indexers" where
  "usbclaim_controller_indexers = [(USBDevicePCIAddress_ix, \<lambda>c. Inr (getUSBDeviceClaimFromPCIAddress c))]"

record ('f, 's) setup_env =
  stCrdFactory :: "'s \<Rightarrow> 'f res"
  stBatchCreate :: "'f \<Rightarrow> CRD list \<Rightarrow> 's \<Rightarrow> go_error option \<times> 's"
  stClientFactory :: "'s \<Rightarrow> go_error option \<times> 's"
  stK8sClient :: "'s \<Rightarrow> go_error option \<times> 's"
  stDeviceFactory :: "'s \<Rightarrow> go_error option \<times> 's"
  stCoreFactory :: "'s \<Rightarrow> go_error option \<times> 's"
  stNetworkFactory :: "'s \<Rightarrow> go_error option \<times> 's"
  stKubevirtFactory :: "'s \<Rightarrow> go_error option \<times> 's"
  stVirtClient :: "'s \<Rightarrow> go_error option \<times> 's"
  stRegisterIndexers :: "'s \<Rightarrow> 's"
  stRegisterPciDeviceClaim :: "'s \<Rightarrow> go_error option \<times> 's"
  stRegisterUsbDevice :: "'s \<Rightarrow> go_error option \<times> 's"
  stRegisterNodes :: "'s \<Rightarrow> go_error option \<times> 's"
  stRegisterSriovDevice :: "'s \<Rightarrow> go_error option \<times> 's"
  stRegisterGpuDevice :: "'s \<Rightarrow> go_error option \<times> 's"
  stRegisterVirtualMachine :: "'s \<Rightarrow> go_error option \<times> 's"
  stElectNodeCleanup :: "'s \<Rightarrow> 's"
  stStartAll :: "'s \<Rightarrow> go_error option \<times> 's"
  stNode :: "'s node_env"
  stServer :: "'s server_env"

definition wrapped :: "string \<Rightarrow> ('s \<Rightarrow> go_error option \<times> 's) \<Rightarrow> 's \<Rightarrow> go_error option \<times> 's" where
  "wrapped msg f s = (case f s of (Some err, s) \<Rightarrow> (Some (Errorf msg), s) | (None, s) \<Rightarrow> (None, s))"

definition build_steps :: "('f, 's) setup_env \<Rightarrow> ('s \<Rightarrow> go_error option \<times> 's) list" where
  "build_steps E =
     [wrapped ''error setting up crds'' (crd_Create (stCrdFactory E) (stBatchCreate E)), stClientFactory E, stK8sClient E,
      wrapped ''error building pcidevice controllers'' (stDeviceFactory E), wrapped ''error building core controllers'' (stCoreFactory E),
      wrapped ''error building network controllers'' (stNetworkFactory E), wrapped ''error building kubevirt controllers'' (stKubevirtFactory E),
      wrapped ''cannot obtain KubeVirt client'' (stVirtClient E), \<lambda>s. (None, stRegisterIndexers E s)]"

definition registers :: "('f, 's) setup_env \<Rightarrow> ('s \<Rightarrow> go_error option \<times> 's) list" where
  "registers E = map (wrapped ''error registering controller'')
     [stRegisterPciDeviceClaim E, stRegisterUsbDevice E, stRegisterNodes E, stRegisterSriovDevice E, stRegisterGpuDevice E,
      stRegisterVirtualMachine E]"

definition run_all :: "('f, 's) setup_env \<Rightarrow> ('s \<Rightarrow> go_error option \<times> 's) list" where
  "run_all E =
     [\<lambda>s. (None, stElectNodeCleanup E s), wrapped ''error starting controllers'' (stStartAll E),
      wrapped ''error setting up node object'' (SetupNodeObjects (stNode E)), wrapped ''error starting webhook'' (ListenAndServe (stServer E))]"

definition Setup :: "('f, 's) setup_env \<Rightarrow> 's \<Rightarrow> go_error option \<times> 's" where
  "Setup E s = run_steps (build_steps E @ registers E @ run_all E) s"

text \<open>
  Nothing runs before everything is registered: if one of the controllers cannot be registered, the error is returned in
  the world the registrations left, and no controller was started, no node object created and no webhook served.
\<close>

lemma Setup_failed_registration:
  assumes "run_steps (build_steps E) s = (None, s1)" and "run_steps (registers E) s1 = (Some err, s2)"
  shows "Setup E s = (Some err, s2)"
  using assms by (simp add: Setup_def node_steps.loop_append)

text \<open>The node object, on which the node controller's reconciliation hangs, exists once the set-up has succeeded or reached the webhook.\<close>

lemma Setup_node_object:
  assumes "Setup E s = (None, s')"
  shows "\<exists>s1 s2. SetupNodeObjects (stNode E) s1 = (None, s2) \<and> ListenAndServe (stServer E) s2 = (None, s')"
proof -
  obtain s0 where "run_steps (run_all E) s0 = (None, s')"
    using assms by (auto simp: Setup_def node_steps.loop_append split: prod.splits option.splits)
  then show ?thesis
    by (auto simp: run_all_def wrapped_def split: prod.splits option.splits)
qed

end
