(* ===== verification/Node_Cleanup.thy ===== *)
theory Node_Cleanup
  imports Common
begin

section \<open>Cleaning up after a removed node\<close>

text \<open>
  Models \<^verbatim>\<open>pkg/controller/nodecleanup/nodecleanup_controller.go\<close>: when a node is removed from the
  cluster, its device objects and claims are deleted, finalizers of claims first, since the
  controller that would handle them ran on that node.
\<close>

definition wranglerFinalizer :: string where
  "wranglerFinalizer = ''wrangler.cattle.io/PCIDeviceClaimOnRemove''"

record 's cleanup_env =
  nuPdc :: "(PCIDeviceClaim, 's) client"
  nuPd :: "(PCIDevice, 's) client"
  nuSriov :: "(SRIOVNetworkDevice, 's) client"
  nuGpu :: "(SRIOVGPUDevice, 's) client"
  nuVgpu :: "(VGPUDevice, 's) client"
  nuUsbClaim :: "(USBDeviceClaim, 's) client"
  nuUsb :: "(USBDevice, 's) client"
  nuNode :: "(DevicesNode, 's) client"

fun containsFinalizer :: "string list \<Rightarrow> string \<Rightarrow> bool" where
  "containsFinalizer [] finalizer = False"
| "containsFinalizer (v # finalizers) finalizer = (if v = finalizer then True else containsFinalizer finalizers finalizer)"

interpretation finalizers: membership containsFinalizer "\<lambda>x. x"
proof
  show "containsFinalizer xs k \<longleftrightarrow> k \<in> (\<lambda>x. x) ` set xs" for xs k
    by (induction xs) auto
qed

fun removeFinalizer :: "string list \<Rightarrow> string \<Rightarrow> string list" where
  "removeFinalizer [] finalizer = []"
| "removeFinalizer (v # finalizers) finalizer = (if v = finalizer then finalizers else v # removeFinalizer finalizers finalizer)"

text \<open>Deleting the listed objects by name, up to the first error.\<close>

fun delete_each :: "('o, 's) client \<Rightarrow> ('o \<Rightarrow> object_meta) \<Rightarrow> 'o list \<Rightarrow> 's \<Rightarrow> go_error option \<times> 's" where
  "delete_each c meta [] s = (None, s)"
| "delete_each c meta (x # items) s =
     (case cDelete c (mName (meta x)) s of
        (Inl err, s) \<Rightarrow> (Some err, s)
      | (Inr _, s) \<Rightarrow> delete_each c meta items s)"

definition delete_listed :: "('o, 's) client \<Rightarrow> ('o \<Rightarrow> object_meta) \<Rightarrow> string \<Rightarrow> 's \<Rightarrow> go_error option \<times> 's" where
  "delete_listed c meta nodeName s =
     (case cList c [(NodeKeyName, nodeName)] s of
        Inl err \<Rightarrow> (Some err, s)
      | Inr items \<Rightarrow> delete_each c meta items s)"

definition removePCIDevicesOnNode :: "'s cleanup_env \<Rightarrow> string \<Rightarrow> 's \<Rightarrow> go_error option \<times> 's" where
  "removePCIDevicesOnNode E nodeName s = delete_listed (nuPd E) pdMeta nodeName s"

definition removeSRIOVNetworkDevicesOnNode :: "'s cleanup_env \<Rightarrow> string \<Rightarrow> 's \<Rightarrow> go_error option \<times> 's" where
  "removeSRIOVNetworkDevicesOnNode E nodeName s = delete_listed (nuSriov E) snMeta nodeName s"

definition removeUSBDevicesOnNode :: "'s cleanup_env \<Rightarrow> string \<Rightarrow> 's \<Rightarrow> go_error option \<times> 's" where
  "removeUSBDevicesOnNode E nodeName s = delete_listed (nuUsb E) udMeta nodeName s"

definition removeSRIOVGPUDevicesOnNode :: "'s cleanup_env \<Rightarrow> string \<Rightarrow> 's \<Rightarrow> go_error option \<times> 's" where
  "removeSRIOVGPUDevicesOnNode E nodeName s = delete_listed (nuGpu E) sgMeta nodeName s"

definition removeVGPUDevicesOnNode :: "'s cleanup_env \<Rightarrow> string \<Rightarrow> 's \<Rightarrow> go_error option \<times> 's" where
  "removeVGPUDevicesOnNode E nodeName s = delete_listed (nuVgpu E) vgMeta nodeName s"

definition pdc_without :: "PCIDeviceClaim \<Rightarrow> PCIDeviceClaim" where
  "pdc_without pdc = pdc\<lparr>pcMeta := (pcMeta pdc)\<lparr>mFinalizers := removeFinalizer (mFinalizers (pcMeta pdc)) wranglerFinalizer\<rparr>\<rparr>"

fun remove_pdcs :: "'s cleanup_env \<Rightarrow> string \<Rightarrow> PCIDeviceClaim list \<Rightarrow> 's \<Rightarrow> go_error option \<times> 's" where
  "remove_pdcs E nodeName [] s = (None, s)"
| "remove_pdcs E nodeName (pdc # pdcs) s =
     (if pcNodeName (pcSpec pdc) \<noteq> nodeName then remove_pdcs E nodeName pdcs s
      else case (if containsFinalizer (mFinalizers (pcMeta pdc)) wranglerFinalizer
                 then (case cUpdate (nuPdc E) (pdc_without pdc) s of
                         (Inl err, s) \<Rightarrow> (Some (Errorf ''error removing finalizer''), s)
                       | (Inr _, s) \<Rightarrow> (None, s))
                 else (None, s)) of
             (Some err, s) \<Rightarrow> (Some err, s)
           | (None, s) \<Rightarrow>
               (case cDelete (nuPdc E) (pcName pdc) s of
                  (Inl err, s) \<Rightarrow> (Some err, s)
                | (Inr _, s) \<Rightarrow> remove_pdcs E nodeName pdcs s))"

definition removePCIDeviceClaimsOnNode :: "'s cleanup_env \<Rightarrow> string \<Rightarrow> 's \<Rightarrow> go_error option \<times> 's" where
  "removePCIDeviceClaimsOnNode E nodeName s =
     (case cList (nuPdc E) [] s of
        Inl err \<Rightarrow> (Some err, s)
      | Inr items \<Rightarrow> remove_pdcs E nodeName items s)"

definition usbclaim_without :: "USBDeviceClaim \<Rightarrow> USBDeviceClaim" where
  "usbclaim_without c = c\<lparr>ucMeta := (ucMeta c)\<lparr>mFinalizers := []\<rparr>\<rparr>"

fun remove_usbclaims :: "'s cleanup_env \<Rightarrow> string \<Rightarrow> USBDeviceClaim list \<Rightarrow> 's \<Rightarrow> go_error option \<times> 's" where
  "remove_usbclaims E nodeName [] s = (None, s)"
| "remove_usbclaims E nodeName (c # cs) s =
     (if ucNodeName c \<noteq> nodeName then remove_usbclaims E nodeName cs s
      else case (if length (mFinalizers (ucMeta c)) \<noteq> 0
                 then (case cUpdate (nuUsbClaim E) (usbclaim_without c) s of
                         (Inl err, s) \<Rightarrow> (Some err, s)
                       | (Inr _, s) \<Rightarrow> (None, s))
                 else (None, s)) of
             (Some err, s) \<Rightarrow> (Some err, s)
           | (None, s) \<Rightarrow>
               (case cDelete (nuUsbClaim E) (ucName c) s of
                  (Inl err, s) \<Rightarrow> (Some err, s)
                | (Inr _, s) \<Rightarrow> remove_usbclaims E nodeName cs s))"

definition removeUSBDeviceClaimsOnNode :: "'s cleanup_env \<Rightarrow> string \<Rightarrow> 's \<Rightarrow> go_error option \<times> 's" where
  "removeUSBDeviceClaimsOnNode E nodeName s =
     (case cList (nuUsbClaim E) [] s of
        Inl err \<Rightarrow> (Some err, s)
      | Inr items \<Rightarrow> remove_usbclaims E nodeName items s)"

definition removeNodeObject :: "'s cleanup_env \<Rightarrow> string \<Rightarrow> 's \<Rightarrow> go_error option \<times> 's" where
  "removeNodeObject E nodeName s =
     (case cDelete (nuNode E) nodeName s of
        (Inl err, s) \<Rightarrow> (if \<not> IsNotFound err then Some err else None, s)
      | (Inr _, s) \<Rightarrow> (None, s))"

fun run_cleanups :: "('s \<Rightarrow> go_error option \<times> 's) list \<Rightarrow> 's \<Rightarrow> go_error option \<times> 's" where
  "run_cleanups [] s = (None, s)"
| "run_cleanups (fn # fns) s = (case fn s of (Some err, s) \<Rightarrow> (Some err, s) | (None, s) \<Rightarrow> run_cleanups fns s)"

definition cleanupFuncs :: "'s cleanup_env \<Rightarrow> string \<Rightarrow> ('s \<Rightarrow> go_error option \<times> 's) list" where
  "cleanupFuncs E nodeName =
     map (\<lambda>f. f E nodeName)
       [removeNodeObject, removePCIDeviceClaimsOnNode, removePCIDevicesOnNode, removeSRIOVNetworkDevicesOnNode,
        removeUSBDeviceClaimsOnNode, removeUSBDevicesOnNode, removeSRIOVGPUDevicesOnNode, removeVGPUDevicesOnNode]"

text \<open>The node as its metadata, which is all the handler reads.\<close>

definition node_OnRemove :: "'s cleanup_env \<Rightarrow> object_meta option \<Rightarrow> 's \<Rightarrow> (object_meta, 's) handler_result" where
  "node_OnRemove E nodep s =
     (case nodep of None \<Rightarrow> (None, None, s) | Some node \<Rightarrow>
      if \<not> mDeletionTimestamp node then (Some node, None, s)
      else (case run_cleanups (cleanupFuncs E (mName node)) s of (err, s) \<Rightarrow> (Some node, err, s)))"

interpretation deletes: early_exit_loop "\<lambda>x. delete_each c meta [x]" "delete_each c meta" for c meta
  by unfold_locales (auto split: prod.splits sum.splits)

interpretation pdc_removals: early_exit_loop "\<lambda>c. remove_pdcs E n [c]" "remove_pdcs E n" for E n
  by unfold_locales (auto split: prod.splits sum.splits option.splits)

interpretation usbclaim_removals: early_exit_loop "\<lambda>c. remove_usbclaims E n [c]" "remove_usbclaims E n" for E n
  by unfold_locales (auto split: prod.splits sum.splits option.splits)

interpretation cleanups: early_exit_loop "\<lambda>f. f" run_cleanups
  by unfold_locales simp_all

subsection \<open>A store with finalizers\<close>

text \<open>
  The documented behaviour of the API server where finalizers matter: deleting an object with
  finalizers only marks it, and an update that leaves a marked object without finalizers
  removes it.
\<close>

definition finalizing_client ::
  "('o \<Rightarrow> object_meta) \<Rightarrow> ('o \<Rightarrow> 'o) \<Rightarrow> ('s \<Rightarrow> (string, 'o) gomap) \<Rightarrow> ((string, 'o) gomap \<Rightarrow> 's \<Rightarrow> 's) \<Rightarrow> ('o, 's) client" where
  "finalizing_client meta mark get put =
     (table_client meta (\<lambda>old new. new) (\<lambda>i x. []) get put)
       \<lparr>cUpdate := \<lambda>x s.
          (case mget (get s) (mName (meta x)) of
             None \<Rightarrow> (Inl NotFound, s)
           | Some old \<Rightarrow>
               (if mDeletionTimestamp (meta old) \<and> mFinalizers (meta x) = [] then (Inr x, put (mdel (mName (meta x)) (get s)) s)
                else (Inr x, put (mput (mName (meta x)) x (get s)) s))),
        cDelete := \<lambda>n s.
          (case mget (get s) n of
             None \<Rightarrow> (Inl NotFound, s)
           | Some old \<Rightarrow>
               (if mFinalizers (meta old) = [] then (Inr (), put (mdel n (get s)) s)
                else (Inr (), put (mput n (mark old) (get s)) s)))\<rparr>"

text \<open>A table inside a larger world, with the laws of a field.\<close>

locale object_table =
  fixes get :: "'s \<Rightarrow> (string, 'o) gomap"
    and put :: "(string, 'o) gomap \<Rightarrow> 's \<Rightarrow> 's"
  assumes get_put [simp]: "get (put t s) = t"
    and put_put [simp]: "put t (put u s) = put t s"
    and put_get [simp]: "put (get s) s = s"
begin

text \<open>A loop each of whose steps removes at most the entry of its own element.\<close>

lemma loop_removes:
  assumes "early_exit_loop body loop"
    and "\<And>x s s'. x \<in> set xs \<Longrightarrow> mget (get s) (key x) = Some x \<Longrightarrow> body x s = (None, s') \<Longrightarrow>
       \<exists>t. s' = put t s \<and> (\<forall>k. mget t k = (if own x \<and> k = key x then None else mget (get s) k))"
    and "distinct (map key xs)" "\<forall>x \<in> set xs. mget (get s) (key x) = Some x" "loop xs s = (None, s')"
  shows "\<exists>t. s' = put t s \<and> (\<forall>k. mget t k = (if k \<in> key ` set (filter own xs) then None else mget (get s) k))"
  using assms(2-5)
proof (induction xs arbitrary: s)
  case Nil
  then have "s' = s" using early_exit_loop.loop_Nil [OF assms(1)] by simp
  then show ?case by (intro exI [of _ "get s"]) simp
next
  case (Cons x xs)
  from Cons.prems(4) obtain s1 where b: "body x s = (None, s1)" and rest: "loop xs s1 = (None, s')"
    by (auto simp: early_exit_loop.loop_Cons [OF assms(1)] split: prod.splits option.splits)
  have "mget (get s) (key x) = Some x" using Cons.prems(3) by simp
  from Cons.prems(1) [OF _ this b] obtain t1 where t1: "s1 = put t1 s"
    and g1: "\<forall>k. mget t1 k = (if own x \<and> k = key x then None else mget (get s) k)" by auto
  have kept: "mget (get s1) (key y) = Some y" if "y \<in> set xs" for y
  proof -
    have "key y \<noteq> key x" using Cons.prems(2) that by (metis distinct.simps(2) image_eqI list.set_map list.simps(9))
    with Cons.prems(3) that g1 show ?thesis by (simp add: t1)
  qed
  have "\<exists>t. s' = put t s1 \<and> (\<forall>k. mget t k = (if k \<in> key ` set (filter own xs) then None else mget (get s1) k))"
  proof (rule Cons.IH)
    show "\<exists>t. s'' = put t s0 \<and> (\<forall>k. mget t k = (if own y \<and> k = key y then None else mget (get s0) k))"
      if "y \<in> set xs" "mget (get s0) (key y) = Some y" "body y s0 = (None, s'')" for y s0 s''
      using Cons.prems(1) [OF _ that(2,3)] that(1) by simp
  qed (use Cons.prems(2) kept rest in simp_all)
  moreover have "get s1 = t1" by (simp add: t1)
  ultimately obtain t where t: "s' = put t s1" "\<forall>k. mget t k = (if k \<in> key ` set (filter own xs) then None else mget t1 k)"
    by auto
  then have "\<forall>k. mget t k = (if k \<in> key ` set (filter own (x # xs)) then None else mget (get s) k)"
    using g1 by (cases "own x") simp_all
  with t(1) show ?case by (intro exI [of _ t]) (simp add: t1)
qed

end

definition cleaned :: "('o \<Rightarrow> bool) \<Rightarrow> (string, 'o) gomap \<Rightarrow> (string, 'o) gomap \<Rightarrow> bool" where
  "cleaned own t t' \<longleftrightarrow>
     (\<forall>k. mget t' k = (case mget t k of None \<Rightarrow> None | Some v \<Rightarrow> if own v then None else Some v))"

definition table_wf :: "('o \<Rightarrow> object_meta) \<Rightarrow> (string, 'o) gomap \<Rightarrow> bool" where
  "table_wf meta t \<longleftrightarrow> wf_map t \<and> (\<forall>k v. mget t k = Some v \<longrightarrow> mName (meta v) = k)"

lemma table_wf_listed:
  assumes "table_wf meta t"
  shows "distinct (map (\<lambda>v. mName (meta v)) (filter P (map snd t)))"
    and "v \<in> set (map snd t) \<longleftrightarrow> mget t (mName (meta v)) = Some v"
proof -
  have e: "\<forall>(k, v) \<in> set t. mName (meta v) = k"
    using assms in_set_mget [of t] by (auto simp: table_wf_def)
  then have "map (\<lambda>v. mName (meta v)) (map snd t) = mkeys t"
    by (auto simp: mkeys_def)
  then have "distinct (map (\<lambda>v. mName (meta v)) (map snd t))"
    using assms by (simp add: table_wf_def wf_map_def)
  then show "distinct (map (\<lambda>v. mName (meta v)) (filter P (map snd t)))"
    by (rule distinct_map_filter)
  have wf: "wf_map t" using assms by (simp add: table_wf_def)
  show "v \<in> set (map snd t) \<longleftrightarrow> mget t (mName (meta v)) = Some v"
  proof
    assume "v \<in> set (map snd t)"
    then obtain k where "(k, v) \<in> set t" by auto
    with e have "(mName (meta v), v) \<in> set t" by auto
    then show "mget t (mName (meta v)) = Some v" by (simp add: in_set_mget [OF wf])
  next
    assume "mget t (mName (meta v)) = Some v"
    from mget_in_set [OF this] show "v \<in> set (map snd t)" by force
  qed
qed

lemma cleaned_removed:
  assumes "table_wf meta t"
    and "\<forall>k. mget t' k = (if k \<in> (\<lambda>x. mName (meta x)) ` set (filter own (filter P (map snd t))) then None else mget t k)"
  shows "cleaned (\<lambda>v. P v \<and> own v) t t'"
  unfolding cleaned_def
proof
  fix k
  let ?ks = "(\<lambda>x. mName (meta x)) ` set (filter own (filter P (map snd t)))"
  note listed = table_wf_listed(2) [OF assms(1)]
  show "mget t' k = (case mget t k of None \<Rightarrow> None | Some v \<Rightarrow> if P v \<and> own v then None else Some v)"
  proof (cases "mget t k")
    case None
    then show ?thesis using assms(2) by simp
  next
    case (Some v)
    then have name: "mName (meta v) = k" using assms(1) by (simp add: table_wf_def)
    have "k \<in> ?ks \<longleftrightarrow> P v \<and> own v"
    proof
      assume "k \<in> ?ks"
      then obtain x where x: "x \<in> set (map snd t)" "P x" "own x" "k = mName (meta x)" by auto
      with Some listed [of x] have "x = v" by simp
      with x show "P v \<and> own v" by simp
    next
      assume "P v \<and> own v"
      moreover have "v \<in> set (map snd t)" using Some name listed [of v] by simp
      ultimately show "k \<in> ?ks" using name by auto
    qed
    then show ?thesis using Some assms(2) by simp
  qed
qed

context object_table
begin

text \<open>The same loop over the listed objects of a well-formed table.\<close>

lemma loop_cleans:
  assumes "early_exit_loop body loop" "table_wf meta (get s)" "loop (filter P (map snd (get s))) s = (None, s')"
    and "\<And>x s1 s2. mget (get s) (mName (meta x)) = Some x \<Longrightarrow> P x \<Longrightarrow> mget (get s1) (mName (meta x)) = Some x \<Longrightarrow>
       body x s1 = (None, s2) \<Longrightarrow>
       \<exists>t. s2 = put t s1 \<and> (\<forall>k. mget t k = (if own x \<and> k = mName (meta x) then None else mget (get s1) k))"
  shows "\<exists>t. s' = put t s \<and> cleaned (\<lambda>v. P v \<and> own v) (get s) t"
proof -
  let ?xs = "filter P (map snd (get s))"
  note listed = table_wf_listed [OF assms(2)]
  have "\<exists>t. s' = put t s \<and> (\<forall>k. mget t k = (if k \<in> (\<lambda>x. mName (meta x)) ` set (filter own ?xs) then None else mget (get s) k))"
  proof (rule loop_removes [OF assms(1), where key = "\<lambda>x. mName (meta x)" and own = own])
    show "distinct (map (\<lambda>x. mName (meta x)) ?xs)" by (rule listed(1))
    show "\<forall>x \<in> set ?xs. mget (get s) (mName (meta x)) = Some x" using listed(2) by auto
    show "\<exists>t. s2 = put t s1 \<and> (\<forall>k. mget t k = (if own x \<and> k = mName (meta x) then None else mget (get s1) k))"
      if "x \<in> set ?xs" "mget (get s1) (mName (meta x)) = Some x" "body x s1 = (None, s2)" for x s1 s2
      using assms(4) [OF _ _ that(2,3)] that(1) listed(2) [of x] by auto
  qed (rule assms(3))
  with cleaned_removed [OF assms(2)] show ?thesis by blast
qed

text \<open>One object: its finalizers are taken off first where that is needed.\<close>

lemma strip_then_delete:
  assumes "mget (get s) (mName (meta x)) = Some x" "mName (meta x') = mName (meta x)" "mFinalizers (meta x') = []"
    and "needed \<or> mFinalizers (meta x) = []"
    and "(case (if needed then (case cUpdate (finalizing_client meta mark get put) x' s of (Inl err, s) \<Rightarrow> (Some (f err), s) | (Inr _, s) \<Rightarrow> (None, s))
                else (None, s)) of
            (Some err, s) \<Rightarrow> (Some err, s)
          | (None, s) \<Rightarrow> (case cDelete (finalizing_client meta mark get put) (mName (meta x)) s of
                (Inl err, s) \<Rightarrow> (Some err, s) | (Inr _, s) \<Rightarrow> (None, s))) = (None, s')"
  shows "\<exists>t. s' = put t s \<and> (\<forall>k. mget t k = (if k = mName (meta x) then None else mget (get s) k))"
proof (cases needed)
  case True
  let ?t = "mput (mName (meta x)) x' (get s)"
  have "\<not> mDeletionTimestamp (meta x)"
    using True assms by (auto simp: finalizing_client_def)
  then show ?thesis
    using True assms by (intro exI [of _ "mdel (mName (meta x)) ?t"]) (simp add: finalizing_client_def)
next
  case False
  with assms show ?thesis
    by (intro exI [of _ "mdel (mName (meta x)) (get s)"]) (simp add: finalizing_client_def)
qed

lemma delete_listed_cleans:
  assumes "delete_listed (finalizing_client meta mark get put) meta n s = (None, s')" "table_wf meta (get s)"
    and "\<And>k v. mget (get s) k = Some v \<Longrightarrow> mget (mLabels (meta v)) NodeKeyName = Some n \<Longrightarrow> mFinalizers (meta v) = []"
  shows "\<exists>t. s' = put t s \<and> cleaned (\<lambda>v. mget (mLabels (meta v)) NodeKeyName = Some n) (get s) t"
proof -
  let ?c = "finalizing_client meta mark get put" and ?P = "\<lambda>v. mget (mLabels (meta v)) NodeKeyName = Some n"
  have "cList ?c [(NodeKeyName, n)] s = Inr (filter ?P (map snd (get s)))"
    by (simp add: finalizing_client_def table_client_def selects_def)
  with assms(1) have run: "delete_each ?c meta (filter ?P (map snd (get s))) s = (None, s')" by (simp add: delete_listed_def)
  have "\<exists>t. s' = put t s \<and> cleaned (\<lambda>v. ?P v \<and> True) (get s) t"
  proof (rule loop_cleans [where loop = "delete_each ?c meta" and P = ?P and body = "\<lambda>x. delete_each ?c meta [x]", OF _ assms(2) run])
    show "early_exit_loop (\<lambda>x. delete_each ?c meta [x]) (delete_each ?c meta)" by unfold_locales
    show "\<exists>t. s2 = put t s1 \<and> (\<forall>k. mget t k = (if True \<and> k = mName (meta x) then None else mget (get s1) k))"
      if "mget (get s) (mName (meta x)) = Some x" "?P x" "mget (get s1) (mName (meta x)) = Some x" "delete_each ?c meta [x] s1 = (None, s2)" for x s1 s2
      using that assms(3) [OF that(1,2)]
      by (intro exI [of _ "mdel (mName (meta x)) (get s1)"]) (simp add: finalizing_client_def)
  qed
  then show ?thesis by simp
qed

end

subsection \<open>The cluster\<close>

record cluster =
  clPdc :: "(string, PCIDeviceClaim) gomap"
  clPd :: "(string, PCIDevice) gomap"
  clSriov :: "(string, SRIOVNetworkDevice) gomap"
  clGpu :: "(string, SRIOVGPUDevice) gomap"
  clVgpu :: "(string, VGPUDevice) gomap"
  clUsbClaim :: "(string, USBDeviceClaim) gomap"
  clUsb :: "(string, USBDevice) gomap"
  clNode :: "(string, DevicesNode) gomap"

definition cluster_env :: "cluster cleanup_env" where
  "cluster_env =
     \<lparr>nuPdc = finalizing_client pcMeta (pcMeta_update (mDeletionTimestamp_update (\<lambda>_. True))) clPdc (\<lambda>t s. s\<lparr>clPdc := t\<rparr>),
      nuPd = finalizing_client pdMeta (pdMeta_update (mDeletionTimestamp_update (\<lambda>_. True))) clPd (\<lambda>t s. s\<lparr>clPd := t\<rparr>),
      nuSriov = finalizing_client snMeta (snMeta_update (mDeletionTimestamp_update (\<lambda>_. True))) clSriov (\<lambda>t s. s\<lparr>clSriov := t\<rparr>),
      nuGpu = finalizing_client sgMeta (sgMeta_update (mDeletionTimestamp_update (\<lambda>_. True))) clGpu (\<lambda>t s. s\<lparr>clGpu := t\<rparr>),
      nuVgpu = finalizing_client vgMeta (vgMeta_update (mDeletionTimestamp_update (\<lambda>_. True))) clVgpu (\<lambda>t s. s\<lparr>clVgpu := t\<rparr>),
      nuUsbClaim = finalizing_client ucMeta (ucMeta_update (mDeletionTimestamp_update (\<lambda>_. True))) clUsbClaim (\<lambda>t s. s\<lparr>clUsbClaim := t\<rparr>),
      nuUsb = finalizing_client udMeta (udMeta_update (mDeletionTimestamp_update (\<lambda>_. True))) clUsb (\<lambda>t s. s\<lparr>clUsb := t\<rparr>),
      nuNode = finalizing_client dnMeta (dnMeta_update (mDeletionTimestamp_update (\<lambda>_. True))) clNode (\<lambda>t s. s\<lparr>clNode := t\<rparr>)\<rparr>"

interpretation pdcs: object_table clPdc "\<lambda>t s. s\<lparr>clPdc := t\<rparr>" by unfold_locales simp_all
interpretation pds: object_table clPd "\<lambda>t s. s\<lparr>clPd := t\<rparr>" by unfold_locales simp_all
interpretation sriov_nets: object_table clSriov "\<lambda>t s. s\<lparr>clSriov := t\<rparr>" by unfold_locales simp_all
interpretation sriov_gpus: object_table clGpu "\<lambda>t s. s\<lparr>clGpu := t\<rparr>" by unfold_locales simp_all
interpretation vgpu_objs: object_table clVgpu "\<lambda>t s. s\<lparr>clVgpu := t\<rparr>" by unfold_locales simp_all
interpretation usb_claims: object_table clUsbClaim "\<lambda>t s. s\<lparr>clUsbClaim := t\<rparr>" by unfold_locales simp_all
interpretation usb_devs: object_table clUsb "\<lambda>t s. s\<lparr>clUsb := t\<rparr>" by unfold_locales simp_all

lemma removePCIDeviceClaimsOnNode_cleans:
  assumes "removePCIDeviceClaimsOnNode cluster_env n s = (None, s')" "table_wf pcMeta (clPdc s)"
    and "\<And>k v. mget (clPdc s) k = Some v \<Longrightarrow> pcNodeName (pcSpec v) = n \<Longrightarrow> mFinalizers (pcMeta v) \<in> {[], [wranglerFinalizer]}"
  shows "\<exists>t. s' = s\<lparr>clPdc := t\<rparr> \<and> cleaned (\<lambda>v. pcNodeName (pcSpec v) = n) (clPdc s) t"
proof -
  let ?own = "\<lambda>v. pcNodeName (pcSpec v) = n"
  have run: "remove_pdcs cluster_env n (filter (\<lambda>v. True) (map snd (clPdc s))) s = (None, s')"
    using assms(1) by (simp add: removePCIDeviceClaimsOnNode_def cluster_env_def finalizing_client_def table_client_def selects_def)
  have "\<exists>t. s' = s\<lparr>clPdc := t\<rparr> \<and> cleaned (\<lambda>v. True \<and> ?own v) (clPdc s) t"
  proof (rule pdcs.loop_cleans [where loop = "remove_pdcs cluster_env n" and P = "\<lambda>v. True" and body = "\<lambda>x. remove_pdcs cluster_env n [x]", OF _ assms(2) run])
    show "early_exit_loop (\<lambda>x. remove_pdcs cluster_env n [x]) (remove_pdcs cluster_env n)" by unfold_locales
    show "\<exists>t. s2 = s1\<lparr>clPdc := t\<rparr> \<and> (\<forall>k. mget t k = (if ?own x \<and> k = mName (pcMeta x) then None else mget (clPdc s1) k))"
      if x: "mget (clPdc s) (mName (pcMeta x)) = Some x" "mget (clPdc s1) (mName (pcMeta x)) = Some x"
        "remove_pdcs cluster_env n [x] s1 = (None, s2)" for x s1 s2
    proof (cases "?own x")
      case True
      have client: "nuPdc cluster_env =
          finalizing_client pcMeta (pcMeta_update (mDeletionTimestamp_update (\<lambda>_. True))) clPdc (\<lambda>t s. s\<lparr>clPdc := t\<rparr>)"
        by (simp add: cluster_env_def)
      have fin: "mFinalizers (pcMeta x) \<in> {[], [wranglerFinalizer]}" using assms(3) [OF x(1) True] .
      then have name: "pcName (pdc_without x) = pcName x" "mFinalizers (pcMeta (pdc_without x)) = []"
        by (auto simp: pdc_without_def)
      have "containsFinalizer (mFinalizers (pcMeta x)) wranglerFinalizer \<or> mFinalizers (pcMeta x) = []" using fin by auto
      with x(3) show ?thesis
        unfolding remove_pdcs.simps True client
        using pdcs.strip_then_delete [where meta = pcMeta and x = x and x' = "pdc_without x" and s = s1
            and needed = "containsFinalizer (mFinalizers (pcMeta x)) wranglerFinalizer", OF x(2) name] by simp
    next
      case False
      then show ?thesis using x(3) by (intro exI [of _ "clPdc s1"]) simp
    qed
  qed
  then show ?thesis by simp
qed

lemma removeUSBDeviceClaimsOnNode_cleans:
  assumes "removeUSBDeviceClaimsOnNode cluster_env n s = (None, s')" "table_wf ucMeta (clUsbClaim s)"
  shows "\<exists>t. s' = s\<lparr>clUsbClaim := t\<rparr> \<and> cleaned (\<lambda>v. ucNodeName v = n) (clUsbClaim s) t"
proof -
  let ?own = "\<lambda>v. ucNodeName v = n"
  have run: "remove_usbclaims cluster_env n (filter (\<lambda>v. True) (map snd (clUsbClaim s))) s = (None, s')"
    using assms(1) by (simp add: removeUSBDeviceClaimsOnNode_def cluster_env_def finalizing_client_def table_client_def selects_def)
  have "\<exists>t. s' = s\<lparr>clUsbClaim := t\<rparr> \<and> cleaned (\<lambda>v. True \<and> ?own v) (clUsbClaim s) t"
  proof (rule usb_claims.loop_cleans [where loop = "remove_usbclaims cluster_env n" and P = "\<lambda>v. True" and body = "\<lambda>x. remove_usbclaims cluster_env n [x]", OF _ assms(2) run])
    show "early_exit_loop (\<lambda>x. remove_usbclaims cluster_env n [x]) (remove_usbclaims cluster_env n)" by unfold_locales
    show "\<exists>t. s2 = s1\<lparr>clUsbClaim := t\<rparr> \<and> (\<forall>k. mget t k = (if ?own x \<and> k = mName (ucMeta x) then None else mget (clUsbClaim s1) k))"
      if x: "mget (clUsbClaim s1) (mName (ucMeta x)) = Some x" "remove_usbclaims cluster_env n [x] s1 = (None, s2)" for x s1 s2
    proof (cases "?own x")
      case True
      have client: "nuUsbClaim cluster_env =
          finalizing_client ucMeta (ucMeta_update (mDeletionTimestamp_update (\<lambda>_. True))) clUsbClaim (\<lambda>t s. s\<lparr>clUsbClaim := t\<rparr>)"
        by (simp add: cluster_env_def)
      have name: "ucName (usbclaim_without x) = ucName x" "mFinalizers (ucMeta (usbclaim_without x)) = []"
        by (simp_all add: usbclaim_without_def)
      from x(2) show ?thesis
        unfolding remove_usbclaims.simps True client
        using usb_claims.strip_then_delete [where meta = ucMeta and x = x and x' = "usbclaim_without x" and s = s1
            and needed = "length (mFinalizers (ucMeta x)) \<noteq> 0", OF x(1) name] by simp
    next
      case False
      then show ?thesis using x(2) by (intro exI [of _ "clUsbClaim s1"]) simp
    qed
  qed
  then show ?thesis by simp
qed

definition cluster_wf :: "cluster \<Rightarrow> bool" where
  "cluster_wf s \<longleftrightarrow> table_wf pcMeta (clPdc s) \<and> table_wf pdMeta (clPd s) \<and> table_wf snMeta (clSriov s) \<and> table_wf sgMeta (clGpu s)
     \<and> table_wf vgMeta (clVgpu s) \<and> table_wf ucMeta (clUsbClaim s) \<and> table_wf udMeta (clUsb s)"

definition no_finalizers :: "('o \<Rightarrow> object_meta) \<Rightarrow> string \<Rightarrow> (string, 'o) gomap \<Rightarrow> bool" where
  "no_finalizers meta n t \<longleftrightarrow>
     (\<forall>k v. mget t k = Some v \<and> mget (mLabels (meta v)) NodeKeyName = Some n \<longrightarrow> mFinalizers (meta v) = [])"

definition own_finalizers :: "string \<Rightarrow> cluster \<Rightarrow> bool" where
  "own_finalizers n s \<longleftrightarrow>
     (\<forall>k v. mget (clPdc s) k = Some v \<and> pcNodeName (pcSpec v) = n \<longrightarrow> mFinalizers (pcMeta v) \<in> {[], [wranglerFinalizer]})
     \<and> no_finalizers pdMeta n (clPd s) \<and> no_finalizers snMeta n (clSriov s) \<and> no_finalizers sgMeta n (clGpu s)
     \<and> no_finalizers vgMeta n (clVgpu s) \<and> no_finalizers udMeta n (clUsb s)
     \<and> (\<forall>v. mget (clNode s) n = Some v \<longrightarrow> mFinalizers (dnMeta v) = [])"

abbreviation labelled :: "('o \<Rightarrow> object_meta) \<Rightarrow> string \<Rightarrow> 'o \<Rightarrow> bool" where
  "labelled meta n v \<equiv> mget (mLabels (meta v)) NodeKeyName = Some n"

lemma removeNodeObject_cleans:
  assumes "removeNodeObject cluster_env n s = (None, s')" "\<forall>v. mget (clNode s) n = Some v \<longrightarrow> mFinalizers (dnMeta v) = []"
  shows "\<exists>t. s' = s\<lparr>clNode := t\<rparr> \<and> (\<forall>k. mget t k = (if k = n then None else mget (clNode s) k))"
proof (cases "mget (clNode s) n")
  case None
  then have "s' = s" using assms(1) by (simp add: removeNodeObject_def cluster_env_def finalizing_client_def)
  with None show ?thesis by (intro exI [of _ "clNode s"]) simp
next
  case (Some v)
  then have "s' = s\<lparr>clNode := mdel n (clNode s)\<rparr>"
    using assms by (simp add: removeNodeObject_def cluster_env_def finalizing_client_def)
  then show ?thesis by (intro exI [of _ "mdel n (clNode s)"]) simp
qed

lemmas node_wf = cluster_wf_def own_finalizers_def no_finalizers_def

text \<open>
  Property C9.  When the cleanup for a removed node reports no error, every object and claim of
  that node is gone and every other object of the cluster is unchanged.  This holds for a
  well-formed cluster in which the objects of the node carry no finalizers of other parties:
  the devices none, and the PCI device claims none but that of their own controller.
\<close>

theorem node_OnRemove_cleans:
  assumes "node_OnRemove cluster_env (Some node) s = (r, None, s')" "mDeletionTimestamp node"
    and "cluster_wf s" "own_finalizers (mName node) s"
  shows "cleaned (\<lambda>v. pcNodeName (pcSpec v) = mName node) (clPdc s) (clPdc s')
    \<and> cleaned (\<lambda>v. ucNodeName v = mName node) (clUsbClaim s) (clUsbClaim s')
    \<and> cleaned (labelled pdMeta (mName node)) (clPd s) (clPd s')
    \<and> cleaned (labelled snMeta (mName node)) (clSriov s) (clSriov s')
    \<and> cleaned (labelled udMeta (mName node)) (clUsb s) (clUsb s')
    \<and> cleaned (labelled sgMeta (mName node)) (clGpu s) (clGpu s')
    \<and> cleaned (labelled vgMeta (mName node)) (clVgpu s) (clVgpu s')
    \<and> (\<forall>k. mget (clNode s') k = (if k = mName node then None else mget (clNode s) k))"
proof -
  let ?n = "mName node"
  note env = cluster_env_def
  from assms(1,2) obtain s1 s2 s3 s4 s5 s6 s7 where
    run: "removeNodeObject cluster_env ?n s = (None, s1)" "removePCIDeviceClaimsOnNode cluster_env ?n s1 = (None, s2)"
      "removePCIDevicesOnNode cluster_env ?n s2 = (None, s3)" "removeSRIOVNetworkDevicesOnNode cluster_env ?n s3 = (None, s4)"
      "removeUSBDeviceClaimsOnNode cluster_env ?n s4 = (None, s5)" "removeUSBDevicesOnNode cluster_env ?n s5 = (None, s6)"
      "removeSRIOVGPUDevicesOnNode cluster_env ?n s6 = (None, s7)" "removeVGPUDevicesOnNode cluster_env ?n s7 = (None, s')"
    by (auto simp: node_OnRemove_def cleanupFuncs_def split: prod.splits option.splits)
  obtain t1 where t1: "s1 = s\<lparr>clNode := t1\<rparr>" "\<forall>k. mget t1 k = (if k = ?n then None else mget (clNode s) k)"
    using removeNodeObject_cleans [OF run(1)] assms(4) by (auto simp: own_finalizers_def)
  obtain t2 where t2: "s2 = s1\<lparr>clPdc := t2\<rparr>" "cleaned (\<lambda>v. pcNodeName (pcSpec v) = ?n) (clPdc s) t2"
    using removePCIDeviceClaimsOnNode_cleans [OF run(2)] assms(3,4) t1(1) by (auto simp: cluster_wf_def own_finalizers_def)
  obtain t3 where t3: "s3 = s2\<lparr>clPd := t3\<rparr>" "cleaned (labelled pdMeta ?n) (clPd s) t3"
    using pds.delete_listed_cleans [OF run(3) [unfolded removePCIDevicesOnNode_def env, simplified]] assms(3,4) t1(1) t2(1)
    by (auto simp: node_wf)
  obtain t4 where t4: "s4 = s3\<lparr>clSriov := t4\<rparr>" "cleaned (labelled snMeta ?n) (clSriov s) t4"
    using sriov_nets.delete_listed_cleans [OF run(4) [unfolded removeSRIOVNetworkDevicesOnNode_def env, simplified]] assms(3,4) t1(1) t2(1) t3(1)
    by (auto simp: node_wf)
  obtain t5 where t5: "s5 = s4\<lparr>clUsbClaim := t5\<rparr>" "cleaned (\<lambda>v. ucNodeName v = ?n) (clUsbClaim s) t5"
    using removeUSBDeviceClaimsOnNode_cleans [OF run(5)] assms(3) t1(1) t2(1) t3(1) t4(1) by (auto simp: cluster_wf_def)
  obtain t6 where t6: "s6 = s5\<lparr>clUsb := t6\<rparr>" "cleaned (labelled udMeta ?n) (clUsb s) t6"
    using usb_devs.delete_listed_cleans [OF run(6) [unfolded removeUSBDevicesOnNode_def env, simplified]] assms(3,4) t1(1) t2(1) t3(1) t4(1) t5(1)
    by (auto simp: node_wf)
  obtain t7 where t7: "s7 = s6\<lparr>clGpu := t7\<rparr>" "cleaned (labelled sgMeta ?n) (clGpu s) t7"
    using sriov_gpus.delete_listed_cleans [OF run(7) [unfolded removeSRIOVGPUDevicesOnNode_def env, simplified]] assms(3,4) t1(1) t2(1) t3(1) t4(1) t5(1) t6(1)
    by (auto simp: node_wf)
  obtain t8 where t8: "s' = s7\<lparr>clVgpu := t8\<rparr>" "cleaned (labelled vgMeta ?n) (clVgpu s) t8"
    using vgpu_objs.delete_listed_cleans [OF run(8) [unfolded removeVGPUDevicesOnNode_def env, simplified]] assms(3,4) t1(1) t2(1) t3(1) t4(1) t5(1) t6(1) t7(1)
    by (auto simp: node_wf)
  show ?thesis using t1 t2 t3 t4 t5 t6 t7 t8 by simp
qed

definition demo_claim :: "string \<Rightarrow> string \<Rightarrow> bool \<Rightarrow> PCIDeviceClaim" where
  "demo_claim name n terminating =
     \<lparr>pcMeta = empty_meta\<lparr>mName := name, mFinalizers := [wranglerFinalizer], mDeletionTimestamp := terminating\<rparr>,
      pcSpec = \<lparr>pcAddress = ''0000:04:00.0'', pcNodeName = n, pcUserName = ''admin'', pcDisableResourcePooling = False\<rparr>,
      pcStatus = \<lparr>pcKernelDriverToUnbind = [], pcPassthroughEnabled = True\<rparr>\<rparr>"

definition demo_cluster :: "bool \<Rightarrow> cluster" where
  "demo_cluster terminating =
     \<lparr>clPdc = [(''a'', demo_claim ''a'' ''n1'' terminating), (''b'', demo_claim ''b'' ''n2'' False)],
      clPd = [], clSriov = [], clGpu = [], clVgpu = [],
      clUsbClaim = [(''u'', \<lparr>ucMeta = empty_meta\<lparr>mName := ''u'', mFinalizers := [''f'', ''g'']\<rparr>, ucUserName = ''admin'', ucNodeName = ''n1'', ucPCIAddress = []\<rparr>)],
      clUsb = [], clNode = [(''n1'', \<lparr>dnMeta = empty_meta\<lparr>mName := ''n1''\<rparr>\<rparr>)]\<rparr>"

definition demo_removed :: object_meta where
  "demo_removed = empty_meta\<lparr>mName := ''n1'', mDeletionTimestamp := True\<rparr>"

theorem node_OnRemove_cleans_witness:
  "\<exists>r s'. node_OnRemove cluster_env (Some demo_removed) (demo_cluster False) = (r, None, s')
     \<and> mget (clPdc s') ''a'' = None \<and> mget (clPdc s') ''b'' = Some (demo_claim ''b'' ''n2'' False) \<and> mget (clUsbClaim s') ''u'' = None"
proof -
  have "fst (snd (node_OnRemove cluster_env (Some demo_removed) (demo_cluster False))) = None" by code_simp
  then obtain r s' where run: "node_OnRemove cluster_env (Some demo_removed) (demo_cluster False) = (r, None, s')"
    by (metis prod.collapse)
  have "mDeletionTimestamp demo_removed" "mName demo_removed = ''n1''" by (simp_all add: demo_removed_def)
  moreover have "cluster_wf (demo_cluster False)"
    by (simp add: cluster_wf_def table_wf_def demo_cluster_def demo_claim_def wf_map_def mkeys_def mget_Cons)
  moreover have "own_finalizers ''n1'' (demo_cluster False)"
    by (simp add: own_finalizers_def no_finalizers_def demo_cluster_def demo_claim_def empty_meta_def mget_Cons)
  ultimately have "cleaned (\<lambda>v. pcNodeName (pcSpec v) = ''n1'') (clPdc (demo_cluster False)) (clPdc s')"
    "cleaned (\<lambda>v. ucNodeName v = ''n1'') (clUsbClaim (demo_cluster False)) (clUsbClaim s')"
    using node_OnRemove_cleans [OF run] by simp_all
  with run show ?thesis
    by (simp add: cleaned_def demo_cluster_def demo_claim_def mget_Cons)
qed

text \<open>A claim that is already being deleted disappears with its finalizer, so that deleting it
  fails and the cleanup stops with an error before the devices are removed.\<close>

lemma terminating_claim_stops_cleanup:
  "fst (snd (node_OnRemove cluster_env (Some demo_removed) (demo_cluster True))) = Some NotFound"
  by code_simp

end
