(* ===== verification/Usb_Reconcile.thy ===== *)
theory Usb_Reconcile
  imports Usb_Device_Controller
begin

section \<open>What a USB reconcile leaves behind\<close>

text \<open>
  An abstract specification of \<^verbatim>\<open>Reconcile\<close> (\<^verbatim>\<open>pkg/controller/usbdevice/usbdevice_controller.go\<close>) and its
  refinement.  The abstract state is the set of descriptions the objects of the node publish
  (\<open>usb_view\<close>); the abstract operation replaces it by the descriptions of the devices on the bus
  (\<open>bus_view\<close>).  The refinement is shown for clients over tables of objects
  (\<open>table_client\<close>), through one lemma per loop of \<^verbatim>\<open>handleList\<close>.
\<close>

type_synonym usb_description = "string \<times> string \<times> string \<times> string \<times> string"

definition describe_object :: "USBDevice \<Rightarrow> usb_description" where
  "describe_object v = (udDevicePath (udStatus v), udVendorID (udStatus v), udProductID (udStatus v),
     udDescription (udStatus v), udClassType (udStatus v))"

definition describe_device :: "Parser \<Rightarrow> PluginUSBDevice \<Rightarrow> usb_description" where
  "describe_device t d = (puDevicePath d, fmt_hex 4 (puVendor d), fmt_hex 4 (puProduct d), usbDescription t d, puClassType d)"

type_synonym usb_table = "(string, USBDevice) gomap"

definition owned :: "'s usb_env \<Rightarrow> USBDevice \<Rightarrow> bool" where
  "owned E v \<longleftrightarrow> selects (labels E) (mLabels (udMeta v))"

definition usb_view :: "'s usb_env \<Rightarrow> usb_table \<Rightarrow> usb_description set" where
  "usb_view E t = {describe_object v | k v. mget t k = Some v \<and> owned E v}"

definition bus_view :: "'s usb_env \<Rightarrow> (int, PluginUSBDevice list) gomap \<Rightarrow> usb_description set" where
  "bus_view E localDevs = describe_device (ueIds E) ` set (concat (map snd localDevs))"

text \<open>A table of objects: filed under their names, at most one object of the node for a path.\<close>

definition usb_table_ok :: "'s usb_env \<Rightarrow> usb_table \<Rightarrow> bool" where
  "usb_table_ok E t \<longleftrightarrow> wf_map t \<and> (\<forall>k v. mget t k = Some v \<longrightarrow> udName v = k)
     \<and> (\<forall>k v k' v'. mget t k = Some v \<and> owned E v \<and> mget t k' = Some v' \<and> owned E v'
          \<and> udDevicePath (udStatus v) = udDevicePath (udStatus v') \<longrightarrow> k = k')"

definition over_tables :: "demo_usb_world usb_env \<Rightarrow> bool" where
  "over_tables E \<longleftrightarrow>
     ueUsb E = table_client udMeta (\<lambda>old new. old\<lparr>udStatus := udStatus new\<rparr>) (\<lambda>i x. []) dwUsb (\<lambda>m s. s\<lparr>dwUsb := m\<rparr>)
     \<and> ueClaim E = table_client ucMeta (\<lambda>old new. new) (\<lambda>i x. []) dwClaim (\<lambda>m s. s\<lparr>dwClaim := m\<rparr>)"

subsection \<open>The loops\<close>

lemma over_tables_ops:
  assumes "over_tables E"
  shows "cCreate (ueUsb E) x s = (if mhas (dwUsb s) (udName x) then (Inl AlreadyExists, s)
      else (Inr x, s\<lparr>dwUsb := mput (udName x) x (dwUsb s)\<rparr>))"
    and "cUpdateStatus (ueUsb E) x s = (case mget (dwUsb s) (udName x) of None \<Rightarrow> (Inl NotFound, s)
      | Some old \<Rightarrow> (Inr (old\<lparr>udStatus := udStatus x\<rparr>), s\<lparr>dwUsb := mput (udName x) (old\<lparr>udStatus := udStatus x\<rparr>) (dwUsb s)\<rparr>))"
    and "cDelete (ueUsb E) k s = (if mhas (dwUsb s) k then (Inr (), s\<lparr>dwUsb := mdel k (dwUsb s)\<rparr>) else (Inl NotFound, s))"
    and "cDelete (ueClaim E) k s = (if mhas (dwClaim s) k then (Inr (), s\<lparr>dwClaim := mdel k (dwClaim s)\<rparr>) else (Inl NotFound, s))"
    and "cList (ueUsb E) sel s = Inr (filter (\<lambda>v. selects sel (mLabels (udMeta v))) (map snd (dwUsb s)))"
  using assms by (simp_all add: over_tables_def table_client_def)

lemma create_all_table:
  assumes "over_tables E" "create_all E (map (new_object E n) ds) s = (None, s')" "wf_map (dwUsb s)"
  shows "wf_map (dwUsb s')
    \<and> (\<forall>d \<in> set ds. mget (dwUsb s) (usbDeviceName n d) = None \<and> mget (dwUsb s') (usbDeviceName n d) = Some (new_object E n d))
    \<and> (\<forall>k. k \<notin> usbDeviceName n ` set ds \<longrightarrow> mget (dwUsb s') k = mget (dwUsb s) k)"
  using assms(2,3)
proof (induction ds arbitrary: s)
  case (Cons d ds)
  let ?k = "usbDeviceName n d" and ?s1 = "s\<lparr>dwUsb := mput (usbDeviceName n d) (new_object E n d) (dwUsb s)\<rparr>"
  have head: "\<not> mhas (dwUsb s) ?k" "create_all E (map (new_object E n) ds) ?s1 = (None, s')"
    using Cons.prems(1) by (auto simp: over_tables_ops [OF assms(1)] new_object_def [of E n d] mput_mput split: if_splits)
  from Cons.IH [OF head(2)] Cons.prems(2)
  have IH: "wf_map (dwUsb s')" "\<forall>x \<in> set ds. mget (dwUsb ?s1) (usbDeviceName n x) = None
      \<and> mget (dwUsb s') (usbDeviceName n x) = Some (new_object E n x)"
    "\<forall>k. k \<notin> usbDeviceName n ` set ds \<longrightarrow> mget (dwUsb s') k = mget (dwUsb ?s1) k" by simp_all
  then have "?k \<notin> usbDeviceName n ` set ds" by (auto split: if_splits)
  with IH head(1) show ?case by (auto simp: mhas_def split: if_splits)
qed simp

lemma update_all_table:
  assumes "over_tables E" "update_all E us s = (None, s')" "wf_map (dwUsb s)" "distinct (map udName us)"
  shows "wf_map (dwUsb s')
    \<and> (\<forall>u \<in> set us. \<exists>old. mget (dwUsb s) (udName u) = Some old \<and> mget (dwUsb s') (udName u) = Some (old\<lparr>udStatus := udStatus u\<rparr>))
    \<and> (\<forall>k. k \<notin> udName ` set us \<longrightarrow> mget (dwUsb s') k = mget (dwUsb s) k)"
  using assms(2-4)
proof (induction us arbitrary: s)
  case (Cons u us)
  from Cons.prems(1) assms(1) obtain old where old: "mget (dwUsb s) (udName u) = Some old"
    and rest: "update_all E us (s\<lparr>dwUsb := mput (udName u) (old\<lparr>udStatus := udStatus u\<rparr>) (dwUsb s)\<rparr>) = (None, s')"
    by (auto simp: over_tables_ops split: option.splits)
  from Cons.IH [OF rest] Cons.prems(2,3) old show ?case by (auto split: if_splits)
qed simp

lemma orphan_all_table:
  assumes "over_tables E" "wf_map (dwUsb s)"
  shows "wf_map (dwUsb (orphan_all E ds s))
    \<and> (\<forall>k. k \<notin> udName ` set ds \<longrightarrow> mget (dwUsb (orphan_all E ds s)) k = mget (dwUsb s) k)"
  using assms(2)
proof (induction ds arbitrary: s)
  case (Cons d ds)
  define s1 where "s1 = (case cDelete (ueClaim E) (udName d) s of (Inr _, s) \<Rightarrow> s
      | (Inl err, s) \<Rightarrow> snd (cUpdateStatus (ueUsb E)
            (d\<lparr>udStatus := (udStatus d)\<lparr>udStatusText := USBDeviceStatusOrphaned, udMessage := orphan_message\<rparr>\<rparr>) s))"
  have "orphan_all E (d # ds) s = orphan_all E ds s1"
    by (auto simp: s1_def split: prod.split sum.split)
  moreover have "wf_map (dwUsb s1) \<and> (\<forall>k. k \<noteq> udName d \<longrightarrow> mget (dwUsb s1) k = mget (dwUsb s) k)"
    using assms(1) Cons.prems by (auto simp: s1_def over_tables_ops split: option.split)
  ultimately show ?case using Cons.IH [of s1] by auto
qed simp

lemma delete_all_table:
  assumes "over_tables E" "delete_all E ds s = (None, s')" "wf_map (dwUsb s)"
  shows "wf_map (dwUsb s') \<and> (\<forall>k. mget (dwUsb s') k = (if k \<in> udName ` set ds then None else mget (dwUsb s) k))"
  using assms(2,3)
proof (induction ds arbitrary: s)
  case (Cons d ds)
  from Cons.prems(1) assms(1) have "delete_all E ds (s\<lparr>dwUsb := mdel (udName d) (dwUsb s)\<rparr>) = (None, s')"
    by (auto simp: over_tables_ops split: if_splits)
  from Cons.IH [OF this] Cons.prems(2) show ?case by auto
qed simp

lemma mget_stored:
  assumes "distinct (map (\<lambda>d. udDevicePath (udStatus d)) ds)"
  shows "wf_map (foldl (\<lambda>m d. mput (udDevicePath (udStatus d)) d m) [] ds)
    \<and> (mget (foldl (\<lambda>m d. mput (udDevicePath (udStatus d)) d m) [] ds) p = Some v
        \<longleftrightarrow> v \<in> set ds \<and> udDevicePath (udStatus v) = p)"
  using assms
proof (induction ds rule: rev_induct)
  case (snoc d ds)
  then show ?case by (auto simp: image_iff)
qed simp

text \<open>The table after the four loops of \<^verbatim>\<open>handleList\<close>, in terms of the lists they work through.\<close>

lemma handleList_table:
  assumes E: "over_tables E" and l: "handleList E l s = (None, s')" and wf: "wf_map (dwUsb s)"
    and new: "ulCreate l = map (new_object E n) ds" and upd: "distinct (map udName (ulUpdate l))"
    and orphans: "set (ulOrphaned l) \<subseteq> set (ulDelete l)"
    and gone: "\<forall>v \<in> set (ulDelete l). mhas (dwUsb s) (udName v) \<and> udName v \<notin> udName ` set (ulUpdate l)"
    and old: "\<forall>u \<in> set (ulUpdate l). mhas (dwUsb s) (udName u)"
  shows "wf_map (dwUsb s')"
    and "d \<in> set ds \<Longrightarrow> mget (dwUsb s) (usbDeviceName n d) = None \<and> mget (dwUsb s') (usbDeviceName n d) = Some (new_object E n d)"
    and "u \<in> set (ulUpdate l) \<Longrightarrow> \<exists>v. mget (dwUsb s) (udName u) = Some v \<and> mget (dwUsb s') (udName u) = Some (v\<lparr>udStatus := udStatus u\<rparr>)"
    and "k \<notin> usbDeviceName n ` set ds \<Longrightarrow> k \<notin> udName ` set (ulUpdate l) \<Longrightarrow>
      mget (dwUsb s') k = (if k \<in> udName ` set (ulDelete l) then None else mget (dwUsb s) k)"
proof -
  obtain s1 s2 where c: "create_all E (map (new_object E n) ds) s = (None, s1)"
    and u: "update_all E (ulUpdate l) s1 = (None, s2)"
    and d: "delete_all E (ulDelete l) (orphan_all E (ulOrphaned l) s2) = (None, s')"
    using l new by (auto simp: handleList_def split: prod.splits option.splits)
  note C = create_all_table [OF E c wf]
  note U = update_all_table [OF E u conjunct1 [OF C] upd]
  note O = orphan_all_table [OF E conjunct1 [OF U], of "ulOrphaned l"]
  note D = delete_all_table [OF E d conjunct1 [OF O]]
  have fresh: "usbDeviceName n x \<notin> udName ` set (ulDelete l)" "usbDeviceName n x \<notin> udName ` set (ulUpdate l)" if "x \<in> set ds" for x
  proof -
    have "\<not> mhas (dwUsb s) (usbDeviceName n x)" using that C by (simp add: mhas_def)
    then show "usbDeviceName n x \<notin> udName ` set (ulDelete l)" "usbDeviceName n x \<notin> udName ` set (ulUpdate l)"
      using gone old by auto
  qed
  have same: "mget (dwUsb s') k = mget (dwUsb s2) k" if "k \<notin> udName ` set (ulDelete l)" for k
  proof -
    have "k \<notin> udName ` set (ulOrphaned l)" using that orphans by auto
    with that O D show ?thesis by simp
  qed
  show "wf_map (dwUsb s')" using D by simp
  show "mget (dwUsb s) (usbDeviceName n d) = None \<and> mget (dwUsb s') (usbDeviceName n d) = Some (new_object E n d)" if "d \<in> set ds" for d
    using that C U fresh [OF that] same by auto
  show "\<exists>v. mget (dwUsb s) (udName u) = Some v \<and> mget (dwUsb s') (udName u) = Some (v\<lparr>udStatus := udStatus u\<rparr>)" if "u \<in> set (ulUpdate l)" for u
  proof -
    have "udName u \<notin> usbDeviceName n ` set ds" using fresh(2) that by force
    moreover have "udName u \<notin> udName ` set (ulDelete l)"
    proof
      assume "udName u \<in> udName ` set (ulDelete l)"
      then obtain v where "v \<in> set (ulDelete l)" "udName v = udName u" by auto
      moreover have "udName u \<in> udName ` set (ulUpdate l)" using that by (rule imageI)
      ultimately show False using gone by metis
    qed
    ultimately show ?thesis using that C U same by force
  qed
  show "mget (dwUsb s') k = (if k \<in> udName ` set (ulDelete l) then None else mget (dwUsb s) k)"
    if "k \<notin> usbDeviceName n ` set ds" "k \<notin> udName ` set (ulUpdate l)" for k
    using that C U D same by auto
qed

subsection \<open>The refinement\<close>

text \<open>The objects of the node that the reconcile lists, and the map by path it builds of them.\<close>

definition listed :: "'s usb_env \<Rightarrow> usb_table \<Rightarrow> USBDevice list" where
  "listed E t = filter (owned E) (map snd t)"

abbreviation by_path :: "USBDevice list \<Rightarrow> (string, USBDevice) gomap" where
  "by_path ds \<equiv> foldl (\<lambda>m d. mput (udDevicePath (udStatus d)) d m) [] ds"

lemma listed_iff:
  assumes "usb_table_ok E t"
  shows "v \<in> set (listed E t) \<longleftrightarrow> mget t (udName v) = Some v \<and> owned E v"
proof -
  have wf: "wf_map t" and names: "\<And>k v. mget t k = Some v \<Longrightarrow> udName v = k"
    using assms by (auto simp: usb_table_ok_def)
  have "v \<in> snd ` set t \<longleftrightarrow> (\<exists>k. mget t k = Some v)" by (force simp: in_set_mget [OF wf, symmetric])
  then show ?thesis using names by (auto simp: listed_def)
qed

lemma by_path_iff:
  assumes "usb_table_ok E t"
  shows "wf_map (by_path (listed E t))"
    and "mget (by_path (listed E t)) p = Some v \<longleftrightarrow> mget t (udName v) = Some v \<and> owned E v \<and> udDevicePath (udStatus v) = p"
proof -
  have wf: "wf_map t" and names: "\<And>k v. mget t k = Some v \<Longrightarrow> udName v = k"
    and paths: "\<And>k v k' v'. mget t k = Some v \<Longrightarrow> owned E v \<Longrightarrow> mget t k' = Some v' \<Longrightarrow> owned E v'
      \<Longrightarrow> udDevicePath (udStatus v) = udDevicePath (udStatus v') \<Longrightarrow> k = k'"
    using assms unfolding usb_table_ok_def by blast+
  have "inj_on snd (set t)"
    using names in_set_mget [OF wf] by (auto simp: inj_on_def) metis
  moreover have "distinct t" using wf by (simp add: wf_map_def mkeys_def distinct_map)
  ultimately have "distinct (listed E t)" by (simp add: listed_def distinct_map)
  moreover have "inj_on (\<lambda>d. udDevicePath (udStatus d)) (set (listed E t))"
  proof (rule inj_onI)
    fix v v'
    assume "v \<in> set (listed E t)" "v' \<in> set (listed E t)" and p: "udDevicePath (udStatus v) = udDevicePath (udStatus v')"
    then have vs: "mget t (udName v) = Some v" "owned E v" "mget t (udName v') = Some v'" "owned E v'"
      by (simp_all add: listed_iff [OF assms])
    from paths [OF vs p] vs(1,3) show "v = v'" by (metis option.inject)
  qed
  ultimately have "distinct (map (\<lambda>d. udDevicePath (udStatus d)) (listed E t))" by (simp add: distinct_map)
  from mget_stored [OF this] show "wf_map (by_path (listed E t))"
    and "mget (by_path (listed E t)) p = Some v \<longleftrightarrow> mget t (udName v) = Some v \<and> owned E v \<and> udDevicePath (udStatus v) = p"
    by (auto simp: listed_iff [OF assms])
qed

lemma in_map_filter: "u \<in> set (List.map_filter f xs) \<longleftrightarrow> (\<exists>x \<in> set xs. f x = Some u)"
  by (force simp: List.map_filter_def)

lemma changed_object_iff:
  "changed_object E n stored d = Some u \<longleftrightarrow> (\<exists>e. mget stored (puDevicePath d) = Some e
     \<and> isStatusChanged (ueIds E) e d \<and> u = e\<lparr>udStatus := status_of_local (ueIds E) n d\<rparr>)"
  by (auto simp: changed_object_def split: option.splits if_splits)

lemma changed_names_distinct:
  assumes ok: "usb_table_ok E t" and ds: "distinct (map puDevicePath ds)"
  shows "distinct (map udName (List.map_filter (changed_object E n (by_path (listed E t))) ds))"
proof -
  let ?f = "changed_object E n (by_path (listed E t))"
  have "x = y" if "x \<in> set ds" "y \<in> set ds" "?f x = Some u" "?f y = Some v" "udName u = udName v" for x y u v
  proof -
    from that(3,4) obtain e e' where e: "mget (by_path (listed E t)) (puDevicePath x) = Some e" "u = e\<lparr>udStatus := status_of_local (ueIds E) n x\<rparr>"
      and e': "mget (by_path (listed E t)) (puDevicePath y) = Some e'" "v = e'\<lparr>udStatus := status_of_local (ueIds E) n y\<rparr>"
      unfolding changed_object_iff by blast
    then have "udName e = udName e'" using that(5) by simp
    with e(1) e'(1) have "puDevicePath x = puDevicePath y" by (auto simp: by_path_iff(2) [OF ok])
    with ds that(1,2) show ?thesis by (auto simp: distinct_map inj_on_def)
  qed
  then have "inj_on (udName \<circ> the \<circ> ?f) (set (filter (\<lambda>x. ?f x \<noteq> None) ds))"
    by (intro inj_onI) auto
  moreover have "distinct (filter (\<lambda>x. ?f x \<noteq> None) ds)" using ds by (simp add: distinct_map)
  ultimately show ?thesis by (simp add: List.map_filter_def distinct_map comp_assoc)
qed

text \<open>Every object after the reconcile is new, changed or kept, and what is kept of the node
  agrees with a device on the bus.\<close>

lemma Reconcile_objects:
  assumes E: "over_tables E" and ok: "usb_table_ok E (dwUsb s)"
    and bus: "WalkUSBDevices (ueOs E) (ueWalk E) s = Inr localDevs"
    and dist: "distinct (map puDevicePath (concat (map snd localDevs)))" and run: "Reconcile E s = (None, s')"
  defines "ds \<equiv> set (concat (map snd localDevs))" and "n \<equiv> ueNodeName E"
  defines "stored \<equiv> by_path (listed E (dwUsb s))"
  shows "wf_map (dwUsb s')"
    and "\<And>d. d \<in> ds \<Longrightarrow> mget stored (puDevicePath d) = None \<Longrightarrow> mget (dwUsb s) (usbDeviceName n d) = None
      \<and> mget (dwUsb s') (usbDeviceName n d) = Some (new_object E n d)"
    and "\<And>d e. d \<in> ds \<Longrightarrow> mget stored (puDevicePath d) = Some e \<Longrightarrow> mget (dwUsb s') (udName e) =
      Some (if isStatusChanged (ueIds E) e d then e\<lparr>udStatus := status_of_local (ueIds E) n d\<rparr> else e)"
    and "\<And>k v. \<not> owned E v \<Longrightarrow> mget (dwUsb s') k = Some v \<longleftrightarrow> mget (dwUsb s) k = Some v"
    and "\<And>k v. mget (dwUsb s') k = Some v \<Longrightarrow> owned E v \<Longrightarrow>
      (\<exists>d \<in> ds. mget stored (puDevicePath d) = None \<and> k = usbDeviceName n d)
      \<or> (\<exists>d \<in> ds. \<exists>e. mget stored (puDevicePath d) = Some e \<and> k = udName e)"
proof -
  let ?ds = "concat (map snd localDevs)"
  define l where "l = getList E localDevs stored n"
  define new where "new = filter (\<lambda>d. mget stored (puDevicePath d) = None) ?ds"
  note st = by_path_iff [OF ok, folded stored_def]
  have names: "\<And>k v. mget (dwUsb s) k = Some v \<Longrightarrow> udName v = k" using ok by (simp add: usb_table_ok_def)
  have h: "handleList E l s = (None, s')"
    using run bus by (simp add: Reconcile_def over_tables_ops [OF E] Let_def l_def stored_def listed_def owned_def [abs_def] n_def)
  have c: "ulCreate l = map (new_object E n) new" and u: "ulUpdate l = List.map_filter (changed_object E n stored) ?ds"
    and dl: "set (ulDelete l) = {e. \<exists>k. mget stored k = Some e \<and> k \<notin> puDevicePath ` ds}" and orp: "set (ulOrphaned l) \<subseteq> set (ulDelete l)"
    using getList_exact [OF st(1) dist, of E n] by (auto simp: l_def new_def ds_def)
  have upd: "x \<in> set (ulUpdate l) \<longleftrightarrow> (\<exists>d \<in> ds. \<exists>e. mget stored (puDevicePath d) = Some e \<and> isStatusChanged (ueIds E) e d
      \<and> x = e\<lparr>udStatus := status_of_local (ueIds E) n d\<rparr>)" for x
    unfolding u in_map_filter changed_object_iff ds_def by simp
  have del: "k \<in> udName ` set (ulDelete l) \<longleftrightarrow> (\<exists>v. mget (dwUsb s) k = Some v \<and> owned E v \<and> udDevicePath (udStatus v) \<notin> puDevicePath ` ds)" for k
    unfolding dl st(2) using names by (auto simp: image_iff)
  have updn: "k \<in> udName ` set (ulUpdate l) \<longleftrightarrow> (\<exists>d \<in> ds. \<exists>e. mget stored (puDevicePath d) = Some e \<and> isStatusChanged (ueIds E) e d
      \<and> k = udName e)" for k
  proof
    assume "k \<in> udName ` set (ulUpdate l)"
    then obtain x where "x \<in> set (ulUpdate l)" "k = udName x" by blast
    then obtain d e where "d \<in> ds" "mget stored (puDevicePath d) = Some e" "isStatusChanged (ueIds E) e d" "k = udName e"
      unfolding upd by auto
    then show "\<exists>d \<in> ds. \<exists>e. mget stored (puDevicePath d) = Some e \<and> isStatusChanged (ueIds E) e d \<and> k = udName e" by blast
  next
    assume "\<exists>d \<in> ds. \<exists>e. mget stored (puDevicePath d) = Some e \<and> isStatusChanged (ueIds E) e d \<and> k = udName e"
    then obtain d e where d: "d \<in> ds" "mget stored (puDevicePath d) = Some e" "isStatusChanged (ueIds E) e d" "k = udName e" by blast
    then have "e\<lparr>udStatus := status_of_local (ueIds E) n d\<rparr> \<in> set (ulUpdate l)" unfolding upd by blast
    from imageI [OF this, of udName] d(4) show "k \<in> udName ` set (ulUpdate l)" by simp
  qed
  have same: "e = e' \<and> p = p'" if "mget stored p = Some e" "mget stored p' = Some e'" "udName e = udName e'" for e e' p p'
    using that st(2) by (metis option.inject)
  have "mhas (dwUsb s) (udName v) \<and> udName v \<notin> udName ` set (ulUpdate l)" if v: "v \<in> set (ulDelete l)" for v
  proof -
    obtain p where p: "mget stored p = Some v" "p \<notin> puDevicePath ` ds" using v dl by auto
    with same [OF p(1)] show ?thesis unfolding updn by (auto simp: st(2) mhas_def)
  qed
  then have "\<forall>v \<in> set (ulDelete l). mhas (dwUsb s) (udName v) \<and> udName v \<notin> udName ` set (ulUpdate l)" by blast
  moreover have "\<forall>x \<in> set (ulUpdate l). mhas (dwUsb s) (udName x)"
    using upd st(2) by (auto simp: mhas_def)
  moreover have "distinct (map udName (ulUpdate l))"
    unfolding u stored_def by (rule changed_names_distinct [OF ok dist])
  ultimately have H: "wf_map (dwUsb s')"
    "\<And>d. d \<in> set new \<Longrightarrow> mget (dwUsb s) (usbDeviceName n d) = None \<and> mget (dwUsb s') (usbDeviceName n d) = Some (new_object E n d)"
    "\<And>x. x \<in> set (ulUpdate l) \<Longrightarrow> \<exists>v. mget (dwUsb s) (udName x) = Some v \<and> mget (dwUsb s') (udName x) = Some (v\<lparr>udStatus := udStatus x\<rparr>)"
    "\<And>k. k \<notin> usbDeviceName n ` set new \<Longrightarrow> k \<notin> udName ` set (ulUpdate l) \<Longrightarrow>
      mget (dwUsb s') k = (if k \<in> udName ` set (ulDelete l) then None else mget (dwUsb s) k)"
    using handleList_table [OF E h _ c _ orp] ok by (simp_all add: usb_table_ok_def)
  have old_not_new: "k \<notin> usbDeviceName n ` set new" if "mget (dwUsb s) k = Some v" for k v
    using that H(2) by auto
  show "wf_map (dwUsb s')" by (fact H(1))
  show "mget (dwUsb s) (usbDeviceName n d) = None \<and> mget (dwUsb s') (usbDeviceName n d) = Some (new_object E n d)"
    if "d \<in> ds" "mget stored (puDevicePath d) = None" for d
    using that by (intro H(2)) (simp add: new_def ds_def)
  show "mget (dwUsb s') (udName e) = Some (if isStatusChanged (ueIds E) e d then e\<lparr>udStatus := status_of_local (ueIds E) n d\<rparr> else e)"
    if "d \<in> ds" "mget stored (puDevicePath d) = Some e" for d e
  proof (cases "isStatusChanged (ueIds E) e d")
    case True
    then have "e\<lparr>udStatus := status_of_local (ueIds E) n d\<rparr> \<in> set (ulUpdate l)" using that upd by blast
    from H(3) [OF this] True that(2) show ?thesis by (auto simp: st(2))
  next
    case False
    have "udName e \<notin> udName ` set (ulUpdate l)"
    proof
      assume "udName e \<in> udName ` set (ulUpdate l)"
      then obtain d' e' where d': "d' \<in> ds" "mget stored (puDevicePath d') = Some e'" "isStatusChanged (ueIds E) e' d'" "udName e = udName e'"
        unfolding updn by blast
      from same [OF that(2) d'(2,4)] have "d = d'" "e = e'"
        using dist that(1) d'(1) by (auto simp: ds_def distinct_map inj_on_def)
      with False d'(3) show False by simp
    qed
    then show ?thesis
      using H(4) [OF old_not_new] del [of "udName e"] that False by (auto simp: st(2))
  qed
  show "mget (dwUsb s') k = Some v \<longleftrightarrow> mget (dwUsb s) k = Some v" if v: "\<not> owned E v" for k v
  proof
    assume old: "mget (dwUsb s) k = Some v"
    then have "k \<notin> udName ` set (ulUpdate l)" using v unfolding updn st(2) by auto
    then show "mget (dwUsb s') k = Some v" using H(4) [OF old_not_new] del [of k] old v by auto
  next
    assume t: "mget (dwUsb s') k = Some v"
    have "k \<notin> usbDeviceName n ` set new" using t v H(2) by (auto simp: new_object_def owned_def labels_def selects_def mget_Cons)
    moreover have "k \<notin> udName ` set (ulUpdate l)"
    proof
      assume "k \<in> udName ` set (ulUpdate l)"
      then obtain x where x: "x \<in> set (ulUpdate l)" "k = udName x" by blast
      from x(1) obtain e where "mget (dwUsb s) (udName e) = Some e" "owned E e" "udName x = udName e" unfolding upd st(2) by auto
      with H(3) [OF x(1)] t x(2) v show False by (auto simp: owned_def)
    qed
    ultimately show "mget (dwUsb s) k = Some v" using H(4) [of k] t by (auto split: if_splits)
  qed
  show "(\<exists>d \<in> ds. mget stored (puDevicePath d) = None \<and> k = usbDeviceName n d)
      \<or> (\<exists>d \<in> ds. \<exists>e. mget stored (puDevicePath d) = Some e \<and> k = udName e)" if t: "mget (dwUsb s') k = Some v" "owned E v" for k v
  proof (cases "k \<in> usbDeviceName n ` set new \<or> k \<in> udName ` set (ulUpdate l)")
    case True
    moreover have "set new = {d \<in> ds. mget stored (puDevicePath d) = None}" by (auto simp: new_def ds_def)
    ultimately show ?thesis unfolding updn by blast
  next
    case False
    then have v: "mget (dwUsb s) k = Some v" "k \<notin> udName ` set (ulDelete l)" using H(4) [of k] t(1) by (auto split: if_splits)
    then obtain d where "d \<in> ds" "puDevicePath d = udDevicePath (udStatus v)" using del [of k] t(2) by auto
    moreover have "mget stored (udDevicePath (udStatus v)) = Some v" using v(1) names t(2) by (auto simp: st(2))
    ultimately show ?thesis using names [OF v(1)] by metis
  qed
qed

lemma describe_new: "describe_object (new_object E n d) = describe_device (ueIds E) d"
  "owned E (new_object E n d)" "udDevicePath (udStatus (new_object E n d)) = puDevicePath d"
  by (simp_all add: describe_object_def describe_device_def new_object_def status_of_local_def owned_def labels_def selects_def mget_Cons)

lemma describe_kept:
  fixes e :: USBDevice and n :: string
  assumes "udDevicePath (udStatus e) = puDevicePath d" "owned E e"
  defines "v \<equiv> if isStatusChanged (ueIds E) e d then e\<lparr>udStatus := status_of_local (ueIds E) n d\<rparr> else e"
  shows "describe_object v = describe_device (ueIds E) d" "owned E v" "udDevicePath (udStatus v) = puDevicePath d" "udName v = udName e"
  using assms by (auto simp: describe_object_def describe_device_def status_of_local_def isStatusChanged_def owned_def)

text \<open>
  Property C16.  A reconcile of the USB controller that returns without error refines the abstract operation: the
  descriptions (path, vendor, product, text and class) published by the objects of the node are afterwards exactly those of the
  devices found on the bus, one object for each path; the objects of other nodes are
  unchanged.  The table of objects stays well formed, so the next reconcile can rely on it.
\<close>

theorem Reconcile_refines:
  assumes "over_tables E" and "usb_table_ok E (dwUsb s)"
    and "WalkUSBDevices (ueOs E) (ueWalk E) s = Inr localDevs"
    and "distinct (map puDevicePath (concat (map snd localDevs)))"
    and "Reconcile E s = (None, s')"
  shows "usb_view E (dwUsb s') = bus_view E localDevs \<and> usb_table_ok E (dwUsb s')
    \<and> (\<forall>k v. mget (dwUsb s) k = Some v \<and> \<not> owned E v \<longrightarrow> mget (dwUsb s') k = Some v)"
proof -
  let ?ds = "set (concat (map snd localDevs))" and ?n = "ueNodeName E" and ?T = "dwUsb s'"
  let ?stored = "by_path (listed E (dwUsb s))"
  note R = Reconcile_objects [OF assms] and st = by_path_iff(2) [OF assms(2)]
  have for_device: "\<exists>k v. mget ?T k = Some v \<and> owned E v \<and> describe_object v = describe_device (ueIds E) d" if "d \<in> ?ds" for d
  proof (cases "mget ?stored (puDevicePath d)")
    case None
    from R(2) [OF that this] show ?thesis using describe_new by blast
  next
    case (Some e)
    from R(3) [OF that this] describe_kept [of e d E ?n] Some show ?thesis by (auto simp only: st)
  qed
  have for_object: "\<exists>d \<in> ?ds. describe_object v = describe_device (ueIds E) d \<and> udName v = k
      \<and> k = (case mget ?stored (puDevicePath d) of None \<Rightarrow> usbDeviceName ?n d | Some e \<Rightarrow> udName e)"
    if v: "mget ?T k = Some v" "owned E v" for k v
    using R(5) [OF v]
  proof (elim disjE bexE exE conjE)
    fix d assume d: "d \<in> ?ds" "mget ?stored (puDevicePath d) = None" "k = usbDeviceName ?n d"
    with R(2) [OF d(1,2)] v(1) have "v = new_object E ?n d" by simp
    moreover have "udName (new_object E ?n d) = usbDeviceName ?n d" by (simp add: new_object_def)
    ultimately show ?thesis using d describe_new(1) by (intro bexI [of _ d]) simp_all
  next
    fix d e assume d: "d \<in> ?ds" "mget ?stored (puDevicePath d) = Some e" "k = udName e"
    with R(3) [OF d(1,2)] v(1)
    have "v = (if isStatusChanged (ueIds E) e d then e\<lparr>udStatus := status_of_local (ueIds E) ?n d\<rparr> else e)" by simp
    moreover have "udDevicePath (udStatus e) = puDevicePath d" "owned E e" using d(2) st by auto
    ultimately have "describe_object v = describe_device (ueIds E) d \<and> udName v = k" using describe_kept [of e d E ?n] d(3) by simp
    with d show ?thesis by (intro bexI [of _ d]) simp_all
  qed
  have "usb_view E ?T = bus_view E localDevs"
  proof (intro set_eqI iffI)
    fix x assume "x \<in> usb_view E ?T"
    then obtain k v where "x = describe_object v" "mget ?T k = Some v" "owned E v" by (auto simp: usb_view_def)
    with for_object [of k v] show "x \<in> bus_view E localDevs" unfolding bus_view_def by blast
  next
    fix x assume "x \<in> bus_view E localDevs"
    then obtain d where "d \<in> ?ds" "x = describe_device (ueIds E) d" unfolding bus_view_def by blast
    with for_device [of d] show "x \<in> usb_view E ?T" unfolding usb_view_def by (metis (mono_tags, lifting) mem_Collect_eq)
  qed
  moreover have "udName v = k" if "mget ?T k = Some v" for k v
    using that for_object [OF that] R(4) [of v k] assms(2) by (cases "owned E v") (auto simp: usb_table_ok_def)
  moreover have "k = k'" if t: "mget ?T k = Some v" "owned E v" "mget ?T k' = Some v'" "owned E v'"
    and path: "udDevicePath (udStatus v) = udDevicePath (udStatus v')" for k v k' v'
  proof -
    obtain d d' where d: "d \<in> ?ds" "describe_object v = describe_device (ueIds E) d"
        "k = (case mget ?stored (puDevicePath d) of None \<Rightarrow> usbDeviceName ?n d | Some e \<Rightarrow> udName e)"
      and d': "d' \<in> ?ds" "describe_object v' = describe_device (ueIds E) d'"
        "k' = (case mget ?stored (puDevicePath d') of None \<Rightarrow> usbDeviceName ?n d' | Some e \<Rightarrow> udName e)"
      using for_object [OF t(1,2)] for_object [OF t(3,4)] by blast
    then have "puDevicePath d = puDevicePath d'" using path by (simp add: describe_object_def describe_device_def)
    then have "d = d'" using assms(4) d(1) d'(1) unfolding distinct_map inj_on_def by blast
    with d(3) d'(3) show ?thesis by (simp only:)
  qed
  ultimately show ?thesis using R(1,4) unfolding usb_table_ok_def by blast
qed

subsection \<open>Instance\<close>

text \<open>One device is new on the bus, one object is stale, and one object belongs to another node.\<close>

definition demo_table :: usb_table where
  "demo_table = [(''n1-stale'', (demo_stored False)\<lparr>udMeta := empty_meta\<lparr>mName := ''n1-stale'', mLabels := [(NodeKeyName, ''n1'')]\<rparr>\<rparr>),
     (''n2-other'', (demo_stored False)\<lparr>udMeta := empty_meta\<lparr>mName := ''n2-other'', mLabels := [(NodeKeyName, ''n2'')]\<rparr>\<rparr>)]"

definition demo_refine_env :: "demo_usb_world usb_env" where
  "demo_refine_env = demo_usb_env\<lparr>ueOs := static_os demo_usb_os, ueWalk := \<lambda>s. [Inr (''/sys/bus/usb/devices/1-2'', ''1-2'')]\<rparr>"

definition demo_refine_world :: demo_usb_world where
  "demo_refine_world = \<lparr>dwUsb = demo_table, dwClaim = [], dwKv = []\<rparr>"

definition demo_bus :: "(int, PluginUSBDevice list) gomap" where
  "demo_bus = [(0x1d, [empty_usb\<lparr>puPCIAddress := ''0000:00:14.0'', puDevicePath := ''/dev/bus/usb/001/002'',
      puVendor := 0x1d, puProduct := 2, puBCD := 1, puBus := 1, puDeviceNumber := 2\<rparr>])]"

theorem Reconcile_refines_witness:
  "\<exists>s'. Reconcile demo_refine_env demo_refine_world = (None, s')
     \<and> usb_view demo_refine_env (dwUsb s') = bus_view demo_refine_env demo_bus \<and> bus_view demo_refine_env demo_bus \<noteq> {}
     \<and> mget (dwUsb s') ''n2-other'' = mget demo_table ''n2-other''"
proof -
  let ?E = demo_refine_env and ?s = demo_refine_world
  have "fst (Reconcile ?E ?s) = None" by code_simp
  then obtain s' where r: "Reconcile ?E ?s = (None, s')" by (metis prod.collapse)
  have "over_tables ?E" by (simp add: over_tables_def demo_refine_env_def demo_usb_env_def Let_def)
  moreover have "usb_table_ok ?E (dwUsb ?s)"
    by (auto simp: usb_table_ok_def demo_refine_world_def demo_table_def wf_map_def mkeys_def mget_Cons owned_def selects_def
        labels_def demo_refine_env_def demo_usb_env_def Let_def split: if_splits)
  moreover have "WalkUSBDevices (ueOs ?E) (ueWalk ?E) ?s = Inr demo_bus" by code_simp
  moreover have "distinct (map puDevicePath (concat (map snd demo_bus)))" by code_simp
  moreover have "mget (dwUsb ?s) ''n2-other'' = Some ((demo_stored False)\<lparr>udMeta := empty_meta\<lparr>mName := ''n2-other'', mLabels := [(NodeKeyName, ''n2'')]\<rparr>\<rparr>)"
    "\<not> owned ?E ((demo_stored False)\<lparr>udMeta := empty_meta\<lparr>mName := ''n2-other'', mLabels := [(NodeKeyName, ''n2'')]\<rparr>\<rparr>)" by code_simp+
  moreover have "bus_view ?E demo_bus \<noteq> {}" by (simp add: bus_view_def demo_bus_def)
  ultimately show ?thesis using r Reconcile_refines [of ?E ?s demo_bus s'] by (simp add: demo_refine_world_def)
qed

end
