(* ===== verification/Usb_Watch.thy ===== *)
theory Usb_Watch
  imports Usb_Reconcile
begin

section \<open>Watching USB devices\<close>

text \<open>
  Models \<^verbatim>\<open>Register\<close> of \<^verbatim>\<open>pkg/controller/usbdevice/register.go\<close> and the goroutines of \<^verbatim>\<open>usbdevice_controller.go\<close>:
  \<^verbatim>\<open>WatchUSBDevices\<close> forwards every file-system event below \<^verbatim>\<open>/dev/bus/usb\<close> to the channel
  \<^verbatim>\<open>reconcileSignal\<close>, which has room for one signal, \<^verbatim>\<open>WatchReconcile\<close> takes the signals and reconciles, and
  the claim handlers send signals from goroutines of their own.  The interleavings are a step relation,
  split into the steps of the controller (\<open>usb_internal\<close>) and those of its environment
  (\<open>usb_external\<close>).
\<close>

type_synonym usb_walk = "(int, PluginUSBDevice list) gomap res"

text \<open>\<open>uwSending\<close>: the watching goroutine is blocked in its send; \<open>uwSenders\<close>: so are that many
  goroutines of claim handlers; \<open>uwSeen\<close> is what the last finished reconcile found on the bus.\<close>

record 's usb_watch =
  uwWorld :: 's
  uwEvents :: "fs_event list"
  uwDirs :: "string list"
  uwSending :: bool
  uwSenders :: nat
  uwSignal :: nat
  uwBusy :: bool
  uwRunning :: bool
  uwSeen :: usb_walk

definition usb_bus :: "'s usb_env \<Rightarrow> 's \<Rightarrow> usb_walk" where
  "usb_bus E s = WalkUSBDevices (ueOs E) (ueWalk E) s"

definition signal_buffer :: nat where
  "signal_buffer = 1"

text \<open>\<^verbatim>\<open>Register\<close>: an initial reconcile, then the watch.  \<open>between\<close> is what happens to the world between the
  two.\<close>

definition usb_Register ::
  "'s usb_env \<Rightarrow> 's watcher \<Rightarrow> ('s \<Rightarrow> (string \<times> bool) res list) \<Rightarrow> ('s \<Rightarrow> 's) \<Rightarrow> 's \<Rightarrow> go_error + 's usb_watch" where
  "usb_Register E w walk between s =
     (case Reconcile E s of
        (Some err, s') \<Rightarrow> Inl err
      | (None, s') \<Rightarrow>
          (let s' = between s'
           in case WatchUSBDevices_setup w walk s' of
                Some err \<Rightarrow> Inl err
              | None \<Rightarrow> Inr \<lparr>uwWorld = s', uwEvents = [], uwDirs = [], uwSending = False, uwSenders = 0, uwSignal = 0,
                             uwBusy = False, uwRunning = True, uwSeen = usb_bus E s\<rparr>))"

text \<open>The directories handed to the watcher for an event; an error of \<^verbatim>\<open>watcher.Add\<close> is only logged.\<close>

definition new_dirs :: "(string \<Rightarrow> 's \<Rightarrow> bool res) \<Rightarrow> fs_event \<Rightarrow> 's \<Rightarrow> string list" where
  "new_dirs stat_dir e s = (case handleNewDirectory stat_dir e s of None \<Rightarrow> [] | Some d \<Rightarrow> [d])"

inductive usb_internal ::
  "'s usb_env \<Rightarrow> (string \<Rightarrow> 's \<Rightarrow> bool res) \<Rightarrow> 's usb_watch \<Rightarrow> 's usb_watch \<Rightarrow> bool" for E stat_dir where
  take_event: "uwRunning st \<Longrightarrow> \<not> uwSending st \<Longrightarrow> uwEvents st = e # es \<Longrightarrow>
    usb_internal E stat_dir st
      (st\<lparr>uwEvents := es, uwDirs := uwDirs st @ new_dirs stat_dir e (uwWorld st), uwSending := True\<rparr>)"
| send_event: "uwSending st \<Longrightarrow> uwSignal st < signal_buffer \<Longrightarrow>
    usb_internal E stat_dir st (st\<lparr>uwSending := False, uwSignal := Suc (uwSignal st)\<rparr>)"
| send_claim: "uwSenders st = Suc n \<Longrightarrow> uwSignal st < signal_buffer \<Longrightarrow>
    usb_internal E stat_dir st (st\<lparr>uwSenders := n, uwSignal := Suc (uwSignal st)\<rparr>)"
| take_signal: "uwRunning st \<Longrightarrow> \<not> uwBusy st \<Longrightarrow> uwSignal st = Suc n \<Longrightarrow>
    usb_internal E stat_dir st (st\<lparr>uwBusy := True, uwSignal := n\<rparr>)"
| reconcile: "uwBusy st \<Longrightarrow>
    usb_internal E stat_dir st
      (st\<lparr>uwWorld := snd (Reconcile E (uwWorld st)), uwSeen := usb_bus E (uwWorld st), uwBusy := False\<rparr>)"

text \<open>Outside: plugging or unplugging (which the kernel reports with at least one event), writes to the
  API server by others, a claim handler that sends a signal, and cancellation of the context.\<close>

inductive usb_external :: "'s usb_env \<Rightarrow> 's usb_watch \<Rightarrow> 's usb_watch \<Rightarrow> bool" for E where
  hardware: "es \<noteq> [] \<Longrightarrow> usb_external E st (st\<lparr>uwWorld := s, uwEvents := uwEvents st @ es\<rparr>)"
| api: "usb_bus E s = usb_bus E (uwWorld st) \<Longrightarrow> usb_external E st (st\<lparr>uwWorld := s\<rparr>)"
| claim: "usb_external E st (st\<lparr>uwSenders := Suc (uwSenders st)\<rparr>)"
| cancel: "usb_external E st (st\<lparr>uwRunning := False\<rparr>)"

definition usb_step ::
  "'s usb_env \<Rightarrow> (string \<Rightarrow> 's \<Rightarrow> bool res) \<Rightarrow> 's usb_watch \<Rightarrow> 's usb_watch \<Rightarrow> bool" where
  "usb_step E stat_dir st st' \<longleftrightarrow> usb_internal E stat_dir st st' \<or> usb_external E st st'"

inductive_cases usb_internalE: "usb_internal E stat_dir st st'"
inductive_cases usb_externalE: "usb_external E st st'"

subsection \<open>No change of the bus is missed\<close>

definition usb_pending :: "'s usb_watch \<Rightarrow> bool" where
  "usb_pending st \<longleftrightarrow> uwEvents st \<noteq> [] \<or> uwSending st \<or> uwSenders st > 0 \<or> uwSignal st > 0 \<or> uwBusy st"

definition usb_watch_inv :: "'s usb_env \<Rightarrow> 's usb_watch \<Rightarrow> bool" where
  "usb_watch_inv E st \<longleftrightarrow> uwSignal st \<le> signal_buffer
     \<and> (uwSeen st = usb_bus E (uwWorld st) \<or> uwEvents st \<noteq> [] \<or> uwSending st \<or> uwSignal st > 0 \<or> uwBusy st)"

lemma usb_bus_Reconcile:
  assumes "adds_none (\<lambda>s. {usb_bus E s}) (ueUsb E)" "adds_none (\<lambda>s. {usb_bus E s}) (ueClaim E)"
  shows "usb_bus E (snd (Reconcile E s)) = usb_bus E s"
  using shrinksD [OF Reconcile_shrinks [OF assms], of s] by simp

lemma usb_internal_inv:
  assumes "usb_internal E stat_dir st st'" "usb_watch_inv E st" "\<And>s. usb_bus E (snd (Reconcile E s)) = usb_bus E s"
  shows "usb_watch_inv E st'"
  using assms by (auto simp: usb_watch_inv_def signal_buffer_def elim!: usb_internalE)

lemma usb_external_inv: "usb_external E st st' \<Longrightarrow> usb_watch_inv E st \<Longrightarrow> usb_watch_inv E st'"
  by (erule usb_externalE) (auto simp: usb_watch_inv_def)

lemma usb_steps_inv:
  assumes "(usb_step E stat_dir)\<^sup>*\<^sup>* st st'" "usb_watch_inv E st" "\<And>s. usb_bus E (snd (Reconcile E s)) = usb_bus E s"
  shows "usb_watch_inv E st'"
  using assms
  by (induction rule: rtranclp_induct) (auto simp: usb_step_def intro: usb_internal_inv usb_external_inv)

text \<open>A reconcile is never missed because the channel is full, and the two goroutines never
  wait for each other: while anything is pending, some step of the controller is possible.\<close>

lemma usb_internal_progress:
  assumes "uwRunning st" "uwSignal st \<le> signal_buffer" "usb_pending st"
  shows "\<exists>st'. usb_internal E stat_dir st st'"
proof (cases "uwBusy st")
  case True
  then show ?thesis by (blast intro: usb_internal.reconcile)
next
  case idle: False
  show ?thesis
  proof (cases "uwSignal st")
    case (Suc n)
    with idle assms(1) show ?thesis by (blast intro: usb_internal.take_signal)
  next
    case 0
    then have room: "uwSignal st < signal_buffer" by (simp add: signal_buffer_def)
    consider "uwSending st" | n where "uwSenders st = Suc n" | e es where "\<not> uwSending st" "uwEvents st = e # es"
      using assms(3) idle 0 by (cases "uwSenders st"; cases "uwEvents st") (auto simp: usb_pending_def)
    then show ?thesis
      using room assms(1) by cases (blast intro: usb_internal.intros)+
  qed
qed

lemma usb_internal_idle: "\<not> usb_pending st \<Longrightarrow> \<not> usb_internal E stat_dir st st'"
  by (auto simp: usb_pending_def elim: usb_internalE)

text \<open>Every step of the controller brings one piece of pending work one stage further.\<close>

definition usb_work :: "'s usb_watch \<Rightarrow> nat" where
  "usb_work st = 4 * length (uwEvents st) + (if uwSending st then 3 else 0) + 3 * uwSenders st
     + 2 * uwSignal st + (if uwBusy st then 1 else 0)"

lemma usb_internal_work: "usb_internal E stat_dir st st' \<Longrightarrow> usb_work st = Suc (usb_work st')"
  by (induction rule: usb_internal.induct) (auto simp: usb_work_def)

lemma usb_internal_running: "usb_internal E stat_dir st st' \<Longrightarrow> uwRunning st' = uwRunning st"
  by (induction rule: usb_internal.induct) auto

lemma usb_internal_run:
  assumes "(usb_internal E stat_dir ^^ n) st st'"
  shows "usb_work st = n + usb_work st' \<and> uwRunning st' = uwRunning st \<and> (usb_step E stat_dir)\<^sup>*\<^sup>* st st'"
  using assms
proof (induction n arbitrary: st')
  case (Suc n)
  then obtain m where m: "(usb_internal E stat_dir ^^ n) st m" "usb_internal E stat_dir m st'" by auto
  then have "usb_step E stat_dir m st'" by (simp add: usb_step_def)
  with Suc.IH [OF m(1)] m(2) show ?case
    by (auto simp: usb_internal_work usb_internal_running intro: rtranclp.rtrancl_into_rtrancl)
qed simp


subsection \<open>Instance: a device is plugged in\<close>

record demo_bus_world =
  bwUsb :: "(string, USBDevice) gomap"
  bwClaim :: "(string, USBDeviceClaim) gomap"
  bwPlugged :: bool

definition demo_bus_env :: "demo_bus_world usb_env" where
  "demo_bus_env =
     (let usb = table_client udMeta (\<lambda>old new. old\<lparr>udStatus := udStatus new\<rparr>) (\<lambda>i x. []) bwUsb (\<lambda>m s. s\<lparr>bwUsb := m\<rparr>);
          claim = table_client ucMeta (\<lambda>old new. new) (\<lambda>i x. []) bwClaim (\<lambda>m s. s\<lparr>bwClaim := m\<rparr>)
      in \<lparr>ueUsb = usb, ueUsbCache = usb, ueClaim = claim, ueClaimCache = claim,
          ueKv = table_client kvMeta (\<lambda>old new. new) (\<lambda>i x. []) (\<lambda>s. []) (\<lambda>m s. s),
          ueOs = static_os demo_usb_os, ueWalk = \<lambda>s. if bwPlugged s then [Inr (''/sys/bus/usb/devices/1-2'', ''1-2'')] else [],
          ueIds = NewParser, ueConsts = demo_usb_consts, ueNodeName = ''n1'', ueSignal = \<lambda>s. s\<rparr>)"

definition demo_unplugged :: demo_bus_world where
  "demo_unplugged = \<lparr>bwUsb = [], bwClaim = [], bwPlugged = False\<rparr>"

definition demo_watch_start :: "demo_bus_world usb_watch" where
  "demo_watch_start = \<lparr>uwWorld = demo_unplugged, uwEvents = [], uwDirs = [], uwSending = False, uwSenders = 0, uwSignal = 0,
     uwBusy = False, uwRunning = True, uwSeen = Inr []\<rparr>"

definition demo_fs_watcher :: "demo_bus_world watcher" where
  "demo_fs_watcher = \<lparr>wNew = \<lambda>s. Inr (), wAdd = \<lambda>p s. Inr ()\<rparr>"

lemma static_usb_os:
  "osStat (static_os demo_usb_os) p s = osStat demo_usb_os p ()" "osReadFile (static_os demo_usb_os) p s = osReadFile demo_usb_os p ()"
  "osReadlink (static_os demo_usb_os) p s = osReadlink demo_usb_os p ()" "osReadDir (static_os demo_usb_os) p s = Inl NotFound"
  by (simp_all add: static_os_def demo_usb_os_def)

lemma demo_bus_of:
  assumes "bwPlugged s = bwPlugged s'"
  shows "usb_bus demo_bus_env s = usb_bus demo_bus_env s'"
proof -
  have "parseSysUeventFile (static_os demo_usb_os) p s = parseSysUeventFile (static_os demo_usb_os) p s'" for p
    by (simp add: parseSysUeventFile_def readSysfsString_def parseUSBClassType_def parseClassCode_def static_usb_os
        cong: sum.case_cong option.case_cong)
  with assms show ?thesis
    by (simp add: usb_bus_def WalkUSBDevices_def demo_bus_env_def Let_def static_usb_os cong: sum.case_cong option.case_cong)
qed

lemma demo_bus_clients:
  "adds_none (\<lambda>s. {usb_bus demo_bus_env s}) (ueUsb demo_bus_env)"
  "adds_none (\<lambda>s. {usb_bus demo_bus_env s}) (ueClaim demo_bus_env)"
proof -
  have u: "usb_bus demo_bus_env (s\<lparr>bwUsb := m\<rparr>) = usb_bus demo_bus_env s"
    and c: "usb_bus demo_bus_env (s\<lparr>bwClaim := m'\<rparr>) = usb_bus demo_bus_env s" for s m m'
    by (simp_all add: demo_bus_of [of "s\<lparr>bwUsb := m\<rparr>" s] demo_bus_of [of "s\<lparr>bwClaim := m'\<rparr>" s])
  have "ueUsb demo_bus_env = table_client udMeta (\<lambda>old new. old\<lparr>udStatus := udStatus new\<rparr>) (\<lambda>i x. []) bwUsb (\<lambda>m s. s\<lparr>bwUsb := m\<rparr>)"
    "ueClaim demo_bus_env = table_client ucMeta (\<lambda>old new. new) (\<lambda>i x. []) bwClaim (\<lambda>m s. s\<lparr>bwClaim := m\<rparr>)"
    by (simp_all add: demo_bus_env_def Let_def)
  then show "adds_none (\<lambda>s. {usb_bus demo_bus_env s}) (ueUsb demo_bus_env)"
    "adds_none (\<lambda>s. {usb_bus demo_bus_env s}) (ueClaim demo_bus_env)"
    by (simp_all add: adds_none_def table_client_def u c split: option.split)
qed

text \<open>The run: the device appears with one event, which is taken, signalled, and reconciled.\<close>

definition demo_plugged :: "demo_bus_world usb_watch" where
  "demo_plugged = demo_watch_start\<lparr>uwWorld := demo_unplugged\<lparr>bwPlugged := True\<rparr>,
     uwEvents := [\<lparr>feName = ''/dev/bus/usb/001/002'', feOp = FsCreate\<rparr>]\<rparr>"

definition demo_taken :: "demo_bus_world usb_watch" where
  "demo_taken = demo_plugged\<lparr>uwEvents := [], uwSending := True\<rparr>"

definition demo_caught_up :: "demo_bus_world usb_watch" where
  "demo_caught_up = demo_plugged\<lparr>uwEvents := [], uwWorld := snd (Reconcile demo_bus_env (uwWorld demo_plugged)),
     uwSeen := usb_bus demo_bus_env (uwWorld demo_plugged)\<rparr>"

lemma demo_run: "(usb_internal demo_bus_env (\<lambda>p s. Inr False) ^^ 4) demo_plugged demo_caught_up"
proof -
  let ?i = "usb_internal demo_bus_env (\<lambda>p s. Inr False)"
  have "?i demo_plugged demo_taken"
    using usb_internal.take_event [of demo_plugged "\<lparr>feName = ''/dev/bus/usb/001/002'', feOp = FsCreate\<rparr>" "[]" demo_bus_env "\<lambda>p s. Inr False"]
    by (simp add: demo_plugged_def demo_taken_def demo_watch_start_def new_dirs_def handleNewDirectory_def isCreateEvent_def)
  moreover have "?i demo_taken (demo_taken\<lparr>uwSending := False, uwSignal := 1\<rparr>)"
    using usb_internal.send_event [of demo_taken demo_bus_env "\<lambda>p s. Inr False"]
    by (simp add: demo_plugged_def demo_taken_def demo_watch_start_def signal_buffer_def)
  moreover have "?i (demo_taken\<lparr>uwSending := False, uwSignal := 1\<rparr>) (demo_taken\<lparr>uwSending := False, uwBusy := True\<rparr>)"
    using usb_internal.take_signal [of "demo_taken\<lparr>uwSending := False, uwSignal := 1\<rparr>" 0 demo_bus_env "\<lambda>p s. Inr False"]
    by (simp add: demo_plugged_def demo_taken_def demo_watch_start_def)
  moreover have "?i (demo_taken\<lparr>uwSending := False, uwBusy := True\<rparr>) demo_caught_up"
    using usb_internal.reconcile [of "demo_taken\<lparr>uwSending := False, uwBusy := True\<rparr>" demo_bus_env "\<lambda>p s. Inr False"]
    by (simp add: demo_plugged_def demo_taken_def demo_caught_up_def demo_watch_start_def)
  ultimately show ?thesis
    by (auto simp: numeral_eq_Suc intro!: relcomppI)
qed


end
