(* ===== verification/Pci_Device_Plugin.thy ===== *)
theory Pci_Device_Plugin
  imports Device_Plugin "HOL-Library.Sublist"
begin

section \<open>The PCI device plugin\<close>

text \<open>
  Models \<^verbatim>\<open>pkg/deviceplugins/device_manager.go\<close> and \<^verbatim>\<open>deviceplugin.go\<close>.  Methods of
  \<^verbatim>\<open>PCIDevicePlugin\<close> carry the prefix \<open>pci_\<close>.  The unbuffered channel \<^verbatim>\<open>health\<close> is the list
  of the messages whose senders are blocked; \<^verbatim>\<open>ListAndWatch\<close> may receive any of them.  The
  goroutines (the controllers' calls, the health check, \<^verbatim>\<open>ListAndWatch\<close>) interleave as the
  step relation \<open>pci_step\<close>; its invariant ties the announced devices to the map from
  addresses to IOMMU groups that \<^verbatim>\<open>Allocate\<close> reads.
\<close>

record PluginPCIDevice =
  ppdPciID :: string
  ppdDriver :: string
  ppdPciAddress :: string
  ppdIommuGroup :: string
  ppdNumaNode :: int

record PCIDevicePlugin =
  ppPcidevs :: "PluginPCIDevice list"
  ppDevs :: "Device list"
  ppServer :: bool
  ppSocketPath :: string
  ppStop :: "nat option"
  ppHealth :: "deviceHealth list"
  ppDevicePath :: string
  ppResourceName :: string
  ppDone :: chan_state
  ppDeviceRoot :: string
  ppIommuToPCIMap :: "(string, string) gomap"
  ppInitialized :: bool
  ppDeregistered :: chan_state
  ppStarter :: DeviceStarter

definition PCIResourcePrefix :: string where
  "PCIResourcePrefix = ''PCI_RESOURCE''"

definition pci_GetCount :: "PCIDevicePlugin \<Rightarrow> nat" where
  "pci_GetCount dp = count_healthy (ppDevs dp)"

subsection \<open>Construction\<close>

definition pci_construct_dev :: "PluginPCIDevice \<Rightarrow> Device" where
  "pci_construct_dev pciDevice =
     \<lparr>dvID = ppdPciID pciDevice, dvHealth = Unhealthy,
      dvTopology = (if ppdNumaNode pciDevice \<ge> 0 then Some [ppdNumaNode pciDevice] else None)\<rparr>"

text \<open>The map argument is updated in place by the code; here it is returned.\<close>

fun constructDPIdevices ::
  "PluginPCIDevice list \<Rightarrow> (string, string) gomap \<Rightarrow> Device list \<times> (string, string) gomap" where
  "constructDPIdevices [] iommuToPCIMap = ([], iommuToPCIMap)"
| "constructDPIdevices (pciDevice # pciDevices) iommuToPCIMap =
     (let (devs, m) = constructDPIdevices pciDevices
                        (mput (ppdPciAddress pciDevice) (ppdIommuGroup pciDevice) iommuToPCIMap)
      in (pci_construct_dev pciDevice # devs, m))"

definition NewPCIDevicePlugin ::
  "plugin_consts \<Rightarrow> PluginPCIDevice list \<Rightarrow> string \<Rightarrow> PCIDevicePlugin" where
  "NewPCIDevicePlugin k pciDevices resourceName =
     (let serverSock = SocketPath k (ReplaceAll resourceName ''/'' ''-'');
          (devs, iommuToPCIMap) = constructDPIdevices pciDevices []
      in \<lparr>ppPcidevs = pciDevices, ppDevs = devs, ppServer = False, ppSocketPath = serverSock,
          ppStop = None, ppHealth = [], ppDevicePath = vfioDevicePath,
          ppResourceName = resourceName, ppDone = ChanNil, ppDeviceRoot = pkHostRootMount k,
          ppIommuToPCIMap = iommuToPCIMap, ppInitialized = False, ppDeregistered = ChanNil,
          ppStarter = \<lparr>stStarted = False, stStopChan = 0, stBackoff = defaultBackoffTime\<rparr>\<rparr>)"

subsection \<open>deviceplugin.go: the controller's view\<close>

definition MarkPCIDeviceAsHealthy :: "string \<Rightarrow> PCIDevicePlugin \<Rightarrow> PCIDevicePlugin" where
  "MarkPCIDeviceAsHealthy pciAddress dp =
     dp\<lparr>ppHealth := ppHealth dp @ [\<lparr>dhDevID = pciAddress, dhHealth = Healthy\<rparr>]\<rparr>"

definition MarkPCIDeviceAsUnhealthy :: "string \<Rightarrow> PCIDevicePlugin \<Rightarrow> PCIDevicePlugin" where
  "MarkPCIDeviceAsUnhealthy pciAddress dp =
     dp\<lparr>ppHealth := ppHealth dp @ [\<lparr>dhDevID = pciAddress, dhHealth = Unhealthy\<rparr>]\<rparr>"

definition Find :: "string \<Rightarrow> (string, PCIDevicePlugin) gomap \<Rightarrow> PCIDevicePlugin option" where
  "Find resourceName dps = mget dps resourceName"

text \<open>\<^verbatim>\<open>numaNode\<close> is left out of the literal, so it is 0.\<close>

definition plugin_device_of :: "PCIDevice \<Rightarrow> PluginPCIDevice" where
  "plugin_device_of pd =
     \<lparr>ppdPciID = pdAddress (pdStatus pd), ppdDriver = pdKernelDriverInUse (pdStatus pd),
      ppdPciAddress = pdAddress (pdStatus pd), ppdIommuGroup = pdIOMMUGroup (pdStatus pd),
      ppdNumaNode = 0\<rparr>"

definition pci_Create :: "plugin_consts \<Rightarrow> string \<Rightarrow> string \<Rightarrow> PCIDevice list \<Rightarrow> PCIDevicePlugin" where
  "pci_Create k resourceName pciAddressInitial pdsWithSameResourceName =
     (let pcidevs = map plugin_device_of pdsWithSameResourceName;
          dp = NewPCIDevicePlugin k pcidevs resourceName
      in MarkPCIDeviceAsHealthy pciAddressInitial dp)"

definition pci_AddDevice :: "PCIDevice \<Rightarrow> PCIDeviceClaim \<Rightarrow> PCIDevicePlugin \<Rightarrow> PCIDevicePlugin" where
  "pci_AddDevice pd pdc dp =
     (if mhas (ppIommuToPCIMap dp) (pdAddress (pdStatus pd)) then dp
      else let (devs, m) = constructDPIdevices [plugin_device_of pd] (ppIommuToPCIMap dp)
           in MarkPCIDeviceAsHealthy (pcAddress (pcSpec pdc))
                (dp\<lparr>ppDevs := ppDevs dp @ devs, ppIommuToPCIMap := m\<rparr>))"

definition pci_RemoveDevice :: "PCIDevice \<Rightarrow> PCIDeviceClaim \<Rightarrow> PCIDevicePlugin \<Rightarrow> PCIDevicePlugin" where
  "pci_RemoveDevice pd pdc dp = MarkPCIDeviceAsUnhealthy (pcAddress (pcSpec pdc)) dp"

subsection \<open>Starting and stopping\<close>

definition pci_SetStarted :: "nat \<Rightarrow> PCIDevicePlugin \<Rightarrow> PCIDevicePlugin" where
  "pci_SetStarted stop dp = dp\<lparr>ppStarter := (ppStarter dp)\<lparr>stStopChan := stop, stStarted := True\<rparr>\<rparr>"

definition pci_Started :: "PCIDevicePlugin \<Rightarrow> bool" where
  "pci_Started dp = stStarted (ppStarter dp)"

definition pci_cleanup :: "'s os \<Rightarrow> PCIDevicePlugin \<Rightarrow> 's \<Rightarrow> go_error option \<times> 's" where
  "pci_cleanup sys dp s =
     (case osRemove sys (ppSocketPath dp) s of
        (Inl err, s') \<Rightarrow> (if \<not> IsNotFound err then Some err else None, s')
      | (Inr _, s') \<Rightarrow> (None, s'))"

definition pci_register :: "'s kubelet \<Rightarrow> PCIDevicePlugin \<Rightarrow> 's \<Rightarrow> go_error option \<times> 's" where
  "pci_register kl dp s =
     (case kConnect kl s of
        Inl err \<Rightarrow> (Some err, s)
      | Inr _ \<Rightarrow>
          (case kRegister kl (path_last (ppSocketPath dp)) (ppResourceName dp) s of
             (Inl err, s') \<Rightarrow> (Some err, s')
           | (Inr _, s') \<Rightarrow> (None, s')))"

text \<open>\<^verbatim>\<open>Start\<close> up to the point where it waits for \<^verbatim>\<open>Serve\<close> to end; the plugin in the result is the
  one that serves, the error the one the call finally returns.\<close>

definition pci_Start ::
  "'s os \<Rightarrow> 's kubelet \<Rightarrow> nat \<Rightarrow> PCIDevicePlugin \<Rightarrow> 's \<Rightarrow> PCIDevicePlugin \<times> go_error option \<times> 's" where
  "pci_Start sys kl stop dp s =
     (let dp = dp\<lparr>ppStop := Some stop, ppDone := ChanOpen, ppDeregistered := ChanOpen\<rparr>
      in case pci_cleanup sys dp s of
        (Some err, s) \<Rightarrow> (dp, Some err, s)
      | (None, s) \<Rightarrow>
        (case kListen kl (ppSocketPath dp) s of
           (Inl err, s) \<Rightarrow> (dp, Some (Errorf ''error creating GRPC server socket''), s)
         | (Inr _, s) \<Rightarrow>
           (let dp = dp\<lparr>ppServer := True\<rparr>
            in case kWaitForServer kl (ppSocketPath dp) s of
              (Inl err, s) \<Rightarrow> (dp, Some (Errorf ''error starting the GRPC server''), s)
            | (Inr _, s) \<Rightarrow>
              (case pci_register kl dp s of
                 (Some err, s) \<Rightarrow>
                   (dp, Some (Errorf ''error registering with device plugin manager''), s)
               | (None, s) \<Rightarrow>
                   (dp\<lparr>ppInitialized := True, ppStarter := (ppStarter dp)\<lparr>stStarted := True\<rparr>\<rparr>,
                    kServe kl s, s)))))"

text \<open>A plugin that was never started has no server and a nil \<^verbatim>\<open>done\<close> channel: both uses panic.\<close>

definition pci_stopDevicePlugin ::
  "'s os \<Rightarrow> PCIDevicePlugin \<Rightarrow> 's \<Rightarrow> (PCIDevicePlugin \<times> go_error option \<times> 's) option" where
  "pci_stopDevicePlugin sys dp s =
     (if \<not> ppServer dp then None
      else let dp = dp\<lparr>ppInitialized := False\<rparr>;
               (err, s) = pci_cleanup sys dp s
           in if IsChanClosed (ppDone dp) then Some (dp, err, s)
              else case close_chan (ppDone dp) of
                     None \<Rightarrow> None
                   | Some ch \<Rightarrow> Some (dp\<lparr>ppDone := ch\<rparr>, err, s))"

definition pci_Stop ::
  "'s os \<Rightarrow> PCIDevicePlugin \<Rightarrow> 's \<Rightarrow> (PCIDevicePlugin \<times> go_error option \<times> 's) option" where
  "pci_Stop = pci_stopDevicePlugin"

subsection \<open>Allocate\<close>

definition pci_alloc_dev ::
  "(string, string) gomap \<Rightarrow> string list \<times> DeviceSpec list \<Rightarrow> string \<Rightarrow> string list \<times> DeviceSpec list" where
  "pci_alloc_dev m st devID =
     (let (allocatedDevices, deviceSpecs) = st
      in case mget m devID of
           Some iommuGroup \<Rightarrow>
             (allocatedDevices @ [devID] @ map fst (filter (\<lambda>(devPCIAddress, ig). ig = iommuGroup) m),
              deviceSpecs @ formatVFIODeviceSpecs iommuGroup)
         | None \<Rightarrow> (allocatedDevices, deviceSpecs))"

fun pci_alloc_loop ::
  "string \<Rightarrow> (string, string) gomap \<Rightarrow> string list \<Rightarrow> ContainerAllocateResponse \<Rightarrow> nat
   \<Rightarrow> string list list \<Rightarrow> ContainerAllocateResponse \<times> nat" where
  "pci_alloc_loop env m allocatedDevices containerResponse n [] = (containerResponse, n)"
| "pci_alloc_loop env m allocatedDevices containerResponse n (request # requests) =
     (let (allocatedDevices, deviceSpecs) = foldl (pci_alloc_dev m) (allocatedDevices, []) request
      in pci_alloc_loop env m allocatedDevices
           \<lparr>carEnvs = [(env, Join allocatedDevices '','')], carDevices = deviceSpecs\<rparr>
           (Suc n) requests)"

text \<open>One \<^verbatim>\<open>containerResponse\<close> is allocated for the whole call and its pointer appended once per
  container request, so all the entries of the answer read its last value.\<close>

definition pci_Allocate ::
  "plugin_consts \<Rightarrow> PCIDevicePlugin \<Rightarrow> string list list \<Rightarrow> ContainerAllocateResponse list" where
  "pci_Allocate k dp ContainerRequests =
     (let resourceNameEnvVar = pkResourceNameToEnvVar k PCIResourcePrefix (ppResourceName dp);
          (containerResponse, n) =
            pci_alloc_loop resourceNameEnvVar (ppIommuToPCIMap dp) []
              \<lparr>carEnvs = [], carDevices = []\<rparr> 0 ContainerRequests
      in replicate n containerResponse)"

subsection \<open>healthCheck\<close>

text \<open>The probing loop: for every device, the entries of the map with its address.\<close>

fun pci_probe_entries ::
  "'s watcher \<Rightarrow> string \<Rightarrow> string \<Rightarrow> (string, string) gomap \<Rightarrow> (string, string) gomap \<Rightarrow> 's
   \<Rightarrow> (string, string) gomap res" where
  "pci_probe_entries w devicePath devID [] monitored s = Inr monitored"
| "pci_probe_entries w devicePath devID ((pciAddr, iommuGroup) # m) monitored s =
     (if pciAddr = devID
      then let vfioDevice = filepath_Join [devicePath, iommuGroup]
           in case wAdd w vfioDevice s of
                Inl err \<Rightarrow> Inl (Errorf (''failed to add the device '' @ vfioDevice @ '' to the watcher''))
              | Inr _ \<Rightarrow> pci_probe_entries w devicePath devID m (mput devID vfioDevice monitored) s
      else pci_probe_entries w devicePath devID m monitored s)"

fun pci_probe_devices ::
  "'s watcher \<Rightarrow> string \<Rightarrow> (string, string) gomap \<Rightarrow> Device list \<Rightarrow> (string, string) gomap \<Rightarrow> 's
   \<Rightarrow> (string, string) gomap res" where
  "pci_probe_devices w devicePath m [] monitored s = Inr monitored"
| "pci_probe_devices w devicePath m (dev # devs) monitored s =
     (case pci_probe_entries w devicePath (dvID dev) m monitored s of
        Inl err \<Rightarrow> Inl err
      | Inr monitored \<Rightarrow> pci_probe_devices w devicePath m devs monitored s)"

text \<open>\<^verbatim>\<open>healthCheck\<close> up to its event loop: the map of monitored devices, or the error returned.\<close>

definition pci_healthCheck_setup ::
  "'s os \<Rightarrow> 's watcher \<Rightarrow> PCIDevicePlugin \<Rightarrow> 's \<Rightarrow> (string, string) gomap res" where
  "pci_healthCheck_setup sys w dp s =
     (case wNew w s of
        Inl err \<Rightarrow> Inl (Errorf ''failed to creating a fsnotify watcher'')
      | Inr _ \<Rightarrow>
        (let devicePath = filepath_Join [ppDeviceRoot dp, ppDevicePath dp]
         in case wAdd w (filepath_Dir devicePath) s of
           Inl err \<Rightarrow> Inl (Errorf ''failed to add the device root path to the watcher'')
         | Inr _ \<Rightarrow>
           (if (case osStat sys devicePath s of Inl err \<Rightarrow> \<not> IsNotFound err | Inr _ \<Rightarrow> False)
            then Inl (Errorf ''could not stat the device'')
            else case pci_probe_devices w devicePath (ppIommuToPCIMap dp) (ppDevs dp) [] s of
              Inl err \<Rightarrow> Inl err
            | Inr monitoredDevices \<Rightarrow>
              (case wAdd w (filepath_Dir (ppSocketPath dp)) s of
                 Inl err \<Rightarrow> Inl (Errorf ''failed to add the device-plugin kubelet path to the watcher'')
               | Inr _ \<Rightarrow>
                 (case osStat sys (ppSocketPath dp) s of
                    Inl err \<Rightarrow> Inl (Errorf ''failed to stat the device-plugin socket'')
                  | Inr _ \<Rightarrow>
                    (case wAdd w (ppSocketPath dp) s of
                       Inl err \<Rightarrow> Inl (Errorf ''failed to watch device-plugin socket'')
                     | Inr _ \<Rightarrow> Inr monitoredDevices))))))"

text \<open>One turn of the event loop: the message sent to \<^verbatim>\<open>health\<close>, if any, and whether the
  function returns.\<close>

definition health_event ::
  "(string, string) gomap \<Rightarrow> string \<Rightarrow> hc_event \<Rightarrow> deviceHealth list \<times> bool" where
  "health_event monitoredDevices socketPath ev =
     (case ev of
        HcStop \<Rightarrow> ([], True)
      | HcError \<Rightarrow> ([], False)
      | HcEvent event \<Rightarrow>
          (case mget monitoredDevices (feName event) of
             Some monDevID \<Rightarrow>
               (if feOp event = FsCreate then ([\<lparr>dhDevID = monDevID, dhHealth = Healthy\<rparr>], False)
                else if feOp event = FsRemove \<or> feOp event = FsRename
                then ([\<lparr>dhDevID = monDevID, dhHealth = Unhealthy\<rparr>], False)
                else ([], False))
           | None \<Rightarrow>
               (if feName event = socketPath \<and> feOp event = FsRemove then ([], True)
                else ([], False))))"

definition pci_healthCheck_event ::
  "(string, string) gomap \<Rightarrow> hc_event \<Rightarrow> PCIDevicePlugin \<Rightarrow> PCIDevicePlugin \<times> bool" where
  "pci_healthCheck_event monitoredDevices ev dp =
     (let (msgs, ret) = health_event monitoredDevices (ppSocketPath dp) ev
      in (dp\<lparr>ppHealth := ppHealth dp @ msgs\<rparr>, ret))"

subsection \<open>ListAndWatch and the interleaving of the goroutines\<close>

definition pci_recv :: "deviceHealth \<Rightarrow> PCIDevicePlugin \<Rightarrow> PCIDevicePlugin" where
  "pci_recv devHealth dp =
     dp\<lparr>ppDevs := deliver devHealth (ppDevs dp), ppHealth := remove1 devHealth (ppHealth dp)\<rparr>"

text \<open>
  The plugin with the responses sent to the kubelet so far, the health check's map while
  it runs, and whether \<^verbatim>\<open>ListAndWatch\<close> still runs.
\<close>

record pci_sys =
  psPlugin :: PCIDevicePlugin
  psSent :: "Device list list"
  psMonitored :: "(string, string) gomap option"
  psRunning :: bool

text \<open>\<^verbatim>\<open>ListAndWatch\<close> starts with one response; each health message gives another; the stop or
  done channel ends the loop with an empty response and closes \<^verbatim>\<open>deregistered\<close>; a failing send
  ends it without.  The controllers call \<^verbatim>\<open>AddDevice\<close> and \<^verbatim>\<open>RemoveDevice\<close> at any time.\<close>

inductive pci_step :: "pci_sys \<Rightarrow> pci_sys \<Rightarrow> bool" where
  add_device: "pdAddress (pdStatus pd) = pcAddress (pcSpec pdc) \<Longrightarrow>
    pci_step st (st\<lparr>psPlugin := pci_AddDevice pd pdc (psPlugin st)\<rparr>)"
| remove_device: "pci_step st (st\<lparr>psPlugin := pci_RemoveDevice pd pdc (psPlugin st)\<rparr>)"
| watch_event: "psMonitored st = Some mon \<Longrightarrow> pci_healthCheck_event mon ev (psPlugin st) = (dp', ret) \<Longrightarrow>
    pci_step st (st\<lparr>psPlugin := dp', psMonitored := if ret then None else Some mon\<rparr>)"
| receive: "psRunning st \<Longrightarrow> m \<in> set (ppHealth (psPlugin st)) \<Longrightarrow>
    pci_step st (st\<lparr>psPlugin := pci_recv m (psPlugin st),
                    psSent := psSent st @ [ppDevs (pci_recv m (psPlugin st))]\<rparr>)"
| receive_send_fails: "psRunning st \<Longrightarrow> m \<in> set (ppHealth (psPlugin st)) \<Longrightarrow>
    pci_step st (st\<lparr>psPlugin := pci_recv m (psPlugin st), psRunning := False\<rparr>)"
| stopped: "psRunning st \<Longrightarrow> close_chan (ppDeregistered (psPlugin st)) = Some ch \<Longrightarrow>
    pci_step st (st\<lparr>psPlugin := (psPlugin st)\<lparr>ppDeregistered := ch\<rparr>,
                    psSent := psSent st @ [[]], psRunning := False\<rparr>)"

inductive_cases pci_stepE: "pci_step st st'"

definition pci_ListAndWatch_start :: "PCIDevicePlugin \<Rightarrow> (string, string) gomap option \<Rightarrow> pci_sys" where
  "pci_ListAndWatch_start dp mon =
     \<lparr>psPlugin = dp, psSent = [ppDevs dp], psMonitored = mon, psRunning = True\<rparr>"

subsection \<open>The invariant\<close>

definition pci_inv :: "PCIDevicePlugin \<Rightarrow> bool" where
  "pci_inv dp \<longleftrightarrow> wf_map (ppIommuToPCIMap dp) \<and> distinct (ids (ppDevs dp))
     \<and> set (ids (ppDevs dp)) = set (mkeys (ppIommuToPCIMap dp))"

lemma constructDPIdevices_ids:
  "constructDPIdevices pcis m = (devs, m') \<Longrightarrow> \<forall>d \<in> set pcis. ppdPciID d = ppdPciAddress d \<Longrightarrow>
     ids devs = map ppdPciAddress pcis
     \<and> set (mkeys m') = set (map ppdPciAddress pcis) \<union> set (mkeys m)
     \<and> (wf_map m \<longrightarrow> wf_map m')"
proof (induction pcis arbitrary: m devs)
  case (Cons d pcis)
  then show ?case
    by (auto simp: pci_construct_dev_def mkeys_mput Let_def split: prod.splits)
qed simp

lemma constructDPIdevices_unhealthy:
  "constructDPIdevices pcis m = (devs, m') \<Longrightarrow> count_healthy devs = 0"
  by (induction pcis arbitrary: m devs)
    (auto simp: pci_construct_dev_def count_healthy_def Let_def split: prod.splits)

lemma Mark_simps [simp]:
  "ppDevs (MarkPCIDeviceAsHealthy a dp) = ppDevs dp"
  "ppIommuToPCIMap (MarkPCIDeviceAsHealthy a dp) = ppIommuToPCIMap dp"
  "ppHealth (MarkPCIDeviceAsHealthy a dp) = ppHealth dp @ [\<lparr>dhDevID = a, dhHealth = Healthy\<rparr>]"
  "pci_inv (MarkPCIDeviceAsHealthy a dp) = pci_inv dp"
  "ppDevs (MarkPCIDeviceAsUnhealthy a dp) = ppDevs dp"
  "ppIommuToPCIMap (MarkPCIDeviceAsUnhealthy a dp) = ppIommuToPCIMap dp"
  "ppHealth (MarkPCIDeviceAsUnhealthy a dp) = ppHealth dp @ [\<lparr>dhDevID = a, dhHealth = Unhealthy\<rparr>]"
  "pci_inv (MarkPCIDeviceAsUnhealthy a dp) = pci_inv dp"
  by (simp_all add: MarkPCIDeviceAsHealthy_def MarkPCIDeviceAsUnhealthy_def pci_inv_def)

lemma pci_Create_inv:
  "distinct (map (\<lambda>pd. pdAddress (pdStatus pd)) pds) \<Longrightarrow> pci_inv (pci_Create k rn a pds)"
  using constructDPIdevices_ids [of "map plugin_device_of pds" "[]"]
  by (auto simp: pci_Create_def NewPCIDevicePlugin_def pci_inv_def plugin_device_of_def Let_def
      mkeys_def comp_def split: prod.splits)

lemma mhas_ids: "pci_inv dp \<Longrightarrow> mhas (ppIommuToPCIMap dp) a \<longleftrightarrow> a \<in> set (ids (ppDevs dp))"
  by (simp add: pci_inv_def mhas_mkeys)

lemma pci_AddDevice_known: "mhas (ppIommuToPCIMap dp) (pdAddress (pdStatus pd)) \<Longrightarrow> pci_AddDevice pd pdc dp = dp"
  by (simp add: pci_AddDevice_def)

lemma pci_AddDevice_new:
  assumes "\<not> mhas (ppIommuToPCIMap dp) (pdAddress (pdStatus pd))"
  shows "ppDevs (pci_AddDevice pd pdc dp) = ppDevs dp @ [pci_construct_dev (plugin_device_of pd)]"
    and "ppIommuToPCIMap (pci_AddDevice pd pdc dp) =
           mput (pdAddress (pdStatus pd)) (pdIOMMUGroup (pdStatus pd)) (ppIommuToPCIMap dp)"
    and "ppHealth (pci_AddDevice pd pdc dp) =
           ppHealth dp @ [\<lparr>dhDevID = pcAddress (pcSpec pdc), dhHealth = Healthy\<rparr>]"
  using assms by (simp_all add: pci_AddDevice_def plugin_device_of_def)

lemma pci_AddDevice_inv: "pci_inv dp \<Longrightarrow> pci_inv (pci_AddDevice pd pdc dp)"
proof (cases "mhas (ppIommuToPCIMap dp) (pdAddress (pdStatus pd))")
  case False
  assume "pci_inv dp"
  moreover from this False have "pdAddress (pdStatus pd) \<notin> set (ids (ppDevs dp))"
    by (simp add: mhas_ids)
  ultimately show ?thesis
    by (simp add: pci_inv_def pci_AddDevice_new [OF False] pci_construct_dev_def plugin_device_of_def
        mkeys_mput)
qed (simp add: pci_AddDevice_known)

lemma pci_inv_distinct: "pci_inv dp \<Longrightarrow> distinct (ids (ppDevs dp))"
  by (simp add: pci_inv_def)

lemma pci_recv_simps [simp]:
  "ppDevs (pci_recv m dp) = deliver m (ppDevs dp)"
  "ppHealth (pci_recv m dp) = remove1 m (ppHealth dp)"
  "ppIommuToPCIMap (pci_recv m dp) = ppIommuToPCIMap dp"
  "pci_inv (pci_recv m dp) = pci_inv dp"
  by (simp_all add: pci_recv_def pci_inv_def)

text \<open>The PCI plugin meets the contract; the arguments of \<^verbatim>\<open>AddDevice\<close> agree when the claim
  names the device's address.\<close>

interpretation pcip: device_plugin ppDevs ppHealth pci_recv
  "\<lambda>(pd, pdc). pci_AddDevice pd pdc" "\<lambda>(pd, pdc). pdAddress (pdStatus pd)"
  "\<lambda>(pd, pdc). pdAddress (pdStatus pd) = pcAddress (pcSpec pdc)" pci_inv
proof (unfold_locales, goal_cases)
  case (7 p d)
  then show ?case
    by (cases d) (simp add: pci_AddDevice_new mhas_ids pci_construct_dev_def plugin_device_of_def)
qed (auto simp: pci_AddDevice_inv pci_AddDevice_known mhas_ids pci_inv_distinct)

text \<open>Every response sent so far lists a prefix of the current devices, or nothing.\<close>

definition pci_sys_inv :: "pci_sys \<Rightarrow> bool" where
  "pci_sys_inv st \<longleftrightarrow> pci_inv (psPlugin st)
     \<and> list_all (\<lambda>r. prefix (ids r) (ids (ppDevs (psPlugin st)))) (psSent st)"

lemma pci_AddDevice_prefix: "prefix (ids (ppDevs dp)) (ids (ppDevs (pci_AddDevice pd pdc dp)))"
  by (cases "mhas (ppIommuToPCIMap dp) (pdAddress (pdStatus pd))")
    (simp_all add: pci_AddDevice_known pci_AddDevice_new)

lemma pci_healthCheck_event_simps:
  "pci_healthCheck_event mon ev dp = (dp', ret) \<Longrightarrow>
     ppDevs dp' = ppDevs dp \<and> ppIommuToPCIMap dp' = ppIommuToPCIMap dp"
  by (auto simp: pci_healthCheck_event_def Let_def split: prod.splits)

lemma pci_step_inv: "pci_step st st' \<Longrightarrow> pci_sys_inv st \<Longrightarrow> pci_sys_inv st'"
proof (induction rule: pci_step.induct)
  case (add_device pd pdc st)
  then show ?case
    using pci_AddDevice_prefix [of "psPlugin st" pd pdc]
    by (auto simp: pci_sys_inv_def pci_AddDevice_inv list_all_iff intro: prefix_order.trans)
next
  case (watch_event st mon ev dp' ret)
  then show ?case
    using pci_healthCheck_event_simps [OF watch_event(2)] by (simp add: pci_sys_inv_def pci_inv_def)
qed (auto simp: pci_sys_inv_def pci_inv_def pci_RemoveDevice_def MarkPCIDeviceAsUnhealthy_def)

lemma pci_steps_inv: "pci_step\<^sup>*\<^sup>* st st' \<Longrightarrow> pci_sys_inv st \<Longrightarrow> pci_sys_inv st'"
  by (induction rule: rtranclp_induct) (auto intro: pci_step_inv)

text \<open>Once the stream has ended, whatever still happens to the plugin is not sent.\<close>

lemma pci_step_stopped: "pci_step st st' \<Longrightarrow> \<not> psRunning st \<Longrightarrow> \<not> psRunning st' \<and> psSent st' = psSent st"
  by (auto elim!: pci_stepE)

lemma pci_steps_stopped: "pci_step\<^sup>*\<^sup>* st st' \<Longrightarrow> \<not> psRunning st \<Longrightarrow> \<not> psRunning st' \<and> psSent st' = psSent st"
  by (induction rule: rtranclp_induct) (auto dest: pci_step_stopped)

subsection \<open>What Allocate grants\<close>

definition group_members :: "(string, string) gomap \<Rightarrow> string \<Rightarrow> string list" where
  "group_members m devID =
     (case mget m devID of None \<Rightarrow> [] | Some g \<Rightarrow> devID # map fst (filter (\<lambda>(a, ig). ig = g) m))"

definition group_specs :: "(string, string) gomap \<Rightarrow> string \<Rightarrow> DeviceSpec list" where
  "group_specs m devID = (case mget m devID of None \<Rightarrow> [] | Some g \<Rightarrow> formatVFIODeviceSpecs g)"

lemma set_group_specs:
  "set (group_specs m i) = (case mget m i of None \<Rightarrow> {} | Some g \<Rightarrow> set (formatVFIODeviceSpecs g))"
  by (simp add: group_specs_def split: option.split)

lemma foldl_alloc:
  "foldl (pci_alloc_dev m) (al, sp) req =
     (al @ concat (map (group_members m) req), sp @ concat (map (group_specs m) req))"
  by (induction req arbitrary: al sp)
    (auto simp: pci_alloc_dev_def group_members_def group_specs_def split: option.splits)

lemma set_group_members:
  "wf_map m \<Longrightarrow> set (group_members m i) = {a. \<exists>g. mget m i = Some g \<and> mget m a = Some g}"
  by (cases "mget m i") (auto simp: group_members_def in_set_mget image_iff)

lemma pci_Allocate_one:
  "pci_Allocate k dp [req] =
     [\<lparr>carEnvs = [(pkResourceNameToEnvVar k PCIResourcePrefix (ppResourceName dp),
                   Join (concat (map (group_members (ppIommuToPCIMap dp)) req)) '','')],
       carDevices = concat (map (group_specs (ppIommuToPCIMap dp)) req)\<rparr>]"
  by (simp add: pci_Allocate_def foldl_alloc)

text \<open>The addresses put into the environment variable, read back at the commas.\<close>

lemma allocated_addresses:
  assumes "pci_inv dp" and "\<forall>a \<in> set (mkeys (ppIommuToPCIMap dp)). CHR '','' \<notin> set a"
    and "\<exists>i \<in> set req. mhas (ppIommuToPCIMap dp) i"
  shows "set (split_char (CHR '','') (Join (concat (map (group_members (ppIommuToPCIMap dp)) req)) '','')) =
    {a. \<exists>i \<in> set req. \<exists>g. mget (ppIommuToPCIMap dp) i = Some g \<and> mget (ppIommuToPCIMap dp) a = Some g}"
proof -
  let ?m = "ppIommuToPCIMap dp"
  let ?al = "concat (map (group_members ?m) req)"
  have wf: "wf_map ?m" using assms(1) by (simp add: pci_inv_def)
  have al: "set ?al = {a. \<exists>i \<in> set req. \<exists>g. mget ?m i = Some g \<and> mget ?m a = Some g}"
    by (auto simp: set_group_members [OF wf])
  obtain i g where "i \<in> set req" "mget ?m i = Some g"
    using assms(3) by (auto simp: mhas_def)
  then have "i \<in> set ?al" unfolding al by blast
  then have "?al \<noteq> []" by (metis empty_iff list.set(1))
  moreover have "\<forall>w \<in> set ?al. CHR '','' \<notin> set w"
    unfolding al using assms(2) by (auto simp: mhas_mkeys [symmetric] mhas_def)
  ultimately have "split_char (CHR '','') (Join ?al '','') = ?al"
    by (intro split_char_Join) auto
  with al show ?thesis by simp
qed

text \<open>
  Property C2.  For a request of one container, the environment variable handed to the
  launcher, read back at its commas, names exactly the addresses that share an IOMMU group
  with a requested device the plugin knows, the requested ones included, and for each such
  request the container is given \<^verbatim>\<open>/dev/vfio/vfio\<close> and the group's device node.
\<close>

theorem pci_Allocate_groups:
  assumes "pci_inv dp" and "\<forall>a \<in> set (mkeys (ppIommuToPCIMap dp)). CHR '','' \<notin> set a"
    and "\<exists>i \<in> set req. mhas (ppIommuToPCIMap dp) i"
  shows "\<exists>v specs. pci_Allocate k dp [req] =
       [\<lparr>carEnvs = [(pkResourceNameToEnvVar k PCIResourcePrefix (ppResourceName dp), v)],
         carDevices = specs\<rparr>]
     \<and> set (split_char (CHR '','') v) =
         {a. \<exists>i \<in> set req. \<exists>g. mget (ppIommuToPCIMap dp) i = Some g \<and> mget (ppIommuToPCIMap dp) a = Some g}
     \<and> set specs = (\<Union>i \<in> set req. case mget (ppIommuToPCIMap dp) i of
         None \<Rightarrow> {} | Some g \<Rightarrow> set (formatVFIODeviceSpecs g))"
proof -
  have "set (concat (map (group_specs (ppIommuToPCIMap dp)) req)) =
      (\<Union>i \<in> set req. case mget (ppIommuToPCIMap dp) i of None \<Rightarrow> {} | Some g \<Rightarrow> set (formatVFIODeviceSpecs g))"
    by (simp add: set_group_specs)
  then show ?thesis
    using allocated_addresses [OF assms] by (simp add: pci_Allocate_one)
qed

text \<open>
  Property C1.  Start from a plugin created for devices with distinct addresses and let the
  controllers' calls, the health check and the kubelet's stream interleave in any way.  In
  every reachable state, each device ever announced to the kubelet can be allocated: the
  answer to a request for it names it and grants the node of its IOMMU group.
\<close>

theorem pci_announced_allocatable:
  assumes "distinct (map (\<lambda>pd. pdAddress (pdStatus pd)) pds)"
    and "pci_step\<^sup>*\<^sup>* (pci_ListAndWatch_start (pci_Create k rn a pds) mon) st"
    and "r \<in> set (psSent st)" and "d \<in> set r"
  shows "\<exists>g. mget (ppIommuToPCIMap (psPlugin st)) (dvID d) = Some g
     \<and> carDevices (hd (pci_Allocate k (psPlugin st) [[dvID d]])) = formatVFIODeviceSpecs g
     \<and> (\<exists>rest. mget (carEnvs (hd (pci_Allocate k (psPlugin st) [[dvID d]])))
           (pkResourceNameToEnvVar k PCIResourcePrefix (ppResourceName (psPlugin st)))
         = Some (Join (dvID d # rest) '',''))"
proof -
  have "pci_sys_inv (pci_ListAndWatch_start (pci_Create k rn a pds) mon)"
    using pci_Create_inv [OF assms(1)] by (simp add: pci_sys_inv_def pci_ListAndWatch_start_def)
  with assms(2) have inv: "pci_sys_inv st" by (rule pci_steps_inv)
  have "prefix (ids r) (ids (ppDevs (psPlugin st)))"
    using inv assms(3) by (simp add: pci_sys_inv_def list_all_iff)
  moreover have "dvID d \<in> set (ids r)" using assms(4) by (simp add: ids_def)
  ultimately have "dvID d \<in> set (ids (ppDevs (psPlugin st)))" by (auto dest: set_mono_prefix)
  then obtain g where g: "mget (ppIommuToPCIMap (psPlugin st)) (dvID d) = Some g"
    using inv by (auto simp: pci_sys_inv_def mhas_ids [symmetric] mhas_def)
  then show ?thesis
    by (auto simp: pci_Allocate_one group_specs_def group_members_def mget_Cons)
qed

text \<open>
  Property C24.  A claimed device that the plugin does not know yet is announced and, once the
  messages in flight are received, in whatever order, it is healthy.
\<close>

theorem pci_AddDevice_healthy:
  assumes "pci_inv dp" and "\<not> mhas (ppIommuToPCIMap dp) (pdAddress (pdStatus pd))"
    and "pdAddress (pdStatus pd) = pcAddress (pcSpec pdc)"
    and "\<forall>m \<in> set (ppHealth dp). dhDevID m \<noteq> pdAddress (pdStatus pd)"
    and "mset ms = mset (ppHealth (pci_AddDevice pd pdc dp))"
  shows "healths (pdAddress (pdStatus pd)) (ppDevs (fold pci_recv ms (pci_AddDevice pd pdc dp))) = [Healthy]
    \<and> ppHealth (fold pci_recv ms (pci_AddDevice pd pdc dp)) = []
    \<and> pci_AddDevice pd pdc (pci_AddDevice pd pdc dp) = pci_AddDevice pd pdc dp"
proof -
  let ?d = "(pd, pdc)"
  from assms have "healths (pdAddress (pdStatus pd)) (ppDevs (fold pci_recv ms (pci_AddDevice pd pdc dp))) = [Healthy]"
    using pcip.added_becomes_healthy [of dp ?d ms] by (simp add: mhas_ids)
  moreover have "ppHealth (fold pci_recv ms (pci_AddDevice pd pdc dp)) = []"
    using assms(5) by (rule pcip.drained)
  ultimately show ?thesis
    using pcip.add_idem [of dp ?d] assms(1,3) by simp
qed

text \<open>
  Releasing a device and claiming it again while the plugin stays up leaves the
  device unhealthy: \<^verbatim>\<open>RemoveDevice\<close> keeps its entry in the address map, so the second
  \<^verbatim>\<open>AddDevice\<close> does nothing, and the only message in flight says Unhealthy.
\<close>

lemma pci_reclaim_stays_unhealthy:
  assumes "pci_inv dp" and "mhas (ppIommuToPCIMap dp) (pdAddress (pdStatus pd))"
    and "pdAddress (pdStatus pd) = pcAddress (pcSpec pdc)" and "ppHealth dp = []"
    and "mset ms = mset (ppHealth (pci_AddDevice pd pdc (pci_RemoveDevice pd pdc dp)))"
  shows "all_health (pdAddress (pdStatus pd)) Unhealthy
           (ppDevs (fold pci_recv ms (pci_AddDevice pd pdc (pci_RemoveDevice pd pdc dp))))"
proof -
  have eq: "pci_AddDevice pd pdc (pci_RemoveDevice pd pdc dp) = pci_RemoveDevice pd pdc dp"
    using assms(2) by (intro pci_AddDevice_known) (simp add: pci_RemoveDevice_def)
  show ?thesis
    using assms(3-5) unfolding eq
    by (intro pcip.drained_health) (auto simp: pci_RemoveDevice_def)
qed

subsection \<open>The health check's events\<close>

lemma pci_probe_entries_keys:
  "pci_probe_entries w p i m mon s = Inr mon' \<Longrightarrow> set (mkeys mon') \<subseteq> insert i (set (mkeys mon))"
proof (induction w p i m mon s rule: pci_probe_entries.induct)
  case (2 w p i a g m mon s)
  then show ?case by (fastforce simp: Let_def mkeys_mput split: if_splits sum.splits)
qed auto

lemma pci_probe_devices_keys:
  "pci_probe_devices w p m devs mon s = Inr mon' \<Longrightarrow> set (mkeys mon') \<subseteq> set (ids devs) \<union> set (mkeys mon)"
proof (induction devs arbitrary: mon)
  case (Cons d devs)
  then obtain mon1 where "pci_probe_entries w p (dvID d) m mon s = Inr mon1"
    and "pci_probe_devices w p m devs mon1 s = Inr mon'" by (auto split: sum.splits)
  with Cons.IH [of mon1] pci_probe_entries_keys [of w p "dvID d" m mon s mon1]
  show ?case by auto
qed simp

lemma pci_healthCheck_setup_keys:
  assumes "pci_healthCheck_setup sys w dp s = Inr mon"
  shows "set (mkeys mon) \<subseteq> set (ids (ppDevs dp))"
proof -
  from assms obtain p where "pci_probe_devices w p (ppIommuToPCIMap dp) (ppDevs dp) [] s = Inr mon"
    by (auto simp: pci_healthCheck_setup_def Let_def split: sum.splits if_splits)
  from pci_probe_devices_keys [OF this] show ?thesis by (simp add: mkeys_def)
qed

text \<open>
  The map of monitored devices is keyed by device IDs (PCI addresses) but looked
  up with the path of a file-system event: as long as no device ID contains a slash, an event
  on any path other than the removal of the socket is ignored, so the appearance or removal
  of a device node never changes the health of a device.
\<close>

theorem pci_device_events_ignored:
  assumes "pci_healthCheck_setup sys w dp s = Inr mon"
    and "\<forall>i \<in> set (ids (ppDevs dp)). CHR ''/'' \<notin> set i"
    and "CHR ''/'' \<in> set (feName e)"
    and "\<not> (feName e = ppSocketPath dp \<and> feOp e = FsRemove)"
  shows "pci_healthCheck_event mon (HcEvent e) dp = (dp, False)"
proof -
  have "feName e \<notin> set (mkeys mon)"
    using pci_healthCheck_setup_keys [OF assms(1)] assms(2,3) by blast
  then have "mget mon (feName e) = None" by (simp add: mhas_mkeys [symmetric] mhas_def)
  with assms(4) show ?thesis
    by (auto simp: pci_healthCheck_event_def health_event_def)
qed

subsection \<open>The life cycle\<close>

lemma pci_Start_serving:
  "pci_Start sys kl stop dp s = (dp', err, s') \<Longrightarrow>
     ppDone dp' = ChanOpen \<and> ppDeregistered dp' = ChanOpen \<and> ppDevs dp' = ppDevs dp
     \<and> ppIommuToPCIMap dp' = ppIommuToPCIMap dp \<and> (ppInitialized dp' \<and> \<not> ppInitialized dp \<longrightarrow> ppServer dp' \<and> pci_Started dp')"
  by (auto simp: pci_Start_def pci_Started_def Let_def split: prod.splits option.splits sum.splits)

lemma pci_Stop_serving:
  "ppServer dp \<Longrightarrow> ppDone dp = ChanOpen \<Longrightarrow>
     pci_Stop sys dp s = Some (dp\<lparr>ppInitialized := False, ppDone := ChanClosed\<rparr>,
                               pci_cleanup sys (dp\<lparr>ppInitialized := False\<rparr>) s)"
  by (simp add: pci_Stop_def pci_stopDevicePlugin_def IsChanClosed_def close_chan_def Let_def
      split: prod.split)

text \<open>
  A plugin fresh from its constructor cannot be stopped (the call panics on the
  missing server).  After a \<^verbatim>\<open>Start\<close> that reached the serving state it can: stopping closes
  the done channel, clears the initialized flag, keeps devices and address map and returns
  the result of removing the socket.
\<close>

lemma pci_Stop_after_Start:
  assumes "pci_Start sys kl stop (pci_Create k rn a pds) s = (dp', err, s')" and "ppInitialized dp'"
  shows "pci_Stop sys (pci_Create k rn a pds) s = None
    \<and> (\<exists>dp''. pci_Stop sys dp' s' = Some (dp'', pci_cleanup sys (dp'\<lparr>ppInitialized := False\<rparr>) s')
           \<and> ppDone dp'' = ChanClosed \<and> \<not> ppInitialized dp'' \<and> pci_Started dp''
           \<and> ppDevs dp'' = ppDevs (pci_Create k rn a pds)
           \<and> ppIommuToPCIMap dp'' = ppIommuToPCIMap (pci_Create k rn a pds))"
proof -
  have fresh: "\<not> ppServer (pci_Create k rn a pds)" "\<not> ppInitialized (pci_Create k rn a pds)"
    by (simp_all add: pci_Create_def NewPCIDevicePlugin_def MarkPCIDeviceAsHealthy_def Let_def split: prod.split)
  then have "pci_Stop sys (pci_Create k rn a pds) s = None"
    by (simp add: pci_Stop_def pci_stopDevicePlugin_def)
  then show ?thesis
    using pci_Start_serving [OF assms(1)] assms(2) fresh
    by (simp add: pci_Stop_serving pci_Started_def)
qed

subsection \<open>Concrete runs\<close>

definition demo_consts :: plugin_consts where
  "demo_consts = \<lparr>pkDevicePluginPath = ''/var/lib/kubelet/device-plugins/'',
     pkHostRootMount = ''/proc/1/root/'', pkResourceNameToEnvVar = (\<lambda>p r. p @ ''_'' @ r),
     pkUSBResourcePrefix = ''USB_RESOURCE''\<rparr>"

definition demo_pd :: "string \<Rightarrow> string \<Rightarrow> PCIDevice" where
  "demo_pd addr grp = \<lparr>pdMeta = empty_meta,
     pdStatus = empty_pd_status\<lparr>pdAddress := addr, pdIOMMUGroup := grp\<rparr>\<rparr>"

definition demo_claim :: "string \<Rightarrow> PCIDeviceClaim" where
  "demo_claim addr = \<lparr>pcMeta = empty_meta,
     pcSpec = \<lparr>pcAddress = addr, pcNodeName = ''n1'', pcUserName = ''admin'', pcDisableResourcePooling = False\<rparr>,
     pcStatus = \<lparr>pcKernelDriverToUnbind = [], pcPassthroughEnabled = True\<rparr>\<rparr>"

definition demo_pds :: "PCIDevice list" where
  "demo_pds = [demo_pd ''0000:04:10.0'' ''17'', demo_pd ''0000:04:10.1'' ''17'', demo_pd ''0000:05:00.0'' ''18'']"

definition demo_dp :: PCIDevicePlugin where
  "demo_dp = pci_Create demo_consts ''nvidia.com/A2'' ''0000:04:10.0'' demo_pds"

lemma demo_dp_inv: "pci_inv demo_dp"
  unfolding demo_dp_def by (rule pci_Create_inv) code_simp

theorem pci_Allocate_groups_witness:
  "\<exists>v specs. pci_Allocate demo_consts demo_dp [[''0000:04:10.1'']] =
       [\<lparr>carEnvs = [(pkResourceNameToEnvVar demo_consts PCIResourcePrefix (ppResourceName demo_dp), v)],
         carDevices = specs\<rparr>]
     \<and> set (split_char (CHR '','') v) = {''0000:04:10.0'', ''0000:04:10.1''}"
proof -
  have "\<forall>a \<in> set (mkeys (ppIommuToPCIMap demo_dp)). CHR '','' \<notin> set a" by code_simp
  moreover have "\<exists>i \<in> set [''0000:04:10.1'']. mhas (ppIommuToPCIMap demo_dp) i" by code_simp
  ultimately obtain v specs where *: "pci_Allocate demo_consts demo_dp [[''0000:04:10.1'']] =
       [\<lparr>carEnvs = [(pkResourceNameToEnvVar demo_consts PCIResourcePrefix (ppResourceName demo_dp), v)],
         carDevices = specs\<rparr>]"
    "set (split_char (CHR '','') v) =
      {a. \<exists>i \<in> set [''0000:04:10.1'']. \<exists>g. mget (ppIommuToPCIMap demo_dp) i = Some g
            \<and> mget (ppIommuToPCIMap demo_dp) a = Some g}"
    using pci_Allocate_groups [OF demo_dp_inv, of "[''0000:04:10.1'']" demo_consts] by blast
  have m: "ppIommuToPCIMap demo_dp = [(''0000:04:10.0'', ''17''), (''0000:04:10.1'', ''17''), (''0000:05:00.0'', ''18'')]"
    by code_simp
  have "set (split_char (CHR '','') v) = {''0000:04:10.0'', ''0000:04:10.1''}"
    unfolding *(2) m by (auto simp: mget_Cons split: if_splits)
  with *(1) show ?thesis by blast
qed

theorem pci_announced_allocatable_witness:
  "\<exists>g. mget (ppIommuToPCIMap (pci_recv \<lparr>dhDevID = ''0000:04:10.0'', dhHealth = Healthy\<rparr> demo_dp)) ''0000:05:00.0'' = Some g"
proof -
  let ?m = "\<lparr>dhDevID = ''0000:04:10.0'', dhHealth = Healthy\<rparr>"
  let ?st = "pci_ListAndWatch_start demo_dp None"
  let ?st' = "?st\<lparr>psPlugin := pci_recv ?m (psPlugin ?st), psSent := psSent ?st @ [ppDevs (pci_recv ?m (psPlugin ?st))]\<rparr>"
  let ?d = "\<lparr>dvID = ''0000:05:00.0'', dvHealth = Unhealthy, dvTopology = Some [0]\<rparr>"
  have "psRunning ?st" "?m \<in> set (ppHealth (psPlugin ?st))" by code_simp+
  then have "pci_step ?st ?st'" by (rule pci_step.receive)
  then have "pci_step\<^sup>*\<^sup>* (pci_ListAndWatch_start (pci_Create demo_consts ''nvidia.com/A2'' ''0000:04:10.0'' demo_pds) None) ?st'"
    by (simp add: demo_dp_def)
  moreover have "distinct (map (\<lambda>pd. pdAddress (pdStatus pd)) demo_pds)" by code_simp
  moreover have "ppDevs (pci_recv ?m demo_dp) \<in> set (psSent ?st')" by (simp add: pci_ListAndWatch_start_def)
  moreover have "?d \<in> set (ppDevs (pci_recv ?m demo_dp))" by code_simp
  ultimately have "\<exists>g. mget (ppIommuToPCIMap (psPlugin ?st')) (dvID ?d) = Some g"
    using pci_announced_allocatable by blast
  then show ?thesis by (simp add: pci_ListAndWatch_start_def)
qed

theorem pci_AddDevice_healthy_witness:
  "healths ''0000:06:00.0'' (ppDevs (fold pci_recv
     [\<lparr>dhDevID = ''0000:06:00.0'', dhHealth = Healthy\<rparr>, \<lparr>dhDevID = ''0000:04:10.0'', dhHealth = Healthy\<rparr>]
     (pci_AddDevice (demo_pd ''0000:06:00.0'' ''19'') (demo_claim ''0000:06:00.0'') demo_dp))) = [Healthy]"
proof -
  let ?pd = "demo_pd ''0000:06:00.0'' ''19''" and ?c = "demo_claim ''0000:06:00.0''"
  let ?ms = "[\<lparr>dhDevID = ''0000:06:00.0'', dhHealth = Healthy\<rparr>, \<lparr>dhDevID = ''0000:04:10.0'', dhHealth = Healthy\<rparr>]"
  have addr: "pdAddress (pdStatus ?pd) = ''0000:06:00.0''" by (simp add: demo_pd_def)
  have h: "ppHealth (pci_AddDevice ?pd ?c demo_dp) = rev ?ms" by code_simp
  have "\<not> mhas (ppIommuToPCIMap demo_dp) (pdAddress (pdStatus ?pd))" by code_simp
  moreover have "pdAddress (pdStatus ?pd) = pcAddress (pcSpec ?c)" by code_simp
  moreover have "\<forall>m \<in> set (ppHealth demo_dp). dhDevID m \<noteq> pdAddress (pdStatus ?pd)" by code_simp
  moreover have "mset ?ms = mset (ppHealth (pci_AddDevice ?pd ?c demo_dp))" unfolding h by simp
  ultimately show ?thesis
    using pci_AddDevice_healthy [OF demo_dp_inv, of ?pd ?c ?ms] addr by simp
qed

definition demo_os :: "string list os" where
  "demo_os =
     \<lparr>osStat = \<lambda>p s. Inr (), osLstat = \<lambda>p s. Inl NotFound, osReadFile = \<lambda>p s. Inl NotFound,
      osReadDir = \<lambda>p s. Inl NotFound, osReadlink = \<lambda>p s. Inl NotFound,
      osEvalSymlinks = \<lambda>p s. Inl NotFound, osGlobPrefix = \<lambda>p s. Inr [], osOpenWrite = \<lambda>p s. Inl NotFound,
      osWriteString = \<lambda>p d s. (Inl NotFound, s),
      osRemove = \<lambda>p s. if p \<in> set s then (Inr (), removeAll p s) else (Inl NotFound, s)\<rparr>"

definition demo_kubelet :: "string list kubelet" where
  "demo_kubelet =
     \<lparr>kListen = \<lambda>p s. (Inr (), p # s), kWaitForServer = \<lambda>p s. (Inr (), s), kConnect = \<lambda>s. Inr (),
      kRegister = \<lambda>e r s. (Inr (), s), kServe = \<lambda>s. None\<rparr>"

definition demo_watcher :: "string list watcher" where
  "demo_watcher = \<lparr>wNew = \<lambda>s. Inr (), wAdd = \<lambda>p s. Inr ()\<rparr>"

theorem pci_device_events_ignored_witness:
  "\<exists>mon. pci_healthCheck_setup demo_os demo_watcher demo_dp [] = Inr mon
     \<and> pci_healthCheck_event mon (HcEvent \<lparr>feName = ''/proc/1/root/dev/vfio/17'', feOp = FsRemove\<rparr>) demo_dp
       = (demo_dp, False)"
proof -
  let ?e = "\<lparr>feName = ''/proc/1/root/dev/vfio/17'', feOp = FsRemove\<rparr>"
  have "is_ok (pci_healthCheck_setup demo_os demo_watcher demo_dp [])" by code_simp
  then obtain mon where mon: "pci_healthCheck_setup demo_os demo_watcher demo_dp [] = Inr mon"
    by (auto simp: is_ok_def split: sum.splits)
  have "\<forall>i \<in> set (ids (ppDevs demo_dp)). CHR ''/'' \<notin> set i" by code_simp
  moreover have "CHR ''/'' \<in> set (feName ?e)" by simp
  moreover have "\<not> (feName ?e = ppSocketPath demo_dp \<and> feOp ?e = FsRemove)" by code_simp
  ultimately show ?thesis
    using pci_device_events_ignored [OF mon, of ?e] mon by blast
qed

end
