(* ===== verification/Pci_Device_Claim.thy ===== *)
theory Pci_Device_Claim
  imports Object_Cache Kubevirt_Types Iommu Pci_Device_Plugin
begin

section \<open>The PCIDeviceClaim controller\<close>

text \<open>
  Models \<^verbatim>\<open>pkg/controller/pcideviceclaim/pcideviceclaim_controller.go\<close>: binding a claimed
  device to vfio-pci, permitting it in the KubeVirt configuration, announcing it through a
  device plugin, and the reverse on removal.

  The API server, sysfs, the kernel module loader and the kubelet are the fields of
  \<open>claim_env\<close>.  The handler's own state is its node name and its map of device plugins; the
  package lock serialises the two handlers, so each is one atomic function of that state and
  the world.  \<open>ceSettle\<close> is what the plugin's goroutines do during the five seconds' sleep of
  \<^verbatim>\<open>OnRemove\<close>.  The goroutine that \<^verbatim>\<open>startDevicePlugin\<close> spawns is run up to its serving state.
  The outer option of a handler's result is \<^const>\<open>None\<close> for a panic.
\<close>

definition vfioPCIDriver :: string where
  "vfioPCIDriver = ''vfio-pci''"

definition DefaultNS :: string where
  "DefaultNS = ''harvester-system''"

definition KubevirtCR :: string where
  "KubevirtCR = ''kubevirt''"

definition vfioPCIDriverPath :: string where
  "vfioPCIDriverPath = ''/sys/bus/pci/drivers/vfio-pci''"

record 's claim_env =
  ceOs :: "'s os"
  ceConsts :: plugin_consts
  ceKubelet :: "'s kubelet"
  cePdc :: "(PCIDeviceClaim, 's) client"
  cePd :: "(PCIDevice, 's) client"
  ceKv :: "(KubeVirt, 's) client"
  ceProbe :: "string \<Rightarrow> 's \<Rightarrow> 's"
  ceSettle :: "PCIDevicePlugin \<Rightarrow> PCIDevicePlugin"

record Handler =
  hNodeName :: string
  hDevicePlugins :: "(string, PCIDevicePlugin) gomap"

type_synonym 's claim_result = "(PCIDeviceClaim option \<times> go_error option \<times> Handler \<times> 's) option"

subsection \<open>Kernel modules\<close>

definition loadVfioDrivers :: "'s claim_env \<Rightarrow> 's \<Rightarrow> 's" where
  "loadVfioDrivers E s = fold (ceProbe E) [''vfio-pci'', ''vfio_iommu_type1''] s"

fun check_lines :: "string list \<Rightarrow> string list \<Rightarrow> string list \<Rightarrow> bool" where
  "check_lines modules mark [] = False"
| "check_lines modules mark (line # rest) =
     (let mark = fold (\<lambda>m mk. if Contains line m then List.insert m mk else mk) modules mark
      in if length mark = length modules then True else check_lines modules mark rest)"

definition checkModulesExists :: "'s os \<Rightarrow> string \<Rightarrow> string list \<Rightarrow> 's \<Rightarrow> bool res" where
  "checkModulesExists sys filename modules s =
     (case osReadFile sys filename s of
        Inl err \<Rightarrow> Inl (Errorf ''failed to open /proc/modules'')
      | Inr fd \<Rightarrow>
          (if check_lines modules [] (scan_lines fd) then Inr True
           else case scan_err fd of
                  Some err \<Rightarrow> Inl (Errorf ''failed to read /proc/modules'')
                | None \<Rightarrow> Inr False))"

definition checkVFIOModules :: "'s os \<Rightarrow> 's \<Rightarrow> bool res" where
  "checkVFIOModules sys s = checkModulesExists sys ''/proc/modules'' [''vfio_pci'', ''vfio_iommu_type1''] s"

subsection \<open>Driver binding\<close>

definition deviceBoundToDriver :: "'s os \<Rightarrow> string \<Rightarrow> string \<Rightarrow> 's \<Rightarrow> bool" where
  "deviceBoundToDriver sys driverPath pciAddress s = is_ok (osStat sys (driverPath @ ''/'' @ pciAddress) s)"

definition skipDeviceBindingOp :: "PCIDeviceClaim \<Rightarrow> bool" where
  "skipDeviceBindingOp pdc = mhas (mAnnotations (pcMeta pdc)) SkipVFIOBindingAnnotationKey"

definition bindDeviceToVFIOPCIDriver :: "'s os \<Rightarrow> PCIDevice \<Rightarrow> 's \<Rightarrow> go_error option \<times> 's" where
  "bindDeviceToVFIOPCIDriver sys pd s =
     (let addr = pdAddress (pdStatus pd) in
      if deviceBoundToDriver sys vfioPCIDriverPath addr s then (None, s)
      else let devid = pdVendorID (pdStatus pd) @ '' '' @ pdDeviceID (pdStatus pd);
               new_id = ''/sys/bus/pci/drivers/vfio-pci/new_id'';
               bind = ''/sys/bus/pci/drivers/vfio-pci/bind''
      in case osOpenWrite sys new_id s of
           Inl err \<Rightarrow> (Some (Errorf ''error opening new_id file''), s)
         | Inr _ \<Rightarrow>
           (let (r, s) = osWriteString sys new_id devid s
            in if (case r of Inl err \<Rightarrow> \<not> IsAlreadyExists err | Inr _ \<Rightarrow> False)
               then (Some (Errorf ''error writing to new_id file''), s)
               else case osOpenWrite sys bind s of
                      Inl err \<Rightarrow> (Some (Errorf ''error opening bind file''), s)
                    | Inr _ \<Rightarrow>
                      (case osWriteString sys bind addr s of
                         (Inl err, s) \<Rightarrow> (Some (Errorf ''error writing to bind file''), s)
                       | (Inr _, s) \<Rightarrow>
                           (if \<not> deviceBoundToDriver sys vfioPCIDriverPath addr s
                            then (Some (Errorf (''no device '' @ addr @ '' found at /sys/bus/pci/drivers/vfio-pci'')), s)
                            else (None, s)))))"

definition unbindDeviceFromDriver :: "'s os \<Rightarrow> string \<Rightarrow> string \<Rightarrow> 's \<Rightarrow> go_error option \<times> 's" where
  "unbindDeviceFromDriver sys addr driver s =
     (let driverPath = ''/sys/bus/pci/drivers/'' @ driver
      in if \<not> deviceBoundToDriver sys driverPath addr s then (None, s)
         else let path = driverPath @ ''/unbind''
              in case osOpenWrite sys path s of
                   Inl err \<Rightarrow> (Some err, s)
                 | Inr _ \<Rightarrow>
                   (case osWriteString sys path addr s of
                      (Inl err, s) \<Rightarrow> (Some err, s)
                    | (Inr _, s) \<Rightarrow>
                        (if deviceBoundToDriver sys driverPath addr s
                         then (Some (Errorf ''device still bound to driver, will check again''), s)
                         else (None, s))))"

definition enablePassthrough :: "'s claim_env \<Rightarrow> PCIDevice \<Rightarrow> 's \<Rightarrow> go_error option \<times> 's" where
  "enablePassthrough E pd s =
     (case bindDeviceToVFIOPCIDriver (ceOs E) pd s of
        (Some err, s) \<Rightarrow> (Some err, s)
      | (None, s) \<Rightarrow>
          (case cUpdateStatus (cePd E) (pd\<lparr>pdStatus := (pdStatus pd)\<lparr>pdKernelDriverInUse := vfioPCIDriver\<rparr>\<rparr>) s of
             (Inl err, s) \<Rightarrow> (Some err, s)
           | (Inr _, s) \<Rightarrow> (None, s)))"

definition bindDeviceToOriginalDriver :: "'s claim_env \<Rightarrow> PCIDevice \<Rightarrow> 's \<Rightarrow> go_error option \<times> 's" where
  "bindDeviceToOriginalDriver E pd s =
     (let address = pdAddress (pdStatus pd)
      in case mget (mAnnotations (pdMeta pd)) PciDeviceDriver of
           None \<Rightarrow> (None, s)
         | Some orgDriver \<Rightarrow>
           (if orgDriver = [] then (None, s)
            else let orgDriverPath = ''/sys/bus/pci/drivers/'' @ orgDriver
            in if deviceBoundToDriver (ceOs E) orgDriverPath address s then (None, s)
               else let bind = ''/sys/bus/pci/drivers/'' @ orgDriver @ ''/bind''
               in case osOpenWrite (ceOs E) bind s of
                    Inl err \<Rightarrow> (Some err, s)
                  | Inr _ \<Rightarrow>
                    (case osWriteString (ceOs E) bind address s of
                       (Inl err, s) \<Rightarrow> (Some err, s)
                     | (Inr _, s) \<Rightarrow>
                       (case cUpdateStatus (cePd E)
                               (pd\<lparr>pdStatus := (pdStatus pd)\<lparr>pdKernelDriverInUse := orgDriver\<rparr>\<rparr>) s of
                          (Inl err, s) \<Rightarrow> (Some err, s)
                        | (Inr _, s) \<Rightarrow> (None, s)))))"

definition disablePassthrough :: "'s claim_env \<Rightarrow> PCIDevice \<Rightarrow> 's \<Rightarrow> go_error option \<times> 's" where
  "disablePassthrough E pd s =
     (case unbindDeviceFromDriver (ceOs E) (pdAddress (pdStatus pd)) vfioPCIDriver s of
        (Some err, s) \<Rightarrow> (Some (Errorf ''failed unbinding driver''), s)
      | (None, s) \<Rightarrow> bindDeviceToOriginalDriver E pd s)"

definition attemptToEnablePassthrough ::
  "'s claim_env \<Rightarrow> PCIDevice \<Rightarrow> PCIDeviceClaim \<Rightarrow> 's \<Rightarrow> go_error option \<times> PCIDeviceClaim \<times> 's" where
  "attemptToEnablePassthrough E pd pdc s =
     (let addr = pdAddress (pdStatus pd);
          done = pdc\<lparr>pcStatus := (pcStatus pdc)\<lparr>pcPassthroughEnabled := True\<rparr>\<rparr>
      in if deviceBoundToDriver (ceOs E) vfioPCIDriverPath addr s then (None, done, cAlias (cePdc E) (pcName pdc) done s)
         else case (if TrimSpace (pdKernelDriverInUse (pdStatus pd)) \<noteq> []
                    then unbindDeviceFromDriver (ceOs E) addr (pdKernelDriverInUse (pdStatus pd)) s
                    else (None, s)) of
                (Some err, s) \<Rightarrow> (Some err, pdc, s)
              | (None, s) \<Rightarrow>
                (case (case mget (mAnnotations (pdMeta pd)) PciDeviceDriver of
                         Some originalDriver \<Rightarrow> unbindDeviceFromDriver (ceOs E) addr originalDriver s
                       | None \<Rightarrow> (None, s)) of
                   (Some err, s) \<Rightarrow> (Some err, pdc, s)
                 | (None, s) \<Rightarrow>
                   (case enablePassthrough E pd s of
                      (Some err, s) \<Rightarrow> (Some err, pdc, s)
                    | (None, s) \<Rightarrow> (None, done, cAlias (cePdc E) (pcName pdc) done s))))"

subsection \<open>Orphaned devices\<close>

text \<open>\<^const>\<open>None\<close> is the panic on element 0 of an empty owner list.\<close>

fun pciDeviceIsClaimed :: "PCIDevice \<Rightarrow> PCIDeviceClaim list \<Rightarrow> string \<Rightarrow> bool option" where
  "pciDeviceIsClaimed pd [] nodeName = Some False"
| "pciDeviceIsClaimed pd (pdc # pdcs) nodeName =
     (if pdNodeName (pdStatus pd) \<noteq> nodeName then pciDeviceIsClaimed pd pdcs nodeName
      else case mOwnerReferences (pcMeta pdc) of
             None \<Rightarrow> Some False
           | Some [] \<Rightarrow> None
           | Some (owner # _) \<Rightarrow>
               (if orName owner = pdName pd then Some True else pciDeviceIsClaimed pd pdcs nodeName))"

fun getOrphanedPCIDevices ::
  "PCIDeviceClaim list \<Rightarrow> PCIDevice list \<Rightarrow> string \<Rightarrow> PCIDevice list option" where
  "getOrphanedPCIDevices pdcs [] nodeName = Some []"
| "getOrphanedPCIDevices pdcs (pd # pds) nodeName =
     (let isVfioPci = (pdKernelDriverInUse (pdStatus pd) = ''vfio-pci'');
          isOnThisNode = (nodeName = pdNodeName (pdStatus pd))
      in case (if isVfioPci \<and> isOnThisNode then map_option Not (pciDeviceIsClaimed pd pdcs nodeName)
               else Some False) of
           None \<Rightarrow> None
         | Some orphaned \<Rightarrow>
             map_option (\<lambda>rest. if orphaned then pd # rest else rest) (getOrphanedPCIDevices pdcs pds nodeName))"

fun unbind_all :: "'s os \<Rightarrow> PCIDevice list \<Rightarrow> 's \<Rightarrow> go_error option \<times> 's" where
  "unbind_all sys [] s = (None, s)"
| "unbind_all sys (pd # pds) s =
     (case unbindDeviceFromDriver sys (pdAddress (pdStatus pd)) vfioPCIDriver s of
        (Some err, s) \<Rightarrow> (Some err, s)
      | (None, s) \<Rightarrow> unbind_all sys pds s)"

definition unbindOrphanedPCIDevices :: "'s claim_env \<Rightarrow> Handler \<Rightarrow> 's \<Rightarrow> (go_error option \<times> 's) option" where
  "unbindOrphanedPCIDevices E h s =
     (case cList (cePdc E) [] s of
        Inl err \<Rightarrow> Some (Some err, s)
      | Inr pdcs \<Rightarrow>
          (case cList (cePd E) [] s of
             Inl err \<Rightarrow> Some (Some err, s)
           | Inr pds \<Rightarrow>
               map_option (\<lambda>orphaned. unbind_all (ceOs E) orphaned s)
                 (getOrphanedPCIDevices pdcs pds (hNodeName h))))"

subsection \<open>Individual resource names\<close>

definition individual_resource_name :: "PCIDevice \<Rightarrow> string" where
  "individual_resource_name pd =
     (let parts = SplitN2 (pdResourceName (pdStatus pd)) ''/''
      in if length parts = 2 then (parts ! 0) @ ''/'' @ pdName pd else pdName pd)"

text \<open>The error of the second update comes with whatever object the client returned; the caller
  drops it.\<close>

definition ensureIndividualDeviceResourceName ::
  "'s claim_env \<Rightarrow> PCIDevice \<Rightarrow> 's \<Rightarrow> PCIDevice res \<times> 's" where
  "ensureIndividualDeviceResourceName E pd s =
     (let individualResourceName = individual_resource_name pd;
          pdCopy = pd\<lparr>pdMeta := (pdMeta pd)\<lparr>mAnnotations :=
            mput PCIDeviceOverrideResourceName individualResourceName (mAnnotations (pdMeta pd))\<rparr>\<rparr>
      in case cUpdate (cePd E) pdCopy s of
           (Inl err, s) \<Rightarrow> (Inl err, s)
         | (Inr updated, s) \<Rightarrow>
             cUpdateStatus (cePd E)
               (updated\<lparr>pdStatus := (pdStatus updated)\<lparr>pdResourceName := individualResourceName\<rparr>\<rparr>) s)"

definition cleanupIndividualDeviceResourceName :: "'s claim_env \<Rightarrow> PCIDevice \<Rightarrow> 's \<Rightarrow> go_error option \<times> 's" where
  "cleanupIndividualDeviceResourceName E pd s =
     (if \<not> mhas (mAnnotations (pdMeta pd)) PCIDeviceOverrideResourceName then (None, s)
      else case cUpdate (cePd E) (pd\<lparr>pdMeta := (pdMeta pd)\<lparr>mAnnotations :=
                  mdel PCIDeviceOverrideResourceName (mAnnotations (pdMeta pd))\<rparr>\<rparr>) s of
             (Inl err, s) \<Rightarrow> (Some err, s)
           | (Inr _, s) \<Rightarrow> (None, s))"

text \<open>The outer \<^const>\<open>None\<close> is the fatal exit of the group map.\<close>

definition checkGroupMap :: "'s os \<Rightarrow> PCIDevice \<Rightarrow> 's \<Rightarrow> go_error option option" where
  "checkGroupMap sys pd s =
     (case GetGroupMap sys (pdAddress (pdStatus pd)) s of
        None \<Rightarrow> None
      | Some (Inl err) \<Rightarrow> Some (Some err)
      | Some (Inr grp) \<Rightarrow>
          Some (if grp \<noteq> pdIOMMUGroup (pdStatus pd)
                then Some (Errorf (''group mismatch: sys '' @ grp @ '' pd '' @ pdIOMMUGroup (pdStatus pd)))
                else None))"

subsection \<open>Permitting the device in KubeVirt\<close>

text \<open>
  The removal in the loop shifts the backing array that the configuration's slice shares.
  When the device counts as permitted, the configuration keeps its old slice header, which
  now reads the shifted array.
\<close>

definition reconcileKubevirtCR :: "KubeVirt \<Rightarrow> PCIDevice \<Rightarrow> KubeVirt" where
  "reconcileKubevirtCR kvObj pd =
     (let permitted = permitted_of kvObj;
          xs = pmPciHostDevices permitted;
          resourceName = pdResourceName (pdStatus pd);
          devToPermit = \<lparr>phPCIVendorSelector = pdVendorID (pdStatus pd) @ '':'' @ pdDeviceID (pdStatus pd),
                         phResourceName = resourceName, phExternalResourceProvider = True\<rparr>;
          result = (case find_index (\<lambda>d. phResourceName d = resourceName) xs of
                      None \<Rightarrow> xs @ [devToPermit]
                    | Some i \<Rightarrow>
                        (if phExternalResourceProvider (xs ! i) then snd (append_remove i xs)
                         else fst (append_remove i xs) @ [devToPermit]))
      in kvObj\<lparr>kvPermittedHostDevices := Some (permitted\<lparr>pmPciHostDevices := result\<rparr>)\<rparr>)"

definition permitHostDeviceInKubeVirt :: "'s claim_env \<Rightarrow> PCIDevice \<Rightarrow> 's \<Rightarrow> go_error option \<times> 's" where
  "permitHostDeviceInKubeVirt E pd s =
     (case cGet (ceKv E) (DefaultNS @ ''/'' @ KubevirtCR) s of
        Inl err \<Rightarrow> (Some (Errorf ''cannot obtain KubeVirt CR''), s)
      | Inr kv \<Rightarrow>
          (let kvCopy = reconcileKubevirtCR kv pd
           in if kvPermittedHostDevices kv \<noteq> kvPermittedHostDevices kvCopy
              then case cUpdate (ceKv E) kvCopy s of
                     (Inl err, s) \<Rightarrow> (Some err, s)
                   | (Inr _, s) \<Rightarrow> (None, s)
              else (None, s)))"

subsection \<open>Device plugins\<close>

definition startDevicePlugin :: "'s claim_env \<Rightarrow> PCIDevicePlugin \<Rightarrow> 's \<Rightarrow> PCIDevicePlugin \<times> 's" where
  "startDevicePlugin E dp s =
     (if pci_Started dp then (dp, s)
      else let stop = Suc (stStopChan (ppStarter dp));
               (dp, err, s) = pci_Start (ceOs E) (ceKubelet E) stop dp s
           in (pci_SetStarted stop dp, s))"

definition createDevicePlugin ::
  "'s claim_env \<Rightarrow> PCIDevice list \<Rightarrow> PCIDeviceClaim \<Rightarrow> string \<Rightarrow> 's \<Rightarrow> PCIDevicePlugin \<times> 's" where
  "createDevicePlugin E pds pdc resourceName s =
     (let dp = pci_Create (ceConsts E) resourceName (pcAddress (pcSpec pdc)) pds
      in if pcPassthroughEnabled (pcStatus pdc) \<and> \<not> pci_Started dp then startDevicePlugin E dp s
         else (dp, s))"

subsection \<open>The handlers\<close>

text \<open>The outer \<^const>\<open>None\<close> is a panic on an empty, non-nil owner list.\<close>

definition getPCIDeviceForClaim :: "'s claim_env \<Rightarrow> PCIDeviceClaim \<Rightarrow> 's \<Rightarrow> PCIDevice res option" where
  "getPCIDeviceForClaim E pdc s =
     (case mOwnerReferences (pcMeta pdc) of
        None \<Rightarrow> Some (Inl (Errorf (''Cannot find PCIDevice that owns '' @ pcName pdc)))
      | Some [] \<Rightarrow> None
      | Some (owner # _) \<Rightarrow> Some (cGet (cePd E) (orName owner) s))"

definition remove_from_plugin ::
  "'s claim_env \<Rightarrow> PCIDevice \<Rightarrow> PCIDeviceClaim \<Rightarrow> string \<Rightarrow> Handler \<Rightarrow> 's
   \<Rightarrow> (go_error option \<times> Handler \<times> 's) option" where
  "remove_from_plugin E pd pdc resourceName h s =
     (case Find resourceName (hDevicePlugins h) of
        None \<Rightarrow> Some (None, h, s)
      | Some dp \<Rightarrow>
          (let dp = ceSettle E (pci_RemoveDevice pd pdc dp);
               h' = h\<lparr>hDevicePlugins := mput resourceName dp (hDevicePlugins h)\<rparr>
           in if pci_GetCount dp = 0
              then case pci_Stop (ceOs E) dp s of
                     None \<Rightarrow> None
                   | Some (dp', Some err, s) \<Rightarrow>
                       Some (Some err, h\<lparr>hDevicePlugins := mput resourceName dp' (hDevicePlugins h)\<rparr>, s)
                   | Some (dp', None, s) \<Rightarrow>
                       Some (None, h\<lparr>hDevicePlugins := mdel resourceName (hDevicePlugins h)\<rparr>, s)
              else Some (None, h', s)))"

definition OnRemove :: "'s claim_env \<Rightarrow> PCIDeviceClaim option \<Rightarrow> Handler \<Rightarrow> 's \<Rightarrow> 's claim_result" where
  "OnRemove E pdcp h s =
     (case pdcp of None \<Rightarrow> Some (None, None, h, s) | Some pdc \<Rightarrow>
      if \<not> mDeletionTimestamp (pcMeta pdc) then Some (Some pdc, None, h, s)
      else if pcNodeName (pcSpec pdc) \<noteq> hNodeName h
      then Some (Some pdc, Some (Errorf (''controller '' @ hNodeName h @ '' cannot process claims for node ''
                                         @ pcNodeName (pcSpec pdc))), h, s)
      else case getPCIDeviceForClaim E pdc s of
        None \<Rightarrow> None
      | Some (Inl err) \<Rightarrow>
          Some (Some pdc, if IsNotFound err then None else Some err, h, s)
      | Some (Inr pd) \<Rightarrow>
        (case (if skipDeviceBindingOp pdc then (None, s) else disablePassthrough E pd s) of
           (Some err, s) \<Rightarrow> Some (Some pdc, Some err, h, s)
         | (None, s) \<Rightarrow>
           (let resourceName = (case mget (mAnnotations (pcMeta pdc)) PCIDeviceOverrideResourceName of
                                  Some val \<Rightarrow> val | None \<Rightarrow> pdResourceName (pdStatus pd))
            in case remove_from_plugin E pd pdc resourceName h s of
                 None \<Rightarrow> None
               | Some (Some err, h, s) \<Rightarrow> Some (Some pdc, Some err, h, s)
               | Some (None, h, s) \<Rightarrow>
                   (if pcDisableResourcePooling (pcSpec pdc)
                    then case cleanupIndividualDeviceResourceName E pd s of
                           (Some err, s) \<Rightarrow>
                             Some (Some pdc, Some (Errorf ''error cleaning up individual device resource name''), h, s)
                         | (None, s) \<Rightarrow> Some (Some pdc, None, h, s)
                    else Some (Some pdc, None, h, s)))))"

text \<open>The part of the reconcile after the device is known and its IOMMU group checked.\<close>

definition announce_claim ::
  "'s claim_env \<Rightarrow> PCIDeviceClaim \<Rightarrow> PCIDeviceClaim \<Rightarrow> PCIDevice \<Rightarrow> string \<Rightarrow> Handler \<Rightarrow> 's
   \<Rightarrow> PCIDeviceClaim option \<times> go_error option \<times> Handler \<times> 's" where
  "announce_claim E pdcCopy pdc pd resourceName h s =
     (let (dp, s) = (case Find resourceName (hDevicePlugins h) of
                       None \<Rightarrow> createDevicePlugin E [pd] pdc resourceName s
                     | Some dp \<Rightarrow> (pci_AddDevice pd pdc dp, s));
          h = h\<lparr>hDevicePlugins := mput resourceName dp (hDevicePlugins h)\<rparr>
      in if \<not> pcPassthroughEnabled (pcStatus pdcCopy)
         then case cUpdateStatus (cePdc E)
                     (pdcCopy\<lparr>pcStatus := \<lparr>pcKernelDriverToUnbind = pdKernelDriverInUse (pdStatus pd),
                                           pcPassthroughEnabled = True\<rparr>\<rparr>) s of
                (Inl err, s) \<Rightarrow> (None, Some err, h, s)
              | (Inr o', s) \<Rightarrow> (Some o', None, h, s)
         else (Some pdc, None, h, s))"

definition enable_claim ::
  "'s claim_env \<Rightarrow> PCIDeviceClaim \<Rightarrow> PCIDevice \<Rightarrow> Handler \<Rightarrow> 's
   \<Rightarrow> PCIDeviceClaim option \<times> go_error option \<times> Handler \<times> 's" where
  "enable_claim E pdc pd h s =
     (case permitHostDeviceInKubeVirt E pd s of
        (Some err, s) \<Rightarrow> (Some pdc, Some (Errorf ''error updating kubevirt CR''), h, s)
      | (None, s) \<Rightarrow>
          (if \<not> skipDeviceBindingOp pdc
           then case attemptToEnablePassthrough E pd pdc s of
                  (Some err, pdc', s) \<Rightarrow> (Some pdc', Some err, h, s)
                | (None, pdc', s) \<Rightarrow> announce_claim E pdc pdc' pd (pdResourceName (pdStatus pd)) h s
           else let pdc' = pdc\<lparr>pcStatus := (pcStatus pdc)\<lparr>pcPassthroughEnabled := True\<rparr>\<rparr>;
                    resourceName = (case mget (mAnnotations (pcMeta pdc)) PCIDeviceOverrideResourceName of
                                      Some val \<Rightarrow> val | None \<Rightarrow> pdResourceName (pdStatus pd));
                    s = cAlias (cePdc E) (pcName pdc) pdc' s
                in announce_claim E pdc pdc' pd resourceName h s))"

definition reconcilePCIDeviceClaims ::
  "'s claim_env \<Rightarrow> PCIDeviceClaim option \<Rightarrow> Handler \<Rightarrow> 's \<Rightarrow> 's claim_result" where
  "reconcilePCIDeviceClaims E pdcp h s =
     (case pdcp of None \<Rightarrow> Some (None, None, h, s) | Some pdc \<Rightarrow>
      if mDeletionTimestamp (pcMeta pdc) \<or> pcNodeName (pcSpec pdc) \<noteq> hNodeName h
      then Some (Some pdc, None, h, s)
      else case checkVFIOModules (ceOs E) s of
        Inl err \<Rightarrow> Some (Some pdc, Some (Errorf ''error checking vfio modules''), h, s)
      | Inr False \<Rightarrow>
          Some (Some pdc, None, h, cEnqueue (cePdc E) (pcName pdc) (loadVfioDrivers E s))
      | Inr True \<Rightarrow>
        (case getPCIDeviceForClaim E pdc s of
           None \<Rightarrow> None
         | Some (Inl err) \<Rightarrow> Some (Some pdc, Some err, h, s)
         | Some (Inr pd) \<Rightarrow>
           (case checkGroupMap (ceOs E) pd s of
              None \<Rightarrow> None
            | Some (Some err) \<Rightarrow> Some (Some pdc, Some err, h, s)
            | Some None \<Rightarrow>
              (if pcDisableResourcePooling (pcSpec pdc)
               then case ensureIndividualDeviceResourceName E pd s of
                      (Inl err, s) \<Rightarrow>
                        Some (Some pdc, Some (Errorf ''error setting individual device resource name''), h, s)
                    | (Inr pd, s) \<Rightarrow> Some (enable_claim E pdc pd h s)
               else Some (enable_claim E pdc pd h s)))))"

definition OnDeviceChange ::
  "'s claim_env \<Rightarrow> Handler \<Rightarrow> PCIDevice \<Rightarrow> 's \<Rightarrow> (string \<times> string) list res" where
  "OnDeviceChange E h pd s =
     (if pdNodeName (pdStatus pd) = hNodeName h \<and> pdKernelDriverInUse (pdStatus pd) \<noteq> vfioPCIDriver
      then case cList (cePdc E) [(NodeKeyName, hNodeName h)] s of
             Inl err \<Rightarrow> Inl (Errorf ''error listing PCIDeviceClaims during device watch'')
           | Inr pdcList \<Rightarrow>
               Inr (concat (map (\<lambda>v.
                 map (\<lambda>owner. (mNamespace (pcMeta v), pcName v))
                   (filter (\<lambda>owner. orKind owner = mKind (pdMeta pd) \<and> orAPIVersion owner = mAPIVersion (pdMeta pd)
                                    \<and> orName owner = pdName pd)
                     (case mOwnerReferences (pcMeta v) of None \<Rightarrow> [] | Some os \<Rightarrow> os))) pdcList))
      else Inr [])"

subsection \<open>Permitted host devices\<close>

definition permitted_entry :: "PCIDevice \<Rightarrow> PciHostDevice" where
  "permitted_entry pd = \<lparr>phPCIVendorSelector = pdVendorID (pdStatus pd) @ '':'' @ pdDeviceID (pdStatus pd),
     phResourceName = pdResourceName (pdStatus pd), phExternalResourceProvider = True\<rparr>"

lemma reconcileKubevirtCR_list:
  "pmPciHostDevices (permitted_of (reconcileKubevirtCR kv pd)) =
     (let xs = pmPciHostDevices (permitted_of kv)
      in case find_index (\<lambda>d. phResourceName d = pdResourceName (pdStatus pd)) xs of
           None \<Rightarrow> xs @ [permitted_entry pd]
         | Some i \<Rightarrow> (take i xs @ drop (Suc i) xs)
                      @ [if phExternalResourceProvider (xs ! i) then last xs else permitted_entry pd])"
  by (auto simp: reconcileKubevirtCR_def permitted_of_def [of "_\<lparr>kvPermittedHostDevices := _\<rparr>"]
      permitted_entry_def snd_append_remove Let_def dest: find_index_Some split: option.split)

text \<open>
  Property C27.  Permitting a device whose resource is not listed yet, or is listed without an
  external provider, or stands last, gives a configuration that lists the resource exactly
  once, with an external provider, and keeps every other entry, in order.
\<close>

theorem reconcileKubevirtCR_permits:
  assumes "distinct (map phResourceName (pmPciHostDevices (permitted_of kv)))"
    and "\<forall>x \<in> set (butlast (pmPciHostDevices (permitted_of kv))).
           phResourceName x = pdResourceName (pdStatus pd) \<longrightarrow> \<not> phExternalResourceProvider x"
  shows "\<exists>e. phResourceName e = pdResourceName (pdStatus pd) \<and> phExternalResourceProvider e
    \<and> pmPciHostDevices (permitted_of (reconcileKubevirtCR kv pd)) =
        filter (\<lambda>x. phResourceName x \<noteq> pdResourceName (pdStatus pd)) (pmPciHostDevices (permitted_of kv)) @ [e]"
proof -
  let ?xs = "pmPciHostDevices (permitted_of kv)" and ?r = "pdResourceName (pdStatus pd)"
  have entry: "phResourceName (permitted_entry pd) = ?r" "phExternalResourceProvider (permitted_entry pd)"
    by (simp_all add: permitted_entry_def)
  show ?thesis
  proof (cases "find_index (\<lambda>d. phResourceName d = ?r) ?xs")
    case None
    then have "filter (\<lambda>x. phResourceName x \<noteq> ?r) ?xs = ?xs" by (simp add: find_index_None filter_id_conv)
    with None entry show ?thesis by (simp add: reconcileKubevirtCR_list)
  next
    case (Some i)
    note hit = find_index_Some [OF Some] and rem = remove_hit_filter [OF assms(1) Some]
    have "last ?xs = ?xs ! i" if "phExternalResourceProvider (?xs ! i)"
    proof (cases "Suc i < length ?xs")
      case True
      then have "?xs ! i \<in> set (butlast ?xs)" by (auto simp: nth_butlast [symmetric] intro!: nth_mem)
      with assms(2) that hit show ?thesis by blast
    next
      case False
      with hit have "i = length ?xs - 1" "?xs \<noteq> []" by auto
      then show ?thesis by (simp add: last_conv_nth)
    qed
    with Some hit entry rem show ?thesis
      by (cases "phExternalResourceProvider (?xs ! i)") (simp_all add: reconcileKubevirtCR_list Let_def)
  qed
qed

text \<open>
  When the resource is already permitted with an external provider and is not the
  last entry, the call takes it out of the configuration: no entry of that name is left, and the
  last entry stands twice at the end.  The element was removed from the shared backing array
  and, being permitted, not added again.
\<close>

lemma reconcileKubevirtCR_drops:
  assumes "distinct (map phResourceName (pmPciHostDevices (permitted_of kv)))"
    and "x \<in> set (butlast (pmPciHostDevices (permitted_of kv)))"
    and "phResourceName x = pdResourceName (pdStatus pd)" and "phExternalResourceProvider x"
  shows "pmPciHostDevices (permitted_of (reconcileKubevirtCR kv pd)) =
      filter (\<lambda>y. phResourceName y \<noteq> pdResourceName (pdStatus pd)) (pmPciHostDevices (permitted_of kv))
        @ [last (pmPciHostDevices (permitted_of kv))]
    \<and> phResourceName (last (pmPciHostDevices (permitted_of kv))) \<noteq> pdResourceName (pdStatus pd)"
proof -
  let ?xs = "pmPciHostDevices (permitted_of kv)" and ?r = "pdResourceName (pdStatus pd)"
  obtain j where j: "j < length (butlast ?xs)" "butlast ?xs ! j = x"
    using assms(2) by (auto simp: in_set_conv_nth)
  then have xj: "?xs ! j = x" "j < length ?xs" by (auto simp: nth_butlast)
  then have "find_index (\<lambda>d. phResourceName d = ?r) ?xs \<noteq> None"
    using assms(3) by (auto simp: find_index_None)
  then obtain i where i: "find_index (\<lambda>d. phResourceName d = ?r) ?xs = Some i" by blast
  from find_index_Some [OF i] have hit: "i < length ?xs" "phResourceName (?xs ! i) = ?r" by auto
  then have "i = j" using xj assms(3) by (intro distinct_map_nth [OF assms(1)]) simp_all
  with i j xj assms(4) show ?thesis
    using remove_hit_filter [OF assms(1) i] last_not_hit [OF assms(1) i]
    by (simp add: reconcileKubevirtCR_list Let_def)
qed

definition demo_kv :: "string list \<Rightarrow> KubeVirt" where
  "demo_kv names = \<lparr>kvMeta = empty_meta, kvPermittedHostDevices = Some (empty_permitted\<lparr>pmPciHostDevices :=
     map (\<lambda>n. \<lparr>phPCIVendorSelector = ''10de:25b6'', phResourceName = n, phExternalResourceProvider = True\<rparr>) names\<rparr>)\<rparr>"

definition demo_named_pd :: "string \<Rightarrow> PCIDevice" where
  "demo_named_pd n = \<lparr>pdMeta = empty_meta, pdStatus = empty_pd_status\<lparr>pdResourceName := n\<rparr>\<rparr>"

theorem reconcileKubevirtCR_permits_witness:
  "\<exists>e :: PciHostDevice. phResourceName e = ''b'' \<and> phExternalResourceProvider e
     \<and> map phResourceName (pmPciHostDevices (permitted_of (reconcileKubevirtCR (demo_kv [''a'', ''b'']) (demo_named_pd ''b''))))
       = [''a'', ''b'']"
proof -
  let ?kv = "demo_kv [''a'', ''b'']" and ?pd = "demo_named_pd ''b''"
  have "distinct (map phResourceName (pmPciHostDevices (permitted_of ?kv)))" by code_simp
  moreover have "\<forall>x \<in> set (butlast (pmPciHostDevices (permitted_of ?kv))).
      phResourceName x = pdResourceName (pdStatus ?pd) \<longrightarrow> \<not> phExternalResourceProvider x" by code_simp
  ultimately obtain e where e: "phResourceName e = pdResourceName (pdStatus ?pd)" "phExternalResourceProvider e"
    "pmPciHostDevices (permitted_of (reconcileKubevirtCR ?kv ?pd)) =
       filter (\<lambda>x. phResourceName x \<noteq> pdResourceName (pdStatus ?pd)) (pmPciHostDevices (permitted_of ?kv)) @ [e]"
    using reconcileKubevirtCR_permits [of ?kv ?pd] by blast
  have f: "map phResourceName (filter (\<lambda>x. phResourceName x \<noteq> pdResourceName (pdStatus ?pd))
      (pmPciHostDevices (permitted_of ?kv))) = [''a'']" by code_simp
  have r: "pdResourceName (pdStatus ?pd) = ''b''" by code_simp
  have "map phResourceName (pmPciHostDevices (permitted_of (reconcileKubevirtCR ?kv ?pd))) = [''a'', ''b'']"
    unfolding e(3) map_append f using e(1) r by simp
  with e(1,2) r show ?thesis by (intro exI [of _ e]) simp
qed

subsection \<open>Binding\<close>

text \<open>
  The assumption on the outside world: calls of the API server and of the kubelet do not
  change which driver of the node a device is bound to.
\<close>

definition vfio_bound :: "'s claim_env \<Rightarrow> string \<Rightarrow> 's \<Rightarrow> bool" where
  "vfio_bound E addr s = deviceBoundToDriver (ceOs E) vfioPCIDriverPath addr s"

definition keeps_binding :: "'s claim_env \<Rightarrow> string \<Rightarrow> bool" where
  "keeps_binding E addr \<longleftrightarrow>
     (\<forall>s o'. vfio_bound E addr (snd (cUpdate (cePd E) o' s)) = vfio_bound E addr s)
   \<and> (\<forall>s o'. vfio_bound E addr (snd (cUpdateStatus (cePd E) o' s)) = vfio_bound E addr s)
   \<and> (\<forall>s o'. vfio_bound E addr (snd (cUpdateStatus (cePdc E) o' s)) = vfio_bound E addr s)
   \<and> (\<forall>s o'. vfio_bound E addr (snd (cUpdate (ceKv E) o' s)) = vfio_bound E addr s)
   \<and> (\<forall>s p. vfio_bound E addr (snd (osRemove (ceOs E) p s)) = vfio_bound E addr s)
   \<and> (\<forall>s p. vfio_bound E addr (snd (kListen (ceKubelet E) p s)) = vfio_bound E addr s)
   \<and> (\<forall>s p. vfio_bound E addr (snd (kWaitForServer (ceKubelet E) p s)) = vfio_bound E addr s)
   \<and> (\<forall>s e r. vfio_bound E addr (snd (kRegister (ceKubelet E) e r s)) = vfio_bound E addr s)
   \<and> (\<forall>s n o'. vfio_bound E addr (cAlias (cePdc E) n o' s) = vfio_bound E addr s)"

lemma keeps_bindingD:
  assumes "keeps_binding E addr"
  shows "cUpdate (cePd E) pd s = (r1, s') \<Longrightarrow> vfio_bound E addr s' = vfio_bound E addr s"
    and "cUpdateStatus (cePd E) pd s = (r2, s') \<Longrightarrow> vfio_bound E addr s' = vfio_bound E addr s"
    and "cUpdateStatus (cePdc E) pdc s = (r3, s') \<Longrightarrow> vfio_bound E addr s' = vfio_bound E addr s"
    and "cUpdate (ceKv E) kv s = (r4, s') \<Longrightarrow> vfio_bound E addr s' = vfio_bound E addr s"
    and "osRemove (ceOs E) p s = (r5, s') \<Longrightarrow> vfio_bound E addr s' = vfio_bound E addr s"
    and "kListen (ceKubelet E) p s = (r5, s') \<Longrightarrow> vfio_bound E addr s' = vfio_bound E addr s"
    and "kWaitForServer (ceKubelet E) p s = (r5, s') \<Longrightarrow> vfio_bound E addr s' = vfio_bound E addr s"
    and "kRegister (ceKubelet E) e rn s = (r5, s') \<Longrightarrow> vfio_bound E addr s' = vfio_bound E addr s"
    and "vfio_bound E addr (cAlias (cePdc E) n pdc s) = vfio_bound E addr s"
  using assms unfolding keeps_binding_def by (metis snd_conv)+

lemma bindDeviceToVFIOPCIDriver_bound:
  "bindDeviceToVFIOPCIDriver (ceOs E) pd s = (None, s') \<Longrightarrow> vfio_bound E (pdAddress (pdStatus pd)) s'"
  by (auto simp: bindDeviceToVFIOPCIDriver_def vfio_bound_def Let_def split: if_splits sum.splits prod.splits)

lemma enablePassthrough_bound:
  assumes "keeps_binding E (pdAddress (pdStatus pd))" "enablePassthrough E pd s = (None, s')"
  shows "vfio_bound E (pdAddress (pdStatus pd)) s'"
  using assms(2) keeps_bindingD(2) [OF assms(1)]
  by (auto simp: enablePassthrough_def split: prod.splits option.splits sum.splits
      dest!: bindDeviceToVFIOPCIDriver_bound)

text \<open>A success assigns to the claim in the cache, as the last thing it does.\<close>

lemma attemptToEnablePassthrough_cached:
  assumes "attemptToEnablePassthrough E pd pdc s = (None, pdc', s')"
  shows "pdc' = pdc\<lparr>pcStatus := (pcStatus pdc)\<lparr>pcPassthroughEnabled := True\<rparr>\<rparr>
    \<and> (\<exists>s1. s' = cAlias (cePdc E) (pcName pdc) pdc' s1 \<and> (keeps_binding E (pdAddress (pdStatus pd)) \<longrightarrow> vfio_bound E (pdAddress (pdStatus pd)) s1))"
proof (cases "vfio_bound E (pdAddress (pdStatus pd)) s")
  case True
  with assms show ?thesis by (auto simp: attemptToEnablePassthrough_def vfio_bound_def Let_def)
next
  case False
  let ?addr = "pdAddress (pdStatus pd)" and ?done = "pdc\<lparr>pcStatus := (pcStatus pdc)\<lparr>pcPassthroughEnabled := True\<rparr>\<rparr>"
  obtain e1 t1 where u1: "(if TrimSpace (pdKernelDriverInUse (pdStatus pd)) \<noteq> []
      then unbindDeviceFromDriver (ceOs E) ?addr (pdKernelDriverInUse (pdStatus pd)) s else (None, s)) = (e1, t1)" by fastforce
  obtain e2 t2 where u2: "(case mget (mAnnotations (pdMeta pd)) PciDeviceDriver of
      Some originalDriver \<Rightarrow> unbindDeviceFromDriver (ceOs E) ?addr originalDriver t1 | None \<Rightarrow> (None, t1)) = (e2, t2)" by fastforce
  obtain e3 t3 where u3: "enablePassthrough E pd t2 = (e3, t3)" by fastforce
  have "e3 = None \<and> pdc' = ?done \<and> s' = cAlias (cePdc E) (pcName pdc) ?done t3"
    using assms False unfolding attemptToEnablePassthrough_def Let_def vfio_bound_def [symmetric] u1
    by (cases e1; cases e2; cases e3) (simp_all add: u2 u3)
  with enablePassthrough_bound [of E pd t2 t3] u3 show ?thesis by auto
qed

lemma attemptToEnablePassthrough_bound:
  assumes "keeps_binding E (pdAddress (pdStatus pd))" "attemptToEnablePassthrough E pd pdc s = (None, pdc', s')"
  shows "vfio_bound E (pdAddress (pdStatus pd)) s' \<and> pcPassthroughEnabled (pcStatus pdc')
    \<and> pcSpec pdc' = pcSpec pdc \<and> pcMeta pdc' = pcMeta pdc"
  using attemptToEnablePassthrough_cached [OF assms(2)] assms(1) keeps_bindingD(9) [OF assms(1)] by auto

lemma permitHostDeviceInKubeVirt_keeps:
  "keeps_binding E addr \<Longrightarrow> permitHostDeviceInKubeVirt E pd s = (e, s') \<Longrightarrow> vfio_bound E addr s' = vfio_bound E addr s"
  by (auto simp: permitHostDeviceInKubeVirt_def Let_def split: sum.splits if_splits prod.splits
      dest: keeps_bindingD(4))

lemma pci_cleanup_keeps:
  "keeps_binding E addr \<Longrightarrow> pci_cleanup (ceOs E) dp s = (e, s') \<Longrightarrow> vfio_bound E addr s' = vfio_bound E addr s"
  by (auto simp: pci_cleanup_def split: prod.splits sum.splits dest: keeps_bindingD(5))

lemma pci_register_keeps:
  "keeps_binding E addr \<Longrightarrow> pci_register (ceKubelet E) dp s = (e, s') \<Longrightarrow> vfio_bound E addr s' = vfio_bound E addr s"
  by (auto simp: pci_register_def split: prod.splits sum.splits dest: keeps_bindingD(8))

lemma pci_Start_keeps:
  assumes k: "keeps_binding E addr" and "pci_Start (ceOs E) (ceKubelet E) stop dp s = (dp', e, s')"
  shows "vfio_bound E addr s' = vfio_bound E addr s"
  using assms(2)
  by (auto simp: pci_Start_def Let_def split: prod.splits option.splits sum.splits
      dest!: pci_cleanup_keeps [OF k] pci_register_keeps [OF k] keeps_bindingD(6,7) [OF k])

subsection \<open>The handler's invariant\<close>

definition handler_inv :: "Handler \<Rightarrow> bool" where
  "handler_inv h \<longleftrightarrow> wf_map (hDevicePlugins h)
     \<and> (\<forall>r dp. mget (hDevicePlugins h) r = Some dp \<longrightarrow> pci_inv dp)"

lemma handler_inv_put:
  "handler_inv h \<Longrightarrow> pci_inv dp \<Longrightarrow> handler_inv (h\<lparr>hDevicePlugins := mput r dp (hDevicePlugins h)\<rparr>)"
  by (auto simp: handler_inv_def)

lemma handler_inv_del:
  "handler_inv h \<Longrightarrow> handler_inv (h\<lparr>hDevicePlugins := mdel r (hDevicePlugins h)\<rparr>)"
  by (auto simp: handler_inv_def split: if_splits)

lemma handler_inv_get: "handler_inv h \<Longrightarrow> Find r (hDevicePlugins h) = Some dp \<Longrightarrow> pci_inv dp"
  by (simp add: handler_inv_def Find_def)

lemma pci_SetStarted_simps [simp]:
  "ppIommuToPCIMap (pci_SetStarted stop dp) = ppIommuToPCIMap dp" "pci_inv (pci_SetStarted stop dp) = pci_inv dp"
  "ppDevs (pci_SetStarted stop dp) = ppDevs dp"
  by (simp_all add: pci_SetStarted_def pci_inv_def)

lemma startDevicePlugin_keeps:
  assumes "startDevicePlugin E dp s = (dp', s')"
  shows "ppIommuToPCIMap dp' = ppIommuToPCIMap dp \<and> pci_inv dp' = pci_inv dp
    \<and> (keeps_binding E addr \<longrightarrow> vfio_bound E addr s' = vfio_bound E addr s)"
proof (cases "pci_Started dp")
  case False
  obtain d e s1 where st: "pci_Start (ceOs E) (ceKubelet E) (Suc (stStopChan (ppStarter dp))) dp s = (d, e, s1)"
    by (metis prod_cases3)
  with False assms have "dp' = pci_SetStarted (Suc (stStopChan (ppStarter dp))) d" "s' = s1"
    by (auto simp: startDevicePlugin_def)
  with pci_Start_serving [OF st] pci_Start_keeps [OF _ st] show ?thesis by (auto simp: pci_inv_def)
qed (use assms in \<open>simp add: startDevicePlugin_def\<close>)

lemma createDevicePlugin_keeps:
  assumes "createDevicePlugin E [pd] pdc r s = (dp, s')"
  shows "mhas (ppIommuToPCIMap dp) (pdAddress (pdStatus pd)) \<and> pci_inv dp
    \<and> (keeps_binding E addr \<longrightarrow> vfio_bound E addr s' = vfio_bound E addr s)"
proof -
  let ?c = "pci_Create (ceConsts E) r (pcAddress (pcSpec pdc)) [pd]"
  have "pci_inv ?c" by (rule pci_Create_inv) simp
  moreover have "mhas (ppIommuToPCIMap ?c) (pdAddress (pdStatus pd))"
    by (simp add: pci_Create_def NewPCIDevicePlugin_def plugin_device_of_def)
  ultimately show ?thesis
    using assms startDevicePlugin_keeps [of E ?c s dp s' addr]
    by (auto simp: createDevicePlugin_def Let_def split: if_splits)
qed

lemma announce_claim_result:
  assumes "announce_claim E c pdc pd r h s = (res, e, h', s')" and "handler_inv h"
  shows "handler_inv h' \<and> hNodeName h' = hNodeName h
    \<and> (\<exists>dp. mget (hDevicePlugins h') r = Some dp \<and> mhas (ppIommuToPCIMap dp) (pdAddress (pdStatus pd)))
    \<and> (keeps_binding E addr \<longrightarrow> vfio_bound E addr s' = vfio_bound E addr s)"
proof -
  define q where "q = (case Find r (hDevicePlugins h) of None \<Rightarrow> createDevicePlugin E [pd] pdc r s
                       | Some dp \<Rightarrow> (pci_AddDevice pd pdc dp, s))"
  obtain dp s1 where q: "q = (dp, s1)" by (cases q)
  have dp: "mhas (ppIommuToPCIMap dp) (pdAddress (pdStatus pd)) \<and> pci_inv dp
    \<and> (keeps_binding E addr \<longrightarrow> vfio_bound E addr s1 = vfio_bound E addr s)"
  proof (cases "Find r (hDevicePlugins h)")
    case None
    with q createDevicePlugin_keeps [of E pd pdc r s dp s1 addr] show ?thesis by (simp add: q_def)
  next
    case (Some d)
    with q have eq: "dp = pci_AddDevice pd pdc d" "s1 = s" by (simp_all add: q_def)
    have "mhas (ppIommuToPCIMap (pci_AddDevice pd pdc d)) (pdAddress (pdStatus pd))"
      by (cases "mhas (ppIommuToPCIMap d) (pdAddress (pdStatus pd))")
        (simp_all add: pci_AddDevice_known pci_AddDevice_new)
    with Some assms(2) show ?thesis
      unfolding eq by (simp add: pci_AddDevice_inv handler_inv_get)
  qed
  from assms(1) have "h' = h\<lparr>hDevicePlugins := mput r dp (hDevicePlugins h)\<rparr>"
    and "s' = s1 \<or> (\<exists>o' x. cUpdateStatus (cePdc E) o' s1 = (x, s'))"
    by (auto simp: announce_claim_def q_def [symmetric] q Let_def split: if_splits prod.splits sum.splits)
  with dp assms(2) show ?thesis by (auto simp: handler_inv_put dest: keeps_bindingD(3))
qed

lemma enable_claim_result:
  assumes "enable_claim E pdc pd h s = (res, None, h', s')" and "handler_inv h"
    and k: "keeps_binding E (pdAddress (pdStatus pd))"
  shows "handler_inv h' \<and> (\<exists>dp. dp \<in> snd ` set (hDevicePlugins h') \<and> mhas (ppIommuToPCIMap dp) (pdAddress (pdStatus pd)))
    \<and> (\<not> skipDeviceBindingOp pdc \<longrightarrow> vfio_bound E (pdAddress (pdStatus pd)) s')"
proof -
  obtain e1 s1 where p: "permitHostDeviceInKubeVirt E pd s = (e1, s1)" by (cases "permitHostDeviceInKubeVirt E pd s")
  with assms(1) have e1: "e1 = None" by (cases e1) (simp_all add: enable_claim_def)
  obtain pdc' r s2 where a: "announce_claim E pdc pdc' pd r h s2 = (res, None, h', s')"
    and b: "\<not> skipDeviceBindingOp pdc \<longrightarrow> vfio_bound E (pdAddress (pdStatus pd)) s2"
  proof (cases "skipDeviceBindingOp pdc")
    case True
    with assms(1) p e1 that show ?thesis by (simp add: enable_claim_def Let_def)
  next
    case False
    obtain e2 pdc' s2 where t: "attemptToEnablePassthrough E pd pdc s1 = (e2, pdc', s2)" by (metis prod_cases3)
    with False assms(1) p e1 have "e2 = None" by (cases e2) (simp_all add: enable_claim_def)
    with t attemptToEnablePassthrough_bound [OF k] have "vfio_bound E (pdAddress (pdStatus pd)) s2" by blast
    with False assms(1) p e1 t \<open>e2 = None\<close> that show ?thesis by (simp add: enable_claim_def)
  qed
  from announce_claim_result [OF a assms(2), of "pdAddress (pdStatus pd)"] b k
  show ?thesis by (auto dest!: mget_in_set simp: image_iff)
qed

lemma reconcile_success_cases:
  assumes "reconcilePCIDeviceClaims E (Some pdc) h s = Some (res, None, h', s')"
    and "\<not> mDeletionTimestamp (pcMeta pdc)" "pcNodeName (pcSpec pdc) = hNodeName h"
    and "checkVFIOModules (ceOs E) s = Inr True"
  obtains pd0 pd s1 where "getPCIDeviceForClaim E pdc s = Some (Inr pd0)"
    and "checkGroupMap (ceOs E) pd0 s = Some None"
    and "enable_claim E pdc pd h s1 = (res, None, h', s')"
    and "if pcDisableResourcePooling (pcSpec pdc) then ensureIndividualDeviceResourceName E pd0 s = (Inr pd, s1)
         else pd = pd0 \<and> s1 = s"
proof -
  from assms obtain pd0 where g: "getPCIDeviceForClaim E pdc s = Some (Inr pd0)" "checkGroupMap (ceOs E) pd0 s = Some None"
    by (auto simp: reconcilePCIDeviceClaims_def split: option.splits sum.splits)
  show ?thesis
  proof (cases "pcDisableResourcePooling (pcSpec pdc)")
    case True
    obtain r s1 where "ensureIndividualDeviceResourceName E pd0 s = (r, s1)" by fastforce
    with True assms g that show ?thesis
      by (cases r) (auto simp: reconcilePCIDeviceClaims_def)
  next
    case False
    with assms g that [of pd0 pd0 s] show ?thesis by (auto simp: reconcilePCIDeviceClaims_def)
  qed
qed


subsection \<open>A refused status is lost\<close>

text \<open>A reconcile of a claim that says it is enabled runs the same whatever writing the status of a claim does: it never does.\<close>

lemma reconcile_enabled_writes_no_status:
  assumes "pcPassthroughEnabled (pcStatus pdc)"
  shows "reconcilePCIDeviceClaims (E\<lparr>cePdc := (cePdc E)\<lparr>cUpdateStatus := f\<rparr>\<rparr>) (Some pdc) h s = reconcilePCIDeviceClaims E (Some pdc) h s"
proof -
  have fields: "ceOs (E\<lparr>cePdc := c\<rparr>) = ceOs E" "ceConsts (E\<lparr>cePdc := c\<rparr>) = ceConsts E" "ceKubelet (E\<lparr>cePdc := c\<rparr>) = ceKubelet E"
    "cePd (E\<lparr>cePdc := c\<rparr>) = cePd E" "ceKv (E\<lparr>cePdc := c\<rparr>) = ceKv E" "ceProbe (E\<lparr>cePdc := c\<rparr>) = ceProbe E"
    "ceSettle (E\<lparr>cePdc := c\<rparr>) = ceSettle E" "cePdc (E\<lparr>cePdc := c\<rparr>) = c" for c by simp_all
  have calls: "cGet (c\<lparr>cUpdateStatus := f\<rparr>) = cGet c" "cEnqueue (c\<lparr>cUpdateStatus := f\<rparr>) = cEnqueue c"
    "cAlias (c\<lparr>cUpdateStatus := f\<rparr>) = cAlias c" for c :: "(PCIDeviceClaim, 'a) client" by simp_all
  show ?thesis
    unfolding reconcilePCIDeviceClaims_def enable_claim_def announce_claim_def loadVfioDrivers_def getPCIDeviceForClaim_def
      ensureIndividualDeviceResourceName_def permitHostDeviceInKubeVirt_def attemptToEnablePassthrough_def enablePassthrough_def
      createDevicePlugin_def startDevicePlugin_def option.case fields calls eqTrueI [OF assms] not_True_eq_False if_False ..
qed

text \<open>
  When the API server refuses the status of a claim whose device has been bound, the cached claim already says that it is
  enabled, and it does not name the driver to restore: until the cache is refreshed, no reconcile writes the status.
\<close>

lemma claim_status_lost:
  assumes "object_cache (cePdc E) (cUpdateStatus (cePdc E)) stored" and "\<And>s. \<exists>y. cGet (cePdc E) (pcName pdc) s = Inr y"
    and "\<And>pds c rn s. cGet (cePdc E) (pcName pdc) (snd (createDevicePlugin E pds c rn s)) = cGet (cePdc E) (pcName pdc) s"
    and "permitHostDeviceInKubeVirt E pd s = (None, s1)" and "attemptToEnablePassthrough E pd pdc s1 = (None, pdc', s2)"
    and "\<not> skipDeviceBindingOp pdc" and "enable_claim E pdc pd h s = (r, Some err, h', s')"
  shows "\<exists>pdc1. cGet (cePdc E) (pcName pdc) s' = Inr pdc1 \<and> pcKernelDriverToUnbind (pcStatus pdc1) = pcKernelDriverToUnbind (pcStatus pdc)
    \<and> (\<forall>f h s. reconcilePCIDeviceClaims (E\<lparr>cePdc := (cePdc E)\<lparr>cUpdateStatus := f\<rparr>\<rparr>) (Some pdc1) h s
         = reconcilePCIDeviceClaims E (Some pdc1) h s)"
proof -
  obtain s0 where pdc': "pdc' = pdc\<lparr>pcStatus := (pcStatus pdc)\<lparr>pcPassthroughEnabled := True\<rparr>\<rparr>" "s2 = cAlias (cePdc E) (pcName pdc) pdc' s0"
    using attemptToEnablePassthrough_cached [OF assms(5)] by blast
  then have "cGet (cePdc E) (pcName pdc) s2 = Inr pdc'"
    using object_cache.get_alias [OF assms(1)] assms(2) by metis
  moreover have "announce_claim E pdc pdc' pd (pdResourceName (pdStatus pd)) h s2 = (r, Some err, h', s')"
    using assms(4-7) by (simp add: enable_claim_def)
  then have "cGet (cePdc E) (pcName pdc) s' = cGet (cePdc E) (pcName pdc) s2"
    using assms(3) object_cache.get_refused [OF assms(1)]
    by (auto simp: announce_claim_def Let_def split: option.splits if_splits prod.splits sum.splits) (metis snd_conv)+
  ultimately show ?thesis
    using reconcile_enabled_writes_no_status [where pdc = pdc' and E = E] pdc'(1) by (intro exI [of _ pdc']) simp
qed

subsection \<open>Removal\<close>

lemma unbindDeviceFromDriver_unbound:
  "unbindDeviceFromDriver (ceOs E) addr vfioPCIDriver s = (None, s') \<Longrightarrow> \<not> vfio_bound E addr s'"
proof -
  have "''/sys/bus/pci/drivers/'' @ vfioPCIDriver = vfioPCIDriverPath"
    by (simp add: vfioPCIDriver_def vfioPCIDriverPath_def)
  then show "unbindDeviceFromDriver (ceOs E) addr vfioPCIDriver s = (None, s') \<Longrightarrow> \<not> vfio_bound E addr s'"
    unfolding unbindDeviceFromDriver_def vfio_bound_def Let_def
    by (auto split: if_splits sum.splits prod.splits)
qed

text \<open>Binding to the original driver does not bind to vfio-pci.\<close>

definition bind_elsewhere :: "'s claim_env \<Rightarrow> string \<Rightarrow> string \<Rightarrow> bool" where
  "bind_elsewhere E drv addr \<longleftrightarrow>
     (\<forall>s. vfio_bound E addr (snd (osWriteString (ceOs E) (''/sys/bus/pci/drivers/'' @ drv @ ''/bind'') addr s)) \<longrightarrow> vfio_bound E addr s)"

lemma bindDeviceToOriginalDriver_unbound:
  assumes "bindDeviceToOriginalDriver E pd s = (e, s')" "\<not> vfio_bound E (pdAddress (pdStatus pd)) s"
    and k: "keeps_binding E (pdAddress (pdStatus pd))"
    and b: "\<forall>drv. mget (mAnnotations (pdMeta pd)) PciDeviceDriver = Some drv \<longrightarrow> bind_elsewhere E drv (pdAddress (pdStatus pd))"
  shows "\<not> vfio_bound E (pdAddress (pdStatus pd)) s'"
proof (cases "mget (mAnnotations (pdMeta pd)) PciDeviceDriver")
  case (Some drv)
  let ?w = "osWriteString (ceOs E) (''/sys/bus/pci/drivers/'' @ drv @ ''/bind'') (pdAddress (pdStatus pd)) s"
  have w: "\<not> vfio_bound E (pdAddress (pdStatus pd)) (snd ?w)"
    using b Some assms(2) unfolding bind_elsewhere_def by blast
  show ?thesis
    using assms(1,2) Some w keeps_bindingD(2) [OF k]
    by (auto simp: bindDeviceToOriginalDriver_def Let_def split: if_splits sum.splits prod.splits)
qed (use assms in \<open>auto simp: bindDeviceToOriginalDriver_def Let_def\<close>)

lemma disablePassthrough_unbound:
  assumes "disablePassthrough E pd s = (None, s')" "keeps_binding E (pdAddress (pdStatus pd))"
    and "\<forall>drv. mget (mAnnotations (pdMeta pd)) PciDeviceDriver = Some drv \<longrightarrow> bind_elsewhere E drv (pdAddress (pdStatus pd))"
  shows "\<not> vfio_bound E (pdAddress (pdStatus pd)) s'"
proof -
  obtain s1 where u: "unbindDeviceFromDriver (ceOs E) (pdAddress (pdStatus pd)) vfioPCIDriver s = (None, s1)"
    and b: "bindDeviceToOriginalDriver E pd s1 = (None, s')"
    using assms(1) by (auto simp: disablePassthrough_def split: prod.splits option.splits)
  show ?thesis
    by (rule bindDeviceToOriginalDriver_unbound [OF b unbindDeviceFromDriver_unbound [OF u] assms(2,3)])
qed

lemma pci_Stop_keeps:
  "keeps_binding E addr \<Longrightarrow> pci_Stop (ceOs E) dp s = Some (dp', e, s') \<Longrightarrow> vfio_bound E addr s' = vfio_bound E addr s"
  by (auto simp: pci_Stop_def pci_stopDevicePlugin_def Let_def split: if_splits prod.splits option.splits
      dest: pci_cleanup_keeps)

lemma remove_from_plugin_result:
  assumes "remove_from_plugin E pd pdc r h s = Some (None, h', s')" and "handler_inv h"
    and "\<And>dp. pci_inv dp \<Longrightarrow> pci_inv (ceSettle E dp)"
  shows "handler_inv h' \<and> (keeps_binding E addr \<longrightarrow> vfio_bound E addr s' = vfio_bound E addr s)
    \<and> (\<forall>dp. mget (hDevicePlugins h') r = Some dp \<longrightarrow> 0 < pci_GetCount dp)"
proof (cases "Find r (hDevicePlugins h)")
  case None
  with assms(1,2) show ?thesis by (simp add: remove_from_plugin_def Find_def)
next
  case (Some d)
  let ?dp = "ceSettle E (pci_RemoveDevice pd pdc d)"
  have inv: "pci_inv ?dp"
    using handler_inv_get [OF assms(2) Some] assms(3) by (simp add: pci_RemoveDevice_def)
  show ?thesis
  proof (cases "pci_GetCount ?dp = 0")
    case True
    with assms(1) Some obtain dp' where "pci_Stop (ceOs E) ?dp s = Some (dp', None, s')"
      and "h' = h\<lparr>hDevicePlugins := mdel r (hDevicePlugins h)\<rparr>"
      by (auto simp: remove_from_plugin_def Let_def split: option.splits)
    with assms(2) show ?thesis by (auto simp: handler_inv_del dest: pci_Stop_keeps)
  next
    case False
    with assms(1,2) Some inv show ?thesis by (auto simp: remove_from_plugin_def Let_def handler_inv_put)
  qed
qed

lemma cleanupIndividual_keeps:
  "keeps_binding E addr \<Longrightarrow> cleanupIndividualDeviceResourceName E pd s = (e, s') \<Longrightarrow>
     vfio_bound E addr s' = vfio_bound E addr s"
  by (auto simp: cleanupIndividualDeviceResourceName_def split: if_splits prod.splits sum.splits
      dest: keeps_bindingD(1))


subsection \<open>Orphans\<close>

definition owned_by :: "PCIDevice \<Rightarrow> PCIDeviceClaim \<Rightarrow> bool" where
  "owned_by pd pdc = (case mOwnerReferences (pcMeta pdc) of Some (o' # _) \<Rightarrow> orName o' = pdName pd | _ \<Rightarrow> False)"

definition has_owner :: "PCIDeviceClaim \<Rightarrow> bool" where
  "has_owner pdc = (case mOwnerReferences (pcMeta pdc) of Some (o' # _) \<Rightarrow> True | _ \<Rightarrow> False)"

definition on_vfio :: "string \<Rightarrow> PCIDevice \<Rightarrow> bool" where
  "on_vfio nodeName pd = (pdKernelDriverInUse (pdStatus pd) = ''vfio-pci'' \<and> pdNodeName (pdStatus pd) = nodeName)"

lemma pciDeviceIsClaimed_iff:
  "list_all has_owner pdcs \<Longrightarrow> pdNodeName (pdStatus pd) = n \<Longrightarrow>
     pciDeviceIsClaimed pd pdcs n = Some (list_ex (owned_by pd) pdcs)"
  by (induction pdcs) (auto simp: has_owner_def owned_by_def split: option.splits list.splits)


subsection \<open>A concrete node\<close>

record demo_world =
  dwFiles :: "string list"
  dwPds :: "(string, PCIDevice) gomap"
  dwPdcs :: "(string, PCIDeviceClaim) gomap"
  dwKvs :: "(string, KubeVirt) gomap"

definition driver_of_path :: "string \<Rightarrow> string" where
  "driver_of_path p = Join (butlast (split_char (CHR ''/'') p)) ''/''"

definition demo_claim_os :: "demo_world os" where
  "demo_claim_os =
     \<lparr>osStat = \<lambda>p s. (if p \<in> set (dwFiles s) then Inr () else Inl NotFound), osLstat = \<lambda>p s. Inl NotFound,
      osReadFile = \<lambda>p s. (if p = ''/proc/modules'' then Inr (''vfio_pci 1'' @ [CHR 0x0A] @ ''vfio_iommu_type1 2'') else Inl NotFound),
      osReadDir = \<lambda>p s. osReadDir (sysfs_of_tree [(7, [''0000:04:10.0''])]) p (),
      osReadlink = \<lambda>p s. Inl NotFound, osEvalSymlinks = \<lambda>p s. Inl NotFound,
      osGlobPrefix = \<lambda>p s. Inr [], osOpenWrite = \<lambda>p s. Inr (),
      osWriteString = \<lambda>p d s.
        (if path_last p = ''bind'' then (Inr (), s\<lparr>dwFiles := (driver_of_path p @ ''/'' @ d) # dwFiles s\<rparr>)
         else if path_last p = ''unbind'' then (Inr (), s\<lparr>dwFiles := removeAll (driver_of_path p @ ''/'' @ d) (dwFiles s)\<rparr>)
         else (Inr (), s)),
      osRemove = \<lambda>p s. (Inl NotFound, s)\<rparr>"

definition demo_claim_env :: "demo_world claim_env" where
  "demo_claim_env =
     \<lparr>ceOs = demo_claim_os, ceConsts = demo_consts,
      ceKubelet = \<lparr>kListen = \<lambda>p s. (Inr (), s), kWaitForServer = \<lambda>p s. (Inr (), s), kConnect = \<lambda>s. Inr (),
                   kRegister = \<lambda>e r s. (Inr (), s), kServe = \<lambda>s. None\<rparr>,
      cePdc = table_client pcMeta (\<lambda>old new. old\<lparr>pcStatus := pcStatus new\<rparr>) (\<lambda>i x. []) dwPdcs (\<lambda>m s. s\<lparr>dwPdcs := m\<rparr>),
      cePd = table_client pdMeta (\<lambda>old new. old\<lparr>pdStatus := pdStatus new\<rparr>) (\<lambda>i x. []) dwPds (\<lambda>m s. s\<lparr>dwPds := m\<rparr>),
      ceKv = table_client kvMeta (\<lambda>old new. old) (\<lambda>i x. []) dwKvs (\<lambda>m s. s\<lparr>dwKvs := m\<rparr>),
      ceProbe = \<lambda>d s. s, ceSettle = \<lambda>dp. fold pci_recv (ppHealth dp) dp\<rparr>"

lemma demo_env_keeps: "keeps_binding demo_claim_env a"
  by (simp add: keeps_binding_def vfio_bound_def deviceBoundToDriver_def demo_claim_env_def demo_claim_os_def
      table_client_def split: option.split)

lemma demo_env_settle: "pci_inv dp \<Longrightarrow> pci_inv (ceSettle demo_claim_env dp)"
  by (simp add: demo_claim_env_def pcip.recv_fold_inv)

definition demo_claimed_pd :: PCIDevice where
  "demo_claimed_pd = \<lparr>pdMeta = empty_meta\<lparr>mName := ''n1-00000410''\<rparr>,
     pdStatus = empty_pd_status\<lparr>pdAddress := ''0000:04:10.0'', pdIOMMUGroup := ''7'', pdNodeName := ''n1'',
       pdResourceName := ''intel.com/X710'', pdVendorID := ''8086'', pdDeviceID := ''1572''\<rparr>\<rparr>"

definition demo_owned_claim :: "bool \<Rightarrow> PCIDeviceClaim" where
  "demo_owned_claim del = (demo_claim ''0000:04:10.0'')\<lparr>pcMeta := empty_meta\<lparr>mName := ''n1-00000410'',
     mOwnerReferences := Some [\<lparr>orAPIVersion = [], orKind = ''PCIDevice'', orName = ''n1-00000410'', orUID = []\<rparr>],
     mDeletionTimestamp := del\<rparr>\<rparr>"

definition demo_node :: demo_world where
  "demo_node = \<lparr>dwFiles = [], dwPds = [(''n1-00000410'', demo_claimed_pd)],
     dwPdcs = [(''n1-00000410'', demo_owned_claim False)],
     dwKvs = [(''harvester-system/kubevirt'', (demo_kv [])\<lparr>kvMeta := empty_meta\<lparr>mName := ''harvester-system/kubevirt''\<rparr>\<rparr>)]\<rparr>"

definition demo_handler :: Handler where
  "demo_handler = \<lparr>hNodeName = ''n1'', hDevicePlugins = []\<rparr>"




end
