(* ===== verification/Pci_Claim_Steps.thy ===== *)
theory Pci_Claim_Steps
  imports Pci_Device_Claim
begin

section \<open>The claim controller as a state machine\<close>

text \<open>
  The two handlers of \<^verbatim>\<open>pkg/controller/pcideviceclaim/pcideviceclaim_controller.go\<close> run for any
  claims in any order, and between their runs the goroutines of the device plugins they started
  (\<^verbatim>\<open>pkg/deviceplugins/device_manager.go\<close>) and the rest of the world move on.  \<open>claim_step\<close> is that
  system; its invariant is proved by rule induction and gives that no removal of a claim can
  panic in \<^verbatim>\<open>Stop\<close>, as long as the sockets of the plugins can be created.
\<close>

subsection \<open>Registration\<close>

text \<open>\<^verbatim>\<open>Register\<close>: the handler starts with an empty map, its three hooks are installed under their names,
  devices left bound by an earlier run are released and the drivers loaded.  An error of the release is
  returned with the hooks installed.  \<^const>\<open>None\<close> is the panic on an empty owner list.\<close>

datatype claim_hook = HookOnRemove | HookReconcile | HookDeviceChange

definition claim_hooks :: "(string \<times> claim_hook) list" where
  "claim_hooks = [(''PCIDeviceClaimOnRemove'', HookOnRemove), (''PCIDeviceClaimReconcile'', HookReconcile),
                  (''PCIDeviceToClaimReconcile'', HookDeviceChange)]"

definition claim_Register ::
  "'s claim_env \<Rightarrow> ('s \<Rightarrow> go_error option) \<Rightarrow> string \<Rightarrow> 's
   \<Rightarrow> (go_error option \<times> Handler option \<times> (string \<times> claim_hook) list \<times> 's) option" where
  "claim_Register E virtClient nodeName s =
     (case virtClient s of
        Some err \<Rightarrow> Some (Some (Errorf ''cannot obtain KubeVirt client''), None, [], s)
      | None \<Rightarrow>
          (let handler = \<lparr>hNodeName = nodeName, hDevicePlugins = []\<rparr>
           in case unbindOrphanedPCIDevices E handler s of
                None \<Rightarrow> None
              | Some (Some err, s) \<Rightarrow> Some (Some err, Some handler, claim_hooks, s)
              | Some (None, s) \<Rightarrow> Some (None, Some handler, claim_hooks, loadVfioDrivers E s)))"

lemma claim_Register_handler:
  "claim_Register E vc n s = Some (e, Some h, hooks, s') \<Longrightarrow> h = \<lparr>hNodeName = n, hDevicePlugins = []\<rparr> \<and> hooks = claim_hooks"
  by (auto simp: claim_Register_def Let_def split: option.splits prod.splits)

subsection \<open>Steps\<close>

text \<open>\<open>plugin_runs\<close>: some goroutine of a plugin in the handler's map makes a step.\<close>

inductive claim_step :: "'s claim_env \<Rightarrow> Handler \<times> 's \<Rightarrow> Handler \<times> 's \<Rightarrow> bool" for E where
  reconcile: "reconcilePCIDeviceClaims E pdcp h s = Some (res, e, h', s') \<Longrightarrow> claim_step E (h, s) (h', s')"
| remove: "OnRemove E pdcp h s = Some (res, e, h', s') \<Longrightarrow> claim_step E (h, s) (h', s')"
| plugin_runs: "Find r (hDevicePlugins h) = Some (psPlugin st) \<Longrightarrow> pci_step st st' \<Longrightarrow>
    claim_step E (h, s) (h\<lparr>hDevicePlugins := mput r (psPlugin st') (hDevicePlugins h)\<rparr>, s)"
| world: "claim_step E (h, s) (h, s')"

inductive_cases claim_stepE: "claim_step E hs hs'"

text \<open>What the steps rely on.  The socket file of a plugin can be removed and a listener created
  on it, and the five seconds that a removal sleeps let the goroutines of the plugin make
  some steps.\<close>

definition sockets_work :: "'s claim_env \<Rightarrow> bool" where
  "sockets_work E \<longleftrightarrow> (\<forall>p s. (case fst (osRemove (ceOs E) p s) of Inl err \<Rightarrow> IsNotFound err | Inr _ \<Rightarrow> True)
     \<and> is_ok (fst (kListen (ceKubelet E) p s)))"

definition settles :: "'s claim_env \<Rightarrow> bool" where
  "settles E \<longleftrightarrow> (\<forall>dp. \<exists>st st'. psPlugin st = dp \<and> psPlugin st' = ceSettle E dp \<and> pci_step\<^sup>*\<^sup>* st st')"

subsection \<open>A plugin in the map\<close>

definition plugin_ok :: "string \<Rightarrow> PCIDevicePlugin \<Rightarrow> bool" where
  "plugin_ok r dp \<longleftrightarrow> pci_inv dp \<and> ppResourceName dp = r \<and> ppServer dp \<and> ppDone dp \<noteq> ChanNil \<and> pci_Started dp"

lemma pci_AddDevice_frame [simp]:
  "ppResourceName (pci_AddDevice pd pdc dp) = ppResourceName dp" "ppServer (pci_AddDevice pd pdc dp) = ppServer dp"
  "ppDone (pci_AddDevice pd pdc dp) = ppDone dp" "ppStarter (pci_AddDevice pd pdc dp) = ppStarter dp"
  by (simp_all add: pci_AddDevice_def MarkPCIDeviceAsHealthy_def)

lemma pci_RemoveDevice_frame [simp]:
  "ppResourceName (pci_RemoveDevice pd pdc dp) = ppResourceName dp" "ppServer (pci_RemoveDevice pd pdc dp) = ppServer dp"
  "ppDone (pci_RemoveDevice pd pdc dp) = ppDone dp" "ppStarter (pci_RemoveDevice pd pdc dp) = ppStarter dp"
  "pci_inv (pci_RemoveDevice pd pdc dp) = pci_inv dp"
  by (simp_all add: pci_RemoveDevice_def MarkPCIDeviceAsUnhealthy_def pci_inv_def)

lemma pci_healthCheck_event_ok:
  "pci_healthCheck_event mon ev dp = (dp', ret) \<Longrightarrow> plugin_ok r dp' = plugin_ok r dp"
  by (auto simp: pci_healthCheck_event_def plugin_ok_def pci_inv_def pci_Started_def Let_def split: prod.splits)

lemma pci_recv_frame [simp]:
  "ppResourceName (pci_recv m dp) = ppResourceName dp" "ppServer (pci_recv m dp) = ppServer dp"
  "ppDone (pci_recv m dp) = ppDone dp" "ppStarter (pci_recv m dp) = ppStarter dp"
  "pci_inv (dp\<lparr>ppDeregistered := ch\<rparr>) = pci_inv dp"
  by (simp_all add: pci_recv_def pci_inv_def)

lemma pci_step_ok: "pci_step st st' \<Longrightarrow> plugin_ok r (psPlugin st) \<Longrightarrow> plugin_ok r (psPlugin st')"
  by (induction rule: pci_step.induct)
    (auto simp: plugin_ok_def pci_AddDevice_inv pci_Started_def
      dest: pci_healthCheck_event_ok [unfolded plugin_ok_def pci_Started_def, of _ _ _ _ _ r])

lemma pci_steps_ok: "pci_step\<^sup>*\<^sup>* st st' \<Longrightarrow> plugin_ok r (psPlugin st) \<Longrightarrow> plugin_ok r (psPlugin st')"
  by (induction rule: rtranclp_induct) (auto intro: pci_step_ok)

lemma settles_ok:
  assumes "settles E" "plugin_ok r dp"
  shows "plugin_ok r (ceSettle E dp)"
proof -
  from assms(1) obtain st st' where "psPlugin st = dp" "psPlugin st' = ceSettle E dp" "pci_step\<^sup>*\<^sup>* st st'"
    unfolding settles_def by blast
  with assms(2) pci_steps_ok [of st st' r] show ?thesis by simp
qed

text \<open>A plugin fresh from its constructor serves after \<^verbatim>\<open>startDevicePlugin\<close>.\<close>

lemma sockets_work_cleanup: "sockets_work E \<Longrightarrow> fst (pci_cleanup (ceOs E) dp s) = None"
proof -
  assume "sockets_work E"
  then have "case fst (osRemove (ceOs E) (ppSocketPath dp) s) of Inl err \<Rightarrow> IsNotFound err | Inr _ \<Rightarrow> True"
    by (simp add: sockets_work_def)
  then show ?thesis
    by (cases "osRemove (ceOs E) (ppSocketPath dp) s") (auto simp: pci_cleanup_def split: sum.splits)
qed

lemma pci_Start_server:
  assumes "sockets_work E" and st: "pci_Start (ceOs E) (ceKubelet E) stop dp s = (dp', e, s')"
  shows "ppServer dp' \<and> ppResourceName dp' = ppResourceName dp"
proof -
  let ?dp = "dp\<lparr>ppStop := Some stop, ppDone := ChanOpen, ppDeregistered := ChanOpen\<rparr>"
  obtain s1 where c: "pci_cleanup (ceOs E) ?dp s = (None, s1)"
    using sockets_work_cleanup [OF assms(1), of ?dp s] by (cases "pci_cleanup (ceOs E) ?dp s") simp
  have "is_ok (fst (kListen (ceKubelet E) (ppSocketPath ?dp) s1))" using assms(1) by (simp add: sockets_work_def)
  then obtain u s2 where "kListen (ceKubelet E) (ppSocketPath ?dp) s1 = (Inr u, s2)"
    by (cases "kListen (ceKubelet E) (ppSocketPath ?dp) s1") (auto simp: is_ok_def split: sum.splits)
  with st c show ?thesis
    by (auto simp: pci_Start_def Let_def split: prod.splits sum.splits option.splits)
qed

lemma pci_Create_fresh:
  "ppResourceName (pci_Create k r a pds) = r" "\<not> pci_Started (pci_Create k r a pds)"
  by (simp_all add: pci_Create_def NewPCIDevicePlugin_def MarkPCIDeviceAsHealthy_def pci_Started_def Let_def
      split: prod.split)

lemma createDevicePlugin_ok:
  assumes "createDevicePlugin E [pd] pdc r s = (dp, s')" "pcPassthroughEnabled (pcStatus pdc)" "sockets_work E"
  shows "plugin_ok r dp"
proof -
  let ?c = "pci_Create (ceConsts E) r (pcAddress (pcSpec pdc)) [pd]"
  let ?stop = "Suc (stStopChan (ppStarter ?c))"
  obtain d e s1 where st: "pci_Start (ceOs E) (ceKubelet E) ?stop ?c s = (d, e, s1)" by (metis prod_cases3)
  with assms(1,2) have dp: "dp = pci_SetStarted ?stop d"
    by (simp add: createDevicePlugin_def startDevicePlugin_def pci_Create_fresh)
  have "pci_inv dp" using createDevicePlugin_keeps [OF assms(1)] by simp
  then show ?thesis
    using pci_Start_server [OF assms(3) st] pci_Start_serving [OF st]
    by (simp add: plugin_ok_def dp pci_Create_fresh pci_SetStarted_def pci_Started_def)
qed

lemma pci_Stop_ok:
  assumes "plugin_ok r dp"
  obtains dp' e s' where "pci_Stop sys dp s = Some (dp', e, s')" "plugin_ok r dp'"
proof -
  obtain e s' where "pci_cleanup sys (dp\<lparr>ppInitialized := False\<rparr>) s = (e, s')" by fastforce
  with assms that show ?thesis
    by (cases "ppDone dp")
      (auto simp: pci_Stop_def pci_stopDevicePlugin_def plugin_ok_def IsChanClosed_def close_chan_def
        pci_inv_def pci_Started_def)
qed

subsection \<open>The invariant of the controller\<close>

definition claims_inv :: "Handler \<Rightarrow> bool" where
  "claims_inv h \<longleftrightarrow> wf_map (hDevicePlugins h) \<and> (\<forall>r dp. mget (hDevicePlugins h) r = Some dp \<longrightarrow> plugin_ok r dp)"

lemma claims_inv_get: "claims_inv h \<Longrightarrow> Find r (hDevicePlugins h) = Some dp \<Longrightarrow> plugin_ok r dp"
  by (simp add: claims_inv_def Find_def)

lemma claims_inv_put:
  "claims_inv h \<Longrightarrow> plugin_ok r dp \<Longrightarrow> claims_inv (h\<lparr>hDevicePlugins := mput r dp (hDevicePlugins h)\<rparr>)"
  by (auto simp: claims_inv_def)

lemma claims_inv_del: "claims_inv h \<Longrightarrow> claims_inv (h\<lparr>hDevicePlugins := mdel r (hDevicePlugins h)\<rparr>)"
  by (auto simp: claims_inv_def split: if_splits)

lemma claims_inv_handler_inv: "claims_inv h \<Longrightarrow> handler_inv h"
  by (auto simp: claims_inv_def handler_inv_def plugin_ok_def)

lemma announce_claim_inv:
  assumes "announce_claim E c pdc pd r h s = (res, e, h', s')" "claims_inv h" "sockets_work E"
    and "pcPassthroughEnabled (pcStatus pdc)"
  shows "claims_inv h'"
proof (cases "Find r (hDevicePlugins h)")
  case None
  obtain dp s1 where c: "createDevicePlugin E [pd] pdc r s = (dp, s1)" by fastforce
  with None assms(1) have "h' = h\<lparr>hDevicePlugins := mput r dp (hDevicePlugins h)\<rparr>"
    by (auto simp: announce_claim_def Let_def split: if_splits prod.splits sum.splits)
  with assms(2) createDevicePlugin_ok [OF c assms(4,3)] show ?thesis by (simp add: claims_inv_put)
next
  case (Some dp)
  with assms(1) have "h' = h\<lparr>hDevicePlugins := mput r (pci_AddDevice pd pdc dp) (hDevicePlugins h)\<rparr>"
    by (auto simp: announce_claim_def Let_def split: if_splits prod.splits sum.splits)
  moreover have "plugin_ok r (pci_AddDevice pd pdc dp)"
    using claims_inv_get [OF assms(2) Some] by (simp add: plugin_ok_def pci_AddDevice_inv pci_Started_def)
  ultimately show ?thesis using assms(2) by (simp add: claims_inv_put)
qed

lemma attempt_success_enabled:
  "attemptToEnablePassthrough E pd pdc s = (None, pdc', s') \<Longrightarrow> pcPassthroughEnabled (pcStatus pdc')"
  by (auto simp: attemptToEnablePassthrough_def Let_def split: if_splits prod.splits option.splits)

lemma enable_claim_inv:
  assumes "enable_claim E pdc pd h s = (res, e, h', s')" "claims_inv h" "sockets_work E"
  shows "claims_inv h'"
proof (cases "skipDeviceBindingOp pdc")
  case True
  with assms(1,2) show ?thesis
    by (auto simp: enable_claim_def Let_def split: prod.splits option.splits
        dest!: announce_claim_inv [OF _ assms(2,3)])
next
  case False
  with assms(1,2) show ?thesis
    by (auto simp: enable_claim_def split: prod.splits option.splits
        dest!: announce_claim_inv [OF _ assms(2,3)] dest: attempt_success_enabled)
qed

lemma reconcile_inv:
  assumes "reconcilePCIDeviceClaims E pdcp h s = Some (res, e, h', s')" "claims_inv h" "sockets_work E"
  shows "claims_inv h'"
  using assms(1,2)
  by (auto simp: reconcilePCIDeviceClaims_def split: option.splits if_splits sum.splits bool.splits prod.splits
      dest!: enable_claim_inv [OF _ assms(2,3)])

lemma remove_from_plugin_total:
  assumes "claims_inv h" "settles E"
  obtains e h' s' where "remove_from_plugin E pd pdc r h s = Some (e, h', s')" "claims_inv h'"
proof (cases "Find r (hDevicePlugins h)")
  case None
  with assms that show ?thesis by (simp add: remove_from_plugin_def)
next
  case (Some d)
  let ?dp = "ceSettle E (pci_RemoveDevice pd pdc d)"
  have "plugin_ok r (pci_RemoveDevice pd pdc d)"
    using claims_inv_get [OF assms(1) Some] by (simp add: plugin_ok_def pci_Started_def)
  then have ok: "plugin_ok r ?dp" by (rule settles_ok [OF assms(2)])
  obtain dp' e s' where "pci_Stop (ceOs E) ?dp s = Some (dp', e, s')" "plugin_ok r dp'" by (rule pci_Stop_ok [OF ok])
  with Some ok assms(1) that show ?thesis
    by (cases e; cases "pci_GetCount ?dp = 0")
      (simp_all add: remove_from_plugin_def claims_inv_put claims_inv_del)
qed

lemma OnRemove_inv:
  assumes "OnRemove E pdcp h s = Some (res, e, h', s')" "claims_inv h" "settles E"
  shows "claims_inv h'"
proof -
  have "h' = h \<or> (\<exists>pdc pd r s1 s2 e'. remove_from_plugin E pd pdc r h s1 = Some (e', h', s2))"
    using assms(1)
    by (auto simp: OnRemove_def Let_def split: option.splits if_splits sum.splits prod.splits)
  then show ?thesis
  proof (elim disjE exE)
    fix pdc pd r s1 s2 e'
    assume "remove_from_plugin E pd pdc r h s1 = Some (e', h', s2)"
    then show ?thesis by (rule_tac remove_from_plugin_total [OF assms(2,3), of pd pdc r s1]) simp
  qed (simp add: assms)
qed

lemma claim_step_inv:
  assumes "claim_step E hs hs'" "claims_inv (fst hs)" "sockets_work E" "settles E"
  shows "claims_inv (fst hs')"
  using assms
  by (induction rule: claim_step.induct)
    (auto intro: reconcile_inv OnRemove_inv claims_inv_put dest: claims_inv_get pci_step_ok)

lemma claim_steps_inv:
  assumes "(claim_step E)\<^sup>*\<^sup>* hs hs'" "claims_inv (fst hs)" "sockets_work E" "settles E"
  shows "claims_inv (fst hs')"
  using assms by (induction rule: rtranclp_induct) (auto intro: claim_step_inv)

lemma OnRemove_returns:
  assumes "claims_inv h" "settles E" "mOwnerReferences (pcMeta pdc) \<noteq> Some []"
  shows "OnRemove E (Some pdc) h s \<noteq> None"
proof -
  let ?r = "\<lambda>pd. case mget (mAnnotations (pcMeta pdc)) PCIDeviceOverrideResourceName of
              Some val \<Rightarrow> val | None \<Rightarrow> pdResourceName (pdStatus pd)"
  have "getPCIDeviceForClaim E pdc s \<noteq> None"
    using assms(3) by (auto simp: getPCIDeviceForClaim_def split: option.splits list.splits)
  then obtain x where g: "getPCIDeviceForClaim E pdc s = Some x" by blast
  show ?thesis
  proof (cases x)
    case (Inl err)
    then show ?thesis by (simp add: OnRemove_def g)
  next
    case (Inr pd)
    obtain e1 s1 where d: "(if skipDeviceBindingOp pdc then (None, s) else disablePassthrough E pd s) = (e1, s1)"
      by fastforce
    obtain e2 h' s2 where r: "remove_from_plugin E pd pdc (?r pd) h s1 = Some (e2, h', s2)"
      by (rule remove_from_plugin_total [OF assms(1,2)])
    show ?thesis
      by (cases e1; cases e2) (simp_all add: OnRemove_def g Inr d r Let_def split: prod.split option.split)
  qed
qed


subsection \<open>A concrete run\<close>

lemma demo_sockets_work: "sockets_work demo_claim_env"
  by (simp add: sockets_work_def demo_claim_env_def demo_claim_os_def is_ok_def)

lemma drain_steps:
  "psRunning st \<Longrightarrow> ppHealth (psPlugin st) = ms \<Longrightarrow>
     \<exists>st'. psPlugin st' = fold pci_recv ms (psPlugin st) \<and> pci_step\<^sup>*\<^sup>* st st'"
proof (induction ms arbitrary: st)
  case (Cons m ms)
  let ?st = "st\<lparr>psPlugin := pci_recv m (psPlugin st), psSent := psSent st @ [ppDevs (pci_recv m (psPlugin st))]\<rparr>"
  have "pci_step st ?st" by (rule pci_step.receive) (simp_all add: Cons.prems)
  moreover obtain st' where "psPlugin st' = fold pci_recv ms (psPlugin ?st)" "pci_step\<^sup>*\<^sup>* ?st st'"
    using Cons.IH [of ?st] Cons.prems by auto
  ultimately show ?case by (intro exI [of _ st']) (auto intro: converse_rtranclp_into_rtranclp)
qed auto

lemma demo_settles: "settles demo_claim_env"
  unfolding settles_def
proof
  fix dp
  let ?st = "pci_ListAndWatch_start dp None"
  obtain st' where "psPlugin st' = fold pci_recv (ppHealth dp) dp" "pci_step\<^sup>*\<^sup>* ?st st'"
    using drain_steps [of ?st] by (auto simp: pci_ListAndWatch_start_def)
  then show "\<exists>st st'. psPlugin st = dp \<and> psPlugin st' = ceSettle demo_claim_env dp \<and> pci_step\<^sup>*\<^sup>* st st'"
    by (intro exI [of _ ?st] exI [of _ st']) (simp add: pci_ListAndWatch_start_def demo_claim_env_def)
qed


end
