(* ===== verification/Vgpu_Device_Plugin.thy ===== *)
theory Vgpu_Device_Plugin
  imports Pci_Device_Plugin
begin

section \<open>The vGPU device plugin\<close>

text \<open>
  Models \<^verbatim>\<open>pkg/deviceplugins/vgpu_device_manager.go\<close>; methods carry the prefix \<open>vgpu_\<close>.  The
  plugin meets the same contract as the PCI plugin (\<open>device_plugin\<close>), without the address
  map.  \<^verbatim>\<open>RemoveDevice\<close> sends its message itself, holding the lock, so it returns only when
  \<^verbatim>\<open>ListAndWatch\<close> is there to receive; blocking forever is \<^const>\<open>None\<close>.
\<close>

definition VGPUPrefix :: string where
  "VGPUPrefix = ''MDEV_PCI_RESOURCE''"

record VGPUDevicePlugin =
  vpDevs :: "Device list"
  vpServer :: bool
  vpSocketPath :: string
  vpStop :: "nat option"
  vpHealth :: "deviceHealth list"
  vpDevicePath :: string
  vpResourceName :: string
  vpDone :: chan_state
  vpDeviceRoot :: string
  vpInitialized :: bool
  vpDeregistered :: chan_state
  vpStarter :: DeviceStarter

definition vgpu_GetCount :: "VGPUDevicePlugin \<Rightarrow> nat" where
  "vgpu_GetCount dp = count_healthy (vpDevs dp)"

definition constructVGPUDPIdevices :: "string list \<Rightarrow> Device list" where
  "constructVGPUDPIdevices vGPUList =
     map (\<lambda>v. \<lparr>dvID = v, dvHealth = Unhealthy, dvTopology = None\<rparr>) vGPUList"

definition NewVGPUDevicePlugin :: "plugin_consts \<Rightarrow> string list \<Rightarrow> string \<Rightarrow> VGPUDevicePlugin" where
  "NewVGPUDevicePlugin k vGPUList resourceName =
     (let serverSock = SocketPath k (ReplaceAll resourceName ''/'' ''-'');
          devs = constructVGPUDPIdevices vGPUList
      in \<lparr>vpDevs = devs, vpServer = False, vpSocketPath = serverSock, vpStop = None, vpHealth = [],
          vpDevicePath = MdevRoot, vpResourceName = resourceName, vpDone = ChanNil,
          vpDeviceRoot = pkHostRootMount k, vpInitialized = False, vpDeregistered = ChanNil,
          vpStarter = \<lparr>stStarted = False, stStopChan = 0, stBackoff = defaultBackoffTime\<rparr>\<rparr>)"

definition vgpu_SetStarted :: "nat \<Rightarrow> VGPUDevicePlugin \<Rightarrow> VGPUDevicePlugin" where
  "vgpu_SetStarted stop dp = dp\<lparr>vpStarter := (vpStarter dp)\<lparr>stStopChan := stop, stStarted := True\<rparr>\<rparr>"

definition vgpu_Started :: "VGPUDevicePlugin \<Rightarrow> bool" where
  "vgpu_Started dp = stStarted (vpStarter dp)"

definition vgpu_cleanup :: "'s os \<Rightarrow> VGPUDevicePlugin \<Rightarrow> 's \<Rightarrow> go_error option \<times> 's" where
  "vgpu_cleanup sys dp s =
     (case osRemove sys (vpSocketPath dp) s of
        (Inl err, s') \<Rightarrow> (if \<not> IsNotFound err then Some err else None, s')
      | (Inr _, s') \<Rightarrow> (None, s'))"

definition vgpu_register :: "'s kubelet \<Rightarrow> VGPUDevicePlugin \<Rightarrow> 's \<Rightarrow> go_error option \<times> 's" where
  "vgpu_register kl dp s =
     (case kConnect kl s of
        Inl err \<Rightarrow> (Some err, s)
      | Inr _ \<Rightarrow>
          (case kRegister kl (path_last (vpSocketPath dp)) (vpResourceName dp) s of
             (Inl err, s') \<Rightarrow> (Some err, s')
           | (Inr _, s') \<Rightarrow> (None, s')))"

definition vgpu_Start ::
  "'s os \<Rightarrow> 's kubelet \<Rightarrow> nat \<Rightarrow> VGPUDevicePlugin \<Rightarrow> 's \<Rightarrow> VGPUDevicePlugin \<times> go_error option \<times> 's" where
  "vgpu_Start sys kl stop dp s =
     (let dp = dp\<lparr>vpStop := Some stop, vpDone := ChanOpen, vpDeregistered := ChanOpen\<rparr>
      in case vgpu_cleanup sys dp s of
        (Some err, s) \<Rightarrow> (dp, Some err, s)
      | (None, s) \<Rightarrow>
        (case kListen kl (vpSocketPath dp) s of
           (Inl err, s) \<Rightarrow> (dp, Some (Errorf ''error creating GRPC server socket''), s)
         | (Inr _, s) \<Rightarrow>
           (let dp = dp\<lparr>vpServer := True\<rparr>
            in case kWaitForServer kl (vpSocketPath dp) s of
              (Inl err, s) \<Rightarrow> (dp, Some (Errorf ''error starting the GRPC server''), s)
            | (Inr _, s) \<Rightarrow>
              (case vgpu_register kl dp s of
                 (Some err, s) \<Rightarrow>
                   (dp, Some (Errorf ''error registering with device plugin manager''), s)
               | (None, s) \<Rightarrow>
                   (dp\<lparr>vpInitialized := True, vpStarter := (vpStarter dp)\<lparr>stStarted := True\<rparr>\<rparr>,
                    kServe kl s, s)))))"

text \<open>Unlike the PCI plugin, the done channel is closed before the wait.\<close>

definition vgpu_stopDevicePlugin ::
  "'s os \<Rightarrow> VGPUDevicePlugin \<Rightarrow> 's \<Rightarrow> (VGPUDevicePlugin \<times> go_error option \<times> 's) option" where
  "vgpu_stopDevicePlugin sys dp s =
     (let closed = (if IsChanClosed (vpDone dp) then Some (vpDone dp) else close_chan (vpDone dp))
      in case closed of
           None \<Rightarrow> None
         | Some ch \<Rightarrow>
             (if \<not> vpServer dp then None
              else let dp = dp\<lparr>vpDone := ch, vpInitialized := False\<rparr>
                   in Some (dp, vgpu_cleanup sys dp s)))"

definition vgpu_Stop ::
  "'s os \<Rightarrow> VGPUDevicePlugin \<Rightarrow> 's \<Rightarrow> (VGPUDevicePlugin \<times> go_error option \<times> 's) option" where
  "vgpu_Stop = vgpu_stopDevicePlugin"

subsection \<open>Allocate\<close>

definition vgpu_alloc_dev ::
  "'s os \<Rightarrow> 's \<Rightarrow> string list \<times> DeviceSpec list \<Rightarrow> string \<Rightarrow> string list \<times> DeviceSpec list" where
  "vgpu_alloc_dev sys s st devID =
     (let (allocatedDevices, deviceSpecs) = st;
          devicePath = filepath_Join [MdevRoot, devID]
      in case osStat sys devicePath s of
           Inl err \<Rightarrow> (allocatedDevices, deviceSpecs)
         | Inr _ \<Rightarrow>
             (allocatedDevices @ [devID],
              deviceSpecs @ [\<lparr>dsContainerPath = vfioDevicePath, dsHostPath = vfioDevicePath,
                              dsPermissions = ''mrw''\<rparr>]))"

fun vgpu_alloc_loop ::
  "'s os \<Rightarrow> 's \<Rightarrow> string \<Rightarrow> string list \<Rightarrow> ContainerAllocateResponse \<Rightarrow> nat
   \<Rightarrow> string list list \<Rightarrow> ContainerAllocateResponse \<times> nat" where
  "vgpu_alloc_loop sys s env allocatedDevices containerResponse n [] = (containerResponse, n)"
| "vgpu_alloc_loop sys s env allocatedDevices containerResponse n (request # requests) =
     (let (allocatedDevices, deviceSpecs) = foldl (vgpu_alloc_dev sys s) (allocatedDevices, []) request
      in vgpu_alloc_loop sys s env allocatedDevices
           \<lparr>carEnvs = [(env, Join allocatedDevices '','')], carDevices = deviceSpecs\<rparr>
           (Suc n) requests)"

text \<open>As in the PCI plugin, one response object is appended once per container request.\<close>

definition vgpu_Allocate ::
  "plugin_consts \<Rightarrow> 's os \<Rightarrow> VGPUDevicePlugin \<Rightarrow> string list list \<Rightarrow> 's \<Rightarrow> ContainerAllocateResponse list" where
  "vgpu_Allocate k sys dp ContainerRequests s =
     (let resourceNameEnvVar = pkResourceNameToEnvVar k VGPUPrefix (vpResourceName dp);
          (containerResponse, n) =
            vgpu_alloc_loop sys s resourceNameEnvVar []
              \<lparr>carEnvs = [], carDevices = []\<rparr> 0 ContainerRequests
      in replicate n containerResponse)"

subsection \<open>healthCheck and performCheck\<close>

fun vgpu_probe_devices ::
  "'s watcher \<Rightarrow> string \<Rightarrow> Device list \<Rightarrow> (string, string) gomap \<Rightarrow> 's \<Rightarrow> (string, string) gomap res" where
  "vgpu_probe_devices w devicePath [] monitored s = Inr monitored"
| "vgpu_probe_devices w devicePath (dev # devs) monitored s =
     (let vgpuDevice = filepath_Join [devicePath, dvID dev]
      in case wAdd w vgpuDevice s of
           Inl err \<Rightarrow> Inl (Errorf (''failed to add the device '' @ vgpuDevice @ '' to the watcher''))
         | Inr _ \<Rightarrow> vgpu_probe_devices w devicePath devs (mput (dvID dev) vgpuDevice monitored) s)"

definition vgpu_healthCheck_setup ::
  "'s os \<Rightarrow> 's watcher \<Rightarrow> VGPUDevicePlugin \<Rightarrow> 's \<Rightarrow> (string, string) gomap res" where
  "vgpu_healthCheck_setup sys w dp s =
     (case wNew w s of
        Inl err \<Rightarrow> Inl (Errorf ''failed to creating a fsnotify watcher'')
      | Inr _ \<Rightarrow>
        (let devicePath = filepath_Join [vpDeviceRoot dp, vpDevicePath dp]
         in case wAdd w (filepath_Dir devicePath) s of
           Inl err \<Rightarrow> Inl (Errorf ''failed to add the device root path to the watcher'')
         | Inr _ \<Rightarrow>
           (if (case osStat sys devicePath s of Inl err \<Rightarrow> \<not> IsNotFound err | Inr _ \<Rightarrow> False)
            then Inl (Errorf ''could not stat the device'')
            else case vgpu_probe_devices w devicePath (vpDevs dp) [] s of
              Inl err \<Rightarrow> Inl err
            | Inr monitoredDevices \<Rightarrow>
              (case wAdd w (filepath_Dir (vpSocketPath dp)) s of
                 Inl err \<Rightarrow> Inl (Errorf ''failed to add the device-plugin kubelet path to the watcher'')
               | Inr _ \<Rightarrow>
                 (case osStat sys (vpSocketPath dp) s of
                    Inl err \<Rightarrow> Inl (Errorf ''failed to stat the device-plugin socket'')
                  | Inr _ \<Rightarrow>
                    (case wAdd w (vpSocketPath dp) s of
                       Inl err \<Rightarrow> Inl (Errorf ''failed to watch device-plugin socket'')
                     | Inr _ \<Rightarrow> Inr monitoredDevices))))))"

text \<open>\<^verbatim>\<open>performCheck\<close>: the initial round of messages, then the event loop's turns.\<close>

definition vgpu_initial_msgs :: "'s os \<Rightarrow> (string, string) gomap \<Rightarrow> 's \<Rightarrow> deviceHealth list" where
  "vgpu_initial_msgs sys monitoredDevices s =
     map (\<lambda>(monDevID, devPath). \<lparr>dhDevID = monDevID, dhHealth = Healthy\<rparr>)
       (filter (\<lambda>(monDevID, devPath). is_ok (osStat sys devPath s)) monitoredDevices)"

definition vgpu_performCheck_start ::
  "'s os \<Rightarrow> (string, string) gomap \<Rightarrow> VGPUDevicePlugin \<Rightarrow> 's \<Rightarrow> VGPUDevicePlugin" where
  "vgpu_performCheck_start sys monitoredDevices dp s =
     dp\<lparr>vpHealth := vpHealth dp @ vgpu_initial_msgs sys monitoredDevices s\<rparr>"

definition vgpu_performCheck_event ::
  "(string, string) gomap \<Rightarrow> hc_event \<Rightarrow> VGPUDevicePlugin \<Rightarrow> VGPUDevicePlugin \<times> bool" where
  "vgpu_performCheck_event monitoredDevices ev dp =
     (let (msgs, ret) = health_event monitoredDevices (vpSocketPath dp) ev
      in (dp\<lparr>vpHealth := vpHealth dp @ msgs\<rparr>, ret))"

subsection \<open>Devices and messages\<close>

definition MarkVGPUDeviceAsHealthy :: "string \<Rightarrow> VGPUDevicePlugin \<Rightarrow> VGPUDevicePlugin" where
  "MarkVGPUDeviceAsHealthy uuid dp =
     dp\<lparr>vpHealth := vpHealth dp @ [\<lparr>dhDevID = uuid, dhHealth = Healthy\<rparr>]\<rparr>"

definition vgpu_DeviceExists :: "string \<Rightarrow> VGPUDevicePlugin \<Rightarrow> bool" where
  "vgpu_DeviceExists uuid dp = list_ex (\<lambda>v. dvID v = uuid) (vpDevs dp)"

definition vgpu_AddDevice :: "string \<Rightarrow> VGPUDevicePlugin \<Rightarrow> VGPUDevicePlugin" where
  "vgpu_AddDevice uuid dp =
     (if list_ex (\<lambda>v. dvID v = uuid) (vpDevs dp) then dp
      else MarkVGPUDeviceAsHealthy uuid (dp\<lparr>vpDevs := vpDevs dp @ constructVGPUDPIdevices [uuid]\<rparr>))"

definition vgpu_recv :: "deviceHealth \<Rightarrow> VGPUDevicePlugin \<Rightarrow> VGPUDevicePlugin" where
  "vgpu_recv devHealth dp =
     dp\<lparr>vpDevs := deliver devHealth (vpDevs dp), vpHealth := remove1 devHealth (vpHealth dp)\<rparr>"

text \<open>A synchronous send: with \<^verbatim>\<open>ListAndWatch\<close> listening, it returns once the message has been
  received; otherwise never.\<close>

definition MarkVGPUDeviceAsUnHealthy :: "bool \<Rightarrow> string \<Rightarrow> VGPUDevicePlugin \<Rightarrow> VGPUDevicePlugin option" where
  "MarkVGPUDeviceAsUnHealthy listening uuid dp =
     (if listening
      then Some (dp\<lparr>vpDevs := deliver \<lparr>dhDevID = uuid, dhHealth = Unhealthy\<rparr> (vpDevs dp)\<rparr>)
      else None)"

definition vgpu_RemoveDevice :: "bool \<Rightarrow> string \<Rightarrow> VGPUDevicePlugin \<Rightarrow> VGPUDevicePlugin option" where
  "vgpu_RemoveDevice listening uuid dp =
     (case MarkVGPUDeviceAsUnHealthy listening uuid dp of
        None \<Rightarrow> None
      | Some dp \<Rightarrow>
          Some (dp\<lparr>vpDevs := map (\<lambda>dev. if dvID dev = uuid then dev\<lparr>dvHealth := Unhealthy\<rparr> else dev) (vpDevs dp)\<rparr>))"

subsection \<open>ListAndWatch\<close>

text \<open>
  The loop of \<^verbatim>\<open>ListAndWatch\<close> selects among a health message, the stop and the done channel; \<open>ev n\<close> is
  what the \<open>n\<close>-th turn selects, and \<open>other n\<close> what the other goroutines did to the plugin before
  it (adding devices, for example).  The loop has no bound of its own, so not returning is a value.
\<close>

datatype lw_event = LwHealth deviceHealth | LwStop | LwDone

partial_function (option) vgpu_lw_loop ::
  "(Device list \<Rightarrow> 's \<Rightarrow> go_error option \<times> 's) \<Rightarrow> (nat \<Rightarrow> VGPUDevicePlugin \<Rightarrow> VGPUDevicePlugin) \<Rightarrow> (nat \<Rightarrow> lw_event)
   \<Rightarrow> nat \<Rightarrow> VGPUDevicePlugin \<Rightarrow> 's \<Rightarrow> (go_error option \<times> VGPUDevicePlugin \<times> 's) option" where
  "vgpu_lw_loop send other ev n dp s =
     (let dp = other n dp
      in case ev n of
           LwHealth devHealth \<Rightarrow>
             (let dp = vgpu_recv devHealth dp
              in case send (vpDevs dp) s of
                   (Some err, s) \<Rightarrow> Some (Some err, dp, s)
                 | (None, s) \<Rightarrow> vgpu_lw_loop send other ev (Suc n) dp s)
         | LwStop \<Rightarrow> Some (None, dp, s)
         | LwDone \<Rightarrow> Some (None, dp, s))"

text \<open>The health check runs beside the loop; \<open>checked\<close> is what it leaves in the error channel,
  \<^const>\<open>None\<close> when it never returns.  Closing the deregistration channel twice panics.\<close>

definition vgpu_ListAndWatch ::
  "(Device list \<Rightarrow> 's \<Rightarrow> go_error option \<times> 's) \<Rightarrow> (nat \<Rightarrow> VGPUDevicePlugin \<Rightarrow> VGPUDevicePlugin) \<Rightarrow> (nat \<Rightarrow> lw_event)
   \<Rightarrow> go_error option option \<Rightarrow> VGPUDevicePlugin \<Rightarrow> 's \<Rightarrow> (go_error option \<times> VGPUDevicePlugin \<times> 's) option" where
  "vgpu_ListAndWatch send other ev checked dp s =
     (case send (vpDevs dp) s of
        (Some err, s) \<Rightarrow> Some (Some err, dp, s)
      | (None, s) \<Rightarrow>
          (case vgpu_lw_loop send other ev 0 dp s of
             None \<Rightarrow> None
           | Some (Some err, dp, s) \<Rightarrow> Some (Some err, dp, s)
           | Some (None, dp, s) \<Rightarrow>
               (let s = snd (send [] s)
                in case close_chan (vpDeregistered dp) of
                     None \<Rightarrow> None
                   | Some ch \<Rightarrow> map_option (\<lambda>err. (err, dp\<lparr>vpDeregistered := ch\<rparr>, s)) checked)))"

definition vgpu_inv :: "VGPUDevicePlugin \<Rightarrow> bool" where
  "vgpu_inv dp = distinct (ids (vpDevs dp))"

lemma list_ex_ids: "list_ex (\<lambda>v. dvID v = u) ds \<longleftrightarrow> u \<in> set (ids ds)"
  by (induction ds) auto

lemma vgpu_AddDevice_known: "u \<in> set (ids (vpDevs dp)) \<Longrightarrow> vgpu_AddDevice u dp = dp"
  by (simp add: vgpu_AddDevice_def list_ex_ids)

lemma vgpu_AddDevice_new:
  assumes "u \<notin> set (ids (vpDevs dp))"
  shows "vpDevs (vgpu_AddDevice u dp) = vpDevs dp @ [\<lparr>dvID = u, dvHealth = Unhealthy, dvTopology = None\<rparr>]"
    and "vpHealth (vgpu_AddDevice u dp) = vpHealth dp @ [\<lparr>dhDevID = u, dhHealth = Healthy\<rparr>]"
  using assms by (simp_all add: vgpu_AddDevice_def list_ex_ids MarkVGPUDeviceAsHealthy_def constructVGPUDPIdevices_def)

interpretation vgpup: device_plugin vpDevs vpHealth vgpu_recv vgpu_AddDevice "\<lambda>u. u" "\<lambda>u. True" vgpu_inv
proof (unfold_locales, goal_cases)
  case (4 p d)
  then show ?case
    by (cases "d \<in> set (ids (vpDevs p))") (simp_all add: vgpu_inv_def vgpu_AddDevice_known vgpu_AddDevice_new)
qed (simp_all add: vgpu_recv_def vgpu_inv_def vgpu_AddDevice_known vgpu_AddDevice_new)

subsection \<open>The initial check\<close>

definition vgpu_path :: "VGPUDevicePlugin \<Rightarrow> string \<Rightarrow> string" where
  "vgpu_path dp uuid = filepath_Join [filepath_Join [vpDeviceRoot dp, vpDevicePath dp], uuid]"

lemma vgpu_probe_devices_mget:
  "vgpu_probe_devices w p devs mon s = Inr mon' \<Longrightarrow> wf_map mon \<Longrightarrow>
     wf_map mon' \<and> (\<forall>i. mget mon' i = (if i \<in> set (ids devs) then Some (filepath_Join [p, i]) else mget mon i))"
  by (induction devs arbitrary: mon) (auto simp: Let_def split: sum.splits)

lemma vgpu_healthCheck_setup_mget:
  assumes "vgpu_healthCheck_setup sys w dp s = Inr mon"
  shows "wf_map mon"
    and "mget mon i = (if i \<in> set (ids (vpDevs dp)) then Some (vgpu_path dp i) else None)"
proof -
  have "vgpu_probe_devices w (filepath_Join [vpDeviceRoot dp, vpDevicePath dp]) (vpDevs dp) [] s = Inr mon"
    using assms by (auto simp: vgpu_healthCheck_setup_def Let_def split: sum.splits if_splits)
  from vgpu_probe_devices_mget [OF this wf_map_Nil]
  show "wf_map mon"
    and "mget mon i = (if i \<in> set (ids (vpDevs dp)) then Some (vgpu_path dp i) else None)"
    by (simp_all add: vgpu_path_def)
qed

lemma vgpu_initial_msgs_ids:
  assumes "vgpu_healthCheck_setup sys w dp s = Inr mon"
  shows "dhDevID ` set (vgpu_initial_msgs sys mon s) =
      {i \<in> set (ids (vpDevs dp)). is_ok (osStat sys (vgpu_path dp i) s)}"
  using vgpu_healthCheck_setup_mget [OF assms]
  by (auto simp: vgpu_initial_msgs_def in_set_mget image_image case_prod_unfold image_iff split: if_splits)

lemma healths_fold_other: "i \<notin> dhDevID ` set ms \<Longrightarrow> healths i (fold deliver ms devs) = healths i devs"
  by (induction ms arbitrary: devs) (auto simp: healths_deliver)

text \<open>
  When the health check of a vGPU plugin starts (after a restart of the plugin or
  of the kubelet, with no message in flight), the initial round makes exactly the devices
  healthy whose mdev directory exists; the others keep their health.  The order in which the
  messages are received does not matter.
\<close>

lemma vgpu_initial_check:
  assumes "vgpu_inv dp" and "vpHealth dp = []"
    and "vgpu_healthCheck_setup sys w dp s = Inr mon"
    and "mset ms = mset (vpHealth (vgpu_performCheck_start sys mon dp s))"
    and "i \<in> set (ids (vpDevs dp))"
  shows "healths i (vpDevs (fold vgpu_recv ms (vgpu_performCheck_start sys mon dp s))) =
    (if is_ok (osStat sys (vgpu_path dp i) s) then [Healthy] else healths i (vpDevs dp))"
proof -
  let ?p = "vgpu_performCheck_start sys mon dp s"
  have p: "vpDevs ?p = vpDevs dp" "vpHealth ?p = vgpu_initial_msgs sys mon s"
    using assms(2) by (simp_all add: vgpu_performCheck_start_def)
  have set_ms: "set ms = set (vgpu_initial_msgs sys mon s)"
    using assms(4) p(2) by (metis set_mset_mset)
  note msgs = vgpu_initial_msgs_ids [OF assms(3)]
  show ?thesis
  proof (cases "is_ok (osStat sys (vgpu_path dp i) s)")
    case True
    with msgs assms(5) have "i \<in> dhDevID ` set (vpHealth ?p)" unfolding p(2) by blast
    then have "all_health i Healthy (vpDevs (fold vgpu_recv ms ?p))"
      by (intro vgpup.drained_health [OF assms(4)]) (auto simp: p(2) vgpu_initial_msgs_def)
    then show ?thesis
      using True assms(1,5) by (simp add: healths_single vgpup.recv_fold_devs p(1) vgpu_inv_def)
  next
    case False
    with msgs have "i \<notin> dhDevID ` set ms" unfolding set_ms by blast
    with False show ?thesis by (simp add: vgpup.recv_fold_devs p(1) healths_fold_other)
  qed
qed

subsection \<open>Releasing a vGPU\<close>

lemma deliver_unhealthy:
  "map (\<lambda>dev. if dvID dev = u then dev\<lparr>dvHealth := Unhealthy\<rparr> else dev)
     (deliver \<lparr>dhDevID = u, dhHealth = Unhealthy\<rparr> devs) = deliver \<lparr>dhDevID = u, dhHealth = Unhealthy\<rparr> devs"
  by (auto simp: deliver_def)

lemma count_deliver_unhealthy:
  "count_healthy (deliver \<lparr>dhDevID = u, dhHealth = Unhealthy\<rparr> devs) =
     length (filter (\<lambda>d. dvHealth d = Healthy \<and> dvID d \<noteq> u) devs)"
  by (induction devs) (auto simp: count_healthy_def deliver_def)

text \<open>
  With the kubelet's stream listening, releasing a vGPU returns and leaves
  exactly the other healthy devices counted; adding the same vGPU afterwards is without
  effect, so it is not announced as healthy again.  Without a listener the call never returns.
\<close>

lemma vgpu_RemoveDevice_effect:
  assumes "vgpu_inv dp"
  shows "vgpu_RemoveDevice False u dp = None
    \<and> (\<exists>dp'. vgpu_RemoveDevice True u dp = Some dp' \<and> vgpu_inv dp'
        \<and> vgpu_GetCount dp' = length (filter (\<lambda>d. dvHealth d = Healthy \<and> dvID d \<noteq> u) (vpDevs dp))
        \<and> (vgpu_DeviceExists u dp \<longrightarrow> vgpu_AddDevice u dp' = dp' \<and> healths u (vpDevs dp') = [Unhealthy]))"
proof -
  let ?devs = "deliver \<lparr>dhDevID = u, dhHealth = Unhealthy\<rparr> (vpDevs dp)"
  have r: "vgpu_RemoveDevice True u dp = Some (dp\<lparr>vpDevs := ?devs\<rparr>)"
    by (simp add: vgpu_RemoveDevice_def MarkVGPUDeviceAsUnHealthy_def deliver_unhealthy)
  have "healths u ?devs = [Unhealthy]" if "u \<in> set (ids (vpDevs dp))"
    using assms that
    by (intro healths_single) (simp_all add: vgpu_inv_def all_health_deliver)
  then show ?thesis
    using assms unfolding r
    by (simp add: vgpu_RemoveDevice_def MarkVGPUDeviceAsUnHealthy_def vgpu_GetCount_def vgpu_inv_def
        count_deliver_unhealthy vgpu_DeviceExists_def list_ex_ids vgpu_AddDevice_known)
qed

subsection \<open>Allocate\<close>

lemma foldl_vgpu_alloc:
  "foldl (vgpu_alloc_dev sys s) (al, sp) req =
     (let ok = filter (\<lambda>i. is_ok (osStat sys (filepath_Join [MdevRoot, i]) s)) req
      in (al @ ok, sp @ replicate (length ok)
            \<lparr>dsContainerPath = vfioDevicePath, dsHostPath = vfioDevicePath, dsPermissions = ''mrw''\<rparr>))"
  by (induction req arbitrary: al sp) (auto simp: vgpu_alloc_dev_def Let_def is_ok_def split: sum.splits)

text \<open>
  For every number of container requests the answer has one entry per request;
  all the entries are equal, and for a non-empty call they name the existing mdev devices of
  all the requests together, while the device nodes are those of the last request alone.
\<close>

lemma vgpu_Allocate_result:
  "vgpu_Allocate k sys dp reqs s = replicate (length reqs)
     (if reqs = [] then \<lparr>carEnvs = [], carDevices = []\<rparr>
      else \<lparr>carEnvs = [(pkResourceNameToEnvVar k VGPUPrefix (vpResourceName dp),
               Join (filter (\<lambda>i. is_ok (osStat sys (filepath_Join [MdevRoot, i]) s)) (concat reqs)) '','')],
            carDevices = replicate (length (filter (\<lambda>i. is_ok (osStat sys (filepath_Join [MdevRoot, i]) s)) (last reqs)))
               \<lparr>dsContainerPath = vfioDevicePath, dsHostPath = vfioDevicePath, dsPermissions = ''mrw''\<rparr>\<rparr>)"
proof -
  have "vgpu_alloc_loop sys s env al cr n reqs =
      (if reqs = [] then cr
       else \<lparr>carEnvs = [(env, Join (al @ filter (\<lambda>i. is_ok (osStat sys (filepath_Join [MdevRoot, i]) s)) (concat reqs)) '','')],
             carDevices = replicate (length (filter (\<lambda>i. is_ok (osStat sys (filepath_Join [MdevRoot, i]) s)) (last reqs)))
               \<lparr>dsContainerPath = vfioDevicePath, dsHostPath = vfioDevicePath, dsPermissions = ''mrw''\<rparr>\<rparr>,
       n + length reqs)" for env al cr n
    by (induction reqs arbitrary: al cr n) (simp_all add: foldl_vgpu_alloc Let_def)
  then show ?thesis by (simp add: vgpu_Allocate_def)
qed

subsection \<open>ListAndWatch\<close>

definition lw_stop :: "lw_event \<Rightarrow> bool" where
  "lw_stop e \<longleftrightarrow> e = LwStop \<or> e = LwDone"

definition first_stop :: "(nat \<Rightarrow> lw_event) \<Rightarrow> nat \<Rightarrow> bool" where
  "first_stop ev k \<longleftrightarrow> lw_stop (ev k) \<and> (\<forall>i < k. \<not> lw_stop (ev i))"

text \<open>The plugin after the first \<open>n\<close> messages, and a stream that takes every response.\<close>

primrec lw_after :: "(nat \<Rightarrow> VGPUDevicePlugin \<Rightarrow> VGPUDevicePlugin) \<Rightarrow> (nat \<Rightarrow> lw_event) \<Rightarrow> nat \<Rightarrow> VGPUDevicePlugin \<Rightarrow> VGPUDevicePlugin" where
  "lw_after other ev 0 dp = dp"
| "lw_after other ev (Suc n) dp =
     (case ev n of LwHealth m \<Rightarrow> vgpu_recv m (other n (lw_after other ev n dp)) | _ \<Rightarrow> lw_after other ev n dp)"

definition take_all :: "Device list \<Rightarrow> Device list list \<Rightarrow> go_error option \<times> Device list list" where
  "take_all devs sent = (None, sent @ [devs])"

lemma vgpu_lw_loop_health:
  "ev n = LwHealth m \<Longrightarrow> vgpu_lw_loop take_all other ev n dp sent =
     vgpu_lw_loop take_all other ev (Suc n) (vgpu_recv m (other n dp)) (sent @ [vpDevs (vgpu_recv m (other n dp))])"
  by (subst vgpu_lw_loop.simps) (simp add: take_all_def Let_def)

lemma vgpu_lw_loop_stop:
  "lw_stop (ev n) \<Longrightarrow> vgpu_lw_loop send other ev n dp s = Some (None, other n dp, s)"
  by (subst vgpu_lw_loop.simps) (auto simp: lw_stop_def)

lemma not_lw_stop: "\<not> lw_stop e \<longleftrightarrow> (\<exists>m. e = LwHealth m)"
  by (cases e) (auto simp: lw_stop_def)

lemma vgpu_lw_loop_turns:
  assumes "\<forall>i < k. \<not> lw_stop (ev i)" and "n \<le> k"
  shows "vgpu_lw_loop take_all other ev 0 dp sent =
    vgpu_lw_loop take_all other ev n (lw_after other ev n dp)
      (sent @ map (\<lambda>i. vpDevs (lw_after other ev (Suc i) dp)) [0..<n])"
  using assms(2)
proof (induction n)
  case (Suc n)
  then obtain m where m: "ev n = LwHealth m" using assms(1) not_lw_stop by fastforce
  with Suc show ?case by (simp add: vgpu_lw_loop_health [where ev = ev and n = n, OF m] m)
qed simp

text \<open>Without a stop or done event the loop does not return: induction on the approximations of
  the fixed point.\<close>

lemma vgpu_lw_loop_some:
  assumes "vgpu_lw_loop send other ev n dp s = Some r" and "send = (take_all :: Device list \<Rightarrow> _)"
  shows "\<exists>k. lw_stop (ev k)"
  using assms
proof (induction rule: vgpu_lw_loop.raw_induct [rotated, consumes 1])
  case (1 loop send other ev n dp s r)
  then show ?case
    by (cases "ev n") (auto simp: lw_stop_def take_all_def Let_def split: prod.splits option.splits)
qed

lemma lw_after_deregistered:
  "(\<And>n d. vpDeregistered (other n d) = vpDeregistered d) \<Longrightarrow>
     vpDeregistered (lw_after other ev n dp) = vpDeregistered dp"
  by (induction n) (auto simp: vgpu_recv_def split: lw_event.splits)


subsection \<open>Concrete runs\<close>

definition demo_vdp :: VGPUDevicePlugin where
  "demo_vdp = NewVGPUDevicePlugin demo_consts [''uuid-1'', ''uuid-2''] ''nvidia.com/NVIDIA_A2-4Q''"

definition demo_vos :: "string list os" where
  "demo_vos = demo_os\<lparr>osStat := \<lambda>p s. if p = ''/proc/1/root/sys/bus/mdev/devices/uuid-2'' then Inl NotFound else Inr ()\<rparr>"

definition demo_other :: "nat \<Rightarrow> VGPUDevicePlugin \<Rightarrow> VGPUDevicePlugin" where
  "demo_other n dp = (if n = 1 then vgpu_AddDevice ''uuid-3'' dp else dp)"

definition demo_ev :: "nat \<Rightarrow> lw_event" where
  "demo_ev n = (if n = 0 then LwHealth \<lparr>dhDevID = ''uuid-1'', dhHealth = Healthy\<rparr>
                else if n = 1 then LwHealth \<lparr>dhDevID = ''uuid-3'', dhHealth = Healthy\<rparr> else LwDone)"


end
