(* ===== verification/Virtual_Machine.thy ===== *)
theory Virtual_Machine
  imports Object_Cache Common Pci_Device_Plugin Vgpu_Device_Plugin
begin

section \<open>The virtual machine controller\<close>

text \<open>
  Models \<^verbatim>\<open>pkg/controller/virtualmachine/virtualmachine.go\<close>: the environment of the launcher pod
  tells which devices the kubelet allocated; the controller records them in an annotation of the
  virtual machine and, when the instance goes away, writes the actual device names into the
  machine's specification.  Pods, the remote command and the JSON codec are parameters.
\<close>

record VirtualMachineInstance =
  viMeta :: object_meta
  viPhaseRunning :: bool
  viNodeName :: string
  viHostDevices :: "HostDevice list"
  viGPUs :: "GPU list"

record Pod =
  poName :: string
  poRunning :: bool

record 's vm_env =
  veVm :: "(VirtualMachine, 's) client"
  veVgpu :: "(VGPUDevice, 's) client"
  vePd :: "(PCIDevice, 's) client"
  vePods :: "string \<Rightarrow> string \<Rightarrow> 's \<Rightarrow> Pod list res" \<comment> \<open>namespace, value of the VM label\<close>
  veRunEnv :: "Pod \<Rightarrow> 's \<Rightarrow> string res"
  veConsts :: plugin_consts
  veJson :: json_codec
  veNodeName :: string

definition vm_key :: "object_meta \<Rightarrow> string" where
  "vm_key m = mNamespace m @ ''/'' @ mName m"

subsection \<open>The environment of the pod\<close>

text \<open>\<^verbatim>\<open>ReadBytes\<close> up to each newline, a last line without one included, empty reads dropped.\<close>

definition env_lines :: "string \<Rightarrow> string list" where
  "env_lines podEnv =
     (let ls = split_char (CHR 0x0A) podEnv in if last ls = [] then butlast ls else ls)"

definition convertEnvToMap :: "string \<Rightarrow> (string, string) gomap" where
  "convertEnvToMap podEnv =
     foldl (\<lambda>resultMap line.
              let lineArr = split_char (CHR ''='') line
              in mput (hd lineArr) (Join (tl lineArr) ''='') resultMap)
       [] (env_lines podEnv)"

definition findPodForVMI :: "'s vm_env \<Rightarrow> VirtualMachineInstance \<Rightarrow> 's \<Rightarrow> Pod res" where
  "findPodForVMI E vmi s =
     (case vePods E (mNamespace (viMeta vmi)) (mName (viMeta vmi)) s of
        Inl err \<Rightarrow> Inl (Errorf ''error listing pods'')
      | Inr podList \<Rightarrow>
          (let running = filter poRunning podList
           in if length running \<noteq> 1 then Inl (Errorf ''expected to find 1 pod'')
              else Inr (last running)))"

definition generatePodEnvMap :: "'s vm_env \<Rightarrow> VirtualMachineInstance \<Rightarrow> 's \<Rightarrow> (string, string) gomap res" where
  "generatePodEnvMap E vmi s =
     (case findPodForVMI E vmi s of
        Inl err \<Rightarrow> Inl err
      | Inr pod \<Rightarrow>
          (case veRunEnv E pod s of Inl err \<Rightarrow> Inl err | Inr podEnv \<Rightarrow> Inr (convertEnvToMap podEnv)))"

subsection \<open>From addresses to names\<close>

definition buildVGPUMap :: "VGPUDevice list \<Rightarrow> (string, string) gomap" where
  "buildVGPUMap vgpuDevices =
     foldl (\<lambda>result vgpu. if vgUUID (vgStatus vgpu) \<noteq> [] then mput (vgUUID (vgStatus vgpu)) (vgName vgpu) result
                          else result) [] vgpuDevices"

definition buildPCIDeviceMap :: "PCIDevice list \<Rightarrow> (string, string) gomap" where
  "buildPCIDeviceMap pciDevices =
     foldl (\<lambda>result device. mput (pdAddress (pdStatus device)) (pdName device) result) [] pciDevices"

text \<open>Reading an absent key of a Go map gives the empty string.\<close>

definition mread :: "(string, string) gomap \<Rightarrow> string \<Rightarrow> string" where
  "mread m k = (case mget m k of None \<Rightarrow> [] | Some v \<Rightarrow> v)"

fun reconcilePCIDeviceDetails ::
  "plugin_consts \<Rightarrow> HostDevice list \<Rightarrow> (string, string) gomap \<Rightarrow> (string, string) gomap
   \<Rightarrow> (string, string list) gomap \<Rightarrow> (string, string list) gomap" where
  "reconcilePCIDeviceDetails k [] envMap pciDeviceMap hostDeviceMap = hostDeviceMap"
| "reconcilePCIDeviceDetails k (device # rest) envMap pciDeviceMap hostDeviceMap =
     reconcilePCIDeviceDetails k rest envMap pciDeviceMap
       (case mget envMap (pkResourceNameToEnvVar k PCIResourcePrefix (hdDeviceName device)) of
          None \<Rightarrow> hostDeviceMap
        | Some val \<Rightarrow>
            (if mhas hostDeviceMap (hdDeviceName device) then hostDeviceMap
             else let devices = Compact (split_char (CHR '','') val)
                  in mput (hdDeviceName device) (map (mread pciDeviceMap) devices) hostDeviceMap))"

fun reconcileGPUDetails ::
  "plugin_consts \<Rightarrow> GPU list \<Rightarrow> (string, string) gomap \<Rightarrow> (string, string) gomap
   \<Rightarrow> (string, string list) gomap \<Rightarrow> (string, string list) gomap" where
  "reconcileGPUDetails k [] envMap vGPUMap gpuMap = gpuMap"
| "reconcileGPUDetails k (device # rest) envMap vGPUMap gpuMap =
     reconcileGPUDetails k rest envMap vGPUMap
       (case mget envMap (pkResourceNameToEnvVar k VGPUPrefix (gpDeviceName device)) of
          None \<Rightarrow> gpuMap
        | Some val \<Rightarrow>
            (if mhas gpuMap (gpDeviceName device) then gpuMap
             else mput (gpDeviceName device) (map (mread vGPUMap) (split_char (CHR '','') val)) gpuMap))"

definition dedupDevices :: "(string, string list) gomap \<Rightarrow> (string, string list) gomap" where
  "dedupDevices deviceMap = map (\<lambda>(key, val). (key, Compact val)) deviceMap"

definition generateAllocationDetails ::
  "(string, string list) gomap \<Rightarrow> (string, string list) gomap \<Rightarrow> AllocationDetails" where
  "generateAllocationDetails hostDeviceMap gpuMap =
     \<lparr>adGPUs = dedupDevices gpuMap, adHostDevices = dedupDevices hostDeviceMap\<rparr>"

lemma mget_dedupDevices: "mget (dedupDevices m) k = map_option Compact (mget m k)"
  by (induction m) (auto simp: dedupDevices_def mget_Cons)

subsection \<open>The annotation\<close>

definition checkAndClearDeviceAllocation :: "'s vm_env \<Rightarrow> VirtualMachineInstance \<Rightarrow> 's \<Rightarrow> go_error option \<times> 's" where
  "checkAndClearDeviceAllocation E vmi s =
     (case cGet (veVm E) (vm_key (viMeta vmi)) s of
        Inl err \<Rightarrow> (Some (Errorf (''error fetching vm '' @ mName (viMeta vmi) @ '' from cache'')), s)
      | Inr vmObj \<Rightarrow>
          (if \<not> mhas (mAnnotations (vmMeta vmObj)) DeviceAllocationKey then (None, s)
           else let vmObj = vmObj\<lparr>vmMeta := (vmMeta vmObj)\<lparr>mAnnotations := mdel DeviceAllocationKey (mAnnotations (vmMeta vmObj))\<rparr>\<rparr>
                in err_result (cUpdate (veVm E) vmObj (cAlias (veVm E) (vm_key (viMeta vmi)) vmObj s))))"

definition reconcileVMResourceAllocationAnnotation ::
  "'s vm_env \<Rightarrow> VirtualMachineInstance \<Rightarrow> string \<Rightarrow> 's \<Rightarrow> go_error option \<times> 's" where
  "reconcileVMResourceAllocationAnnotation E vmi deviceDetails s =
     (case cGet (veVm E) (vm_key (viMeta vmi)) s of
        Inl err \<Rightarrow> (Some (Errorf (''error fetching vm '' @ mName (viMeta vmi) @ '' from cache'')), s)
      | Inr vmObj \<Rightarrow>
          (let currentAnnotationValue = mread (mAnnotations (vmMeta vmObj)) DeviceAllocationKey
           in if currentAnnotationValue \<noteq> deviceDetails
              then let vmObj = vmObj\<lparr>vmMeta := (vmMeta vmObj)\<lparr>mAnnotations :=
                         mput DeviceAllocationKey deviceDetails (mAnnotations (vmMeta vmObj))\<rparr>\<rparr>
                   in err_result (cUpdate (veVm E) vmObj (cAlias (veVm E) (vm_key (viMeta vmi)) vmObj s))
              else (None, s)))"

definition reconcileDeviceAllocationDetails ::
  "'s vm_env \<Rightarrow> VirtualMachineInstance \<Rightarrow> (string, string) gomap \<Rightarrow> 's \<Rightarrow> go_error option \<times> 's" where
  "reconcileDeviceAllocationDetails E vmi envMap s =
     (let selector = [(NodeKeyName, viNodeName vmi)];
          pciDeviceMap = (if viHostDevices vmi \<noteq> []
                          then map_sum (\<lambda>_. Errorf ''error listing pcidevices from cache'') buildPCIDeviceMap
                                 (cList (vePd E) selector s)
                          else Inr []);
          vGPUMap = (if viGPUs vmi \<noteq> []
                     then map_sum (\<lambda>_. Errorf ''error listing vgpudevices from cache'') buildVGPUMap
                            (cList (veVgpu E) selector s)
                     else Inr [])
      in case pciDeviceMap of
           Inl err \<Rightarrow> (Some err, s)
         | Inr pciDeviceMap \<Rightarrow>
             (case vGPUMap of
                Inl err \<Rightarrow> (Some err, s)
              | Inr vGPUMap \<Rightarrow>
                  (let hostDeviceMap = reconcilePCIDeviceDetails (veConsts E) (viHostDevices vmi) envMap pciDeviceMap [];
                       gpuMap = reconcileGPUDetails (veConsts E) (viGPUs vmi) envMap vGPUMap [];
                       deviceDetails = generateAllocationDetails hostDeviceMap gpuMap
                   in reconcileVMResourceAllocationAnnotation E vmi (jMarshal (veJson E) deviceDetails) s)))"

definition trackDevices :: "'s vm_env \<Rightarrow> VirtualMachineInstance \<Rightarrow> 's \<Rightarrow> go_error option \<times> 's" where
  "trackDevices E vmi s =
     (case generatePodEnvMap E vmi s of
        Inl err \<Rightarrow> (Some err, s)
      | Inr envMap \<Rightarrow> reconcileDeviceAllocationDetails E vmi envMap s)"

definition OnVMIChange :: "'s vm_env \<Rightarrow> VirtualMachineInstance option \<Rightarrow> 's \<Rightarrow> go_error option \<times> 's" where
  "OnVMIChange E vmip s =
     (case vmip of None \<Rightarrow> (None, s) | Some vmi \<Rightarrow>
      if mDeletionTimestamp (viMeta vmi) then (None, s)
      else if \<not> viPhaseRunning vmi then (None, s)
      else if viHostDevices vmi = [] \<and> viGPUs vmi = [] then checkAndClearDeviceAllocation E vmi s
      else if viNodeName vmi \<noteq> veNodeName E then (None, s)
      else trackDevices E vmi s)"

subsection \<open>Writing the allocated names back\<close>

text \<open>\<^const>\<open>None\<close> is the panic on element 0 of an exhausted list.\<close>

fun patchHostDevices ::
  "HostDevice list \<Rightarrow> (string, string list) gomap \<Rightarrow> (HostDevice list) option" where
  "patchHostDevices [] deviceInfo = Some []"
| "patchHostDevices (device # rest) deviceInfo =
     (case mget deviceInfo (hdDeviceName device) of
        None \<Rightarrow> map_option (\<lambda>ds. device # ds) (patchHostDevices rest deviceInfo)
      | Some [] \<Rightarrow> None
      | Some (actual # actualDevices) \<Rightarrow>
          map_option (\<lambda>ds. device\<lparr>hdName := actual\<rparr> # ds)
            (patchHostDevices rest (mput (hdDeviceName device) actualDevices deviceInfo)))"

fun patchGPUDevices ::
  "GPU list \<Rightarrow> (string, string list) gomap \<Rightarrow> (GPU list) option" where
  "patchGPUDevices [] deviceInfo = Some []"
| "patchGPUDevices (device # rest) deviceInfo =
     (case mget deviceInfo (gpDeviceName device) of
        None \<Rightarrow> map_option (\<lambda>ds. device # ds) (patchGPUDevices rest deviceInfo)
      | Some [] \<Rightarrow> None
      | Some (actual # actualDevices) \<Rightarrow>
          map_option (\<lambda>ds. device\<lparr>gpName := actual\<rparr> # ds)
            (patchGPUDevices rest (mput (gpDeviceName device) actualDevices deviceInfo)))"

definition OnVMIDeletion :: "'s vm_env \<Rightarrow> VirtualMachineInstance option \<Rightarrow> 's \<Rightarrow> (go_error option \<times> 's) option" where
  "OnVMIDeletion E vmip s =
     (case vmip of None \<Rightarrow> Some (None, s) | Some vmi \<Rightarrow>
      if \<not> mDeletionTimestamp (viMeta vmi) then Some (None, s)
      else if viGPUs vmi = [] \<and> viHostDevices vmi = [] then Some (None, s)
      else case cGet (veVm E) (vm_key (viMeta vmi)) s of
        Inl err \<Rightarrow>
          Some (if IsNotFound err then None
                else Some (Errorf (''error fetching vm object for vmi '' @ vm_key (viMeta vmi))), s)
      | Inr vmObj \<Rightarrow>
        (if mDeletionTimestamp (vmMeta vmObj) then Some (None, s)
         else if viNodeName vmi \<noteq> veNodeName E then Some (None, s)
         else case mget (mAnnotations (vmMeta vmObj)) DeviceAllocationKey of
           None \<Rightarrow> Some (None, s)
         | Some val \<Rightarrow>
           (case jUnmarshal (veJson E) val of
              Inl err \<Rightarrow> Some (Some (Errorf ''error unmarshalling allocation details annotation''), s)
            | Inr allocationDetails \<Rightarrow>
              (case (if viHostDevices vmi \<noteq> []
                     then patchHostDevices (vmHostDevices vmObj) (adHostDevices allocationDetails)
                     else Some (vmHostDevices vmObj)) of
                 None \<Rightarrow> None
               | Some hds \<Rightarrow>
                 (case (if viGPUs vmi \<noteq> [] then patchGPUDevices (vmGPUs vmObj) (adGPUs allocationDetails)
                        else Some (vmGPUs vmObj)) of
                    None \<Rightarrow> None
                  | Some gpus \<Rightarrow>
                    (let vmObjNew = vmObj\<lparr>vmHostDevices := hds, vmGPUs := gpus\<rparr>;
                         s = cAlias (veVm E) (vm_key (viMeta vmi)) vmObjNew s
                     in if hds \<noteq> vmHostDevices vmObj \<or> gpus \<noteq> vmGPUs vmObj
                        then Some (err_result (cUpdate (veVm E) vmObjNew s))
                        else Some (None, s)))))))"

subsection \<open>Patching takes the allocated names in order\<close>

definition named :: "string \<Rightarrow> HostDevice list \<Rightarrow> HostDevice list" where
  "named n ds = filter (\<lambda>d. hdDeviceName d = n) ds"

definition enough :: "HostDevice list \<Rightarrow> (string, string list) gomap \<Rightarrow> bool" where
  "enough ds info \<longleftrightarrow> (\<forall>n names. mget info n = Some names \<longrightarrow> length (named n ds) \<le> length names)"

lemma named_Cons: "named n (d # ds) = (if hdDeviceName d = n then d # named n ds else named n ds)"
  by (simp add: named_def)

lemma enough_Cons:
  "enough (d # ds) info \<longleftrightarrow>
     (case mget info (hdDeviceName d) of
        None \<Rightarrow> enough ds info
      | Some [] \<Rightarrow> False
      | Some (x # xs) \<Rightarrow> enough ds (mput (hdDeviceName d) xs info))"
proof (cases "mget info (hdDeviceName d)")
  case None
  then show ?thesis by (auto simp: enough_def named_Cons split: if_splits)
next
  case (Some names)
  show ?thesis
  proof (cases names)
    case Nil
    with Some have "\<not> enough (d # ds) info" by (auto simp: enough_def named_Cons intro!: exI [of _ "hdDeviceName d"])
    with Some Nil show ?thesis by simp
  next
    case (Cons x xs)
    have "enough (d # ds) info \<longleftrightarrow> length (named (hdDeviceName d) ds) \<le> length xs
        \<and> (\<forall>n names. n \<noteq> hdDeviceName d \<longrightarrow> mget info n = Some names \<longrightarrow> length (named n ds) \<le> length names)"
      using Some Cons by (auto simp: enough_def named_Cons split: if_splits)
    moreover have "enough ds (mput (hdDeviceName d) xs info) \<longleftrightarrow> length (named (hdDeviceName d) ds) \<le> length xs
        \<and> (\<forall>n names. n \<noteq> hdDeviceName d \<longrightarrow> mget info n = Some names \<longrightarrow> length (named n ds) \<le> length names)"
      by (auto simp: enough_def split: if_splits)
    ultimately show ?thesis using Some Cons by simp
  qed
qed

lemma patchHostDevices_defined: "(\<exists>ds'. patchHostDevices ds info = Some ds') \<longleftrightarrow> enough ds info"
  by (induction ds info rule: patchHostDevices.induct)
    (auto simp: enough_Cons enough_def [of "[]"] named_def split: option.split list.split)

definition expected_names :: "string \<Rightarrow> HostDevice list \<Rightarrow> (string, string list) gomap \<Rightarrow> string list" where
  "expected_names n ds info =
     (case mget info n of None \<Rightarrow> map hdName (named n ds) | Some names \<Rightarrow> take (length (named n ds)) names)"

lemma patchHostDevices_names:
  "patchHostDevices ds info = Some ds' \<Longrightarrow>
     map hdDeviceName ds' = map hdDeviceName ds \<and> map hdName (named n ds') = expected_names n ds info"
proof (induction ds info arbitrary: ds' rule: patchHostDevices.induct)
  case (2 d rest info)
  then show ?case
    by (auto simp: expected_names_def named_def split: option.splits list.splits if_splits)
qed (simp add: expected_names_def named_def split: option.split)

text \<open>
  Property C29.  Writing the allocated names into a machine succeeds exactly when every recorded
  resource has at least as many names as the machine has devices of it (otherwise the code
  panics); then the resources of the devices are unchanged, the devices of a recorded resource
  get its first names, in order and each once, and the devices of other resources keep theirs.
\<close>

theorem patchHostDevices_spec:
  "(enough ds info \<longleftrightarrow> patchHostDevices ds info \<noteq> None)
   \<and> (\<forall>ds' n. patchHostDevices ds info = Some ds' \<longrightarrow>
        map hdDeviceName ds' = map hdDeviceName ds \<and> map hdName (named n ds') = expected_names n ds info)"
  using patchHostDevices_defined [of ds info] patchHostDevices_names by blast

theorem patchHostDevices_spec_witness:
  "\<exists>ds'. patchHostDevices
       [\<lparr>hdName = ''old1'', hdDeviceName = ''r''\<rparr>, \<lparr>hdName = ''keep'', hdDeviceName = ''q''\<rparr>, \<lparr>hdName = ''old2'', hdDeviceName = ''r''\<rparr>]
       [(''r'', [''new1'', ''new2'', ''new3''])] = Some ds'
     \<and> map hdName (named ''r'' ds') = [''new1'', ''new2'']"
proof -
  let ?ds = "[\<lparr>hdName = ''old1'', hdDeviceName = ''r''\<rparr>, \<lparr>hdName = ''keep'', hdDeviceName = ''q''\<rparr>, \<lparr>hdName = ''old2'', hdDeviceName = ''r''\<rparr>]"
  let ?info = "[(''r'', [''new1'', ''new2'', ''new3''])]"
  have "enough ?ds ?info" by (simp add: enough_def named_def mget_Cons)
  moreover have "expected_names ''r'' ?ds ?info = [''new1'', ''new2'']" by code_simp
  ultimately show ?thesis using patchHostDevices_spec [of ?ds ?info] by (metis not_None_eq)
qed

subsection \<open>A refused update is lost\<close>

lemma patchHostDevices_idem: "patchHostDevices ds info = Some ds' \<Longrightarrow> patchHostDevices ds' info = Some ds'"
proof (induction ds info arbitrary: ds' rule: patchHostDevices.induct)
  case (2 d rest info)
  show ?case
  proof (cases "mget info (hdDeviceName d)")
    case None
    with "2.prems" obtain ds where ds: "patchHostDevices rest info = Some ds" "ds' = d # ds" by auto
    from "2.IH"(1) [OF None ds(1)] None ds(2) show ?thesis by simp
  next
    case (Some names)
    with "2.prems" obtain n ns ds where ds: "names = n # ns" "patchHostDevices rest (mput (hdDeviceName d) ns info) = Some ds"
      "ds' = d\<lparr>hdName := n\<rparr> # ds" by (cases names) auto
    from "2.IH"(2) [OF Some ds(1,2)] Some ds(1,3) show ?thesis by simp
  qed
qed simp

lemma patchGPUDevices_idem: "patchGPUDevices ds info = Some ds' \<Longrightarrow> patchGPUDevices ds' info = Some ds'"
proof (induction ds info arbitrary: ds' rule: patchGPUDevices.induct)
  case (2 d rest info)
  show ?case
  proof (cases "mget info (gpDeviceName d)")
    case None
    with "2.prems" obtain ds where ds: "patchGPUDevices rest info = Some ds" "ds' = d # ds" by auto
    from "2.IH"(1) [OF None ds(1)] None ds(2) show ?thesis by simp
  next
    case (Some names)
    with "2.prems" obtain n ns ds where ds: "names = n # ns" "patchGPUDevices rest (mput (gpDeviceName d) ns info) = Some ds"
      "ds' = d\<lparr>gpName := n\<rparr> # ds" by (cases names) auto
    from "2.IH"(2) [OF Some ds(1,2)] Some ds(1,3) show ?thesis by simp
  qed
qed simp

text \<open>
  Property C40.  \<^verbatim>\<open>OnVMIDeletion\<close> patches the machine object inside the cache.  If the API server refuses the update, the
  handler returns the error to be run again, but the second run compares the patched object with a copy of itself, reports
  success and writes nothing: the stored machine keeps the names of devices it did not get.
\<close>

theorem OnVMIDeletion_update_lost:
  assumes "object_cache (veVm E) (cUpdate (veVm E)) stored"
    and "cGet (veVm E) (vm_key (viMeta vmi)) s = Inr vm"
    and "mget (mAnnotations (vmMeta vm)) DeviceAllocationKey = Some val" and "jUnmarshal (veJson E) val = Inr details"
    and "OnVMIDeletion E (Some vmi) s = Some (Some err, s1)"
  shows "stored s1 = stored s \<and> (\<exists>s2. OnVMIDeletion E (Some vmi) s1 = Some (None, s2) \<and> stored s2 = stored s)"
proof -
  let ?k = "vm_key (viMeta vmi)"
  from assms(2-5) obtain hds gpus where
    hds: "(if viHostDevices vmi \<noteq> [] then patchHostDevices (vmHostDevices vm) (adHostDevices details) else Some (vmHostDevices vm)) = Some hds"
    and gpus: "(if viGPUs vmi \<noteq> [] then patchGPUDevices (vmGPUs vm) (adGPUs details) else Some (vmGPUs vm)) = Some gpus"
    and guards: "mDeletionTimestamp (viMeta vmi)" "\<not> (viGPUs vmi = [] \<and> viHostDevices vmi = [])"
      "\<not> mDeletionTimestamp (vmMeta vm)" "viNodeName vmi = veNodeName E"
    and upd: "err_result (cUpdate (veVm E) (vm\<lparr>vmHostDevices := hds, vmGPUs := gpus\<rparr>)
      (cAlias (veVm E) ?k (vm\<lparr>vmHostDevices := hds, vmGPUs := gpus\<rparr>) s)) = (Some err, s1)"
    by (simp add: OnVMIDeletion_def Let_def split: if_splits option.splits)
  let ?new = "vm\<lparr>vmHostDevices := hds, vmGPUs := gpus\<rparr>"
  note cached = object_cache.refused_in_place [OF assms(1,2) upd]
  have again: "(if viHostDevices vmi \<noteq> [] then patchHostDevices hds (adHostDevices details) else Some hds) = Some hds"
    "(if viGPUs vmi \<noteq> [] then patchGPUDevices gpus (adGPUs details) else Some gpus) = Some gpus"
    using hds gpus patchHostDevices_idem patchGPUDevices_idem by (auto split: if_splits)
  have "OnVMIDeletion E (Some vmi) s1 = Some (None, cAlias (veVm E) ?k ?new s1)"
    using guards cached(1) assms(3,4) again
    by (cases "viHostDevices vmi = []"; cases "viGPUs vmi = []") (simp_all add: OnVMIDeletion_def Let_def)
  with cached(2) object_cache.stored_alias [OF assms(1)] show ?thesis by simp
qed

text \<open>The two handlers of the annotation lose a refused update in the same way.\<close>

lemma annotation_update_lost:
  assumes "object_cache (veVm E) (cUpdate (veVm E)) stored" and "cGet (veVm E) (vm_key (viMeta vmi)) s = Inr vm"
  shows "checkAndClearDeviceAllocation E vmi s = (Some err, s1) \<Longrightarrow> checkAndClearDeviceAllocation E vmi s1 = (None, s1) \<and> stored s1 = stored s"
    and "reconcileVMResourceAllocationAnnotation E vmi v s = (Some err, s1) \<Longrightarrow>
      reconcileVMResourceAllocationAnnotation E vmi v s1 = (None, s1) \<and> stored s1 = stored s"
proof -
  note refused = object_cache.refused_in_place [OF assms]
  show "checkAndClearDeviceAllocation E vmi s = (Some err, s1) \<Longrightarrow> checkAndClearDeviceAllocation E vmi s1 = (None, s1) \<and> stored s1 = stored s"
    using assms(2) refused [of "vm\<lparr>vmMeta := (vmMeta vm)\<lparr>mAnnotations := mdel DeviceAllocationKey (mAnnotations (vmMeta vm))\<rparr>\<rparr>" err s1]
    by (simp add: checkAndClearDeviceAllocation_def Let_def mhas_def split: if_splits)
  show "reconcileVMResourceAllocationAnnotation E vmi v s = (Some err, s1) \<Longrightarrow>
      reconcileVMResourceAllocationAnnotation E vmi v s1 = (None, s1) \<and> stored s1 = stored s"
    using assms(2) refused [of "vm\<lparr>vmMeta := (vmMeta vm)\<lparr>mAnnotations := mput DeviceAllocationKey v (mAnnotations (vmMeta vm))\<rparr>\<rparr>" err s1]
    by (simp add: reconcileVMResourceAllocationAnnotation_def Let_def mread_def split: if_splits)
qed

text \<open>A machine whose device got another name, and a server that refuses updates.\<close>

definition demo_hostdev :: "string \<Rightarrow> HostDevice" where
  "demo_hostdev n = \<lparr>hdName = n, hdDeviceName = ''nvidia.com/A2''\<rparr>"

definition demo_machine :: VirtualMachine where
  "demo_machine = \<lparr>vmMeta = empty_meta\<lparr>mName := ''vm1'', mNamespace := ''default'', mAnnotations := [(DeviceAllocationKey, ''{}'')]\<rparr>,
     vmHostDevices = [demo_hostdev ''n1-000004100''], vmGPUs = []\<rparr>"

definition demo_vmi :: VirtualMachineInstance where
  "demo_vmi = \<lparr>viMeta = empty_meta\<lparr>mName := ''vm1'', mNamespace := ''default'', mDeletionTimestamp := True\<rparr>, viPhaseRunning = True,
     viNodeName = ''n1'', viHostDevices = [demo_hostdev ''n1-000004100''], viGPUs = []\<rparr>"

definition demo_details :: AllocationDetails where
  "demo_details = \<lparr>adGPUs = [], adHostDevices = [(''nvidia.com/A2'', [''n1-000004101''])]\<rparr>"

definition demo_vm_env :: "VirtualMachine cached_world vm_env" where
  "demo_vm_env = \<lparr>veVm = cached_client (\<lambda>vm. vm_key (vmMeta vm)) (\<lambda>vm. False),
     veVgpu = table_client vgMeta (\<lambda>old new. new) (\<lambda>i x. []) (\<lambda>s. []) (\<lambda>t s. s),
     vePd = table_client pdMeta (\<lambda>old new. new) (\<lambda>i x. []) (\<lambda>s. []) (\<lambda>t s. s),
     vePods = \<lambda>n v s. Inr [], veRunEnv = \<lambda>p s. Inr [], veConsts = demo_consts,
     veJson = \<lparr>jMarshal = \<lambda>d. ''{}'', jUnmarshal = \<lambda>t. Inr demo_details\<rparr>, veNodeName = ''n1''\<rparr>"

definition demo_vms :: "VirtualMachine cached_world" where
  "demo_vms = ([(''default/vm1'', demo_machine)], [(''default/vm1'', demo_machine)])"

theorem OnVMIDeletion_update_lost_witness:
  "\<exists>e s1 s2. OnVMIDeletion demo_vm_env (Some demo_vmi) demo_vms = Some (Some e, s1)
     \<and> OnVMIDeletion demo_vm_env (Some demo_vmi) s1 = Some (None, s2) \<and> fst s2 = fst demo_vms"
proof -
  have "map_option (\<lambda>r. fst r = None) (OnVMIDeletion demo_vm_env (Some demo_vmi) demo_vms) = Some False" by code_simp
  then obtain e s1 where r: "OnVMIDeletion demo_vm_env (Some demo_vmi) demo_vms = Some (Some e, s1)" by auto
  have "object_cache (veVm demo_vm_env) (cUpdate (veVm demo_vm_env)) fst"
    by (simp add: demo_vm_env_def cached.object_cache_axioms)
  moreover have "cGet (veVm demo_vm_env) (vm_key (viMeta demo_vmi)) demo_vms = Inr demo_machine"
    "mget (mAnnotations (vmMeta demo_machine)) DeviceAllocationKey = Some ''{}''" by code_simp+
  moreover have "jUnmarshal (veJson demo_vm_env) ''{}'' = Inr demo_details" by (simp add: demo_vm_env_def)
  ultimately show ?thesis using r OnVMIDeletion_update_lost [of demo_vm_env fst demo_vmi demo_vms demo_machine "''{}''" demo_details e s1] by blast
qed

subsection \<open>Reading an environment\<close>

definition print_env :: "(string \<times> string) list \<Rightarrow> string" where
  "print_env kvs = concat (map (\<lambda>(k, v). k @ ''='' @ v @ [CHR 0x0A]) kvs)"

definition printable :: "(string \<times> string) list \<Rightarrow> bool" where
  "printable kvs = list_all (\<lambda>(k, v). CHR ''='' \<notin> set k \<and> CHR 0x0A \<notin> set k \<and> CHR 0x0A \<notin> set v) kvs"

lemma split_char_Cons_line: "d \<notin> set w \<Longrightarrow> split_char d (w @ d # s) = w # split_char d s"
  using split_char_append_sep by simp

lemma env_lines_print: "printable kvs \<Longrightarrow> env_lines (print_env kvs) = map (\<lambda>(k, v). k @ ''='' @ v) kvs"
proof -
  assume p: "printable kvs"
  have "split_char (CHR 0x0A) (print_env kvs) = map (\<lambda>(k, v). k @ ''='' @ v) kvs @ [[]]"
    using p
  proof (induction kvs)
    case (Cons kv kvs)
    obtain k v where kv: "kv = (k, v)" by (cases kv)
    then have "CHR 0x0A \<notin> set (k @ ''='' @ v)" using Cons.prems by (simp add: printable_def)
    from split_char_Cons_line [OF this, of "print_env kvs"] Cons kv show ?case
      by (simp add: print_env_def printable_def)
  qed (simp add: print_env_def)
  then show ?thesis by (simp add: env_lines_def)
qed

lemma env_line_split:
  assumes "CHR ''='' \<notin> set k"
  shows "hd (split_char (CHR ''='') (k @ ''='' @ v)) = k"
    and "Join (tl (split_char (CHR ''='') (k @ ''='' @ v))) ''='' = v"
  using split_char_Cons_line [OF assms, of v] by (simp_all add: Join_split_char)

text \<open>
  The environment printed by \<^verbatim>\<open>env\<close>, one assignment per line, is read back: the
  last value printed for a name is the value found for it, equals signs in values included,
  and no other name is found.
\<close>

theorem convertEnvToMap_print:
  assumes "printable kvs"
  shows "mget (convertEnvToMap (print_env kvs)) k = map_of (rev kvs) k"
proof -
  have "mget (foldl (\<lambda>m line. let a = split_char (CHR ''='') line in mput (hd a) (Join (tl a) ''='') m) m
          (map (\<lambda>(k, v). k @ ''='' @ v) kvs)) k = (case map_of (rev kvs) k of None \<Rightarrow> mget m k | Some v \<Rightarrow> Some v)" for m
    using assms
  proof (induction kvs arbitrary: m)
    case (Cons kv kvs)
    obtain k' v where kv: "kv = (k', v)" by (cases kv)
    with Cons show ?case
      by (auto simp: printable_def env_line_split Let_def map_add_def simp del: append_Cons append.simps split: option.split)
  qed simp
  from this [of "[]"] show ?thesis
    by (simp add: convertEnvToMap_def env_lines_print [OF assms] split: option.split)
qed

subsection \<open>Names recorded for the devices of a machine\<close>

lemma mget_buildPCIDeviceMap:
  "distinct (map (pdAddress \<circ> pdStatus) pds) \<Longrightarrow> pd \<in> set pds \<Longrightarrow>
     mget (buildPCIDeviceMap pds) (pdAddress (pdStatus pd)) = Some (pdName pd)"
proof (induction pds rule: rev_induct)
  case (snoc x pds)
  have "pdAddress (pdStatus pd) \<noteq> pdAddress (pdStatus x)" if "pd \<in> set pds"
    using that snoc.prems(1) by (auto simp: image_iff)
  with snoc show ?case by (auto simp: buildPCIDeviceMap_def)
qed simp

lemma reconcilePCIDeviceDetails_kept:
  "mget m n = Some v \<Longrightarrow> mget (reconcilePCIDeviceDetails k hds env pm m) n = Some v"
proof (induction hds arbitrary: m)
  case (Cons d hds)
  then show ?case
    by (cases "hdDeviceName d = n") (simp_all add: mhas_def Let_def split: option.split)
qed simp

lemma reconcilePCIDeviceDetails_mget:
  assumes "n \<in> hdDeviceName ` set hds" and "mget env (pkResourceNameToEnvVar k PCIResourcePrefix n) = Some val"
    and "mget m n = None"
  shows "mget (reconcilePCIDeviceDetails k hds env pm m) n = Some (map (mread pm) (Compact (split_char (CHR '','') val)))"
  using assms
proof (induction hds arbitrary: m)
  case (Cons d hds)
  show ?case
  proof (cases "hdDeviceName d = n")
    case True
    then show ?thesis using Cons.prems(2,3) by (simp add: mhas_def reconcilePCIDeviceDetails_kept)
  next
    case False
    then have "n \<in> hdDeviceName ` set hds" using Cons.prems(1) by auto
    with False Cons.prems(2,3) show ?thesis
      by (simp add: Cons.IH Let_def split: option.split)
  qed
qed simp

end
