(* ===== verification/Go_Heap.thy ===== *)
theory Go_Heap
  imports Go_Prelude
begin

section \<open>Slices and maps in a heap\<close>

text \<open>
  Everywhere else in this development a Go value is a HOL value, and copying it is free.  This
  theory has what is needed to show that the generated \<^verbatim>\<open>DeepCopy\<close> functions make that view sound:
  a heap of cells, where a slice or a map is the address of a cell or nil, and the loops that the
  generator emits for slices and maps.

  The type of the cells is a parameter.  A \<open>rep\<close> says how a Go value is read out of the heap, which
  cells it reaches, and when it is well formed.  The contract of a copy routine is the locale
  \<open>deep_copy\<close>: the copy reads the same, reaches only cells that did not exist before, and the cells
  that existed are unchanged.  The client's view, proved once inside the locale, is that a write
  through the copy is never seen through the original, and the reverse.
\<close>

type_synonym addr = nat

record 'c heap =
  cells :: "addr \<Rightarrow> 'c"
  lim :: addr

record ('c, 'x, 'v) rep =
  rpRead :: "'c heap \<Rightarrow> 'x \<Rightarrow> 'v"
  rpRefs :: "'c heap \<Rightarrow> 'x \<Rightarrow> addr set"
  rpOk :: "'c heap \<Rightarrow> 'x \<Rightarrow> bool"

definition alloc :: "'c \<Rightarrow> 'c heap \<Rightarrow> addr \<times> 'c heap" where
  "alloc c h = (lim h, h\<lparr>cells := (cells h)(lim h := c), lim := Suc (lim h)\<rparr>)"

definition agree :: "addr set \<Rightarrow> 'c heap \<Rightarrow> 'c heap \<Rightarrow> bool" where
  "agree A h h' \<longleftrightarrow> (\<forall>a \<in> A. cells h' a = cells h a)"

definition extends :: "'c heap \<Rightarrow> 'c heap \<Rightarrow> bool" where
  "extends h h' \<longleftrightarrow> lim h \<le> lim h' \<and> agree {..<lim h} h h'"

lemma extends_refl [simp]: "extends h h"
  by (simp add: extends_def agree_def)

lemma extends_trans [trans]: "extends h1 h2 \<Longrightarrow> extends h2 h3 \<Longrightarrow> extends h1 h3"
  by (auto simp: extends_def agree_def)

lemma extends_lim: "extends h h' \<Longrightarrow> lim h \<le> lim h'"
  by (simp add: extends_def)

lemma extends_agree: "extends h h' \<Longrightarrow> A \<subseteq> {..<lim h} \<Longrightarrow> agree A h h'"
  by (auto simp: extends_def agree_def)

lemma alloc_extends: "alloc c h = (a, h') \<Longrightarrow> extends h h' \<and> a = lim h \<and> lim h' = Suc a \<and> cells h' a = c"
  by (auto simp: alloc_def extends_def agree_def)

subsection \<open>The contract of a copy routine\<close>

locale representation =
  fixes R :: "('c, 'x, 'v) rep"
  assumes ok_refs: "rpOk R h x \<Longrightarrow> rpRefs R h x \<subseteq> {..<lim h}"
    and locality: "agree (rpRefs R h x) h h' \<Longrightarrow> lim h \<le> lim h' \<Longrightarrow>
      rpRead R h' x = rpRead R h x \<and> rpRefs R h' x = rpRefs R h x \<and> (rpOk R h x \<longrightarrow> rpOk R h' x)"
begin

lemma stable:
  "rpOk R h x \<Longrightarrow> extends h h' \<Longrightarrow> rpRead R h' x = rpRead R h x \<and> rpRefs R h' x = rpRefs R h x \<and> rpOk R h' x"
  using locality [of h x h'] ok_refs [of h x] by (auto simp: extends_agree extends_lim)

end

definition fresh_copy :: "('c, 'x, 'v) rep \<Rightarrow> 'c heap \<Rightarrow> 'x \<Rightarrow> 'c heap \<Rightarrow> 'x \<Rightarrow> bool" where
  "fresh_copy R h x h' y \<longleftrightarrow> extends h h' \<and> rpRead R h' y = rpRead R h x \<and> rpOk R h' y
     \<and> rpRefs R h' y \<subseteq> {lim h..<lim h'}"

lemma fresh_copyD:
  assumes "fresh_copy R h x h' y"
  shows "extends h h'" "rpRead R h' y = rpRead R h x" "rpOk R h' y" "rpRefs R h' y \<subseteq> {lim h..<lim h'}"
  using assms by (simp_all add: fresh_copy_def)

text \<open>What a client of a copy routine is promised: the copy and the original read as the original
  did, and whatever is then stored in the cells of one of the two, and in new cells, leaves what
  the other reads.\<close>

definition isolates :: "('c, 'x, 'v) rep \<Rightarrow> ('x \<Rightarrow> 'c heap \<Rightarrow> 'x \<times> 'c heap) \<Rightarrow> bool" where
  "isolates R copy \<longleftrightarrow> (\<forall>h x y h'. rpOk R h x \<longrightarrow> copy x h = (y, h') \<longrightarrow>
     rpRead R h' y = rpRead R h x \<and> rpRead R h' x = rpRead R h x
     \<and> (\<forall>h2. lim h' \<le> lim h2 \<and> agree ({..<lim h'} - rpRefs R h' y) h' h2 \<longrightarrow> rpRead R h2 x = rpRead R h x)
     \<and> (\<forall>h2. lim h' \<le> lim h2 \<and> agree ({..<lim h'} - rpRefs R h' x) h' h2 \<longrightarrow> rpRead R h2 y = rpRead R h x))"

lemma isolatesD:
  "isolates R copy \<Longrightarrow> rpOk R h x \<Longrightarrow> copy x h = (y, h') \<Longrightarrow> lim h' \<le> lim h2 \<Longrightarrow>
     agree ({..<lim h'} - rpRefs R h' y) h' h2 \<Longrightarrow> rpRead R h2 x = rpRead R h x"
  unfolding isolates_def by blast

locale deep_copy = representation R
  for R :: "('c, 'x, 'v) rep" +
  fixes copy :: "'x \<Rightarrow> 'c heap \<Rightarrow> 'x \<times> 'c heap"
  assumes copies: "rpOk R h x \<Longrightarrow> copy x h = (y, h') \<Longrightarrow> fresh_copy R h x h' y"
begin

text \<open>A copy made between two other steps of a longer routine.\<close>

lemma within:
  assumes "rpOk R h0 x" "extends h0 h" "copy x h = (y, h1)" "extends h1 h2"
  shows "fresh_copy R h0 x h2 y"
proof -
  have x: "rpRead R h x = rpRead R h0 x" "rpOk R h x" using stable [OF assms(1,2)] by simp_all
  note c = fresh_copyD [OF copies [OF x(2) assms(3)]]
  have y: "rpRead R h2 y = rpRead R h1 y" "rpRefs R h2 y = rpRefs R h1 y" "rpOk R h2 y"
    using stable [OF c(3) assms(4)] by simp_all
  have "extends h0 h2" using assms(2,4) c(1) extends_trans by blast
  moreover have "rpRefs R h2 y \<subseteq> {lim h0..<lim h2}"
    using c(4) extends_lim [OF assms(2)] extends_lim [OF assms(4)] y(2) by fastforce
  ultimately show ?thesis using c(2) x(1) y(1,3) by (simp add: fresh_copy_def)
qed

lemma original_kept:
  "rpOk R h x \<Longrightarrow> copy x h = (y, h') \<Longrightarrow> rpRead R h' x = rpRead R h x \<and> rpRefs R h' x = rpRefs R h x"
  using stable fresh_copyD(1) [OF copies] by blast

lemma disjoint: "rpOk R h x \<Longrightarrow> copy x h = (y, h') \<Longrightarrow> rpRefs R h' x \<inter> rpRefs R h' y = {}"
  using original_kept [of h x y h'] ok_refs [of h x] fresh_copyD(4) [OF copies, of h x y h'] by fastforce

text \<open>A write through one of the two is not seen through the other.\<close>

lemma write_copy:
  assumes "rpOk R h x" "copy x h = (y, h')" "agree ({..<lim h'} - rpRefs R h' y) h' h2" "lim h' \<le> lim h2"
  shows "rpRead R h2 x = rpRead R h x"
proof -
  have "rpRefs R h' x \<subseteq> {..<lim h'}"
    using ok_refs stable [OF assms(1) fresh_copyD(1) [OF copies [OF assms(1,2)]]] by blast
  then have "agree (rpRefs R h' x) h' h2" using assms(3) disjoint [OF assms(1,2)] by (auto simp: agree_def)
  from locality [OF this assms(4)] original_kept [OF assms(1,2)] show ?thesis by simp
qed

lemma write_original:
  assumes "rpOk R h x" "copy x h = (y, h')" "agree ({..<lim h'} - rpRefs R h' x) h' h2" "lim h' \<le> lim h2"
  shows "rpRead R h2 y = rpRead R h x"
proof -
  note c = fresh_copyD [OF copies [OF assms(1,2)]]
  have "agree (rpRefs R h' y) h' h2"
    using assms(3) disjoint [OF assms(1,2)] ok_refs [OF c(3)] by (auto simp: agree_def)
  from locality [OF this assms(4)] c(2) show ?thesis by simp
qed

lemma isolating: "isolates R copy"
  unfolding isolates_def
  using write_copy write_original original_kept fresh_copyD(2) [OF copies] by (intro allI impI conjI) blast+

end

subsection \<open>Plain values\<close>

text \<open>Strings, numbers, booleans and structs of these: \<^verbatim>\<open>*out = *in\<close> copies them.\<close>

definition assign :: "'x \<Rightarrow> 'c heap \<Rightarrow> 'x \<times> 'c heap" where
  "assign x h = (x, h)"

definition flat :: "('c, 'x, 'x) rep" where
  "flat = \<lparr>rpRead = \<lambda>h x. x, rpRefs = \<lambda>h x. {}, rpOk = \<lambda>h x. True\<rparr>"

interpretation plain: deep_copy flat assign
  by unfold_locales (auto simp: flat_def assign_def fresh_copy_def)

subsection \<open>Slices\<close>

text \<open>The loop over the elements, and the slice itself.  The code makes the new array before the
  loop and fills it; the order of allocations cannot be observed, so here the array is allocated
  with its final contents.\<close>

fun copy_list :: "('x \<Rightarrow> 'c heap \<Rightarrow> 'x \<times> 'c heap) \<Rightarrow> 'x list \<Rightarrow> 'c heap \<Rightarrow> 'x list \<times> 'c heap" where
  "copy_list into [] h = ([], h)"
| "copy_list into (x # xs) h = (let (y, h) = into x h; (ys, h) = copy_list into xs h in (y # ys, h))"

definition list_rep :: "('c, 'x, 'v) rep \<Rightarrow> ('c, 'x list, 'v list) rep" where
  "list_rep R = \<lparr>rpRead = \<lambda>h. map (rpRead R h), rpRefs = \<lambda>h xs. (\<Union>x \<in> set xs. rpRefs R h x),
                 rpOk = \<lambda>h. list_all (rpOk R h)\<rparr>"

lemma list_rep_simps [simp]:
  "rpRead (list_rep R) h xs = map (rpRead R h) xs" "rpRefs (list_rep R) h xs = (\<Union>x \<in> set xs. rpRefs R h x)"
  "rpOk (list_rep R) h xs = list_all (rpOk R h) xs"
  by (simp_all add: list_rep_def)

lemma list_representation: "representation R \<Longrightarrow> representation (list_rep R)"
proof
  fix h h' xs
  assume R: "representation R"
  show "rpOk (list_rep R) h xs \<Longrightarrow> rpRefs (list_rep R) h xs \<subseteq> {..<lim h}"
    using representation.ok_refs [OF R] by (fastforce simp: list_all_iff)
  assume a: "agree (rpRefs (list_rep R) h xs) h h'" "lim h \<le> lim h'"
  have "rpRead R h' x = rpRead R h x \<and> rpRefs R h' x = rpRefs R h x \<and> (rpOk R h x \<longrightarrow> rpOk R h' x)" if "x \<in> set xs" for x
    using representation.locality [OF R, of h x h'] a that by (auto simp: agree_def)
  then show "rpRead (list_rep R) h' xs = rpRead (list_rep R) h xs \<and> rpRefs (list_rep R) h' xs = rpRefs (list_rep R) h xs
      \<and> (rpOk (list_rep R) h xs \<longrightarrow> rpOk (list_rep R) h' xs)"
    by (auto simp: list_all_iff)
qed

lemma copy_list_fresh:
  assumes R: "deep_copy R into"
  shows "list_all (rpOk R h) xs \<Longrightarrow> copy_list into xs h = (ys, h') \<Longrightarrow> fresh_copy (list_rep R) h xs h' ys"
proof (induction xs arbitrary: h ys)
  case Nil
  then show ?case by (simp add: fresh_copy_def)
next
  case (Cons x xs)
  obtain y h1 where x: "into x h = (y, h1)" by fastforce
  obtain zs where xs: "copy_list into xs h1 = (zs, h')" and ys: "ys = y # zs"
    using Cons.prems(2) x by (auto split: prod.splits)
  have ok: "rpOk R h x" "list_all (rpOk R h) xs" using Cons.prems(1) by simp_all
  have h1: "extends h h1" by (rule fresh_copyD [OF deep_copy.copies [OF R ok(1) x]])
  have s: "rpRead R h1 z = rpRead R h z \<and> rpOk R h1 z" if "z \<in> set xs" for z
    using representation.stable [OF deep_copy.axioms(1) [OF R] _ h1] ok(2) that by (auto simp: list_all_iff)
  then have "list_all (rpOk R h1) xs" by (simp add: list_all_iff)
  note zs = fresh_copyD [OF Cons.IH [OF this xs]]
  note y = fresh_copyD [OF deep_copy.within [OF R ok(1) extends_refl x zs(1)]]
  have "map (rpRead R h') zs = map (rpRead R h) xs" using zs(2) s by simp
  moreover have "(\<Union>z \<in> set zs. rpRefs R h' z) \<subseteq> {lim h..<lim h'}"
    using zs(4) extends_lim [OF h1] by fastforce
  ultimately show ?case
    using y zs(3) unfolding ys by (simp add: fresh_copy_def)
qed

lemma copy_list_deep: "deep_copy R into \<Longrightarrow> deep_copy (list_rep R) (copy_list into)"
  by (intro deep_copy.intro deep_copy_axioms.intro)
    (auto intro: list_representation deep_copy.axioms(1) copy_list_fresh)

subsection \<open>Maps\<close>

text \<open>The loop \<^verbatim>\<open>for key, val := range\<close> with one assignment to the new map in each turn.\<close>

fun copy_entries ::
  "('x \<Rightarrow> 'c heap \<Rightarrow> 'x \<times> 'c heap) \<Rightarrow> ('k, 'x) gomap \<Rightarrow> ('k, 'x) gomap \<Rightarrow> 'c heap \<Rightarrow> ('k, 'x) gomap \<times> 'c heap" where
  "copy_entries into [] out h = (out, h)"
| "copy_entries into ((key, val) # m) out h =
     (let (outVal, h) = into val h in copy_entries into m (mput key outVal out) h)"

definition entries_rep :: "('c, 'x, 'v) rep \<Rightarrow> ('c, ('k, 'x) gomap, ('k, 'v) gomap) rep" where
  "entries_rep R = \<lparr>rpRead = \<lambda>h. map (\<lambda>(k, x). (k, rpRead R h x)), rpRefs = \<lambda>h m. rpRefs (list_rep R) h (map snd m),
                    rpOk = \<lambda>h m. wf_map m \<and> rpOk (list_rep R) h (map snd m)\<rparr>"

lemma entries_read: "rpRead (entries_rep R) h m = zip (map fst m) (rpRead (list_rep R) h (map snd m))"
  by (simp add: entries_rep_def) (induction m; auto)

lemma entries_refs_ok:
  "rpRefs (entries_rep R) h m = rpRefs (list_rep R) h (map snd m)"
  "rpOk (entries_rep R) h m \<longleftrightarrow> wf_map m \<and> rpOk (list_rep R) h (map snd m)"
  by (simp_all add: entries_rep_def)

lemma mput_new: "k \<notin> set (mkeys m) \<Longrightarrow> mput k v m = m @ [(k, v)]"
  by (induction m) (auto simp: mput_def mkeys_def)

lemma copy_entries_list:
  "wf_map m \<Longrightarrow> set (mkeys m) \<inter> set (mkeys out) = {} \<Longrightarrow> copy_list into (map snd m) h = (ys, h') \<Longrightarrow>
     copy_entries into m out h = (out @ zip (map fst m) ys, h')"
proof (induction m arbitrary: out h ys)
  case (Cons e m)
  obtain k v where e: "e = (k, v)" by fastforce
  obtain y h1 where v: "into v h = (y, h1)" by fastforce
  obtain zs where zs: "copy_list into (map snd m) h1 = (zs, h')" and ys: "ys = y # zs"
    using Cons.prems(3) e v by (auto split: prod.splits)
  have "wf_map m" and k: "k \<notin> set (mkeys out)" and "set (mkeys m) \<inter> set (mkeys (mput k y out)) = {}"
    using Cons.prems(1,2) e by (auto simp: wf_map_def mkeys_def mput_new [unfolded mkeys_def])
  from Cons.IH [OF this(1,3) zs] k show ?case by (simp add: e v ys mput_new)
qed simp

lemma copy_list_length: "copy_list into xs h = (ys, h') \<Longrightarrow> length ys = length xs"
  by (induction xs arbitrary: h ys) (auto split: prod.splits)

lemma copy_entries_deep:
  assumes "deep_copy R into"
  shows "deep_copy (entries_rep R) (\<lambda>m. copy_entries into m [])"
proof -
  note L = copy_list_deep [OF assms]
  note Lr = deep_copy.axioms(1) [OF L]
  show ?thesis
  proof
    fix h h' :: "'a heap" and m :: "('d, 'b) gomap"
    show "rpOk (entries_rep R) h m \<Longrightarrow> rpRefs (entries_rep R) h m \<subseteq> {..<lim h}"
      using representation.ok_refs [OF Lr, of h "map snd m"] by (simp add: entries_rep_def)
    show "agree (rpRefs (entries_rep R) h m) h h' \<Longrightarrow> lim h \<le> lim h' \<Longrightarrow>
        rpRead (entries_rep R) h' m = rpRead (entries_rep R) h m \<and> rpRefs (entries_rep R) h' m = rpRefs (entries_rep R) h m
        \<and> (rpOk (entries_rep R) h m \<longrightarrow> rpOk (entries_rep R) h' m)"
      unfolding entries_read
      using representation.locality [OF Lr, of h "map snd m" h'] by (simp add: entries_rep_def cong: map_cong)
  next
    fix h h' :: "'a heap" and m n :: "('d, 'b) gomap"
    assume ok: "rpOk (entries_rep R) h m" and c: "copy_entries into m [] h = (n, h')"
    then have wf: "wf_map m" "rpOk (list_rep R) h (map snd m)" by (simp_all add: entries_rep_def)
    obtain ys h2 where ys: "copy_list into (map snd m) h = (ys, h2)" by fastforce
    have n: "n = zip (map fst m) ys" "h2 = h'"
      using copy_entries_list [OF wf(1) _ ys, of "[]"] c by (simp_all add: mkeys_def)
    have len: "length ys = length m" using copy_list_length [OF ys] by simp
    have keys: "map fst n = map fst m" "map snd n = ys" by (simp_all add: n len)
    show "fresh_copy (entries_rep R) h m h' n"
      using deep_copy.copies [OF L wf(2) ys] wf(1) n(2)
      unfolding fresh_copy_def entries_read entries_refs_ok keys by (simp add: wf_map_def mkeys_def keys(1))
  qed
qed

subsection \<open>References\<close>

text \<open>A nil reference is copied to nil; any other to a new cell with a copy of the contents.
  \<open>un\<close> and \<open>mk\<close> read and build a cell of the right kind.\<close>

definition copy_ref ::
  "('c \<Rightarrow> 'x) \<Rightarrow> ('x \<Rightarrow> 'c) \<Rightarrow> ('x \<Rightarrow> 'c heap \<Rightarrow> 'x \<times> 'c heap) \<Rightarrow> addr option \<Rightarrow> 'c heap \<Rightarrow> addr option \<times> 'c heap" where
  "copy_ref un mk into p h =
     (case p of None \<Rightarrow> (None, h)
      | Some a \<Rightarrow> (let (y, h) = into (un (cells h a)) h; (b, h) = alloc (mk y) h in (Some b, h)))"

definition ref_rep :: "('c \<Rightarrow> 'x) \<Rightarrow> ('c, 'x, 'v) rep \<Rightarrow> ('c, addr option, 'v option) rep" where
  "ref_rep un R =
     \<lparr>rpRead = \<lambda>h. map_option (\<lambda>a. rpRead R h (un (cells h a))),
      rpRefs = \<lambda>h p. (case p of None \<Rightarrow> {} | Some a \<Rightarrow> insert a (rpRefs R h (un (cells h a)))),
      rpOk = \<lambda>h p. (case p of None \<Rightarrow> True | Some a \<Rightarrow> a < lim h \<and> rpOk R h (un (cells h a)))\<rparr>"

lemma copy_ref_deep:
  assumes R: "deep_copy R into" and un: "\<And>x. un (mk x) = x"
  shows "deep_copy (ref_rep un R) (copy_ref un mk into)"
proof -
  note r = deep_copy.axioms(1) [OF R]
  show ?thesis
  proof
    fix h h' p
    show "rpOk (ref_rep un R) h p \<Longrightarrow> rpRefs (ref_rep un R) h p \<subseteq> {..<lim h}"
      using representation.ok_refs [OF r] by (auto simp: ref_rep_def split: option.splits)
    show "agree (rpRefs (ref_rep un R) h p) h h' \<Longrightarrow> lim h \<le> lim h' \<Longrightarrow>
        rpRead (ref_rep un R) h' p = rpRead (ref_rep un R) h p \<and> rpRefs (ref_rep un R) h' p = rpRefs (ref_rep un R) h p
        \<and> (rpOk (ref_rep un R) h p \<longrightarrow> rpOk (ref_rep un R) h' p)"
      using representation.locality [OF r, of h "un (cells h (the p))" h']
      by (auto simp: ref_rep_def agree_def split: option.splits)
  next
    fix h h' p q
    assume ok: "rpOk (ref_rep un R) h p" and c: "copy_ref un mk into p h = (q, h')"
    show "fresh_copy (ref_rep un R) h p h' q"
    proof (cases p)
      case None
      with c show ?thesis by (auto simp: copy_ref_def ref_rep_def fresh_copy_def)
    next
      case (Some a)
      let ?x = "un (cells h a)"
      obtain y h1 where y: "into ?x h = (y, h1)" by fastforce
      obtain b where b: "alloc (mk y) h1 = (b, h')" and q: "q = Some b"
        using c Some y by (auto simp: copy_ref_def split: prod.splits)
      have "rpOk R h ?x" using ok Some by (simp add: ref_rep_def)
      then have "fresh_copy R h ?x h' y"
        using deep_copy.within [OF R _ extends_refl y] alloc_extends [OF b] by blast
      moreover have "lim h \<le> b"
        using extends_lim fresh_copyD(1) deep_copy.copies [OF R \<open>rpOk R h ?x\<close> y] alloc_extends [OF b] by metis
      ultimately show ?thesis
        using alloc_extends [OF b] un by (auto simp: fresh_copy_def ref_rep_def Some q)
    qed
  qed
qed

subsection \<open>Structs\<close>

text \<open>Two fields copied one after the other, and a struct whose fields \<open>get\<close> need a copy while
  \<^verbatim>\<open>*out = *in\<close> copies the others.\<close>

definition copy_pair ::
  "('x \<Rightarrow> 'c heap \<Rightarrow> 'x \<times> 'c heap) \<Rightarrow> ('y \<Rightarrow> 'c heap \<Rightarrow> 'y \<times> 'c heap) \<Rightarrow> 'x \<times> 'y \<Rightarrow> 'c heap \<Rightarrow> ('x \<times> 'y) \<times> 'c heap" where
  "copy_pair c d p h = (let (x, h) = c (fst p) h; (y, h) = d (snd p) h in ((x, y), h))"

definition pair_rep :: "('c, 'x, 'v) rep \<Rightarrow> ('c, 'y, 'w) rep \<Rightarrow> ('c, 'x \<times> 'y, 'v \<times> 'w) rep" where
  "pair_rep R S = \<lparr>rpRead = \<lambda>h p. (rpRead R h (fst p), rpRead S h (snd p)),
                   rpRefs = \<lambda>h p. rpRefs R h (fst p) \<union> rpRefs S h (snd p),
                   rpOk = \<lambda>h p. rpOk R h (fst p) \<and> rpOk S h (snd p)\<rparr>"

lemma copy_pair_deep:
  assumes R: "deep_copy R c" and S: "deep_copy S d"
  shows "deep_copy (pair_rep R S) (copy_pair c d)"
proof -
  note r = deep_copy.axioms(1) [OF R] deep_copy.axioms(1) [OF S]
  show ?thesis
  proof
    fix h h' p
    show "rpOk (pair_rep R S) h p \<Longrightarrow> rpRefs (pair_rep R S) h p \<subseteq> {..<lim h}"
      using r [THEN representation.ok_refs] by (simp add: pair_rep_def)
    show "agree (rpRefs (pair_rep R S) h p) h h' \<Longrightarrow> lim h \<le> lim h' \<Longrightarrow>
        rpRead (pair_rep R S) h' p = rpRead (pair_rep R S) h p \<and> rpRefs (pair_rep R S) h' p = rpRefs (pair_rep R S) h p
        \<and> (rpOk (pair_rep R S) h p \<longrightarrow> rpOk (pair_rep R S) h' p)"
      using representation.locality [OF r(1), of h "fst p" h'] representation.locality [OF r(2), of h "snd p" h']
      by (simp add: pair_rep_def agree_def)
  next
    fix h h' p q
    assume ok: "rpOk (pair_rep R S) h p" and c: "copy_pair c d p h = (q, h')"
    obtain x h1 where x: "c (fst p) h = (x, h1)" by fastforce
    obtain y where y: "d (snd p) h1 = (y, h')" and q: "q = (x, y)"
      using c x by (auto simp: copy_pair_def split: prod.splits)
    have ok: "rpOk R h (fst p)" "rpOk S h (snd p)" using ok by (simp_all add: pair_rep_def)
    have h1: "extends h h1" by (rule fresh_copyD [OF deep_copy.copies [OF R ok(1) x]])
    have "rpOk S h1 (snd p)" using representation.stable [OF r(2) ok(2) h1] by simp
    then have "extends h1 h'" by (rule fresh_copyD [OF deep_copy.copies [OF S _ y]])
    from deep_copy.within [OF R ok(1) extends_refl x this] deep_copy.within [OF S ok(2) h1 y extends_refl]
    show "fresh_copy (pair_rep R S) h p h' q" by (simp add: fresh_copy_def pair_rep_def q)
  qed
qed

definition struct_rep :: "('s \<Rightarrow> 'x) \<Rightarrow> ('s \<Rightarrow> 'v \<Rightarrow> 'w) \<Rightarrow> ('c, 'x, 'v) rep \<Rightarrow> ('c, 's, 'w) rep" where
  "struct_rep get val R = \<lparr>rpRead = \<lambda>h s. val s (rpRead R h (get s)), rpRefs = \<lambda>h s. rpRefs R h (get s),
                           rpOk = \<lambda>h s. rpOk R h (get s)\<rparr>"

lemma copy_struct_deep:
  assumes R: "deep_copy R c"
    and put: "\<And>s x. get (put s x) = x" "\<And>s x v. val (put s x) v = val s v"
    and copy: "\<And>s h. copy s h = (let (x, h) = c (get s) h in (put s x, h))"
  shows "deep_copy (struct_rep get val R) copy"
proof -
  note r = deep_copy.axioms(1) [OF R]
  show ?thesis
  proof
    fix h h' s
    show "rpOk (struct_rep get val R) h s \<Longrightarrow> rpRefs (struct_rep get val R) h s \<subseteq> {..<lim h}"
      using representation.ok_refs [OF r] by (simp add: struct_rep_def)
    show "agree (rpRefs (struct_rep get val R) h s) h h' \<Longrightarrow> lim h \<le> lim h' \<Longrightarrow>
        rpRead (struct_rep get val R) h' s = rpRead (struct_rep get val R) h s
        \<and> rpRefs (struct_rep get val R) h' s = rpRefs (struct_rep get val R) h s
        \<and> (rpOk (struct_rep get val R) h s \<longrightarrow> rpOk (struct_rep get val R) h' s)"
      using representation.locality [OF r, of h "get s" h'] by (simp add: struct_rep_def)
  next
    fix h h' s t
    assume "rpOk (struct_rep get val R) h s" "copy s h = (t, h')"
    then obtain x where "rpOk R h (get s)" "c (get s) h = (x, h')" "t = put s x"
      by (auto simp: struct_rep_def copy split: prod.splits)
    with deep_copy.copies [OF R] put show "fresh_copy (struct_rep get val R) h s h' t"
      by (simp add: fresh_copy_def struct_rep_def)
  qed
qed

subsection \<open>Pointers to structs\<close>

text \<open>\<^verbatim>\<open>DeepCopy\<close>: nil for nil, otherwise a new struct filled by \<^verbatim>\<open>DeepCopyInto\<close>.  The pointer is the
  optional struct it points to: a new struct shares its own fields with nothing.\<close>

definition new_copy :: "('x \<Rightarrow> 'c heap \<Rightarrow> 'x \<times> 'c heap) \<Rightarrow> 'x option \<Rightarrow> 'c heap \<Rightarrow> 'x option \<times> 'c heap" where
  "new_copy into p h = (case p of None \<Rightarrow> (None, h) | Some x \<Rightarrow> (let (out, h) = into x h in (Some out, h)))"

end
