(* ===== verification/Deep_Copy.thy ===== *)
theory Deep_Copy
  imports Go_Heap Api_Types
begin

section \<open>The generated deep copies\<close>

text \<open>
  Models \<^verbatim>\<open>pkg/apis/devices.harvesterhci.io/v1beta1/zz_generated_deepcopy.go\<close> over the heap of
  \<open>Go_Heap\<close>.  A struct is a record in which a slice or a map is a reference; the record is
  polymorphic in the references, so that the same record with lists in their place is the value
  it stands for, nil told from empty.  Structs without references are the records of \<open>Api_Types\<close>,
  the empty ones \<^typ>\<open>unit\<close>.

  The copies of \<^verbatim>\<open>ObjectMeta\<close> and \<^verbatim>\<open>ListMeta\<close> come from the Kubernetes libraries.  They are the
  parameters \<open>mc\<close> and \<open>lc\<close>, and the results assume of them what is proved of every routine here,
  the contract \<^const>\<open>deep_copy\<close>.
\<close>

subsection \<open>Layouts\<close>

record TypeMeta =
  tmKind :: string
  tmAPIVersion :: string

record ('m, 'sp, 'st) go_object =
  goType :: TypeMeta
  goMeta :: 'm
  goSpec :: 'sp
  goStatus :: 'st

record ('l, 'i) go_list =
  glType :: TypeMeta
  glMeta :: 'l
  glItems :: 'i

record 'p go_AllocationDetails =
  gaGPUs :: 'p
  gaHostDevices :: 'p

record MigProfiles =
  mpName :: string
  mpID :: int

record go_MigProfileRequest =
  gmrProfile :: MigProfiles
  gmrRequested :: int

record 'p go_MigProfileStatus =
  gmsProfile :: MigProfiles
  gmsAvailable :: int
  gmsTotal :: int
  gmsVGPUID :: 'p

record 'p go_MigConfigurationSpec =
  gmEnabled :: bool
  gmGPUAddress :: string
  gmNodeName :: string
  gmProfileSpec :: 'p

record 'p go_MigConfigurationStatus =
  gmProfileStatus :: 'p
  gmStatus :: string
  gmMessage :: string

record 'p go_SRIOVGPUDeviceStatus =
  ggVFAddresses :: 'p
  ggVGPUDevices :: 'p

record 'p go_SRIOVNetworkDeviceStatus =
  gnVFAddresses :: 'p
  gnVFPCIDevices :: 'p
  gnStatus :: string

record go_USBDeviceClaimSpec =
  gucUserName :: string

record go_USBDeviceClaimStatus =
  gucNodeName :: string
  gucPCIAddress :: string

record 'p go_VGPUDeviceStatus =
  gvVGPUStatus :: string
  gvUUID :: string
  gvConfiguredVGPUTypeName :: string
  gvAvailableTypes :: 'p

text \<open>What a cell can hold: the backing array of a slice of each element type, or a map.\<close>

datatype 'm cell =
    StringArray "string list"
  | StringMap "(string, string) gomap"
  | SliceMap "(string, addr option) gomap"
  | RequestArray "go_MigProfileRequest list"
  | StatusArray "addr option go_MigProfileStatus list"
  | MigConfigurationArray "('m, addr option go_MigConfigurationSpec, addr option go_MigConfigurationStatus) go_object list"
  | NodeArray "('m, unit, unit) go_object list"
  | PCIDeviceArray "('m, unit, PCIDeviceStatus) go_object list"
  | PCIDeviceClaimArray "('m, PCIDeviceClaimSpec, PCIDeviceClaimStatus) go_object list"
  | SRIOVGPUDeviceArray "('m, SRIOVGPUDeviceSpec, addr option go_SRIOVGPUDeviceStatus) go_object list"
  | SRIOVNetworkDeviceArray "('m, SRIOVNetworkDeviceSpec, addr option go_SRIOVNetworkDeviceStatus) go_object list"
  | USBDeviceArray "('m, unit, USBDeviceStatus) go_object list"
  | USBDeviceClaimArray "('m, go_USBDeviceClaimSpec, go_USBDeviceClaimStatus) go_object list"
  | VGPUDeviceArray "('m, VGPUDeviceSpec, addr option go_VGPUDeviceStatus) go_object list"

text \<open>The contents of a cell of the expected kind.\<close>

definition unStringArray :: "'m cell \<Rightarrow> string list" where
  "unStringArray c = (case c of StringArray x \<Rightarrow> x | _ \<Rightarrow> [])"

definition unStringMap :: "'m cell \<Rightarrow> (string, string) gomap" where
  "unStringMap c = (case c of StringMap x \<Rightarrow> x | _ \<Rightarrow> [])"

definition unSliceMap :: "'m cell \<Rightarrow> (string, addr option) gomap" where
  "unSliceMap c = (case c of SliceMap x \<Rightarrow> x | _ \<Rightarrow> [])"

definition unRequestArray :: "'m cell \<Rightarrow> go_MigProfileRequest list" where
  "unRequestArray c = (case c of RequestArray x \<Rightarrow> x | _ \<Rightarrow> [])"

definition unStatusArray :: "'m cell \<Rightarrow> addr option go_MigProfileStatus list" where
  "unStatusArray c = (case c of StatusArray x \<Rightarrow> x | _ \<Rightarrow> [])"

definition unMigConfigurationArray :: "'m cell \<Rightarrow> ('m, addr option go_MigConfigurationSpec, addr option go_MigConfigurationStatus) go_object list" where
  "unMigConfigurationArray c = (case c of MigConfigurationArray x \<Rightarrow> x | _ \<Rightarrow> [])"

definition unNodeArray :: "'m cell \<Rightarrow> ('m, unit, unit) go_object list" where
  "unNodeArray c = (case c of NodeArray x \<Rightarrow> x | _ \<Rightarrow> [])"

definition unPCIDeviceArray :: "'m cell \<Rightarrow> ('m, unit, PCIDeviceStatus) go_object list" where
  "unPCIDeviceArray c = (case c of PCIDeviceArray x \<Rightarrow> x | _ \<Rightarrow> [])"

definition unPCIDeviceClaimArray :: "'m cell \<Rightarrow> ('m, PCIDeviceClaimSpec, PCIDeviceClaimStatus) go_object list" where
  "unPCIDeviceClaimArray c = (case c of PCIDeviceClaimArray x \<Rightarrow> x | _ \<Rightarrow> [])"

definition unSRIOVGPUDeviceArray :: "'m cell \<Rightarrow> ('m, SRIOVGPUDeviceSpec, addr option go_SRIOVGPUDeviceStatus) go_object list" where
  "unSRIOVGPUDeviceArray c = (case c of SRIOVGPUDeviceArray x \<Rightarrow> x | _ \<Rightarrow> [])"

definition unSRIOVNetworkDeviceArray :: "'m cell \<Rightarrow> ('m, SRIOVNetworkDeviceSpec, addr option go_SRIOVNetworkDeviceStatus) go_object list" where
  "unSRIOVNetworkDeviceArray c = (case c of SRIOVNetworkDeviceArray x \<Rightarrow> x | _ \<Rightarrow> [])"

definition unUSBDeviceArray :: "'m cell \<Rightarrow> ('m, unit, USBDeviceStatus) go_object list" where
  "unUSBDeviceArray c = (case c of USBDeviceArray x \<Rightarrow> x | _ \<Rightarrow> [])"

definition unUSBDeviceClaimArray :: "'m cell \<Rightarrow> ('m, go_USBDeviceClaimSpec, go_USBDeviceClaimStatus) go_object list" where
  "unUSBDeviceClaimArray c = (case c of USBDeviceClaimArray x \<Rightarrow> x | _ \<Rightarrow> [])"

definition unVGPUDeviceArray :: "'m cell \<Rightarrow> ('m, VGPUDeviceSpec, addr option go_VGPUDeviceStatus) go_object list" where
  "unVGPUDeviceArray c = (case c of VGPUDeviceArray x \<Rightarrow> x | _ \<Rightarrow> [])"

lemma un_cells [simp]:
  "unStringArray (StringArray x0) = x0"
  "unStringMap (StringMap x1) = x1"
  "unSliceMap (SliceMap x2) = x2"
  "unRequestArray (RequestArray x3) = x3"
  "unStatusArray (StatusArray x4) = x4"
  "unMigConfigurationArray (MigConfigurationArray x5) = x5"
  "unNodeArray (NodeArray x6) = x6"
  "unPCIDeviceArray (PCIDeviceArray x7) = x7"
  "unPCIDeviceClaimArray (PCIDeviceClaimArray x8) = x8"
  "unSRIOVGPUDeviceArray (SRIOVGPUDeviceArray x9) = x9"
  "unSRIOVNetworkDeviceArray (SRIOVNetworkDeviceArray x10) = x10"
  "unUSBDeviceArray (USBDeviceArray x11) = x11"
  "unUSBDeviceClaimArray (USBDeviceClaimArray x12) = x12"
  "unVGPUDeviceArray (VGPUDeviceArray x13) = x13"
  by (simp_all add: unStringArray_def unStringMap_def unSliceMap_def unRequestArray_def unStatusArray_def unMigConfigurationArray_def unNodeArray_def unPCIDeviceArray_def unPCIDeviceClaimArray_def unSRIOVGPUDeviceArray_def unSRIOVNetworkDeviceArray_def unUSBDeviceArray_def unUSBDeviceClaimArray_def unVGPUDeviceArray_def)

subsection \<open>Slices and maps of strings\<close>

abbreviation copy_strings :: "addr option \<Rightarrow> 'm cell heap \<Rightarrow> addr option \<times> 'm cell heap" where
  "copy_strings \<equiv> copy_ref unStringArray StringArray (copy_list assign)"

abbreviation strings_rep :: "('m cell, addr option, string list option) rep" where
  "strings_rep \<equiv> ref_rep unStringArray (list_rep flat)"

lemma copy_strings_deep: "deep_copy strings_rep copy_strings"
  by (intro copy_ref_deep copy_list_deep plain.deep_copy_axioms) simp

text \<open>\<^verbatim>\<open>map[string][]string\<close>: a nil value is copied to nil, any other to a new slice.\<close>

abbreviation copy_slice_map :: "addr option \<Rightarrow> 'm cell heap \<Rightarrow> addr option \<times> 'm cell heap" where
  "copy_slice_map \<equiv> copy_ref unSliceMap SliceMap (\<lambda>m. copy_entries copy_strings m [])"

abbreviation slice_map_rep :: "('m cell, addr option, (string, string list option) gomap option) rep" where
  "slice_map_rep \<equiv> ref_rep unSliceMap (entries_rep strings_rep)"

lemma copy_slice_map_deep: "deep_copy slice_map_rep copy_slice_map"
  by (intro copy_ref_deep copy_entries_deep copy_strings_deep) simp

abbreviation copy_string_map :: "addr option \<Rightarrow> 'm cell heap \<Rightarrow> addr option \<times> 'm cell heap" where
  "copy_string_map \<equiv> copy_ref unStringMap StringMap (\<lambda>m. copy_entries assign m [])"

abbreviation string_map_rep :: "('m cell, addr option, (string, string) gomap option) rep" where
  "string_map_rep \<equiv> ref_rep unStringMap (entries_rep flat)"

lemma copy_string_map_deep: "deep_copy string_map_rep copy_string_map"
  by (intro copy_ref_deep copy_entries_deep plain.deep_copy_axioms) simp

subsection \<open>Parts of the resources\<close>

definition AllocationDetails_DeepCopyInto ::
  "addr option go_AllocationDetails \<Rightarrow> 'm cell heap \<Rightarrow> addr option go_AllocationDetails \<times> 'm cell heap" where
  "AllocationDetails_DeepCopyInto x h =
     (let (gpus, h) = copy_slice_map (gaGPUs x) h;
          (devs, h) = copy_slice_map (gaHostDevices x) h
      in (x\<lparr>gaGPUs := gpus, gaHostDevices := devs\<rparr>, h))"

definition MigConfigurationSpec_DeepCopyInto ::
  "addr option go_MigConfigurationSpec \<Rightarrow> 'm cell heap \<Rightarrow> addr option go_MigConfigurationSpec \<times> 'm cell heap" where
  "MigConfigurationSpec_DeepCopyInto x h =
     (let (p, h) = copy_ref unRequestArray RequestArray (copy_list assign) (gmProfileSpec x) h
      in (x\<lparr>gmProfileSpec := p\<rparr>, h))"

definition MigProfileStatus_DeepCopyInto ::
  "addr option go_MigProfileStatus \<Rightarrow> 'm cell heap \<Rightarrow> addr option go_MigProfileStatus \<times> 'm cell heap" where
  "MigProfileStatus_DeepCopyInto x h =
     (let (p, h) = copy_strings (gmsVGPUID x) h in (x\<lparr>gmsVGPUID := p\<rparr>, h))"

definition MigConfigurationStatus_DeepCopyInto ::
  "addr option go_MigConfigurationStatus \<Rightarrow> 'm cell heap \<Rightarrow> addr option go_MigConfigurationStatus \<times> 'm cell heap" where
  "MigConfigurationStatus_DeepCopyInto x h =
     (let (p, h) = copy_ref unStatusArray StatusArray (copy_list MigProfileStatus_DeepCopyInto) (gmProfileStatus x) h
      in (x\<lparr>gmProfileStatus := p\<rparr>, h))"

definition SRIOVGPUDeviceStatus_DeepCopyInto ::
  "addr option go_SRIOVGPUDeviceStatus \<Rightarrow> 'm cell heap \<Rightarrow> addr option go_SRIOVGPUDeviceStatus \<times> 'm cell heap" where
  "SRIOVGPUDeviceStatus_DeepCopyInto x h =
     (let (vfs, h) = copy_strings (ggVFAddresses x) h;
          (vgpus, h) = copy_strings (ggVGPUDevices x) h
      in (x\<lparr>ggVFAddresses := vfs, ggVGPUDevices := vgpus\<rparr>, h))"

definition SRIOVNetworkDeviceStatus_DeepCopyInto ::
  "addr option go_SRIOVNetworkDeviceStatus \<Rightarrow> 'm cell heap \<Rightarrow> addr option go_SRIOVNetworkDeviceStatus \<times> 'm cell heap" where
  "SRIOVNetworkDeviceStatus_DeepCopyInto x h =
     (let (vfs, h) = copy_strings (gnVFAddresses x) h;
          (pcis, h) = copy_strings (gnVFPCIDevices x) h
      in (x\<lparr>gnVFAddresses := vfs, gnVFPCIDevices := pcis\<rparr>, h))"

definition VGPUDeviceStatus_DeepCopyInto ::
  "addr option go_VGPUDeviceStatus \<Rightarrow> 'm cell heap \<Rightarrow> addr option go_VGPUDeviceStatus \<times> 'm cell heap" where
  "VGPUDeviceStatus_DeepCopyInto x h =
     (let (types, h) = copy_string_map (gvAvailableTypes x) h in (x\<lparr>gvAvailableTypes := types\<rparr>, h))"

text \<open>The remaining parts hold no reference: the assignment of the struct is the copy.\<close>

definition MigProfileRequest_DeepCopyInto :: "go_MigProfileRequest \<Rightarrow> 'm cell heap \<Rightarrow> go_MigProfileRequest \<times> 'm cell heap" where
  "MigProfileRequest_DeepCopyInto x h = assign x h"

definition MigProfiles_DeepCopyInto :: "MigProfiles \<Rightarrow> 'm cell heap \<Rightarrow> MigProfiles \<times> 'm cell heap" where
  "MigProfiles_DeepCopyInto x h = assign x h"

definition NodeSpec_DeepCopyInto :: "unit \<Rightarrow> 'm cell heap \<Rightarrow> unit \<times> 'm cell heap" where
  "NodeSpec_DeepCopyInto x h = assign x h"

definition PCIDeviceClaimSpec_DeepCopyInto :: "PCIDeviceClaimSpec \<Rightarrow> 'm cell heap \<Rightarrow> PCIDeviceClaimSpec \<times> 'm cell heap" where
  "PCIDeviceClaimSpec_DeepCopyInto x h = assign x h"

definition PCIDeviceClaimStatus_DeepCopyInto :: "PCIDeviceClaimStatus \<Rightarrow> 'm cell heap \<Rightarrow> PCIDeviceClaimStatus \<times> 'm cell heap" where
  "PCIDeviceClaimStatus_DeepCopyInto x h = assign x h"

definition PCIDeviceSpec_DeepCopyInto :: "unit \<Rightarrow> 'm cell heap \<Rightarrow> unit \<times> 'm cell heap" where
  "PCIDeviceSpec_DeepCopyInto x h = assign x h"

definition PCIDeviceStatus_DeepCopyInto :: "PCIDeviceStatus \<Rightarrow> 'm cell heap \<Rightarrow> PCIDeviceStatus \<times> 'm cell heap" where
  "PCIDeviceStatus_DeepCopyInto x h = assign x h"

definition SRIOVGPUDeviceSpec_DeepCopyInto :: "SRIOVGPUDeviceSpec \<Rightarrow> 'm cell heap \<Rightarrow> SRIOVGPUDeviceSpec \<times> 'm cell heap" where
  "SRIOVGPUDeviceSpec_DeepCopyInto x h = assign x h"

definition SRIOVNetworkDeviceSpec_DeepCopyInto :: "SRIOVNetworkDeviceSpec \<Rightarrow> 'm cell heap \<Rightarrow> SRIOVNetworkDeviceSpec \<times> 'm cell heap" where
  "SRIOVNetworkDeviceSpec_DeepCopyInto x h = assign x h"

definition USBDeviceClaimSpec_DeepCopyInto :: "go_USBDeviceClaimSpec \<Rightarrow> 'm cell heap \<Rightarrow> go_USBDeviceClaimSpec \<times> 'm cell heap" where
  "USBDeviceClaimSpec_DeepCopyInto x h = assign x h"

definition USBDeviceClaimStatus_DeepCopyInto :: "go_USBDeviceClaimStatus \<Rightarrow> 'm cell heap \<Rightarrow> go_USBDeviceClaimStatus \<times> 'm cell heap" where
  "USBDeviceClaimStatus_DeepCopyInto x h = assign x h"

definition USBDeviceStatus_DeepCopyInto :: "USBDeviceStatus \<Rightarrow> 'm cell heap \<Rightarrow> USBDeviceStatus \<times> 'm cell heap" where
  "USBDeviceStatus_DeepCopyInto x h = assign x h"

definition VGPUDeviceSpec_DeepCopyInto :: "VGPUDeviceSpec \<Rightarrow> 'm cell heap \<Rightarrow> VGPUDeviceSpec \<times> 'm cell heap" where
  "VGPUDeviceSpec_DeepCopyInto x h = assign x h"

subsection \<open>The resources and their lists\<close>

definition MigConfiguration_DeepCopyInto ::
  "('m \<Rightarrow> 'm cell heap \<Rightarrow> 'm \<times> 'm cell heap) \<Rightarrow>
   ('m, addr option go_MigConfigurationSpec, addr option go_MigConfigurationStatus) go_object \<Rightarrow> 'm cell heap \<Rightarrow> ('m, addr option go_MigConfigurationSpec, addr option go_MigConfigurationStatus) go_object \<times> 'm cell heap" where
  "MigConfiguration_DeepCopyInto mc x h =
     (let (m, h) = mc (goMeta x) h;
          (sp, h) = MigConfigurationSpec_DeepCopyInto (goSpec x) h;
          (st, h) = MigConfigurationStatus_DeepCopyInto (goStatus x) h
      in (x\<lparr>goMeta := m, goSpec := sp, goStatus := st\<rparr>, h))"

definition MigConfigurationList_DeepCopyInto ::
  "('m \<Rightarrow> 'm cell heap \<Rightarrow> 'm \<times> 'm cell heap) \<Rightarrow> ('l \<Rightarrow> 'm cell heap \<Rightarrow> 'l \<times> 'm cell heap) \<Rightarrow>
   ('l, addr option) go_list \<Rightarrow> 'm cell heap \<Rightarrow> ('l, addr option) go_list \<times> 'm cell heap" where
  "MigConfigurationList_DeepCopyInto mc lc x h =
     (let (l, h) = lc (glMeta x) h;
          (items, h) = copy_ref unMigConfigurationArray MigConfigurationArray (copy_list (MigConfiguration_DeepCopyInto mc)) (glItems x) h
      in (x\<lparr>glMeta := l, glItems := items\<rparr>, h))"

definition Node_DeepCopyInto ::
  "('m \<Rightarrow> 'm cell heap \<Rightarrow> 'm \<times> 'm cell heap) \<Rightarrow>
   ('m, unit, unit) go_object \<Rightarrow> 'm cell heap \<Rightarrow> ('m, unit, unit) go_object \<times> 'm cell heap" where
  "Node_DeepCopyInto mc x h =
     (let (m, h) = mc (goMeta x) h;
          sp = goSpec x
      in (x\<lparr>goMeta := m, goSpec := sp\<rparr>, h))"

definition NodeList_DeepCopyInto ::
  "('m \<Rightarrow> 'm cell heap \<Rightarrow> 'm \<times> 'm cell heap) \<Rightarrow> ('l \<Rightarrow> 'm cell heap \<Rightarrow> 'l \<times> 'm cell heap) \<Rightarrow>
   ('l, addr option) go_list \<Rightarrow> 'm cell heap \<Rightarrow> ('l, addr option) go_list \<times> 'm cell heap" where
  "NodeList_DeepCopyInto mc lc x h =
     (let (l, h) = lc (glMeta x) h;
          (items, h) = copy_ref unNodeArray NodeArray (copy_list (Node_DeepCopyInto mc)) (glItems x) h
      in (x\<lparr>glMeta := l, glItems := items\<rparr>, h))"

definition PCIDevice_DeepCopyInto ::
  "('m \<Rightarrow> 'm cell heap \<Rightarrow> 'm \<times> 'm cell heap) \<Rightarrow>
   ('m, unit, PCIDeviceStatus) go_object \<Rightarrow> 'm cell heap \<Rightarrow> ('m, unit, PCIDeviceStatus) go_object \<times> 'm cell heap" where
  "PCIDevice_DeepCopyInto mc x h =
     (let (m, h) = mc (goMeta x) h;
          sp = goSpec x;
          st = goStatus x
      in (x\<lparr>goMeta := m, goSpec := sp, goStatus := st\<rparr>, h))"

definition PCIDeviceList_DeepCopyInto ::
  "('m \<Rightarrow> 'm cell heap \<Rightarrow> 'm \<times> 'm cell heap) \<Rightarrow> ('l \<Rightarrow> 'm cell heap \<Rightarrow> 'l \<times> 'm cell heap) \<Rightarrow>
   ('l, addr option) go_list \<Rightarrow> 'm cell heap \<Rightarrow> ('l, addr option) go_list \<times> 'm cell heap" where
  "PCIDeviceList_DeepCopyInto mc lc x h =
     (let (l, h) = lc (glMeta x) h;
          (items, h) = copy_ref unPCIDeviceArray PCIDeviceArray (copy_list (PCIDevice_DeepCopyInto mc)) (glItems x) h
      in (x\<lparr>glMeta := l, glItems := items\<rparr>, h))"

definition PCIDeviceClaim_DeepCopyInto ::
  "('m \<Rightarrow> 'm cell heap \<Rightarrow> 'm \<times> 'm cell heap) \<Rightarrow>
   ('m, PCIDeviceClaimSpec, PCIDeviceClaimStatus) go_object \<Rightarrow> 'm cell heap \<Rightarrow> ('m, PCIDeviceClaimSpec, PCIDeviceClaimStatus) go_object \<times> 'm cell heap" where
  "PCIDeviceClaim_DeepCopyInto mc x h =
     (let (m, h) = mc (goMeta x) h;
          sp = goSpec x;
          st = goStatus x
      in (x\<lparr>goMeta := m, goSpec := sp, goStatus := st\<rparr>, h))"

definition PCIDeviceClaimList_DeepCopyInto ::
  "('m \<Rightarrow> 'm cell heap \<Rightarrow> 'm \<times> 'm cell heap) \<Rightarrow> ('l \<Rightarrow> 'm cell heap \<Rightarrow> 'l \<times> 'm cell heap) \<Rightarrow>
   ('l, addr option) go_list \<Rightarrow> 'm cell heap \<Rightarrow> ('l, addr option) go_list \<times> 'm cell heap" where
  "PCIDeviceClaimList_DeepCopyInto mc lc x h =
     (let (l, h) = lc (glMeta x) h;
          (items, h) = copy_ref unPCIDeviceClaimArray PCIDeviceClaimArray (copy_list (PCIDeviceClaim_DeepCopyInto mc)) (glItems x) h
      in (x\<lparr>glMeta := l, glItems := items\<rparr>, h))"

definition SRIOVGPUDevice_DeepCopyInto ::
  "('m \<Rightarrow> 'm cell heap \<Rightarrow> 'm \<times> 'm cell heap) \<Rightarrow>
   ('m, SRIOVGPUDeviceSpec, addr option go_SRIOVGPUDeviceStatus) go_object \<Rightarrow> 'm cell heap \<Rightarrow> ('m, SRIOVGPUDeviceSpec, addr option go_SRIOVGPUDeviceStatus) go_object \<times> 'm cell heap" where
  "SRIOVGPUDevice_DeepCopyInto mc x h =
     (let (m, h) = mc (goMeta x) h;
          sp = goSpec x;
          (st, h) = SRIOVGPUDeviceStatus_DeepCopyInto (goStatus x) h
      in (x\<lparr>goMeta := m, goSpec := sp, goStatus := st\<rparr>, h))"

definition SRIOVGPUDeviceList_DeepCopyInto ::
  "('m \<Rightarrow> 'm cell heap \<Rightarrow> 'm \<times> 'm cell heap) \<Rightarrow> ('l \<Rightarrow> 'm cell heap \<Rightarrow> 'l \<times> 'm cell heap) \<Rightarrow>
   ('l, addr option) go_list \<Rightarrow> 'm cell heap \<Rightarrow> ('l, addr option) go_list \<times> 'm cell heap" where
  "SRIOVGPUDeviceList_DeepCopyInto mc lc x h =
     (let (l, h) = lc (glMeta x) h;
          (items, h) = copy_ref unSRIOVGPUDeviceArray SRIOVGPUDeviceArray (copy_list (SRIOVGPUDevice_DeepCopyInto mc)) (glItems x) h
      in (x\<lparr>glMeta := l, glItems := items\<rparr>, h))"

definition SRIOVNetworkDevice_DeepCopyInto ::
  "('m \<Rightarrow> 'm cell heap \<Rightarrow> 'm \<times> 'm cell heap) \<Rightarrow>
   ('m, SRIOVNetworkDeviceSpec, addr option go_SRIOVNetworkDeviceStatus) go_object \<Rightarrow> 'm cell heap \<Rightarrow> ('m, SRIOVNetworkDeviceSpec, addr option go_SRIOVNetworkDeviceStatus) go_object \<times> 'm cell heap" where
  "SRIOVNetworkDevice_DeepCopyInto mc x h =
     (let (m, h) = mc (goMeta x) h;
          sp = goSpec x;
          (st, h) = SRIOVNetworkDeviceStatus_DeepCopyInto (goStatus x) h
      in (x\<lparr>goMeta := m, goSpec := sp, goStatus := st\<rparr>, h))"

definition SRIOVNetworkDeviceList_DeepCopyInto ::
  "('m \<Rightarrow> 'm cell heap \<Rightarrow> 'm \<times> 'm cell heap) \<Rightarrow> ('l \<Rightarrow> 'm cell heap \<Rightarrow> 'l \<times> 'm cell heap) \<Rightarrow>
   ('l, addr option) go_list \<Rightarrow> 'm cell heap \<Rightarrow> ('l, addr option) go_list \<times> 'm cell heap" where
  "SRIOVNetworkDeviceList_DeepCopyInto mc lc x h =
     (let (l, h) = lc (glMeta x) h;
          (items, h) = copy_ref unSRIOVNetworkDeviceArray SRIOVNetworkDeviceArray (copy_list (SRIOVNetworkDevice_DeepCopyInto mc)) (glItems x) h
      in (x\<lparr>glMeta := l, glItems := items\<rparr>, h))"

definition USBDevice_DeepCopyInto ::
  "('m \<Rightarrow> 'm cell heap \<Rightarrow> 'm \<times> 'm cell heap) \<Rightarrow>
   ('m, unit, USBDeviceStatus) go_object \<Rightarrow> 'm cell heap \<Rightarrow> ('m, unit, USBDeviceStatus) go_object \<times> 'm cell heap" where
  "USBDevice_DeepCopyInto mc x h =
     (let (m, h) = mc (goMeta x) h;
          st = goStatus x
      in (x\<lparr>goMeta := m, goStatus := st\<rparr>, h))"

definition USBDeviceList_DeepCopyInto ::
  "('m \<Rightarrow> 'm cell heap \<Rightarrow> 'm \<times> 'm cell heap) \<Rightarrow> ('l \<Rightarrow> 'm cell heap \<Rightarrow> 'l \<times> 'm cell heap) \<Rightarrow>
   ('l, addr option) go_list \<Rightarrow> 'm cell heap \<Rightarrow> ('l, addr option) go_list \<times> 'm cell heap" where
  "USBDeviceList_DeepCopyInto mc lc x h =
     (let (l, h) = lc (glMeta x) h;
          (items, h) = copy_ref unUSBDeviceArray USBDeviceArray (copy_list (USBDevice_DeepCopyInto mc)) (glItems x) h
      in (x\<lparr>glMeta := l, glItems := items\<rparr>, h))"

definition USBDeviceClaim_DeepCopyInto ::
  "('m \<Rightarrow> 'm cell heap \<Rightarrow> 'm \<times> 'm cell heap) \<Rightarrow>
   ('m, go_USBDeviceClaimSpec, go_USBDeviceClaimStatus) go_object \<Rightarrow> 'm cell heap \<Rightarrow> ('m, go_USBDeviceClaimSpec, go_USBDeviceClaimStatus) go_object \<times> 'm cell heap" where
  "USBDeviceClaim_DeepCopyInto mc x h =
     (let (m, h) = mc (goMeta x) h;
          sp = goSpec x;
          st = goStatus x
      in (x\<lparr>goMeta := m, goSpec := sp, goStatus := st\<rparr>, h))"

definition USBDeviceClaimList_DeepCopyInto ::
  "('m \<Rightarrow> 'm cell heap \<Rightarrow> 'm \<times> 'm cell heap) \<Rightarrow> ('l \<Rightarrow> 'm cell heap \<Rightarrow> 'l \<times> 'm cell heap) \<Rightarrow>
   ('l, addr option) go_list \<Rightarrow> 'm cell heap \<Rightarrow> ('l, addr option) go_list \<times> 'm cell heap" where
  "USBDeviceClaimList_DeepCopyInto mc lc x h =
     (let (l, h) = lc (glMeta x) h;
          (items, h) = copy_ref unUSBDeviceClaimArray USBDeviceClaimArray (copy_list (USBDeviceClaim_DeepCopyInto mc)) (glItems x) h
      in (x\<lparr>glMeta := l, glItems := items\<rparr>, h))"

definition VGPUDevice_DeepCopyInto ::
  "('m \<Rightarrow> 'm cell heap \<Rightarrow> 'm \<times> 'm cell heap) \<Rightarrow>
   ('m, VGPUDeviceSpec, addr option go_VGPUDeviceStatus) go_object \<Rightarrow> 'm cell heap \<Rightarrow> ('m, VGPUDeviceSpec, addr option go_VGPUDeviceStatus) go_object \<times> 'm cell heap" where
  "VGPUDevice_DeepCopyInto mc x h =
     (let (m, h) = mc (goMeta x) h;
          sp = goSpec x;
          (st, h) = VGPUDeviceStatus_DeepCopyInto (goStatus x) h
      in (x\<lparr>goMeta := m, goSpec := sp, goStatus := st\<rparr>, h))"

definition VGPUDeviceList_DeepCopyInto ::
  "('m \<Rightarrow> 'm cell heap \<Rightarrow> 'm \<times> 'm cell heap) \<Rightarrow> ('l \<Rightarrow> 'm cell heap \<Rightarrow> 'l \<times> 'm cell heap) \<Rightarrow>
   ('l, addr option) go_list \<Rightarrow> 'm cell heap \<Rightarrow> ('l, addr option) go_list \<times> 'm cell heap" where
  "VGPUDeviceList_DeepCopyInto mc lc x h =
     (let (l, h) = lc (glMeta x) h;
          (items, h) = copy_ref unVGPUDeviceArray VGPUDeviceArray (copy_list (VGPUDevice_DeepCopyInto mc)) (glItems x) h
      in (x\<lparr>glMeta := l, glItems := items\<rparr>, h))"

subsection \<open>New objects\<close>

text \<open>\<^verbatim>\<open>DeepCopy\<close> of every struct, and \<^verbatim>\<open>DeepCopyObject\<close>, which wraps the pointer in the interface
  \<^verbatim>\<open>runtime.Object\<close>: its dynamic type is the constructor, a nil interface is \<^const>\<open>None\<close>.\<close>

datatype ('m, 'l) runtime_object =
    MigConfiguration_obj "('m, addr option go_MigConfigurationSpec, addr option go_MigConfigurationStatus) go_object"
  | MigConfigurationList_obj "('l, addr option) go_list"
  | Node_obj "('m, unit, unit) go_object"
  | NodeList_obj "('l, addr option) go_list"
  | PCIDevice_obj "('m, unit, PCIDeviceStatus) go_object"
  | PCIDeviceList_obj "('l, addr option) go_list"
  | PCIDeviceClaim_obj "('m, PCIDeviceClaimSpec, PCIDeviceClaimStatus) go_object"
  | PCIDeviceClaimList_obj "('l, addr option) go_list"
  | SRIOVGPUDevice_obj "('m, SRIOVGPUDeviceSpec, addr option go_SRIOVGPUDeviceStatus) go_object"
  | SRIOVGPUDeviceList_obj "('l, addr option) go_list"
  | SRIOVNetworkDevice_obj "('m, SRIOVNetworkDeviceSpec, addr option go_SRIOVNetworkDeviceStatus) go_object"
  | SRIOVNetworkDeviceList_obj "('l, addr option) go_list"
  | USBDevice_obj "('m, unit, USBDeviceStatus) go_object"
  | USBDeviceList_obj "('l, addr option) go_list"
  | USBDeviceClaim_obj "('m, go_USBDeviceClaimSpec, go_USBDeviceClaimStatus) go_object"
  | USBDeviceClaimList_obj "('l, addr option) go_list"
  | VGPUDevice_obj "('m, VGPUDeviceSpec, addr option go_VGPUDeviceStatus) go_object"
  | VGPUDeviceList_obj "('l, addr option) go_list"

definition as_object :: "('x \<Rightarrow> 'o) \<Rightarrow> 'x option \<times> 'h \<Rightarrow> 'o option \<times> 'h" where
  "as_object mk r = (case r of (Some c, h) \<Rightarrow> (Some (mk c), h) | (None, h) \<Rightarrow> (None, h))"

definition AllocationDetails_DeepCopy :: "(addr option go_AllocationDetails) option \<Rightarrow> 'm cell heap \<Rightarrow> (addr option go_AllocationDetails) option \<times> 'm cell heap" where
  "AllocationDetails_DeepCopy = new_copy AllocationDetails_DeepCopyInto"

definition MigConfigurationSpec_DeepCopy :: "(addr option go_MigConfigurationSpec) option \<Rightarrow> 'm cell heap \<Rightarrow> (addr option go_MigConfigurationSpec) option \<times> 'm cell heap" where
  "MigConfigurationSpec_DeepCopy = new_copy MigConfigurationSpec_DeepCopyInto"

definition MigConfigurationStatus_DeepCopy :: "(addr option go_MigConfigurationStatus) option \<Rightarrow> 'm cell heap \<Rightarrow> (addr option go_MigConfigurationStatus) option \<times> 'm cell heap" where
  "MigConfigurationStatus_DeepCopy = new_copy MigConfigurationStatus_DeepCopyInto"

definition MigProfileStatus_DeepCopy :: "(addr option go_MigProfileStatus) option \<Rightarrow> 'm cell heap \<Rightarrow> (addr option go_MigProfileStatus) option \<times> 'm cell heap" where
  "MigProfileStatus_DeepCopy = new_copy MigProfileStatus_DeepCopyInto"

definition SRIOVGPUDeviceStatus_DeepCopy :: "(addr option go_SRIOVGPUDeviceStatus) option \<Rightarrow> 'm cell heap \<Rightarrow> (addr option go_SRIOVGPUDeviceStatus) option \<times> 'm cell heap" where
  "SRIOVGPUDeviceStatus_DeepCopy = new_copy SRIOVGPUDeviceStatus_DeepCopyInto"

definition SRIOVNetworkDeviceStatus_DeepCopy :: "(addr option go_SRIOVNetworkDeviceStatus) option \<Rightarrow> 'm cell heap \<Rightarrow> (addr option go_SRIOVNetworkDeviceStatus) option \<times> 'm cell heap" where
  "SRIOVNetworkDeviceStatus_DeepCopy = new_copy SRIOVNetworkDeviceStatus_DeepCopyInto"

definition VGPUDeviceStatus_DeepCopy :: "(addr option go_VGPUDeviceStatus) option \<Rightarrow> 'm cell heap \<Rightarrow> (addr option go_VGPUDeviceStatus) option \<times> 'm cell heap" where
  "VGPUDeviceStatus_DeepCopy = new_copy VGPUDeviceStatus_DeepCopyInto"

definition MigProfileRequest_DeepCopy :: "go_MigProfileRequest option \<Rightarrow> 'm cell heap \<Rightarrow> (go_MigProfileRequest) option \<times> 'm cell heap" where
  "MigProfileRequest_DeepCopy = new_copy MigProfileRequest_DeepCopyInto"

definition MigProfiles_DeepCopy :: "MigProfiles option \<Rightarrow> 'm cell heap \<Rightarrow> (MigProfiles) option \<times> 'm cell heap" where
  "MigProfiles_DeepCopy = new_copy MigProfiles_DeepCopyInto"

definition NodeSpec_DeepCopy :: "unit option \<Rightarrow> 'm cell heap \<Rightarrow> (unit) option \<times> 'm cell heap" where
  "NodeSpec_DeepCopy = new_copy NodeSpec_DeepCopyInto"

definition PCIDeviceClaimSpec_DeepCopy :: "PCIDeviceClaimSpec option \<Rightarrow> 'm cell heap \<Rightarrow> (PCIDeviceClaimSpec) option \<times> 'm cell heap" where
  "PCIDeviceClaimSpec_DeepCopy = new_copy PCIDeviceClaimSpec_DeepCopyInto"

definition PCIDeviceClaimStatus_DeepCopy :: "PCIDeviceClaimStatus option \<Rightarrow> 'm cell heap \<Rightarrow> (PCIDeviceClaimStatus) option \<times> 'm cell heap" where
  "PCIDeviceClaimStatus_DeepCopy = new_copy PCIDeviceClaimStatus_DeepCopyInto"

definition PCIDeviceSpec_DeepCopy :: "unit option \<Rightarrow> 'm cell heap \<Rightarrow> (unit) option \<times> 'm cell heap" where
  "PCIDeviceSpec_DeepCopy = new_copy PCIDeviceSpec_DeepCopyInto"

definition PCIDeviceStatus_DeepCopy :: "PCIDeviceStatus option \<Rightarrow> 'm cell heap \<Rightarrow> (PCIDeviceStatus) option \<times> 'm cell heap" where
  "PCIDeviceStatus_DeepCopy = new_copy PCIDeviceStatus_DeepCopyInto"

definition SRIOVGPUDeviceSpec_DeepCopy :: "SRIOVGPUDeviceSpec option \<Rightarrow> 'm cell heap \<Rightarrow> (SRIOVGPUDeviceSpec) option \<times> 'm cell heap" where
  "SRIOVGPUDeviceSpec_DeepCopy = new_copy SRIOVGPUDeviceSpec_DeepCopyInto"

definition SRIOVNetworkDeviceSpec_DeepCopy :: "SRIOVNetworkDeviceSpec option \<Rightarrow> 'm cell heap \<Rightarrow> (SRIOVNetworkDeviceSpec) option \<times> 'm cell heap" where
  "SRIOVNetworkDeviceSpec_DeepCopy = new_copy SRIOVNetworkDeviceSpec_DeepCopyInto"

definition USBDeviceClaimSpec_DeepCopy :: "go_USBDeviceClaimSpec option \<Rightarrow> 'm cell heap \<Rightarrow> (go_USBDeviceClaimSpec) option \<times> 'm cell heap" where
  "USBDeviceClaimSpec_DeepCopy = new_copy USBDeviceClaimSpec_DeepCopyInto"

definition USBDeviceClaimStatus_DeepCopy :: "go_USBDeviceClaimStatus option \<Rightarrow> 'm cell heap \<Rightarrow> (go_USBDeviceClaimStatus) option \<times> 'm cell heap" where
  "USBDeviceClaimStatus_DeepCopy = new_copy USBDeviceClaimStatus_DeepCopyInto"

definition USBDeviceStatus_DeepCopy :: "USBDeviceStatus option \<Rightarrow> 'm cell heap \<Rightarrow> (USBDeviceStatus) option \<times> 'm cell heap" where
  "USBDeviceStatus_DeepCopy = new_copy USBDeviceStatus_DeepCopyInto"

definition VGPUDeviceSpec_DeepCopy :: "VGPUDeviceSpec option \<Rightarrow> 'm cell heap \<Rightarrow> (VGPUDeviceSpec) option \<times> 'm cell heap" where
  "VGPUDeviceSpec_DeepCopy = new_copy VGPUDeviceSpec_DeepCopyInto"

definition MigConfiguration_DeepCopy where
  "MigConfiguration_DeepCopy mc = new_copy (MigConfiguration_DeepCopyInto mc)"

definition MigConfiguration_DeepCopyObject where
  "MigConfiguration_DeepCopyObject mc p h = as_object MigConfiguration_obj (MigConfiguration_DeepCopy mc p h)"

definition MigConfigurationList_DeepCopy where
  "MigConfigurationList_DeepCopy mc lc = new_copy (MigConfigurationList_DeepCopyInto mc lc)"

definition MigConfigurationList_DeepCopyObject where
  "MigConfigurationList_DeepCopyObject mc lc p h = as_object MigConfigurationList_obj (MigConfigurationList_DeepCopy mc lc p h)"

definition Node_DeepCopy where
  "Node_DeepCopy mc = new_copy (Node_DeepCopyInto mc)"

definition Node_DeepCopyObject where
  "Node_DeepCopyObject mc p h = as_object Node_obj (Node_DeepCopy mc p h)"

definition NodeList_DeepCopy where
  "NodeList_DeepCopy mc lc = new_copy (NodeList_DeepCopyInto mc lc)"

definition NodeList_DeepCopyObject where
  "NodeList_DeepCopyObject mc lc p h = as_object NodeList_obj (NodeList_DeepCopy mc lc p h)"

definition PCIDevice_DeepCopy where
  "PCIDevice_DeepCopy mc = new_copy (PCIDevice_DeepCopyInto mc)"

definition PCIDevice_DeepCopyObject where
  "PCIDevice_DeepCopyObject mc p h = as_object PCIDevice_obj (PCIDevice_DeepCopy mc p h)"

definition PCIDeviceList_DeepCopy where
  "PCIDeviceList_DeepCopy mc lc = new_copy (PCIDeviceList_DeepCopyInto mc lc)"

definition PCIDeviceList_DeepCopyObject where
  "PCIDeviceList_DeepCopyObject mc lc p h = as_object PCIDeviceList_obj (PCIDeviceList_DeepCopy mc lc p h)"

definition PCIDeviceClaim_DeepCopy where
  "PCIDeviceClaim_DeepCopy mc = new_copy (PCIDeviceClaim_DeepCopyInto mc)"

definition PCIDeviceClaim_DeepCopyObject where
  "PCIDeviceClaim_DeepCopyObject mc p h = as_object PCIDeviceClaim_obj (PCIDeviceClaim_DeepCopy mc p h)"

definition PCIDeviceClaimList_DeepCopy where
  "PCIDeviceClaimList_DeepCopy mc lc = new_copy (PCIDeviceClaimList_DeepCopyInto mc lc)"

definition PCIDeviceClaimList_DeepCopyObject where
  "PCIDeviceClaimList_DeepCopyObject mc lc p h = as_object PCIDeviceClaimList_obj (PCIDeviceClaimList_DeepCopy mc lc p h)"

definition SRIOVGPUDevice_DeepCopy where
  "SRIOVGPUDevice_DeepCopy mc = new_copy (SRIOVGPUDevice_DeepCopyInto mc)"

definition SRIOVGPUDevice_DeepCopyObject where
  "SRIOVGPUDevice_DeepCopyObject mc p h = as_object SRIOVGPUDevice_obj (SRIOVGPUDevice_DeepCopy mc p h)"

definition SRIOVGPUDeviceList_DeepCopy where
  "SRIOVGPUDeviceList_DeepCopy mc lc = new_copy (SRIOVGPUDeviceList_DeepCopyInto mc lc)"

definition SRIOVGPUDeviceList_DeepCopyObject where
  "SRIOVGPUDeviceList_DeepCopyObject mc lc p h = as_object SRIOVGPUDeviceList_obj (SRIOVGPUDeviceList_DeepCopy mc lc p h)"

definition SRIOVNetworkDevice_DeepCopy where
  "SRIOVNetworkDevice_DeepCopy mc = new_copy (SRIOVNetworkDevice_DeepCopyInto mc)"

definition SRIOVNetworkDevice_DeepCopyObject where
  "SRIOVNetworkDevice_DeepCopyObject mc p h = as_object SRIOVNetworkDevice_obj (SRIOVNetworkDevice_DeepCopy mc p h)"

definition SRIOVNetworkDeviceList_DeepCopy where
  "SRIOVNetworkDeviceList_DeepCopy mc lc = new_copy (SRIOVNetworkDeviceList_DeepCopyInto mc lc)"

definition SRIOVNetworkDeviceList_DeepCopyObject where
  "SRIOVNetworkDeviceList_DeepCopyObject mc lc p h = as_object SRIOVNetworkDeviceList_obj (SRIOVNetworkDeviceList_DeepCopy mc lc p h)"

definition USBDevice_DeepCopy where
  "USBDevice_DeepCopy mc = new_copy (USBDevice_DeepCopyInto mc)"

definition USBDevice_DeepCopyObject where
  "USBDevice_DeepCopyObject mc p h = as_object USBDevice_obj (USBDevice_DeepCopy mc p h)"

definition USBDeviceList_DeepCopy where
  "USBDeviceList_DeepCopy mc lc = new_copy (USBDeviceList_DeepCopyInto mc lc)"

definition USBDeviceList_DeepCopyObject where
  "USBDeviceList_DeepCopyObject mc lc p h = as_object USBDeviceList_obj (USBDeviceList_DeepCopy mc lc p h)"

definition USBDeviceClaim_DeepCopy where
  "USBDeviceClaim_DeepCopy mc = new_copy (USBDeviceClaim_DeepCopyInto mc)"

definition USBDeviceClaim_DeepCopyObject where
  "USBDeviceClaim_DeepCopyObject mc p h = as_object USBDeviceClaim_obj (USBDeviceClaim_DeepCopy mc p h)"

definition USBDeviceClaimList_DeepCopy where
  "USBDeviceClaimList_DeepCopy mc lc = new_copy (USBDeviceClaimList_DeepCopyInto mc lc)"

definition USBDeviceClaimList_DeepCopyObject where
  "USBDeviceClaimList_DeepCopyObject mc lc p h = as_object USBDeviceClaimList_obj (USBDeviceClaimList_DeepCopy mc lc p h)"

definition VGPUDevice_DeepCopy where
  "VGPUDevice_DeepCopy mc = new_copy (VGPUDevice_DeepCopyInto mc)"

definition VGPUDevice_DeepCopyObject where
  "VGPUDevice_DeepCopyObject mc p h = as_object VGPUDevice_obj (VGPUDevice_DeepCopy mc p h)"

definition VGPUDeviceList_DeepCopy where
  "VGPUDeviceList_DeepCopy mc lc = new_copy (VGPUDeviceList_DeepCopyInto mc lc)"

definition VGPUDeviceList_DeepCopyObject where
  "VGPUDeviceList_DeepCopyObject mc lc p h = as_object VGPUDeviceList_obj (VGPUDeviceList_DeepCopy mc lc p h)"

subsection \<open>What the structs stand for\<close>

definition allocation_rep where
  "allocation_rep = struct_rep (\<lambda>x. (gaGPUs x, gaHostDevices x)) (\<lambda>x (g, d). \<lparr>gaGPUs = g, gaHostDevices = d\<rparr>)
     (pair_rep slice_map_rep slice_map_rep)"

definition mig_spec_rep where
  "mig_spec_rep = struct_rep gmProfileSpec
     (\<lambda>x p. \<lparr>gmEnabled = gmEnabled x, gmGPUAddress = gmGPUAddress x, gmNodeName = gmNodeName x, gmProfileSpec = p\<rparr>)
     (ref_rep unRequestArray (list_rep flat))"

definition profile_status_rep where
  "profile_status_rep = struct_rep gmsVGPUID
     (\<lambda>x p. \<lparr>gmsProfile = gmsProfile x, gmsAvailable = gmsAvailable x, gmsTotal = gmsTotal x, gmsVGPUID = p\<rparr>)
     strings_rep"

definition mig_status_rep where
  "mig_status_rep = struct_rep gmProfileStatus
     (\<lambda>x p. \<lparr>gmProfileStatus = p, gmStatus = gmStatus x, gmMessage = gmMessage x\<rparr>)
     (ref_rep unStatusArray (list_rep profile_status_rep))"

definition gpu_status_rep where
  "gpu_status_rep = struct_rep (\<lambda>x. (ggVFAddresses x, ggVGPUDevices x))
     (\<lambda>x (a, d). \<lparr>ggVFAddresses = a, ggVGPUDevices = d\<rparr>) (pair_rep strings_rep strings_rep)"

definition net_status_rep where
  "net_status_rep = struct_rep (\<lambda>x. (gnVFAddresses x, gnVFPCIDevices x))
     (\<lambda>x (a, d). \<lparr>gnVFAddresses = a, gnVFPCIDevices = d, gnStatus = gnStatus x\<rparr>) (pair_rep strings_rep strings_rep)"

definition vgpu_status_rep where
  "vgpu_status_rep = struct_rep gvAvailableTypes
     (\<lambda>x p. \<lparr>gvVGPUStatus = gvVGPUStatus x, gvUUID = gvUUID x,
              gvConfiguredVGPUTypeName = gvConfiguredVGPUTypeName x, gvAvailableTypes = p\<rparr>) string_map_rep"

definition object_rep where
  "object_rep mr sr tr = struct_rep (\<lambda>x. (goMeta x, goSpec x, goStatus x))
     (\<lambda>x (m, s, t). \<lparr>goType = goType x, goMeta = m, goSpec = s, goStatus = t\<rparr>) (pair_rep mr (pair_rep sr tr))"

definition go_list_rep where
  "go_list_rep lr un r = struct_rep (\<lambda>x. (glMeta x, glItems x))
     (\<lambda>x (l, i). \<lparr>glType = glType x, glMeta = l, glItems = i\<rparr>) (pair_rep lr (ref_rep un (list_rep r)))"

subsection \<open>Every routine meets the contract\<close>

text \<open>The parts without metadata.\<close>

interpretation allocation: deep_copy allocation_rep AllocationDetails_DeepCopyInto
  unfolding allocation_rep_def
  by (rule copy_struct_deep [where put = "\<lambda>x (g, d). x\<lparr>gaGPUs := g, gaHostDevices := d\<rparr>",
        OF copy_pair_deep [OF copy_slice_map_deep copy_slice_map_deep]])
    (auto simp: AllocationDetails_DeepCopyInto_def copy_pair_def split: prod.splits)

interpretation mig_spec: deep_copy mig_spec_rep MigConfigurationSpec_DeepCopyInto
  unfolding mig_spec_rep_def
  by (rule copy_struct_deep [where put = "\<lambda>x p. x\<lparr>gmProfileSpec := p\<rparr>",
        OF copy_ref_deep [where mk = RequestArray, OF copy_list_deep [OF plain.deep_copy_axioms]]])
    (simp_all add: MigConfigurationSpec_DeepCopyInto_def)

interpretation profile_status: deep_copy profile_status_rep MigProfileStatus_DeepCopyInto
  unfolding profile_status_rep_def
  by (rule copy_struct_deep [where put = "\<lambda>x p. x\<lparr>gmsVGPUID := p\<rparr>", OF copy_strings_deep])
    (simp_all add: MigProfileStatus_DeepCopyInto_def)

interpretation mig_status: deep_copy mig_status_rep MigConfigurationStatus_DeepCopyInto
  unfolding mig_status_rep_def
  by (rule copy_struct_deep [where put = "\<lambda>x p. x\<lparr>gmProfileStatus := p\<rparr>",
        OF copy_ref_deep [where mk = StatusArray, OF copy_list_deep [OF profile_status.deep_copy_axioms]]])
    (simp_all add: MigConfigurationStatus_DeepCopyInto_def)

interpretation gpu_status: deep_copy gpu_status_rep SRIOVGPUDeviceStatus_DeepCopyInto
  unfolding gpu_status_rep_def
  by (rule copy_struct_deep [where put = "\<lambda>x (a, d). x\<lparr>ggVFAddresses := a, ggVGPUDevices := d\<rparr>",
        OF copy_pair_deep [OF copy_strings_deep copy_strings_deep]])
    (auto simp: SRIOVGPUDeviceStatus_DeepCopyInto_def copy_pair_def split: prod.splits)

interpretation net_status: deep_copy net_status_rep SRIOVNetworkDeviceStatus_DeepCopyInto
  unfolding net_status_rep_def
  by (rule copy_struct_deep [where put = "\<lambda>x (a, d). x\<lparr>gnVFAddresses := a, gnVFPCIDevices := d\<rparr>",
        OF copy_pair_deep [OF copy_strings_deep copy_strings_deep]])
    (auto simp: SRIOVNetworkDeviceStatus_DeepCopyInto_def copy_pair_def split: prod.splits)

interpretation vgpu_status: deep_copy vgpu_status_rep VGPUDeviceStatus_DeepCopyInto
  unfolding vgpu_status_rep_def
  by (rule copy_struct_deep [where put = "\<lambda>x p. x\<lparr>gvAvailableTypes := p\<rparr>", OF copy_string_map_deep])
    (simp_all add: VGPUDeviceStatus_DeepCopyInto_def)

text \<open>The resources, given a deep copy of the metadata.\<close>

lemma object_deep:
  assumes "deep_copy mr mc" "deep_copy sr sc" "deep_copy tr tc"
    and "\<And>x h. copy x h = (let (m, h) = mc (goMeta x) h; (sp, h) = sc (goSpec x) h; (st, h) = tc (goStatus x) h
                          in (x\<lparr>goMeta := m, goSpec := sp, goStatus := st\<rparr>, h))"
  shows "deep_copy (object_rep mr sr tr) copy"
  unfolding object_rep_def
  by (rule copy_struct_deep [where put = "\<lambda>x (m, sp, st). x\<lparr>goMeta := m, goSpec := sp, goStatus := st\<rparr>",
        OF copy_pair_deep [OF assms(1) copy_pair_deep [OF assms(2,3)]]])
    (auto simp: assms(4) copy_pair_def split: prod.splits)

lemma go_list_deep:
  assumes "deep_copy lr lc" "deep_copy r into" "\<And>y. un (mk y) = y"
    and "\<And>x h. copy x h = (let (l, h) = lc (glMeta x) h; (items, h) = copy_ref un mk (copy_list into) (glItems x) h
                          in (x\<lparr>glMeta := l, glItems := items\<rparr>, h))"
  shows "deep_copy (go_list_rep lr un r) copy"
  unfolding go_list_rep_def
  by (rule copy_struct_deep [where put = "\<lambda>x (l, i). x\<lparr>glMeta := l, glItems := i\<rparr>",
        OF copy_pair_deep [OF assms(1) copy_ref_deep [OF copy_list_deep [OF assms(2)] assms(3)]]])
    (auto simp: assms(4) copy_pair_def split: prod.splits)

lemma MigConfiguration_deep: "deep_copy mr mc \<Longrightarrow> deep_copy (object_rep mr mig_spec_rep mig_status_rep) (MigConfiguration_DeepCopyInto mc)"
  by (rule object_deep [OF _ mig_spec.deep_copy_axioms mig_status.deep_copy_axioms])
    (auto simp: MigConfiguration_DeepCopyInto_def assign_def Let_def split: prod.splits)

lemma MigConfigurationList_deep:
  "deep_copy mr mc \<Longrightarrow> deep_copy lr lc \<Longrightarrow>
     deep_copy (go_list_rep lr unMigConfigurationArray (object_rep mr mig_spec_rep mig_status_rep)) (MigConfigurationList_DeepCopyInto mc lc)"
  by (rule go_list_deep [where mk = MigConfigurationArray, OF _ MigConfiguration_deep]) (simp_all add: MigConfigurationList_DeepCopyInto_def)

lemma Node_deep: "deep_copy mr mc \<Longrightarrow> deep_copy (object_rep mr flat flat) (Node_DeepCopyInto mc)"
  by (rule object_deep [OF _ plain.deep_copy_axioms plain.deep_copy_axioms])
    (auto simp: Node_DeepCopyInto_def assign_def Let_def split: prod.splits)

lemma NodeList_deep:
  "deep_copy mr mc \<Longrightarrow> deep_copy lr lc \<Longrightarrow>
     deep_copy (go_list_rep lr unNodeArray (object_rep mr flat flat)) (NodeList_DeepCopyInto mc lc)"
  by (rule go_list_deep [where mk = NodeArray, OF _ Node_deep]) (simp_all add: NodeList_DeepCopyInto_def)

lemma PCIDevice_deep: "deep_copy mr mc \<Longrightarrow> deep_copy (object_rep mr flat flat) (PCIDevice_DeepCopyInto mc)"
  by (rule object_deep [OF _ plain.deep_copy_axioms plain.deep_copy_axioms])
    (auto simp: PCIDevice_DeepCopyInto_def assign_def Let_def split: prod.splits)

lemma PCIDeviceList_deep:
  "deep_copy mr mc \<Longrightarrow> deep_copy lr lc \<Longrightarrow>
     deep_copy (go_list_rep lr unPCIDeviceArray (object_rep mr flat flat)) (PCIDeviceList_DeepCopyInto mc lc)"
  by (rule go_list_deep [where mk = PCIDeviceArray, OF _ PCIDevice_deep]) (simp_all add: PCIDeviceList_DeepCopyInto_def)

lemma PCIDeviceClaim_deep: "deep_copy mr mc \<Longrightarrow> deep_copy (object_rep mr flat flat) (PCIDeviceClaim_DeepCopyInto mc)"
  by (rule object_deep [OF _ plain.deep_copy_axioms plain.deep_copy_axioms])
    (auto simp: PCIDeviceClaim_DeepCopyInto_def assign_def Let_def split: prod.splits)

lemma PCIDeviceClaimList_deep:
  "deep_copy mr mc \<Longrightarrow> deep_copy lr lc \<Longrightarrow>
     deep_copy (go_list_rep lr unPCIDeviceClaimArray (object_rep mr flat flat)) (PCIDeviceClaimList_DeepCopyInto mc lc)"
  by (rule go_list_deep [where mk = PCIDeviceClaimArray, OF _ PCIDeviceClaim_deep]) (simp_all add: PCIDeviceClaimList_DeepCopyInto_def)

lemma SRIOVGPUDevice_deep: "deep_copy mr mc \<Longrightarrow> deep_copy (object_rep mr flat gpu_status_rep) (SRIOVGPUDevice_DeepCopyInto mc)"
  by (rule object_deep [OF _ plain.deep_copy_axioms gpu_status.deep_copy_axioms])
    (auto simp: SRIOVGPUDevice_DeepCopyInto_def assign_def Let_def split: prod.splits)

lemma SRIOVGPUDeviceList_deep:
  "deep_copy mr mc \<Longrightarrow> deep_copy lr lc \<Longrightarrow>
     deep_copy (go_list_rep lr unSRIOVGPUDeviceArray (object_rep mr flat gpu_status_rep)) (SRIOVGPUDeviceList_DeepCopyInto mc lc)"
  by (rule go_list_deep [where mk = SRIOVGPUDeviceArray, OF _ SRIOVGPUDevice_deep]) (simp_all add: SRIOVGPUDeviceList_DeepCopyInto_def)

lemma SRIOVNetworkDevice_deep: "deep_copy mr mc \<Longrightarrow> deep_copy (object_rep mr flat net_status_rep) (SRIOVNetworkDevice_DeepCopyInto mc)"
  by (rule object_deep [OF _ plain.deep_copy_axioms net_status.deep_copy_axioms])
    (auto simp: SRIOVNetworkDevice_DeepCopyInto_def assign_def Let_def split: prod.splits)

lemma SRIOVNetworkDeviceList_deep:
  "deep_copy mr mc \<Longrightarrow> deep_copy lr lc \<Longrightarrow>
     deep_copy (go_list_rep lr unSRIOVNetworkDeviceArray (object_rep mr flat net_status_rep)) (SRIOVNetworkDeviceList_DeepCopyInto mc lc)"
  by (rule go_list_deep [where mk = SRIOVNetworkDeviceArray, OF _ SRIOVNetworkDevice_deep]) (simp_all add: SRIOVNetworkDeviceList_DeepCopyInto_def)

lemma USBDevice_deep: "deep_copy mr mc \<Longrightarrow> deep_copy (object_rep mr flat flat) (USBDevice_DeepCopyInto mc)"
  by (rule object_deep [OF _ plain.deep_copy_axioms plain.deep_copy_axioms])
    (auto simp: USBDevice_DeepCopyInto_def assign_def Let_def split: prod.splits)

lemma USBDeviceList_deep:
  "deep_copy mr mc \<Longrightarrow> deep_copy lr lc \<Longrightarrow>
     deep_copy (go_list_rep lr unUSBDeviceArray (object_rep mr flat flat)) (USBDeviceList_DeepCopyInto mc lc)"
  by (rule go_list_deep [where mk = USBDeviceArray, OF _ USBDevice_deep]) (simp_all add: USBDeviceList_DeepCopyInto_def)

lemma USBDeviceClaim_deep: "deep_copy mr mc \<Longrightarrow> deep_copy (object_rep mr flat flat) (USBDeviceClaim_DeepCopyInto mc)"
  by (rule object_deep [OF _ plain.deep_copy_axioms plain.deep_copy_axioms])
    (auto simp: USBDeviceClaim_DeepCopyInto_def assign_def Let_def split: prod.splits)

lemma USBDeviceClaimList_deep:
  "deep_copy mr mc \<Longrightarrow> deep_copy lr lc \<Longrightarrow>
     deep_copy (go_list_rep lr unUSBDeviceClaimArray (object_rep mr flat flat)) (USBDeviceClaimList_DeepCopyInto mc lc)"
  by (rule go_list_deep [where mk = USBDeviceClaimArray, OF _ USBDeviceClaim_deep]) (simp_all add: USBDeviceClaimList_DeepCopyInto_def)

lemma VGPUDevice_deep: "deep_copy mr mc \<Longrightarrow> deep_copy (object_rep mr flat vgpu_status_rep) (VGPUDevice_DeepCopyInto mc)"
  by (rule object_deep [OF _ plain.deep_copy_axioms vgpu_status.deep_copy_axioms])
    (auto simp: VGPUDevice_DeepCopyInto_def assign_def Let_def split: prod.splits)

lemma VGPUDeviceList_deep:
  "deep_copy mr mc \<Longrightarrow> deep_copy lr lc \<Longrightarrow>
     deep_copy (go_list_rep lr unVGPUDeviceArray (object_rep mr flat vgpu_status_rep)) (VGPUDeviceList_DeepCopyInto mc lc)"
  by (rule go_list_deep [where mk = VGPUDeviceArray, OF _ VGPUDevice_deep]) (simp_all add: VGPUDeviceList_DeepCopyInto_def)

subsection \<open>Copies are isolated\<close>

text \<open>
  Property C17.  Provided the library's copies of the metadata are deep, the generated copy of
  every resource and of every list of resources reads exactly as its original (nil slices and
  maps included), and afterwards nothing stored through the copy is visible in the original,
  nor the reverse.
\<close>

theorem DeepCopy_isolates:
  assumes "deep_copy mr mc" and "deep_copy lr lc"
  shows "isolates (object_rep mr mig_spec_rep mig_status_rep) (MigConfiguration_DeepCopyInto mc)
    \<and> isolates (go_list_rep lr unMigConfigurationArray (object_rep mr mig_spec_rep mig_status_rep)) (MigConfigurationList_DeepCopyInto mc lc)
    \<and> isolates (object_rep mr flat flat) (Node_DeepCopyInto mc)
    \<and> isolates (go_list_rep lr unNodeArray (object_rep mr flat flat)) (NodeList_DeepCopyInto mc lc)
    \<and> isolates (object_rep mr flat flat) (PCIDevice_DeepCopyInto mc)
    \<and> isolates (go_list_rep lr unPCIDeviceArray (object_rep mr flat flat)) (PCIDeviceList_DeepCopyInto mc lc)
    \<and> isolates (object_rep mr flat flat) (PCIDeviceClaim_DeepCopyInto mc)
    \<and> isolates (go_list_rep lr unPCIDeviceClaimArray (object_rep mr flat flat)) (PCIDeviceClaimList_DeepCopyInto mc lc)
    \<and> isolates (object_rep mr flat gpu_status_rep) (SRIOVGPUDevice_DeepCopyInto mc)
    \<and> isolates (go_list_rep lr unSRIOVGPUDeviceArray (object_rep mr flat gpu_status_rep)) (SRIOVGPUDeviceList_DeepCopyInto mc lc)
    \<and> isolates (object_rep mr flat net_status_rep) (SRIOVNetworkDevice_DeepCopyInto mc)
    \<and> isolates (go_list_rep lr unSRIOVNetworkDeviceArray (object_rep mr flat net_status_rep)) (SRIOVNetworkDeviceList_DeepCopyInto mc lc)
    \<and> isolates (object_rep mr flat flat) (USBDevice_DeepCopyInto mc)
    \<and> isolates (go_list_rep lr unUSBDeviceArray (object_rep mr flat flat)) (USBDeviceList_DeepCopyInto mc lc)
    \<and> isolates (object_rep mr flat flat) (USBDeviceClaim_DeepCopyInto mc)
    \<and> isolates (go_list_rep lr unUSBDeviceClaimArray (object_rep mr flat flat)) (USBDeviceClaimList_DeepCopyInto mc lc)
    \<and> isolates (object_rep mr flat vgpu_status_rep) (VGPUDevice_DeepCopyInto mc)
    \<and> isolates (go_list_rep lr unVGPUDeviceArray (object_rep mr flat vgpu_status_rep)) (VGPUDeviceList_DeepCopyInto mc lc)"
  using MigConfiguration_deep [OF assms(1), THEN deep_copy.isolating] MigConfigurationList_deep [OF assms, THEN deep_copy.isolating]
    Node_deep [OF assms(1), THEN deep_copy.isolating] NodeList_deep [OF assms, THEN deep_copy.isolating]
    PCIDevice_deep [OF assms(1), THEN deep_copy.isolating] PCIDeviceList_deep [OF assms, THEN deep_copy.isolating]
    PCIDeviceClaim_deep [OF assms(1), THEN deep_copy.isolating] PCIDeviceClaimList_deep [OF assms, THEN deep_copy.isolating]
    SRIOVGPUDevice_deep [OF assms(1), THEN deep_copy.isolating] SRIOVGPUDeviceList_deep [OF assms, THEN deep_copy.isolating]
    SRIOVNetworkDevice_deep [OF assms(1), THEN deep_copy.isolating] SRIOVNetworkDeviceList_deep [OF assms, THEN deep_copy.isolating]
    USBDevice_deep [OF assms(1), THEN deep_copy.isolating] USBDeviceList_deep [OF assms, THEN deep_copy.isolating]
    USBDeviceClaim_deep [OF assms(1), THEN deep_copy.isolating] USBDeviceClaimList_deep [OF assms, THEN deep_copy.isolating]
    VGPUDevice_deep [OF assms(1), THEN deep_copy.isolating] VGPUDeviceList_deep [OF assms, THEN deep_copy.isolating]
  by (intro conjI)

text \<open>Assigning the struct alone does not do: the two share the arrays of their slices.\<close>

lemma assignment_leaks: "\<not> isolates (gpu_status_rep :: ('m cell, addr option go_SRIOVGPUDeviceStatus, _) rep) assign"
proof
  assume iso: "isolates (gpu_status_rep :: ('m cell, addr option go_SRIOVGPUDeviceStatus, _) rep) assign"
  let ?h = "\<lparr>cells = \<lambda>a. StringArray [''0000:08:00.4''], lim = 1\<rparr> :: 'm cell heap"
  let ?h2 = "?h\<lparr>cells := (cells ?h)(0 := StringArray [])\<rparr>"
  let ?x = "\<lparr>ggVFAddresses = Some 0, ggVGPUDevices = None\<rparr>"
  have ok: "rpOk gpu_status_rep ?h ?x" and "rpRefs gpu_status_rep ?h ?x = {0}"
    by (simp_all add: gpu_status_rep_def struct_rep_def pair_rep_def ref_rep_def list_rep_def flat_def)
  then have "agree ({..<lim ?h} - rpRefs gpu_status_rep ?h ?x) ?h ?h2" by (simp add: agree_def)
  then have "rpRead gpu_status_rep ?h2 ?x = rpRead gpu_status_rep ?h ?x"
    by (intro isolatesD [OF iso ok, of ?x ?h]) (simp_all add: assign_def)
  then show False
    by (simp add: gpu_status_rep_def struct_rep_def pair_rep_def ref_rep_def list_rep_def flat_def)
qed

subsection \<open>A concrete copy\<close>

text \<open>Metadata with a name and a map of labels.\<close>

type_synonym demo_go_meta = "string \<times> addr option"

definition demo_mc :: "demo_go_meta \<Rightarrow> demo_go_meta cell heap \<Rightarrow> demo_go_meta \<times> demo_go_meta cell heap" where
  "demo_mc = copy_pair assign copy_string_map"

definition demo_mr :: "(demo_go_meta cell, demo_go_meta, string \<times> (string, string) gomap option) rep" where
  "demo_mr = pair_rep flat string_map_rep"

lemma demo_meta_deep: "deep_copy demo_mr demo_mc"
  unfolding demo_mr_def demo_mc_def by (intro copy_pair_deep plain.deep_copy_axioms copy_string_map_deep)

definition demo_heap :: "demo_go_meta cell heap" where
  "demo_heap = \<lparr>cells = \<lambda>a. if a = 0 then StringMap [(''nodename'', ''n1'')] else StringArray [''0000:08:00.4''], lim = 2\<rparr>"

definition demo_gpu :: "(demo_go_meta, SRIOVGPUDeviceSpec, addr option go_SRIOVGPUDeviceStatus) go_object" where
  "demo_gpu = \<lparr>goType = \<lparr>tmKind = ''SRIOVGPUDevice'', tmAPIVersion = []\<rparr>, goMeta = (''gpu'', Some 0),
     goSpec = \<lparr>sgAddress = ''0000:08:00.0'', sgNodeName = ''n1'', sgEnabled = True\<rparr>,
     goStatus = \<lparr>ggVFAddresses = Some 1, ggVGPUDevices = None\<rparr>\<rparr>"

text \<open>Clearing the copied addresses in the heap after the copy leaves the original.\<close>

theorem DeepCopy_isolates_witness:
  "let R = object_rep demo_mr flat gpu_status_rep; (y, h) = SRIOVGPUDevice_DeepCopyInto demo_mc demo_gpu demo_heap
   in goMeta y = (''gpu'', Some 2) \<and> ggVFAddresses (goStatus y) = Some 3
      \<and> rpRead R (h\<lparr>cells := (cells h)(3 := StringArray [])\<rparr>) demo_gpu = rpRead R demo_heap demo_gpu"
proof -
  let ?R = "object_rep demo_mr flat gpu_status_rep"
  obtain y h where c: "SRIOVGPUDevice_DeepCopyInto demo_mc demo_gpu demo_heap = (y, h)" by fastforce
  have y: "goMeta y = (''gpu'', Some 2)" "ggVFAddresses (goStatus y) = Some 3" "lim h = 4"
    using c by (auto simp: SRIOVGPUDevice_DeepCopyInto_def SRIOVGPUDeviceStatus_DeepCopyInto_def demo_mc_def copy_pair_def
        assign_def copy_ref_def alloc_def demo_gpu_def demo_heap_def Let_def split: prod.splits)
  let ?h2 = "h\<lparr>cells := (cells h)(3 := StringArray [])\<rparr>"
  have iso: "isolates ?R (SRIOVGPUDevice_DeepCopyInto demo_mc)"
    using DeepCopy_isolates [OF demo_meta_deep plain.deep_copy_axioms] by blast
  have ok: "rpOk ?R demo_heap demo_gpu"
    by (simp add: object_rep_def gpu_status_rep_def struct_rep_def pair_rep_def ref_rep_def list_rep_def flat_def
        demo_mr_def demo_gpu_def demo_heap_def entries_rep_def wf_map_def mkeys_def)
  have "3 \<in> rpRefs ?R h y"
    using y by (simp add: object_rep_def gpu_status_rep_def struct_rep_def pair_rep_def ref_rep_def)
  then have "agree ({..<lim h} - rpRefs ?R h y) h ?h2" by (auto simp: agree_def)
  then have "rpRead ?R ?h2 demo_gpu = rpRead ?R demo_heap demo_gpu" by (intro isolatesD [OF iso ok c]) simp_all
  with c y show ?thesis by (simp add: Let_def)
qed

end
