(* ===== verification/Generated_Handlers.thy ===== *)
theory Generated_Handlers
  imports Object_Cache Virtual_Machine Crd
begin

section \<open>Generated status and generating handlers\<close>

text \<open>
  Models the handlers in \<^verbatim>\<open>pkg/generated/controllers/*/*/*.go\<close>.  The generator emits the same code
  for every resource: a status handler, whose \<^verbatim>\<open>sync\<close> runs a function that computes the new status
  and writes it back when it changed, and a generating handler, which also applies the
  objects the function returns, on request only once for each resource version.  The code is modelled
  once, over the record \<open>kind_ops\<close> of what it does with an object, and instantiated
  for each resource.

  The objects are values, so the deep copies that the code makes are the values themselves.
  The library (wrangler) is a parameter: the condition functions and the semantic comparison are
  the record \<open>cond_lib\<close>, the apply chain, the handler options and \<^verbatim>\<open>kv.RSplit\<close> the record
  \<open>apply_lib\<close>, the client one of \<open>Api_Types\<close>.  The functions run by the handlers get
  a pointer to the copied object, so they return the object as they leave it.
\<close>

subsection \<open>Kinds of objects\<close>

record ('o, 'st) kind_ops =
  koMeta :: "'o \<Rightarrow> object_meta"
  koSetMeta :: "object_meta \<Rightarrow> 'o \<Rightarrow> 'o"
  koStatus :: "'o \<Rightarrow> 'st"
  koSetStatus :: "'st \<Rightarrow> 'o \<Rightarrow> 'o"
  koZero :: 'o

text \<open>What the handlers rely on: a field reads as it was written, and a write to one leaves the other.\<close>

locale object_kind =
  fixes K :: "('o, 'st) kind_ops"
  assumes status_set [simp]: "koStatus K (koSetStatus K st x) = st"
    and status_set_meta [simp]: "koStatus K (koSetMeta K m x) = koStatus K x"
    and meta_set [simp]: "koMeta K (koSetMeta K m x) = m"
    and meta_set_status [simp]: "koMeta K (koSetStatus K st x) = koMeta K x"

subsection \<open>The status handler\<close>

record ('st, 'w) cond_lib =
  clSetError :: "string \<Rightarrow> 'st \<Rightarrow> string \<Rightarrow> go_error option \<Rightarrow> 'st"
  clLastUpdated :: "string \<Rightarrow> 'st \<Rightarrow> string \<Rightarrow> 'st"
  clDeepEqual :: "'st \<Rightarrow> 'st \<Rightarrow> bool"
  clNow :: "'w \<Rightarrow> string"

record ('o, 'st, 'w) status_handler =
  shClient :: "('o, 'w) client"
  shCondition :: string
  shHandler :: "'o \<Rightarrow> 'st \<Rightarrow> 'w \<Rightarrow> 'o \<times> 'st \<times> go_error option \<times> 'w"

definition status_sync ::
  "('o, 'st) kind_ops \<Rightarrow> ('st, 'w) cond_lib \<Rightarrow> ('o, 'st, 'w) status_handler \<Rightarrow> string \<Rightarrow> 'o option \<Rightarrow> 'w
   \<Rightarrow> 'o option \<times> go_error option \<times> 'w" where
  "status_sync K L a key objp w =
     (case objp of None \<Rightarrow> (None, None, w) | Some obj \<Rightarrow>
      let origStatus = koStatus K obj;
          (obj, newStatus, err, w) = shHandler a obj (koStatus K obj) w;
          newStatus = (if err \<noteq> None then origStatus else newStatus);
          newStatus = (if shCondition a \<noteq> []
                       then if (case err of Some e \<Rightarrow> IsConflict e | None \<Rightarrow> False)
                            then clSetError L (shCondition a) newStatus [] None
                            else clSetError L (shCondition a) newStatus [] err
                       else newStatus)
      in if \<not> clDeepEqual L origStatus newStatus
         then let newStatus = (if shCondition a \<noteq> [] then clLastUpdated L (shCondition a) newStatus (clNow L w)
                               else newStatus);
                  obj = koSetStatus K newStatus obj;
                  (r, w) = cUpdateStatus (shClient a) obj w
              in case r of
                   Inl newErr \<Rightarrow> (Some obj, if err = None then Some newErr else err, w)
                 | Inr newObj \<Rightarrow> (Some newObj, err, w)
         else (Some obj, err, w))"

subsection \<open>The generating handler\<close>

record ('o, 'opt, 'r, 'w) apply_lib =
  alApply :: "'opt \<Rightarrow> 'o \<Rightarrow> string \<Rightarrow> 'r list \<Rightarrow> 'w \<Rightarrow> go_error option \<times> 'w"
  alUnique :: "'opt \<Rightarrow> bool"
  alZero :: 'opt
  alRSplit :: "string \<Rightarrow> string \<times> string"

text \<open>\<^verbatim>\<open>seen\<close>, the only state of the handler, is threaded next to the world.\<close>

record 'w gen_state =
  gsSeen :: "(string, string) gomap"
  gsWorld :: 'w

record ('o, 'st, 'opt, 'r, 'w) generating_handler =
  ghHandler :: "'o \<Rightarrow> 'st \<Rightarrow> 'w \<Rightarrow> 'o \<times> 'r list \<times> 'st \<times> go_error option \<times> 'w"
  ghLib :: "('o, 'opt, 'r, 'w) apply_lib"
  ghOpts :: 'opt
  ghKind :: string
  ghAPIVersion :: string
  ghName :: string

definition seen_key :: "object_meta \<Rightarrow> string" where
  "seen_key m = mNamespace m @ ''/'' @ mName m"

definition isNewResourceVersion ::
  "('o, 'st) kind_ops \<Rightarrow> ('o, 'st, 'opt, 'r, 'w) generating_handler \<Rightarrow> 'o \<Rightarrow> 'w gen_state \<Rightarrow> bool" where
  "isNewResourceVersion K a obj s =
     (if \<not> alUnique (ghLib a) (ghOpts a) then True
      else case mget (gsSeen s) (seen_key (koMeta K obj)) of
             None \<Rightarrow> True
           | Some previous \<Rightarrow> previous \<noteq> mResourceVersion (koMeta K obj))"

definition storeResourceVersion ::
  "('o, 'st) kind_ops \<Rightarrow> ('o, 'st, 'opt, 'r, 'w) generating_handler \<Rightarrow> 'o \<Rightarrow> 'w gen_state \<Rightarrow> 'w gen_state" where
  "storeResourceVersion K a obj s =
     (if \<not> alUnique (ghLib a) (ghOpts a) then s
      else s\<lparr>gsSeen := mput (seen_key (koMeta K obj)) (mResourceVersion (koMeta K obj)) (gsSeen s)\<rparr>)"

definition generating_Remove ::
  "('o, 'st) kind_ops \<Rightarrow> ('o, 'st, 'opt, 'r, 'w) generating_handler \<Rightarrow> string \<Rightarrow> 'o option \<Rightarrow> 'w gen_state
   \<Rightarrow> 'o option \<times> go_error option \<times> 'w gen_state" where
  "generating_Remove K a key objp s =
     (case objp of Some obj \<Rightarrow> (Some obj, None, s) | None \<Rightarrow>
      let (ns, name) = alRSplit (ghLib a) key;
          obj = koSetMeta K (empty_meta\<lparr>mNamespace := ns, mName := name, mKind := ghKind a,
                                        mAPIVersion := ghAPIVersion a\<rparr>) (koZero K);
          s = (if alUnique (ghLib a) (ghOpts a) then s\<lparr>gsSeen := mdel key (gsSeen s)\<rparr> else s);
          (err, w) = alApply (ghLib a) (ghOpts a) obj (ghName a) [] (gsWorld s)
      in (None, err, s\<lparr>gsWorld := w\<rparr>))"

definition generating_Handle ::
  "('o, 'st) kind_ops \<Rightarrow> ('o, 'st, 'opt, 'r, 'w) generating_handler \<Rightarrow> 'o \<Rightarrow> 'st \<Rightarrow> 'w gen_state
   \<Rightarrow> 'o \<times> 'st \<times> go_error option \<times> 'w gen_state" where
  "generating_Handle K a obj status s =
     (if mDeletionTimestamp (koMeta K obj) then (obj, status, None, s)
      else let (obj, objs, newStatus, err, w) = ghHandler a obj status (gsWorld s);
               s = s\<lparr>gsWorld := w\<rparr>
           in case err of
                Some e \<Rightarrow> (obj, newStatus, Some e, s)
              | None \<Rightarrow>
                  if \<not> isNewResourceVersion K a obj s then (obj, newStatus, None, s)
                  else let (err, w) = alApply (ghLib a) (ghOpts a) obj (ghName a) objs (gsWorld s);
                           s = s\<lparr>gsWorld := w\<rparr>
                       in case err of
                            Some e \<Rightarrow> (obj, newStatus, Some e, s)
                          | None \<Rightarrow> (obj, newStatus, None, storeResourceVersion K a obj s))"

subsection \<open>Registration\<close>

text \<open>A controller is the list of its handlers by name, in the order of registration.\<close>

type_synonym ('o, 'w) handlers = "(string \<times> (string \<Rightarrow> 'o option \<Rightarrow> 'w \<Rightarrow> 'o option \<times> go_error option \<times> 'w)) list"

definition RegisterStatusHandler ::
  "('o, 'st) kind_ops \<Rightarrow> ('st, 'w) cond_lib \<Rightarrow> ('o, 'w) client \<Rightarrow> string \<Rightarrow> string
   \<Rightarrow> ('o \<Rightarrow> 'st \<Rightarrow> 'w \<Rightarrow> 'o \<times> 'st \<times> go_error option \<times> 'w) \<Rightarrow> ('o, 'w) handlers \<Rightarrow> ('o, 'w) handlers" where
  "RegisterStatusHandler K L controller condition name handler hs =
     hs @ [(name, status_sync K L \<lparr>shClient = controller, shCondition = condition, shHandler = handler\<rparr>)]"

definition RegisterGeneratingHandler ::
  "('o, 'st) kind_ops \<Rightarrow> ('st, 'w gen_state) cond_lib \<Rightarrow> ('o, 'w gen_state) client \<Rightarrow> ('o, 'opt, 'r, 'w) apply_lib
   \<Rightarrow> string \<times> string \<Rightarrow> string \<Rightarrow> string \<Rightarrow> ('o \<Rightarrow> 'st \<Rightarrow> 'w \<Rightarrow> 'o \<times> 'r list \<times> 'st \<times> go_error option \<times> 'w)
   \<Rightarrow> 'opt option \<Rightarrow> ('o, 'w gen_state) handlers \<Rightarrow> ('o, 'w gen_state) handlers" where
  "RegisterGeneratingHandler K L controller A gvk condition name handler opts hs =
     (let a = \<lparr>ghHandler = handler, ghLib = A, ghOpts = (case opts of None \<Rightarrow> alZero A | Some o' \<Rightarrow> o'),
               ghKind = fst gvk, ghAPIVersion = snd gvk, ghName = name\<rparr>
      in RegisterStatusHandler K L controller condition name (generating_Handle K a)
           (hs @ [(name, generating_Remove K a)]))"

subsection \<open>The resources of this repository\<close>

definition mc_kind :: "(MigConfiguration, MigConfigurationStatus) kind_ops" where
  "mc_kind = \<lparr>koMeta = mcMeta, koSetMeta = \<lambda>m x. x\<lparr>mcMeta := m\<rparr>,
     koStatus = mcStatus, koSetStatus = \<lambda>st x. x\<lparr>mcStatus := st\<rparr>,
     koZero = \<lparr>mcMeta = empty_meta, mcSpec = \<lparr>mcEnabled = False, mcGPUAddress = [], mcNodeName = [], mcProfileSpec = None\<rparr>,
       mcStatus = \<lparr>mcProfileStatus = None, mcStatusText = [], mcMessage = []\<rparr>\<rparr>\<rparr>"

definition pd_kind :: "(PCIDevice, PCIDeviceStatus) kind_ops" where
  "pd_kind = \<lparr>koMeta = pdMeta, koSetMeta = \<lambda>m x. x\<lparr>pdMeta := m\<rparr>,
     koStatus = pdStatus, koSetStatus = \<lambda>st x. x\<lparr>pdStatus := st\<rparr>,
     koZero = \<lparr>pdMeta = empty_meta, pdStatus = empty_pd_status\<rparr>\<rparr>"

definition pc_kind :: "(PCIDeviceClaim, PCIDeviceClaimStatus) kind_ops" where
  "pc_kind = \<lparr>koMeta = pcMeta, koSetMeta = \<lambda>m x. x\<lparr>pcMeta := m\<rparr>,
     koStatus = pcStatus, koSetStatus = \<lambda>st x. x\<lparr>pcStatus := st\<rparr>,
     koZero = \<lparr>pcMeta = empty_meta, pcSpec = \<lparr>pcAddress = [], pcNodeName = [], pcUserName = [], pcDisableResourcePooling = False\<rparr>,
       pcStatus = \<lparr>pcKernelDriverToUnbind = [], pcPassthroughEnabled = False\<rparr>\<rparr>\<rparr>"

definition sg_kind :: "(SRIOVGPUDevice, SRIOVGPUDeviceStatus) kind_ops" where
  "sg_kind = \<lparr>koMeta = sgMeta, koSetMeta = \<lambda>m x. x\<lparr>sgMeta := m\<rparr>,
     koStatus = sgStatus, koSetStatus = \<lambda>st x. x\<lparr>sgStatus := st\<rparr>,
     koZero = \<lparr>sgMeta = empty_meta, sgSpec = \<lparr>sgAddress = [], sgNodeName = [], sgEnabled = False\<rparr>,
       sgStatus = \<lparr>sgVFAddresses = None, sgVGPUDevices = None\<rparr>\<rparr>\<rparr>"

definition sn_kind :: "(SRIOVNetworkDevice, SRIOVNetworkDeviceStatus) kind_ops" where
  "sn_kind = \<lparr>koMeta = snMeta, koSetMeta = \<lambda>m x. x\<lparr>snMeta := m\<rparr>,
     koStatus = snStatus, koSetStatus = \<lambda>st x. x\<lparr>snStatus := st\<rparr>,
     koZero = \<lparr>snMeta = empty_meta, snSpec = \<lparr>snAddress = [], snNodeName = [], snNumVFs = 0\<rparr>,
       snStatus = \<lparr>snVFAddresses = None, snVFPCIDevices = None, snStatusText = []\<rparr>\<rparr>\<rparr>"

definition ud_kind :: "(USBDevice, USBDeviceStatus) kind_ops" where
  "ud_kind = \<lparr>koMeta = udMeta, koSetMeta = \<lambda>m x. x\<lparr>udMeta := m\<rparr>,
     koStatus = udStatus, koSetStatus = \<lambda>st x. x\<lparr>udStatus := st\<rparr>,
     koZero = \<lparr>udMeta = empty_meta, udStatus = \<lparr>udVendorID = [], udProductID = [], udNodeName = [], udResourceName = [],
       udDevicePath = [], udDescription = [], udPCIAddress = [], udClassType = [], udEnabled = False,
       udStatusText = [], udMessage = []\<rparr>\<rparr>\<rparr>"

text \<open>The record of a USB claim has the two fields of its status next to the others.\<close>

definition uc_kind :: "(USBDeviceClaim, string \<times> string) kind_ops" where
  "uc_kind = \<lparr>koMeta = ucMeta, koSetMeta = \<lambda>m x. x\<lparr>ucMeta := m\<rparr>,
     koStatus = \<lambda>x. (ucNodeName x, ucPCIAddress x),
     koSetStatus = \<lambda>st x. x\<lparr>ucNodeName := fst st, ucPCIAddress := snd st\<rparr>,
     koZero = \<lparr>ucMeta = empty_meta, ucUserName = [], ucNodeName = [], ucPCIAddress = []\<rparr>\<rparr>"

definition vg_kind :: "(VGPUDevice, VGPUDeviceStatus) kind_ops" where
  "vg_kind = \<lparr>koMeta = vgMeta, koSetMeta = \<lambda>m x. x\<lparr>vgMeta := m\<rparr>,
     koStatus = vgStatus, koSetStatus = \<lambda>st x. x\<lparr>vgStatus := st\<rparr>,
     koZero = \<lparr>vgMeta = empty_meta, vgSpec = \<lparr>vgVGPUTypeName = [], vgAddress = [], vgEnabled = False, vgNodeName = [],
       vgParentGPUDeviceAddress = []\<rparr>,
       vgStatus = \<lparr>vgVGPUStatus = [], vgUUID = [], vgConfiguredVGPUTypeName = [], vgAvailableTypes = []\<rparr>\<rparr>\<rparr>"

text \<open>The statuses of the KubeVirt resources are third-party types that nothing else here reads:
  an object is its record with a status of any type, and its zero value a parameter.\<close>

definition kv_kind :: "KubeVirt \<times> 'st \<Rightarrow> (KubeVirt \<times> 'st, 'st) kind_ops" where
  "kv_kind z = \<lparr>koMeta = \<lambda>x. kvMeta (fst x), koSetMeta = \<lambda>m x. ((fst x)\<lparr>kvMeta := m\<rparr>, snd x),
     koStatus = snd, koSetStatus = \<lambda>st x. (fst x, st), koZero = z\<rparr>"

definition vm_kind :: "VirtualMachine \<times> 'st \<Rightarrow> (VirtualMachine \<times> 'st, 'st) kind_ops" where
  "vm_kind z = \<lparr>koMeta = \<lambda>x. vmMeta (fst x), koSetMeta = \<lambda>m x. ((fst x)\<lparr>vmMeta := m\<rparr>, snd x),
     koStatus = snd, koSetStatus = \<lambda>st x. (fst x, st), koZero = z\<rparr>"

definition vi_kind :: "VirtualMachineInstance \<times> 'st \<Rightarrow> (VirtualMachineInstance \<times> 'st, 'st) kind_ops" where
  "vi_kind z = \<lparr>koMeta = \<lambda>x. viMeta (fst x), koSetMeta = \<lambda>m x. ((fst x)\<lparr>viMeta := m\<rparr>, snd x),
     koStatus = snd, koSetStatus = \<lambda>st x. (fst x, st), koZero = z\<rparr>"

interpretation mck: object_kind mc_kind
  by unfold_locales (simp_all add: mc_kind_def)

interpretation pdk: object_kind pd_kind
  by unfold_locales (simp_all add: pd_kind_def)

interpretation pck: object_kind pc_kind
  by unfold_locales (simp_all add: pc_kind_def)

interpretation sgk: object_kind sg_kind
  by unfold_locales (simp_all add: sg_kind_def)

interpretation snk: object_kind sn_kind
  by unfold_locales (simp_all add: sn_kind_def)

interpretation udk: object_kind ud_kind
  by unfold_locales (simp_all add: ud_kind_def)

interpretation uck: object_kind uc_kind
  by unfold_locales (simp_all add: uc_kind_def)

interpretation vgk: object_kind vg_kind
  by unfold_locales (simp_all add: vg_kind_def)

interpretation kvk: object_kind "kv_kind z" for z
  by unfold_locales (simp_all add: kv_kind_def)

interpretation vmk: object_kind "vm_kind z" for z
  by unfold_locales (simp_all add: vm_kind_def)

interpretation vik: object_kind "vi_kind z" for z
  by unfold_locales (simp_all add: vi_kind_def)

definition MigConfiguration_sync where
  "MigConfiguration_sync = status_sync mc_kind"

definition MigConfiguration_isNewResourceVersion where
  "MigConfiguration_isNewResourceVersion = isNewResourceVersion mc_kind"

definition MigConfiguration_storeResourceVersion where
  "MigConfiguration_storeResourceVersion = storeResourceVersion mc_kind"

definition MigConfiguration_Remove where
  "MigConfiguration_Remove = generating_Remove mc_kind"

definition MigConfiguration_Handle where
  "MigConfiguration_Handle = generating_Handle mc_kind"

definition RegisterMigConfigurationStatusHandler where
  "RegisterMigConfigurationStatusHandler = RegisterStatusHandler mc_kind"

definition RegisterMigConfigurationGeneratingHandler where
  "RegisterMigConfigurationGeneratingHandler = RegisterGeneratingHandler mc_kind"

definition PCIDevice_sync where
  "PCIDevice_sync = status_sync pd_kind"

definition PCIDevice_isNewResourceVersion where
  "PCIDevice_isNewResourceVersion = isNewResourceVersion pd_kind"

definition PCIDevice_storeResourceVersion where
  "PCIDevice_storeResourceVersion = storeResourceVersion pd_kind"

definition PCIDevice_Remove where
  "PCIDevice_Remove = generating_Remove pd_kind"

definition PCIDevice_Handle where
  "PCIDevice_Handle = generating_Handle pd_kind"

definition RegisterPCIDeviceStatusHandler where
  "RegisterPCIDeviceStatusHandler = RegisterStatusHandler pd_kind"

definition RegisterPCIDeviceGeneratingHandler where
  "RegisterPCIDeviceGeneratingHandler = RegisterGeneratingHandler pd_kind"

definition PCIDeviceClaim_sync where
  "PCIDeviceClaim_sync = status_sync pc_kind"

definition PCIDeviceClaim_isNewResourceVersion where
  "PCIDeviceClaim_isNewResourceVersion = isNewResourceVersion pc_kind"

definition PCIDeviceClaim_storeResourceVersion where
  "PCIDeviceClaim_storeResourceVersion = storeResourceVersion pc_kind"

definition PCIDeviceClaim_Remove where
  "PCIDeviceClaim_Remove = generating_Remove pc_kind"

definition PCIDeviceClaim_Handle where
  "PCIDeviceClaim_Handle = generating_Handle pc_kind"

definition RegisterPCIDeviceClaimStatusHandler where
  "RegisterPCIDeviceClaimStatusHandler = RegisterStatusHandler pc_kind"

definition RegisterPCIDeviceClaimGeneratingHandler where
  "RegisterPCIDeviceClaimGeneratingHandler = RegisterGeneratingHandler pc_kind"

definition SRIOVGPUDevice_sync where
  "SRIOVGPUDevice_sync = status_sync sg_kind"

definition SRIOVGPUDevice_isNewResourceVersion where
  "SRIOVGPUDevice_isNewResourceVersion = isNewResourceVersion sg_kind"

definition SRIOVGPUDevice_storeResourceVersion where
  "SRIOVGPUDevice_storeResourceVersion = storeResourceVersion sg_kind"

definition SRIOVGPUDevice_Remove where
  "SRIOVGPUDevice_Remove = generating_Remove sg_kind"

definition SRIOVGPUDevice_Handle where
  "SRIOVGPUDevice_Handle = generating_Handle sg_kind"

definition RegisterSRIOVGPUDeviceStatusHandler where
  "RegisterSRIOVGPUDeviceStatusHandler = RegisterStatusHandler sg_kind"

definition RegisterSRIOVGPUDeviceGeneratingHandler where
  "RegisterSRIOVGPUDeviceGeneratingHandler = RegisterGeneratingHandler sg_kind"

definition SRIOVNetworkDevice_sync where
  "SRIOVNetworkDevice_sync = status_sync sn_kind"

definition SRIOVNetworkDevice_isNewResourceVersion where
  "SRIOVNetworkDevice_isNewResourceVersion = isNewResourceVersion sn_kind"

definition SRIOVNetworkDevice_storeResourceVersion where
  "SRIOVNetworkDevice_storeResourceVersion = storeResourceVersion sn_kind"

definition SRIOVNetworkDevice_Remove where
  "SRIOVNetworkDevice_Remove = generating_Remove sn_kind"

definition SRIOVNetworkDevice_Handle where
  "SRIOVNetworkDevice_Handle = generating_Handle sn_kind"

definition RegisterSRIOVNetworkDeviceStatusHandler where
  "RegisterSRIOVNetworkDeviceStatusHandler = RegisterStatusHandler sn_kind"

definition RegisterSRIOVNetworkDeviceGeneratingHandler where
  "RegisterSRIOVNetworkDeviceGeneratingHandler = RegisterGeneratingHandler sn_kind"

definition USBDevice_sync where
  "USBDevice_sync = status_sync ud_kind"

definition USBDevice_isNewResourceVersion where
  "USBDevice_isNewResourceVersion = isNewResourceVersion ud_kind"

definition USBDevice_storeResourceVersion where
  "USBDevice_storeResourceVersion = storeResourceVersion ud_kind"

definition USBDevice_Remove where
  "USBDevice_Remove = generating_Remove ud_kind"

definition USBDevice_Handle where
  "USBDevice_Handle = generating_Handle ud_kind"

definition RegisterUSBDeviceStatusHandler where
  "RegisterUSBDeviceStatusHandler = RegisterStatusHandler ud_kind"

definition RegisterUSBDeviceGeneratingHandler where
  "RegisterUSBDeviceGeneratingHandler = RegisterGeneratingHandler ud_kind"

definition USBDeviceClaim_sync where
  "USBDeviceClaim_sync = status_sync uc_kind"

definition USBDeviceClaim_isNewResourceVersion where
  "USBDeviceClaim_isNewResourceVersion = isNewResourceVersion uc_kind"

definition USBDeviceClaim_storeResourceVersion where
  "USBDeviceClaim_storeResourceVersion = storeResourceVersion uc_kind"

definition USBDeviceClaim_Remove where
  "USBDeviceClaim_Remove = generating_Remove uc_kind"

definition USBDeviceClaim_Handle where
  "USBDeviceClaim_Handle = generating_Handle uc_kind"

definition RegisterUSBDeviceClaimStatusHandler where
  "RegisterUSBDeviceClaimStatusHandler = RegisterStatusHandler uc_kind"

definition RegisterUSBDeviceClaimGeneratingHandler where
  "RegisterUSBDeviceClaimGeneratingHandler = RegisterGeneratingHandler uc_kind"

definition VGPUDevice_sync where
  "VGPUDevice_sync = status_sync vg_kind"

definition VGPUDevice_isNewResourceVersion where
  "VGPUDevice_isNewResourceVersion = isNewResourceVersion vg_kind"

definition VGPUDevice_storeResourceVersion where
  "VGPUDevice_storeResourceVersion = storeResourceVersion vg_kind"

definition VGPUDevice_Remove where
  "VGPUDevice_Remove = generating_Remove vg_kind"

definition VGPUDevice_Handle where
  "VGPUDevice_Handle = generating_Handle vg_kind"

definition RegisterVGPUDeviceStatusHandler where
  "RegisterVGPUDeviceStatusHandler = RegisterStatusHandler vg_kind"

definition RegisterVGPUDeviceGeneratingHandler where
  "RegisterVGPUDeviceGeneratingHandler = RegisterGeneratingHandler vg_kind"

definition KubeVirt_sync where
  "KubeVirt_sync z = status_sync (kv_kind z)"

definition KubeVirt_isNewResourceVersion where
  "KubeVirt_isNewResourceVersion z = isNewResourceVersion (kv_kind z)"

definition KubeVirt_storeResourceVersion where
  "KubeVirt_storeResourceVersion z = storeResourceVersion (kv_kind z)"

definition KubeVirt_Remove where
  "KubeVirt_Remove z = generating_Remove (kv_kind z)"

definition KubeVirt_Handle where
  "KubeVirt_Handle z = generating_Handle (kv_kind z)"

definition RegisterKubeVirtStatusHandler where
  "RegisterKubeVirtStatusHandler z = RegisterStatusHandler (kv_kind z)"

definition RegisterKubeVirtGeneratingHandler where
  "RegisterKubeVirtGeneratingHandler z = RegisterGeneratingHandler (kv_kind z)"

definition VirtualMachine_sync where
  "VirtualMachine_sync z = status_sync (vm_kind z)"

definition VirtualMachine_isNewResourceVersion where
  "VirtualMachine_isNewResourceVersion z = isNewResourceVersion (vm_kind z)"

definition VirtualMachine_storeResourceVersion where
  "VirtualMachine_storeResourceVersion z = storeResourceVersion (vm_kind z)"

definition VirtualMachine_Remove where
  "VirtualMachine_Remove z = generating_Remove (vm_kind z)"

definition VirtualMachine_Handle where
  "VirtualMachine_Handle z = generating_Handle (vm_kind z)"

definition RegisterVirtualMachineStatusHandler where
  "RegisterVirtualMachineStatusHandler z = RegisterStatusHandler (vm_kind z)"

definition RegisterVirtualMachineGeneratingHandler where
  "RegisterVirtualMachineGeneratingHandler z = RegisterGeneratingHandler (vm_kind z)"

definition VirtualMachineInstance_sync where
  "VirtualMachineInstance_sync z = status_sync (vi_kind z)"

definition VirtualMachineInstance_isNewResourceVersion where
  "VirtualMachineInstance_isNewResourceVersion z = isNewResourceVersion (vi_kind z)"

definition VirtualMachineInstance_storeResourceVersion where
  "VirtualMachineInstance_storeResourceVersion z = storeResourceVersion (vi_kind z)"

definition VirtualMachineInstance_Remove where
  "VirtualMachineInstance_Remove z = generating_Remove (vi_kind z)"

definition VirtualMachineInstance_Handle where
  "VirtualMachineInstance_Handle z = generating_Handle (vi_kind z)"

definition RegisterVirtualMachineInstanceStatusHandler where
  "RegisterVirtualMachineInstanceStatusHandler z = RegisterStatusHandler (vi_kind z)"

definition RegisterVirtualMachineInstanceGeneratingHandler where
  "RegisterVirtualMachineInstanceGeneratingHandler z = RegisterGeneratingHandler (vi_kind z)"

subsection \<open>New objects\<close>

text \<open>The constructors of \<^verbatim>\<open>zz_generated_list_types.go\<close>.\<close>

definition new_meta :: "string \<Rightarrow> string \<Rightarrow> string \<Rightarrow> object_meta \<Rightarrow> object_meta" where
  "new_meta kind namespace name m =
     m\<lparr>mAPIVersion := fst SchemeGroupVersion @ ''/'' @ snd SchemeGroupVersion, mKind := kind,
       mName := name, mNamespace := namespace\<rparr>"

definition NewMigConfiguration :: "string \<Rightarrow> string \<Rightarrow> MigConfiguration \<Rightarrow> MigConfiguration" where
  "NewMigConfiguration namespace name obj = obj\<lparr>mcMeta := new_meta ''MigConfiguration'' namespace name (mcMeta obj)\<rparr>"

definition NewPCIDevice :: "string \<Rightarrow> string \<Rightarrow> PCIDevice \<Rightarrow> PCIDevice" where
  "NewPCIDevice namespace name obj = obj\<lparr>pdMeta := new_meta ''PCIDevice'' namespace name (pdMeta obj)\<rparr>"

definition NewPCIDeviceClaim :: "string \<Rightarrow> string \<Rightarrow> PCIDeviceClaim \<Rightarrow> PCIDeviceClaim" where
  "NewPCIDeviceClaim namespace name obj = obj\<lparr>pcMeta := new_meta ''PCIDeviceClaim'' namespace name (pcMeta obj)\<rparr>"

definition NewSRIOVGPUDevice :: "string \<Rightarrow> string \<Rightarrow> SRIOVGPUDevice \<Rightarrow> SRIOVGPUDevice" where
  "NewSRIOVGPUDevice namespace name obj = obj\<lparr>sgMeta := new_meta ''SRIOVGPUDevice'' namespace name (sgMeta obj)\<rparr>"

definition NewSRIOVNetworkDevice :: "string \<Rightarrow> string \<Rightarrow> SRIOVNetworkDevice \<Rightarrow> SRIOVNetworkDevice" where
  "NewSRIOVNetworkDevice namespace name obj = obj\<lparr>snMeta := new_meta ''SRIOVNetworkDevice'' namespace name (snMeta obj)\<rparr>"

definition NewUSBDevice :: "string \<Rightarrow> string \<Rightarrow> USBDevice \<Rightarrow> USBDevice" where
  "NewUSBDevice namespace name obj = obj\<lparr>udMeta := new_meta ''USBDevice'' namespace name (udMeta obj)\<rparr>"

definition NewUSBDeviceClaim :: "string \<Rightarrow> string \<Rightarrow> USBDeviceClaim \<Rightarrow> USBDeviceClaim" where
  "NewUSBDeviceClaim namespace name obj = obj\<lparr>ucMeta := new_meta ''USBDeviceClaim'' namespace name (ucMeta obj)\<rparr>"

definition NewVGPUDevice :: "string \<Rightarrow> string \<Rightarrow> VGPUDevice \<Rightarrow> VGPUDevice" where
  "NewVGPUDevice namespace name obj = obj\<lparr>vgMeta := new_meta ''VGPUDevice'' namespace name (vgMeta obj)\<rparr>"

definition NewNode :: "string \<Rightarrow> string \<Rightarrow> DevicesNode \<Rightarrow> DevicesNode" where
  "NewNode namespace name obj = obj\<lparr>dnMeta := new_meta ''Node'' namespace name (dnMeta obj)\<rparr>"

text \<open>Every object made this way has a kind that the scheme knows and keeps its status.\<close>

lemma New_known: "k \<in> {''MigConfiguration'', ''PCIDevice'', ''PCIDeviceClaim'', ''SRIOVGPUDevice'', ''SRIOVNetworkDevice'',
    ''USBDevice'', ''USBDeviceClaim'', ''VGPUDevice'', ''Node''} \<Longrightarrow>
  mKind (new_meta k ns n m) \<in> set addKnownTypes \<and> mAPIVersion (new_meta k ns n m) = ''devices.harvesterhci.io/v1beta1''"
  by (auto simp: new_meta_def addKnownTypes_def SchemeGroupVersion_def GroupName_def)

subsection \<open>What a status handler leaves behind\<close>

text \<open>\<open>f\<close> is what a status says apart from its conditions.  The condition functions leave it, statuses that
  compare equal agree on it, and the API server answers an update with the status it was sent.\<close>

definition status_laws ::
  "('o, 'st) kind_ops \<Rightarrow> ('st, 'w) cond_lib \<Rightarrow> ('o, 'w) client \<Rightarrow> ('st \<Rightarrow> 'x) \<Rightarrow> bool" where
  "status_laws K L c f \<longleftrightarrow>
     (\<forall>cond st reason e. f (clSetError L cond st reason e) = f st)
     \<and> (\<forall>cond st ts. f (clLastUpdated L cond st ts) = f st)
     \<and> (\<forall>a b. clDeepEqual L a b \<longrightarrow> f a = f b)
     \<and> (\<forall>x w x' w'. cUpdateStatus c x w = (Inr x', w') \<longrightarrow> f (koStatus K x') = f (koStatus K x))"

lemma status_lawsD:
  assumes "status_laws K L c f"
  shows "f (clSetError L cond st reason e) = f st" "f (clLastUpdated L cond st ts) = f st"
    "clDeepEqual L a b \<Longrightarrow> f a = f b" "cUpdateStatus c x w = (Inr x', w') \<Longrightarrow> f (koStatus K x') = f (koStatus K x)"
  using assms unfolding status_laws_def by blast+

text \<open>The answer of \<^verbatim>\<open>sync\<close> once it has decided to write the status \<open>st2\<close>.\<close>

definition after_write ::
  "('o, 'st) kind_ops \<Rightarrow> ('o, 'w) client \<Rightarrow> 'o \<Rightarrow> 'st \<Rightarrow> go_error option \<Rightarrow> 'w \<Rightarrow> 'o option \<times> go_error option \<times> 'w" where
  "after_write K c obj st2 err w =
     (case cUpdateStatus c (koSetStatus K st2 obj) w of
        (Inl e, w2) \<Rightarrow> (Some (koSetStatus K st2 obj), if err = None then Some e else err, w2)
      | (Inr x, w2) \<Rightarrow> (Some x, err, w2))"

lemma status_sync_cases:
  assumes h: "shHandler a obj (koStatus K obj) w = (obj1, st, err, w1)"
    and laws: "status_laws K L (shClient a) f"
  obtains st1 st2 where "f st1 = f (if err = None then st else koStatus K obj)" and "f st2 = f st1"
    and "status_sync K L a key (Some obj) w =
           (if clDeepEqual L (koStatus K obj) st1 then (Some obj1, err, w1)
            else after_write K (shClient a) obj1 st2 err w1)"
proof -
  define st0 where "st0 = (if err \<noteq> None then koStatus K obj else st)"
  define st1 where "st1 = (if shCondition a \<noteq> []
      then if (case err of Some e \<Rightarrow> IsConflict e | None \<Rightarrow> False) then clSetError L (shCondition a) st0 [] None
           else clSetError L (shCondition a) st0 [] err
      else st0)"
  define st2 where "st2 = (if shCondition a \<noteq> [] then clLastUpdated L (shCondition a) st1 (clNow L w1) else st1)"
  have "f st1 = f (if err = None then st else koStatus K obj)"
    by (simp add: st1_def st0_def status_lawsD [OF laws])
  moreover have "f st2 = f st1" by (simp add: st2_def status_lawsD [OF laws])
  moreover have "status_sync K L a key (Some obj) w =
           (if clDeepEqual L (koStatus K obj) st1 then (Some obj1, err, w1)
            else after_write K (shClient a) obj1 st2 err w1)"
    unfolding status_sync_def option.case h Let_def prod.case st0_def [symmetric] st1_def [symmetric] st2_def [symmetric]
    by (simp add: after_write_def split: prod.split)
  ultimately show ?thesis by (rule that)
qed

lemma after_write_outcome:
  assumes "object_kind K" "status_laws K L c f" "after_write K c obj st2 err w = (res, err', w')"
  obtains obj' where "res = Some obj'" "f (koStatus K obj') = f st2" "err \<noteq> None \<longrightarrow> err' = err" "err' = None \<longrightarrow> err = None"
proof -
  obtain r w2 where u: "cUpdateStatus c (koSetStatus K st2 obj) w = (r, w2)" by fastforce
  have "f (koStatus K x) = f st2" if "r = Inr x" for x
    using status_lawsD(4) [OF assms(2)] u that object_kind.status_set [OF assms(1)] by metis
  with assms(3) u that object_kind.status_set [OF assms(1)] show ?thesis
    by (cases r) (auto simp: after_write_def split: if_splits)
qed


subsection \<open>One application for each resource version\<close>

text \<open>The handler's part of a run: one call of \<^verbatim>\<open>Handle\<close> for each event, in turn.\<close>

fun handle_run ::
  "('o, 'st) kind_ops \<Rightarrow> ('o, 'st, 'opt, 'r, 'w) generating_handler \<Rightarrow> ('o \<times> 'st) list \<Rightarrow> 'w gen_state \<Rightarrow> 'w gen_state" where
  "handle_run K a [] s = s"
| "handle_run K a ((obj, st) # evs) s =
     (case generating_Handle K a obj st s of (obj1, st1, err, s1) \<Rightarrow> handle_run K a evs s1)"

text \<open>\<open>applied\<close> reads from the world the successful applications so far: key and resource version of
  the owner.  The function run by the handler does not apply anything itself.\<close>

definition apply_logged ::
  "('o, 'st) kind_ops \<Rightarrow> ('o, 'st, 'opt, 'r, 'w) generating_handler \<Rightarrow> ('w \<Rightarrow> (string \<times> string) list) \<Rightarrow> bool" where
  "apply_logged K a applied \<longleftrightarrow>
     (\<forall>obj st w. applied (snd (snd (snd (snd (ghHandler a obj st w))))) = applied w)
     \<and> (\<forall>obj name objs w. case alApply (ghLib a) (ghOpts a) obj name objs w of
          (None, w') \<Rightarrow> applied w' = applied w @ [(seen_key (koMeta K obj), mResourceVersion (koMeta K obj))]
        | (Some e, w') \<Rightarrow> applied w' = applied w)"

definition versions :: "string \<Rightarrow> (string \<times> string) list \<Rightarrow> string list" where
  "versions k es = map snd (filter (\<lambda>e. fst e = k) es)"

lemma versions_append [simp]:
  "versions k [] = []" "versions k (es @ [(k', v)]) = versions k es @ (if k' = k then [v] else [])"
  by (simp_all add: versions_def)

definition seen_inv :: "('w \<Rightarrow> (string \<times> string) list) \<Rightarrow> 'w gen_state \<Rightarrow> bool" where
  "seen_inv applied s \<longleftrightarrow> (\<forall>k. distinct_adj (versions k (applied (gsWorld s)))
     \<and> mget (gsSeen s) k = (if versions k (applied (gsWorld s)) = [] then None
                            else Some (last (versions k (applied (gsWorld s))))))"

lemma distinct_adj_snoc: "distinct_adj (xs @ [x]) \<longleftrightarrow> distinct_adj xs \<and> (xs = [] \<or> last xs \<noteq> x)"
  by (induction xs rule: induct_list012) auto

lemma generating_Handle_inv:
  assumes u: "alUnique (ghLib a) (ghOpts a)" and l: "apply_logged K a applied"
    and inv: "seen_inv applied s" and h: "generating_Handle K a obj st s = (obj1, st1, err, s1)"
  shows "seen_inv applied s1"
proof (cases "mDeletionTimestamp (koMeta K obj)")
  case False
  obtain obj2 objs st2 e w where g: "ghHandler a obj st (gsWorld s) = (obj2, objs, st2, e, w)" by (metis prod_cases5)
  have w: "applied w = applied (gsWorld s)" using l g unfolding apply_logged_def by (metis snd_conv)
  let ?s = "s\<lparr>gsWorld := w\<rparr>"
  have inv': "seen_inv applied ?s" using inv w by (simp add: seen_inv_def)
  show ?thesis
  proof (cases "e \<noteq> None \<or> \<not> isNewResourceVersion K a obj2 ?s")
    case True
    with h False g inv' show ?thesis by (cases e) (simp_all add: generating_Handle_def)
  next
    case new: False
    obtain e2 w2 where ap: "alApply (ghLib a) (ghOpts a) obj2 (ghName a) objs w = (e2, w2)" by fastforce
    let ?k = "seen_key (koMeta K obj2)" and ?v = "mResourceVersion (koMeta K obj2)"
    show ?thesis
    proof (cases e2)
      case None
      with l ap have "applied w2 = applied w @ [(?k, ?v)]" unfolding apply_logged_def by (metis (mono_tags, lifting) case_prod_conv option.case(1))
      moreover have "s1 = ?s\<lparr>gsWorld := w2, gsSeen := mput ?k ?v (gsSeen s)\<rparr>"
        using h False g new ap None u by (auto simp: generating_Handle_def storeResourceVersion_def)
      moreover have "versions ?k (applied w) \<noteq> [] \<longrightarrow> last (versions ?k (applied w)) \<noteq> ?v"
        using new inv' u by (auto simp: isNewResourceVersion_def seen_inv_def split: option.splits)
      ultimately show ?thesis using inv' by (auto simp: seen_inv_def distinct_adj_snoc)
    next
      case (Some x)
      with l ap have "applied w2 = applied w" unfolding apply_logged_def by (metis (mono_tags, lifting) case_prod_conv option.case(2))
      with h False g new ap Some inv' show ?thesis by (auto simp: generating_Handle_def seen_inv_def)
    qed
  qed
qed (use assms in \<open>simp add: generating_Handle_def\<close>)

lemma handle_run_inv:
  assumes "alUnique (ghLib a) (ghOpts a)" "apply_logged K a applied"
  shows "seen_inv applied s \<Longrightarrow> seen_inv applied (handle_run K a evs s)"
proof (induction evs arbitrary: s)
  case (Cons ev evs)
  obtain obj st where ev: "ev = (obj, st)" by fastforce
  obtain obj1 st1 err s1 where h: "generating_Handle K a obj st s = (obj1, st1, err, s1)" by (metis prod_cases4)
  show ?case using Cons.IH [OF generating_Handle_inv [OF assms Cons.prems h]] by (simp add: ev h)
qed simp

text \<open>
  Property C39.  A generating handler that is asked to apply once for each resource version does so:
  however often \<^verbatim>\<open>Handle\<close> runs, for whatever objects and in whatever order, and however often the function
  or the application fails in between, no two successive successful applications for one object
  are for the same resource version.
\<close>

theorem generating_applies_once:
  assumes "alUnique (ghLib a) (ghOpts a)" and "apply_logged K a applied" and "applied w0 = []"
  shows "distinct_adj (versions k (applied (gsWorld (handle_run K a evs \<lparr>gsSeen = [], gsWorld = w0\<rparr>))))"
proof -
  have "seen_inv applied \<lparr>gsSeen = [], gsWorld = w0\<rparr>" by (simp add: seen_inv_def assms(3) mget_def)
  from handle_run_inv [OF assms(1,2) this] show ?thesis by (simp add: seen_inv_def)
qed

text \<open>The key that \<^verbatim>\<open>Remove\<close> forgets is the key of the event.  For an object without namespace that is
  its name, while \<^verbatim>\<open>storeResourceVersion\<close> files it under a slash and its name: the entry stays.\<close>

lemma generating_Remove_keeps_seen:
  assumes "mNamespace m = []" and "generating_Remove K a (mName m) None s = (res, err, s')"
  shows "mget (gsSeen s') (seen_key m) = mget (gsSeen s) (seen_key m)"
proof -
  have "seen_key m \<noteq> mName m" by (simp add: seen_key_def assms(1))
  with assms(2) show ?thesis by (auto simp: generating_Remove_def Let_def split: prod.splits if_splits)
qed

subsection \<open>Concrete handlers\<close>

definition demo_cond_lib :: "(PCIDeviceStatus, (string, PCIDevice) gomap) cond_lib" where
  "demo_cond_lib = \<lparr>clSetError = \<lambda>c st r e. st, clLastUpdated = \<lambda>c st ts. st, clDeepEqual = (=), clNow = \<lambda>w. []\<rparr>"

definition demo_status_handler :: "(PCIDevice, PCIDeviceStatus, (string, PCIDevice) gomap) status_handler" where
  "demo_status_handler =
     \<lparr>shClient = table_client pdMeta (\<lambda>old new. old\<lparr>pdStatus := pdStatus new\<rparr>) (\<lambda>i x. []) id (\<lambda>m s. m),
      shCondition = ''Synced'',
      shHandler = \<lambda>x st w. (x, st\<lparr>pdDescription := ''described''\<rparr>, None, w)\<rparr>"


text \<open>Three events for one object, two of them with one resource version: two applications.\<close>

definition demo_generating :: "(PCIDevice, PCIDeviceStatus, bool, unit, (string \<times> string) list) generating_handler" where
  "demo_generating =
     \<lparr>ghHandler = \<lambda>x st w. (x, [], st, None, w),
      ghLib = \<lparr>alApply = \<lambda>u x name objs w. (None, w @ [(seen_key (pdMeta x), mResourceVersion (pdMeta x))]),
               alUnique = \<lambda>u. u, alZero = False, alRSplit = \<lambda>k. ([], k)\<rparr>,
      ghOpts = True, ghKind = ''PCIDevice'', ghAPIVersion = [], ghName = ''demo''\<rparr>"

definition demo_version :: "string \<Rightarrow> PCIDevice \<times> PCIDeviceStatus" where
  "demo_version v = (\<lparr>pdMeta = empty_meta\<lparr>mName := ''d'', mResourceVersion := v\<rparr>, pdStatus = empty_pd_status\<rparr>, empty_pd_status)"

theorem generating_applies_once_witness:
  "let log = gsWorld (handle_run pd_kind demo_generating [demo_version ''1'', demo_version ''1'', demo_version ''2'']
               \<lparr>gsSeen = [], gsWorld = []\<rparr>)
   in log = [(''/d'', ''1''), (''/d'', ''2'')] \<and> distinct_adj (versions ''/d'' log)"
proof -
  let ?s = "handle_run pd_kind demo_generating [demo_version ''1'', demo_version ''1'', demo_version ''2'']
               \<lparr>gsSeen = [], gsWorld = []\<rparr>"
  have "gsWorld ?s = [(''/d'', ''1''), (''/d'', ''2'')]" by code_simp
  moreover have "distinct_adj (versions ''/d'' (id (gsWorld ?s)))"
    by (rule generating_applies_once) (simp_all add: demo_generating_def apply_logged_def pd_kind_def)
  ultimately show ?thesis by (simp only: Let_def id_apply)
qed

end
