(* ===== verification/Spec2Isabelle.thy ===== *)
theory Spec2Isabelle
  imports Setup Node_Cleanup Usb_Watch Pci_Claim_Steps Virtual_Machine Deep_Copy Generated_Handlers
begin

text \<open>
  \<^bold>\<open>The Harvester PCI devices controller.\<close>

  The program runs on every node of a Harvester cluster.  It publishes the PCI devices, USB
  devices, SR-IOV network functions and (v)GPUs of the node as Kubernetes objects, lets users claim
  them for pass-through, prepares a claimed device (driver binding, virtual functions, vGPU types, MIG
  instances), offers it to the kubelet through a device plugin, records which device a virtual
  machine got, and guards all of this with admission webhooks.

  \<^bold>\<open>Parts and how they interact.\<close>
  \<^item> The node controller (\<open>Node_Controller\<close>) reconciles a node every thirty seconds: it finds the interfaces the
    host needs (\<open>Sriov_Network\<close>), then runs the reconciliations of PCI devices (\<open>Pci_Device_Controller\<close>), USB
    devices (\<open>Usb_Device_Controller\<close>), network functions, GPUs and vGPUs (\<open>Gpu_Controller\<close>) in turn.
  \<^item> A claim (\<open>Pci_Device_Claim\<close>, \<open>Usb_Device_Controller\<close>) binds the device, changes the KubeVirt configuration and creates or
    extends a device plugin (\<open>Pci_Device_Plugin\<close>, \<open>Vgpu_Device_Plugin\<close>, \<open>Usb_Device_Plugin\<close>).
  \<^item> The kubelet calls a plugin's \<^verbatim>\<open>ListAndWatch\<close> and \<^verbatim>\<open>Allocate\<close>; the virtual machine controller (\<open>Virtual_Machine\<close>) reads
    the allocation back from the pod's environment.
  \<^item> The webhooks (\<open>Webhook_VM\<close>, \<open>Webhook_Validators\<close>) complete and check what users submit; the webhook server
    (\<open>Webhook_Server\<close>) registers them with the API server under the names of the resource definitions (\<open>Crd\<close>).
  \<^item> The set-up (\<open>Setup\<close>) creates the resources, registers and starts the controllers and serves the webhooks.
  \<^item> The node cleanup (\<open>Node_Cleanup\<close>) removes the objects of a node that leaves the cluster.

  \<^bold>\<open>Theories and sources\<close> (paths below \<^verbatim>\<open>src/pkg\<close>).
  \<^item> \<open>Go_Prelude\<close>, \<open>Go_Strings\<close>, \<open>Go_Int\<close>, \<open>Loops\<close>: what the sources use of Go and its standard library; loops that
    return the first error.  \<open>World\<close>: the calls of the operating system.
  \<^item> \<open>Api_Types\<close>: \<^verbatim>\<open>apis/devices.harvesterhci.io/v1beta1\<close>; \<open>Kubevirt_Types\<close>: the parts of KubeVirt's types in use.
  \<^item> \<open>Pci_Device\<close>: \<^verbatim>\<open>v1beta1/pcidevice.go\<close>; \<open>Iommu\<close>: \<^verbatim>\<open>iommu/iommu.go\<close>; \<open>Common\<close>: \<^verbatim>\<open>util/common\<close> and the indexers.
  \<^item> \<open>Device_Plugin\<close>: \<^verbatim>\<open>deviceplugins/common.go\<close> and the contract of a plugin; \<open>Pci_Device_Plugin\<close>: \<^verbatim>\<open>device_manager.go\<close>,
    \<^verbatim>\<open>deviceplugin.go\<close>; \<open>Vgpu_Device_Plugin\<close>: \<^verbatim>\<open>vgpu_device_manager.go\<close>; \<open>Usb_Device_Plugin\<close>: \<^verbatim>\<open>usb_device_plugin.go\<close>
    and its helper.
  \<^item> \<open>Pci_Device_Claim\<close>: \<^verbatim>\<open>controller/pcideviceclaim\<close>; \<open>Pci_Device_Controller\<close>: \<^verbatim>\<open>controller/pcidevice\<close>; \<open>Usb_Device_Controller\<close>,
    \<open>Usb_Reconcile\<close>, \<open>Usb_Watch\<close>: \<^verbatim>\<open>controller/usbdevice\<close>; \<open>Sriov_Network\<close>: \<^verbatim>\<open>util/nichelper\<close>, \<^verbatim>\<open>controller/sriovdevice\<close>; \<open>Gpu_Helper\<close>: \<^verbatim>\<open>util/gpuhelper\<close>,
    \<^verbatim>\<open>util/executor\<close>; \<open>Gpu_Controller\<close>: \<^verbatim>\<open>controller/gpudevice\<close>; \<open>Virtual_Machine\<close>: \<^verbatim>\<open>controller/virtualmachine\<close>;
    \<open>Node_Controller\<close>: \<^verbatim>\<open>controller/nodes\<close>; \<open>Node_Cleanup\<close>: \<^verbatim>\<open>controller/nodecleanup\<close>.
  \<^item> \<open>Webhook_VM\<close>: \<^verbatim>\<open>webhook/vm.go\<close>; \<open>Webhook_Validators\<close>: the validators of \<^verbatim>\<open>webhook\<close>; \<open>Webhook_Server\<close>: \<^verbatim>\<open>server.go\<close>, \<^verbatim>\<open>validation.go\<close>,
    \<^verbatim>\<open>mutation.go\<close> and the resources of the validators; \<open>Crd\<close>: \<^verbatim>\<open>crd/crd.go\<close>; \<open>Setup\<close>: \<^verbatim>\<open>controller/setup.go\<close>; \<open>Usb_Ids\<close>: \<^verbatim>\<open>util/gousb\<close>.
  \<^item> \<open>Object_Cache\<close>: caches that hand out the object they hold.
  \<^item> \<open>Pci_Claim_Steps\<close>: the claim controller, the goroutines of its plugins and the outside world as one state machine.
  \<^item> \<open>Go_Heap\<close>, \<open>Deep_Copy\<close>: \<^verbatim>\<open>v1beta1/zz_generated_deepcopy.go\<close> over a heap of slices and maps; \<open>Generated_Handlers\<close>: the
    status and generating handlers in \<^verbatim>\<open>generated/controllers\<close>, one template instantiated for eleven resources, and the
    constructors of \<^verbatim>\<open>v1beta1/zz_generated_list_types.go\<close>.

  \<^bold>\<open>How the code is represented.\<close>  A Go struct is a record and a method a definition that takes and returns it; names
  are those of the sources, with a prefix (\<open>pci_\<close>, \<open>vgpu_\<close>, \<open>usb_\<close>, \<open>node_\<close>) where two files share one.  An error
  is the left of a sum, a panic (or a call that never returns) is \<^const>\<open>None\<close>.  The cluster, sysfs and everything
  else that is changed is one state \<open>'s\<close>; API clients and caches, the operating system, file watchers, the
  kubelet, netlink, ghw, nvpci, JSON codecs and command execution are records of functions over it, so a theorem
  holds for every behaviour of them, error replies included, up to the hypotheses it states.  A handler's environment
  record (\<open>node_env\<close>, \<open>gpu_env\<close>, \<open>cleanup_env\<close> and so on) holds the clients its Go struct holds.  Maps are association
  lists whose order is one order of iteration; slices that are compared with nil are options.  Go's \<^verbatim>\<open>int\<close> wraps at 64
  bits where counts are summed, and identifiers keep their width (\<open>16 word\<close> in \<open>Usb_Ids\<close>).

  \<^bold>\<open>Aliasing.\<close>  Where the code assigns to an object it got from a cache, or to the object its handler was called
  with, which is the cached one, the model also writes the new value through \<open>cAlias\<close>, so that later reads of the cache see it.
  Everywhere else a value is copied by nature.  That is what the code's calls of \<^verbatim>\<open>DeepCopy\<close> achieve: \<open>Deep_Copy\<close> shows, with
  slices and maps as references into a heap, that a copy reads as its original and shares no cell with it.

  \<^bold>\<open>Concurrency.\<close>  The PCI plugin with its health check, \<^verbatim>\<open>ListAndWatch\<close> and claim handlers is the step relation
  \<open>pci_step\<close>; the claim controller over it, with claims reconciled and removed in any order, is \<open>claim_step\<close>; the USB watch with its signal channel is \<open>usb_internal\<close> and \<open>usb_external\<close>.  The properties hold in
  every interleaving of those steps.  A handler is one step: the controllers of this program run one handler
  for an object at a time.

  \<^bold>\<open>Loops.\<close>  Loops over slices are structural recursion.  The one loop without a bound of its own,
  \<^verbatim>\<open>ListAndWatch\<close> of the vGPU plugin, is a partial function into option, with an exact condition for
  returning.  No definition uses fuel.

  \<^bold>\<open>Interfaces.\<close>  \<open>device_plugin\<close> (what a plugin promises about health messages) is interpreted by the PCI and vGPU
  plugins; \<open>early_exit_loop\<close> by every loop that returns the first error; \<open>membership\<close> by the hand-written
  containment loops; \<open>delete_validator\<close> by the five validators that guard deletion; \<open>object_table\<close> by the tables of
  the node cleanup; \<open>object_cache\<close> by a server with a cache; \<open>admission_server\<close> (the router) by a first-match router;
  \<open>machine_index\<close> (where the record of an allocation is looked up) by that server with the registered index functions;
  \<open>deep_copy\<close> (a copy reads the same and is fresh), an extension of \<open>representation\<close>, by the copy routines of the parts of the
  resources, and proved of all others given the copies of the metadata; \<open>object_kind\<close> (reading and writing the metadata and the
  status of an object) by the eleven resources with generated handlers.

  \<^bold>\<open>What is shown.\<close>
  \<^item> Plugins: announced devices can be allocated, an allocation names whole IOMMU groups, a new
    device becomes healthy, what the start and the stop of a plugin do, when \<^verbatim>\<open>ListAndWatch\<close> returns and what it sent.
  \<^item> Controllers: after a reconcile without error the driver, the plugin, KubeVirt and the objects are as the claim or
    the specification asks; the objects of a node are exactly its devices; management interfaces and bridges
    are never offered; a removed node leaves nothing behind; a USB reconcile refines the replacement of the
    published descriptions by those of the bus, and the USB watch misses no change.
  \<^item> The claim controller in every interleaving: each plugin in its map is filed under its own name, agrees with its address map and
    can be stopped, so that no removal of a claim panics as long as the sockets of the plugins can be created.
  \<^item> Generated code: deep copies are isolated from their originals; a status handler reports the error of the function it runs and
    then keeps the old status, and hands on the computed one otherwise; a generating handler applies once for each resource version.
  \<^item> Texts: printed environments, uevent files, MIG tables and the USB database are read back exactly; names are well formed and
    unique.
  \<^item> Webhooks: which objects are accepted, that devices in use are protected, and that every check is in force for the
    requests it is meant for.
  \<^item> Across components: from the answer of the plugin to an allocation, over the environment of the pod and the annotation of
    the machine, to the refusal to delete the claim of an allocated device.
  \<^item> Where the code deviates from its intention the theorem states what it does
    (\<open>reconcileKubevirtCR_drops\<close>, \<open>pci_reclaim_stays_unhealthy\<close>, \<open>usb_OnRemove_outcome\<close>, \<open>OnVMIDeletion_update_lost\<close>
    and others).

  \<^bold>\<open>Not modelled.\<close>  The entry point and the construction of clients and factories, the registration of handlers other than those
  of the claim controller, the HTTP server and its certificates (calls of libraries without logic), the generated
  clients (a client is a parameter; its code only builds requests for a library), the code generators, which run at
  build time, the text of the USB database (the parser is modelled for every text), logging, and the test support.
\<close>

section \<open>From an allocation to the protection of what was allocated\<close>

text \<open>
  The device plugin and the virtual machine controller agree on what was allocated: the names read back from the
  environment of the pod are those of the objects whose devices share an IOMMU group with a requested device.
\<close>

lemma allocation_recorded:
  assumes "pci_inv dp" and "\<forall>a \<in> set (mkeys (ppIommuToPCIMap dp)). CHR '','' \<notin> set a"
    and "\<exists>i \<in> set req. mhas (ppIommuToPCIMap dp) i"
    and "pci_Allocate k dp [req] = [response]"
    and "printable podenv" and "\<forall>(n, v) \<in> set (carEnvs response). map_of (rev podenv) n = Some v"
    and "ppResourceName dp \<in> hdDeviceName ` set hostDevices"
    and "distinct (map (pdAddress \<circ> pdStatus) pds)"
    and "set (mkeys (ppIommuToPCIMap dp)) \<subseteq> (pdAddress \<circ> pdStatus) ` set pds"
  shows "\<exists>names. mget (reconcilePCIDeviceDetails k hostDevices (convertEnvToMap (print_env podenv)) (buildPCIDeviceMap pds) [])
        (ppResourceName dp) = Some names
     \<and> set names = pdName ` {pd \<in> set pds. \<exists>i \<in> set req. mhas (ppIommuToPCIMap dp) i
          \<and> mget (ppIommuToPCIMap dp) (pdAddress (pdStatus pd)) = mget (ppIommuToPCIMap dp) i}"
proof -
  let ?m = "ppIommuToPCIMap dp"
  let ?v = "Join (concat (map (group_members ?m) req)) '',''"
  let ?A = "{a. \<exists>i \<in> set req. \<exists>g. mget ?m i = Some g \<and> mget ?m a = Some g}"
  have "mget (convertEnvToMap (print_env podenv)) (pkResourceNameToEnvVar k PCIResourcePrefix (ppResourceName dp)) = Some ?v"
    using assms(4,6) by (auto simp: pci_Allocate_one convertEnvToMap_print [OF assms(5)])
  then have recorded: "mget (reconcilePCIDeviceDetails k hostDevices (convertEnvToMap (print_env podenv)) (buildPCIDeviceMap pds) [])
        (ppResourceName dp) = Some (map (mread (buildPCIDeviceMap pds)) (Compact (split_char (CHR '','') ?v)))"
    by (intro reconcilePCIDeviceDetails_mget assms(7)) simp_all
  have name: "mread (buildPCIDeviceMap pds) (pdAddress (pdStatus pd)) = pdName pd" if "pd \<in> set pds" for pd
    using that assms(8) by (simp add: mread_def mget_buildPCIDeviceMap)
  have in_pds: "a \<in> (pdAddress \<circ> pdStatus) ` set pds" if "a \<in> ?A" for a
    using that assms(9) by (auto simp: mhas_mkeys [symmetric] mhas_def)
  with name have "mread (buildPCIDeviceMap pds) ` ?A =
      pdName ` {pd \<in> set pds. \<exists>i \<in> set req. mhas ?m i \<and> mget ?m (pdAddress (pdStatus pd)) = mget ?m i}"
    using in_pds by (auto simp: mhas_def image_iff) metis+
  then show ?thesis
    using recorded allocated_addresses [OF assms(1-3)] by simp
qed

text \<open>
  Where the record is looked up: the controller's client and the webhook's cache of virtual machines see the same
  machines, once an accepted update has reached the cache; the cache answers with the registered index functions; the JSON
  text of a record is not empty and reads back.
\<close>

locale machine_index =
  fixes vms index :: "(VirtualMachine, 's) client" and J :: json_codec and machines :: "'s \<Rightarrow> VirtualMachine list"
  assumes get_machine: "cGet vms k s = Inr vm \<Longrightarrow> vm \<in> set (machines s)"
    and update_machine: "cUpdate vms vm s = (Inr r, s') \<Longrightarrow> vm \<in> set (machines s')"
    and by_index: "cByIndex index i k s = by_index (vm_indexers J) i k (machines s)"
    and codec: "jUnmarshal J (jMarshal J d) = Inr d" "jMarshal J d \<noteq> []"
begin

lemma recorded_found:
  assumes "vm \<in> set (machines s)" and "mget (mAnnotations (vmMeta vm)) DeviceAllocationKey = Some (jMarshal J d)"
    and "n \<in> set (generateDeviceInfo (adHostDevices d))"
  shows "cByIndex index VMByPCIDeviceClaim_ix n s \<noteq> Inr []"
proof -
  have "VMByHostDeviceName J vm = Inr (generateDeviceInfo (adHostDevices d))"
    using assms(2) by (simp add: VMByHostDeviceName_def generateHostDeviceAllocation_def codec)
  moreover have "mget (vm_indexers J) VMByPCIDeviceClaim_ix = Some (VMByHostDeviceName J)"
    by (simp add: vm_indexers_def mget_Cons VMByName_ix_def VMByPCIDeviceClaim_ix_def)
  ultimately show ?thesis using assms(1,3) by (auto simp: by_index by_index_def filter_empty_conv intro!: bexI [of _ vm])
qed

lemma record_written:
  assumes "reconcileVMResourceAllocationAnnotation E vmi (jMarshal J d) s = (None, s')" and "veVm E = vms"
  shows "\<exists>vm \<in> set (machines s'). mget (mAnnotations (vmMeta vm)) DeviceAllocationKey = Some (jMarshal J d)"
proof -
  obtain vm where vm: "cGet vms (vm_key (viMeta vmi)) s = Inr vm"
    using assms by (auto simp: reconcileVMResourceAllocationAnnotation_def split: sum.splits)
  let ?new = "vm\<lparr>vmMeta := (vmMeta vm)\<lparr>mAnnotations := mput DeviceAllocationKey (jMarshal J d) (mAnnotations (vmMeta vm))\<rparr>\<rparr>"
  show ?thesis
  proof (cases "mread (mAnnotations (vmMeta vm)) DeviceAllocationKey = jMarshal J d")
    case True
    with vm assms have "s' = s" by (simp add: reconcileVMResourceAllocationAnnotation_def)
    with True vm codec(2) [of d] show ?thesis
      by (intro bexI [of _ vm]) (auto simp: mread_def get_machine split: option.splits)
  next
    case False
    with vm assms obtain r where "cUpdate vms ?new (cAlias vms (vm_key (viMeta vmi)) ?new s) = (Inr r, s')"
      by (auto simp: reconcileVMResourceAllocationAnnotation_def Let_def err_result_def split: prod.splits sum.splits)
    then show ?thesis by (intro bexI [of _ ?new] update_machine) simp_all
  qed
qed

end

definition indexed_vms :: "json_codec \<Rightarrow> (VirtualMachine, VirtualMachine cached_world) client" where
  "indexed_vms J = (cached_client (\<lambda>vm. vm_key (vmMeta vm)) (\<lambda>vm. True))
     \<lparr>cByIndex := \<lambda>i k (t, c). by_index (vm_indexers J) i k (map snd c)\<rparr>"

interpretation machines_cached: machine_index "indexed_vms text_codec" "indexed_vms text_codec" text_codec "\<lambda>s. map snd (snd s)"
  by unfold_locales
    (auto simp: indexed_vms_def cached_client_def text_codec_inverse intro: mget_snd mput_snd split: option.splits if_splits)


definition demo_response :: ContainerAllocateResponse where
  "demo_response = \<lparr>carEnvs = [(''PCI_RESOURCE_nvidia.com/A2'', ''0000:04:10.1,0000:04:10.0,0000:04:10.1'')],
     carDevices = formatVFIODeviceSpecs ''17''\<rparr>"

definition demo_objects :: "PCIDevice list" where
  "demo_objects = map (\<lambda>pd. pd\<lparr>pdMeta := empty_meta\<lparr>mName := ''n1-'' @ pdAddress (pdStatus pd), mLabels := [(NodeKeyName, ''n1'')]\<rparr>\<rparr>) demo_pds"

definition demo_claim :: PCIDeviceClaim where
  "demo_claim = \<lparr>pcMeta = empty_meta\<lparr>mName := ''n1-0000:04:10.0'', mOwnerReferences := Some []\<rparr>,
     pcSpec = \<lparr>pcAddress = ''0000:04:10.0'', pcNodeName = ''n1'', pcUserName = ''admin'', pcDisableResourcePooling = False\<rparr>,
     pcStatus = \<lparr>pcKernelDriverToUnbind = [], pcPassthroughEnabled = True\<rparr>\<rparr>"

definition demo_record_env :: "VirtualMachine cached_world vm_env" where
  "demo_record_env = demo_vm_env\<lparr>veVm := indexed_vms text_codec, veJson := text_codec,
     vePd := table_client pdMeta (\<lambda>old new. new) (\<lambda>i x. []) (\<lambda>s. map (\<lambda>pd. (pdName pd, pd)) demo_objects) (\<lambda>t s. s)\<rparr>"

definition demo_guard :: "VirtualMachine cached_world validator_env" where
  "demo_guard =
     \<lparr>waPd = table_client pdMeta (\<lambda>old new. new) (\<lambda>i x. []) (\<lambda>s. []) (\<lambda>m s. s),
      waPdc = table_client pcMeta (\<lambda>old new. new) (\<lambda>i x. []) (\<lambda>s. []) (\<lambda>m s. s), waVm = indexed_vms text_codec,
      waUsb = table_client udMeta (\<lambda>old new. new) (\<lambda>i x. []) (\<lambda>s. []) (\<lambda>m s. s),
      waUsbClaim = table_client ucMeta (\<lambda>old new. new) (\<lambda>i x. []) (\<lambda>s. []) (\<lambda>m s. s),
      waVgpu = table_client vgMeta (\<lambda>old new. new) (\<lambda>i x. []) (\<lambda>s. []) (\<lambda>m s. s),
      waNode = table_client (\<lambda>m. m) (\<lambda>old new. new) (\<lambda>i x. []) (\<lambda>s. [(''n1'', empty_meta\<lparr>mName := ''n1''\<rparr>)]) (\<lambda>m s. s)\<rparr>"


end
